(* ===== verification/Prelude.thy ===== *)
theory Prelude
  imports Complex_Main "HOL-Library.Word" "HOL-Library.Sublist"
begin

text \<open>
  The prelude of the library: the collections of facts the components share, the type of
  UUIDs, and generic lemmas on lists and options. A row of a table is a record that starts
  with the columns of the mixins of \<^verbatim>\<open>app/models/base.py\<close>; the generic operations on lists
  of rows that every repository uses (look a row up, insert it, rewrite the rows with one
  identifier, sort and cut a page) are defined once here, so that each repository function
  of the code is one instance of them.
\<close>

section \<open>Collections of facts\<close>

named_theorems tx_simps \<open>evaluation rules of the transaction primitives\<close>

named_theorems tx_run \<open>running the first step of a transaction\<close>

named_theorems tx_rules \<open>rules showing that a transaction stays within a store relation\<close>

named_theorems op_defs \<open>definitions of the service operations\<close>

named_theorems reads_only \<open>operations that leave the session as it is\<close>

section \<open>Identifiers\<close>

text \<open>A \<^verbatim>\<open>uuid.UUID\<close> is a 128-bit integer.\<close>

type_synonym uuid = "128 word"

section \<open>Lists of rows\<close>

text \<open>\<^verbatim>\<open>result.scalar_one_or_none()\<close>: no row, one row, or an exception.\<close>

datatype 'a one_or_none = NoRow | OneRow 'a | ManyRows

fun scalar_one_or_none :: "'a list \<Rightarrow> 'a one_or_none" where
  "scalar_one_or_none [] = NoRow"
| "scalar_one_or_none [x] = OneRow x"
| "scalar_one_or_none (x # y # zs) = ManyRows"

lemma scalar_OneRow_iff: "scalar_one_or_none xs = OneRow x \<longleftrightarrow> xs = [x]"
  by (cases xs rule: scalar_one_or_none.cases) auto

lemma scalar_NoRow_iff: "scalar_one_or_none xs = NoRow \<longleftrightarrow> xs = []"
  by (cases xs rule: scalar_one_or_none.cases) auto

lemma scalar_ManyRows_iff: "scalar_one_or_none xs = ManyRows \<longleftrightarrow> 2 \<le> length xs"
  by (cases xs rule: scalar_one_or_none.cases) auto

lemma filter_key_at_most_one:
  assumes "distinct (map k xs)"
  shows "length (filter (\<lambda>x. k x = v) xs) \<le> 1"
  using assms
proof (induction xs)
  case (Cons x xs)
  show ?case
  proof (cases "k x = v")
    case True
    with Cons.prems have "filter (\<lambda>y. k y = v) xs = []"
      by (simp add: filter_empty_conv) (metis imageI)
    then show ?thesis by simp
  next
    case False
    with Cons show ?thesis by simp
  qed
qed simp

lemma filter_key_eq:
  assumes "distinct (map k xs)" and "x \<in> set xs"
  shows "filter (\<lambda>y. k y = k x) xs = [x]"
proof -
  have "x \<in> set (filter (\<lambda>y. k y = k x) xs)"
    using assms(2) by simp
  moreover have "length (filter (\<lambda>y. k y = k x) xs) \<le> 1"
    using assms(1) by (rule filter_key_at_most_one)
  ultimately show ?thesis
    by (cases "filter (\<lambda>y. k y = k x) xs") auto
qed

lemma filter_key_and_eq:
  assumes "distinct (map k xs)" and "x \<in> set xs" and "P x"
  shows "filter (\<lambda>y. k y = k x \<and> P y) xs = [x]"
proof -
  have "filter (\<lambda>y. k y = k x \<and> P y) xs = filter P (filter (\<lambda>y. k y = k x) xs)"
    by (simp add: conj_commute)
  then show ?thesis
    using assms by (simp add: filter_key_eq)
qed

lemma distinct_map_same_key:
  assumes "distinct (map k xs)" and "x \<in> set xs" and "y \<in> set xs" and "k x = k y"
  shows "x = y"
  using assms by (auto simp: distinct_map inj_on_def)

lemma filter_singletonD: "filter P xs = [x] \<Longrightarrow> x \<in> set xs \<and> P x"
proof -
  assume "filter P xs = [x]"
  then have "x \<in> set (filter P xs)" by simp
  then show ?thesis by simp
qed

lemma find_SomeD: "find P xs = Some x \<Longrightarrow> x \<in> set xs \<and> P x"
  by (auto simp: find_Some_iff)

text \<open>\<^verbatim>\<open>.offset(offset).limit(limit)\<close>.\<close>

definition page_of :: "nat \<Rightarrow> nat \<Rightarrow> 'a list \<Rightarrow> 'a list" where
  "page_of off cnt xs = take cnt (drop off xs)"

lemma set_page_of: "set (page_of off cnt xs) \<subseteq> set xs"
  by (auto simp: page_of_def dest: in_set_takeD in_set_dropD)

lemma length_page_of: "length (page_of off cnt xs) \<le> cnt"
  by (simp add: page_of_def)

lemma concat_pages:
  "concat (map (\<lambda>k. page_of (k * n) n xs) [0..<p]) = take (p * n) xs"
proof (induction p)
  case (Suc p)
  then show ?case
    by (simp add: page_of_def take_add [symmetric] add.commute)
qed simp

section \<open>Strings of nested option type\<close>

text \<open>Python's \<^verbatim>\<open>a or b\<close> on optional values whose falsy value is \<^verbatim>\<open>None\<close>.\<close>

definition or_else :: "'a option \<Rightarrow> 'a option \<Rightarrow> 'a option" where
  "or_else a b = (case a of None \<Rightarrow> b | Some x \<Rightarrow> Some x)"

lemma or_else_simps [simp]:
  "or_else None b = b" "or_else (Some x) b = Some x"
  by (simp_all add: or_else_def)

end
