(* ===== verification/Py_Strings.thy ===== *)
theory Py_Strings
  imports Prelude
begin

text \<open>
  The operations of Python's \<^verbatim>\<open>str\<close> and \<^verbatim>\<open>uuid.UUID\<close> that the services use. A string is a
  list of ASCII characters; case conversion is the one of ASCII. The lemmas give what the
  services rely on: a printed number is read back, zero padding keeps the number, a printed
  UUID is parsed back.
\<close>

section \<open>Decimal numbers: \<^verbatim>\<open>str(n)\<close> and \<^verbatim>\<open>zfill\<close>\<close>

definition digit_char :: "nat \<Rightarrow> char" where
  "digit_char d = char_of (48 + d)"

fun str_nat :: "nat \<Rightarrow> string" where
  "str_nat n = (if n < 10 then [digit_char n] else str_nat (n div 10) @ [digit_char (n mod 10)])"

declare str_nat.simps [simp del]

text \<open>\<^verbatim>\<open>s.zfill(width)\<close> for a string without a sign.\<close>

definition zfill :: "string \<Rightarrow> nat \<Rightarrow> string" where
  "zfill s w = replicate (w - length s) CHR ''0'' @ s"

text \<open>The number a string of digits denotes, used to show that printing is injective.\<close>

definition digits_val :: "string \<Rightarrow> nat" where
  "digits_val s = foldl (\<lambda>v c. 10 * v + (of_char c - 48)) 0 s"

lemma of_char_digit_char: "d < 10 \<Longrightarrow> of_char (digit_char d) = 48 + d"
  by (simp add: digit_char_def)

lemma digits_val_append1: "digits_val (s @ [c]) = 10 * digits_val s + (of_char c - 48)"
  by (simp add: digits_val_def)

lemma digits_val_str_nat: "digits_val (str_nat n) = n"
proof (induction n rule: str_nat.induct)
  case (1 n)
  show ?case
  proof (cases "n < 10")
    case True
    then show ?thesis
      by (simp add: str_nat.simps [of n] digits_val_def of_char_digit_char)
  next
    case False
    have "digits_val (str_nat n) = 10 * (n div 10) + (of_char (digit_char (n mod 10)) - 48)"
      using False 1 by (simp add: str_nat.simps [of n] digits_val_append1)
    then show ?thesis
      by (simp add: of_char_digit_char)
  qed
qed

lemma foldl_digits_zeros:
  "foldl (\<lambda>v c. 10 * v + (of_char c - 48)) (0::nat) (replicate k CHR ''0'' @ s)
     = foldl (\<lambda>v c. 10 * v + (of_char c - 48)) 0 s"
  by (induction k) simp_all

lemma digits_val_zfill: "digits_val (zfill s w) = digits_val s"
  by (simp only: digits_val_def zfill_def foldl_digits_zeros)

lemma zfill_str_nat_inject: "zfill (str_nat m) w = zfill (str_nat n) w' \<longleftrightarrow> m = n \<and> zfill (str_nat n) w = zfill (str_nat n) w'"
  by (metis digits_val_str_nat digits_val_zfill)

lemma str_nat_not_Nil [simp]: "str_nat n \<noteq> []"
  by (subst str_nat.simps) simp

lemma length_str_nat_le:
  assumes "n < 10 ^ w" and "0 < w"
  shows "length (str_nat n) \<le> w"
  using assms
proof (induction n arbitrary: w rule: str_nat.induct)
  case (1 n)
  show ?case
  proof (cases "n < 10")
    case True
    with "1.prems" show ?thesis by (simp add: str_nat.simps [of n])
  next
    case False
    obtain v where w: "w = Suc v" using "1.prems"(2) by (cases w) auto
    have "0 < v" using False "1.prems"(1) by (cases v) (auto simp: w)
    moreover have "n div 10 < 10 ^ v"
      using "1.prems"(1) by (simp add: w less_mult_imp_div_less mult.commute)
    ultimately have "length (str_nat (n div 10)) \<le> v"
      using False "1.IH" by blast
    with False show ?thesis by (simp add: str_nat.simps [of n] w)
  qed
qed

lemma length_zfill_str_nat: "n < 10 ^ w \<Longrightarrow> 0 < w \<Longrightarrow> length (zfill (str_nat n) w) = w"
  using length_str_nat_le [of n w] by (simp add: zfill_def)

section \<open>Case conversion\<close>

definition upper_char :: "char \<Rightarrow> char" where
  "upper_char c = (let n = of_char c :: nat in if 97 \<le> n \<and> n \<le> 122 then char_of (n - 32) else c)"

definition lower_char :: "char \<Rightarrow> char" where
  "lower_char c = (let n = of_char c :: nat in if 65 \<le> n \<and> n \<le> 90 then char_of (n + 32) else c)"

definition upper :: "string \<Rightarrow> string" where
  "upper s = map upper_char s"

definition lower :: "string \<Rightarrow> string" where
  "lower s = map lower_char s"

lemma upper_char_idem: "upper_char (upper_char c) = upper_char c"
  by (auto simp: upper_char_def Let_def)

lemma lower_char_idem: "lower_char (lower_char c) = lower_char c"
  by (auto simp: lower_char_def Let_def)

lemma upper_idem [simp]: "upper (upper s) = upper s"
  by (simp add: upper_def upper_char_idem)

lemma lower_idem [simp]: "lower (lower s) = lower s"
  by (simp add: lower_def lower_char_idem)

section \<open>\<^verbatim>\<open>s.replace(pat, rep)\<close>, \<^verbatim>\<open>strip\<close> and \<^verbatim>\<open>lstrip\<close>\<close>

text \<open>
  The replacement of every occurrence of a non-empty pattern, from left to right without
  overlaps. The services never call it with an empty pattern.
\<close>

function replace_all :: "string \<Rightarrow> string \<Rightarrow> string \<Rightarrow> string" where
  "replace_all pat rep s =
     (if s = [] \<or> pat = [] then s
      else if prefix pat s then rep @ replace_all pat rep (drop (length pat) s)
      else hd s # replace_all pat rep (tl s))"
  by pat_completeness auto
termination
  by (relation "measure (\<lambda>(pat, rep, s). length s)") auto

declare replace_all.simps [simp del]

lemma replace_all_Nil [simp]: "replace_all pat rep [] = []"
  by (simp add: replace_all.simps)

lemma replace_all_absent:
  assumes "c \<in> set pat" and "c \<notin> set s"
  shows "replace_all pat rep s = s"
  using assms(2)
proof (induction s)
  case (Cons x xs)
  have "\<not> prefix pat (x # xs)"
    using assms(1) Cons.prems set_mono_prefix by fastforce
  then show ?case
    using Cons by (simp add: replace_all.simps [of _ _ "x # xs"])
qed simp

lemma replace_all_char: "replace_all [c] [] s = filter (\<lambda>x. x \<noteq> c) s"
  by (induction s) (simp_all add: replace_all.simps [of _ _ "_ # _"])

lemma replace_all_char_char: "replace_all [c] [d] s = map (\<lambda>x. if x = c then d else x) s"
  by (induction s) (auto simp: replace_all.simps [of _ _ "_ # _"])

definition lstrip_chars :: "string \<Rightarrow> string \<Rightarrow> string" where
  "lstrip_chars cs s = dropWhile (\<lambda>c. c \<in> set cs) s"

definition strip_chars :: "string \<Rightarrow> string \<Rightarrow> string" where
  "strip_chars cs s = rev (lstrip_chars cs (rev (lstrip_chars cs s)))"

lemma lstrip_chars_absent: "set cs \<inter> set s = {} \<Longrightarrow> lstrip_chars cs s = s"
  by (cases s) (auto simp: lstrip_chars_def)

lemma strip_chars_absent: "set cs \<inter> set s = {} \<Longrightarrow> strip_chars cs s = s"
  by (simp add: strip_chars_def lstrip_chars_absent)

section \<open>\<^verbatim>\<open>str(u)\<close>, \<^verbatim>\<open>u.hex\<close> and \<^verbatim>\<open>uuid.UUID(s)\<close>\<close>

definition hex_digit :: "nat \<Rightarrow> char" where
  "hex_digit d = (if d < 10 then char_of (48 + d) else char_of (87 + d))"

fun hex_digits :: "nat \<Rightarrow> nat \<Rightarrow> string" where
  "hex_digits 0 n = []"
| "hex_digits (Suc k) n = hex_digits k (n div 16) @ [hex_digit (n mod 16)]"

definition hex_value :: "char \<Rightarrow> nat option" where
  "hex_value c = (let n = of_char c :: nat in
     if 48 \<le> n \<and> n \<le> 57 then Some (n - 48)
     else if 97 \<le> n \<and> n \<le> 102 then Some (n - 87)
     else if 65 \<le> n \<and> n \<le> 70 then Some (n - 55)
     else None)"

fun parse_hex :: "nat \<Rightarrow> string \<Rightarrow> nat option" where
  "parse_hex v [] = Some v"
| "parse_hex v (c # cs) = (case hex_value c of None \<Rightarrow> None | Some d \<Rightarrow> parse_hex (16 * v + d) cs)"

definition uuid_hex :: "uuid \<Rightarrow> string" where
  "uuid_hex u = hex_digits 32 (unat u)"

definition uuid_str :: "uuid \<Rightarrow> string" where
  "uuid_str u = (let h = uuid_hex u in
     take 8 h @ ''-'' @ take 4 (drop 8 h) @ ''-'' @ take 4 (drop 12 h) @ ''-'' @
     take 4 (drop 16 h) @ ''-'' @ drop 20 h)"

text \<open>
  The constructor of \<^verbatim>\<open>uuid.UUID\<close>: \<^term>\<open>None\<close> stands for its \<^verbatim>\<open>ValueError\<close>. Of what
  \<^verbatim>\<open>int(h, 16)\<close> accepts only plain hexadecimal digits are modelled.
\<close>

definition uuid_of_str :: "string \<Rightarrow> uuid option" where
  "uuid_of_str s =
     (let h = replace_all ''-'' [] (strip_chars ''{}'' (replace_all ''uuid:'' [] (replace_all ''urn:'' [] s)))
      in if length h \<noteq> 32 then None else map_option word_of_nat (parse_hex 0 h))"

lemma length_hex_digits [simp]: "length (hex_digits k n) = k"
  by (induction k arbitrary: n) simp_all

lemma hex_digit_in: "d < 16 \<Longrightarrow> hex_digit d \<in> set ''0123456789abcdef''"
proof -
  assume "d < 16"
  then have "d \<in> set [0..<16]" by simp
  moreover have "list_all (\<lambda>d. hex_digit d \<in> set ''0123456789abcdef'') [0..<16]"
    by code_simp
  ultimately show ?thesis by (simp only: list_all_iff)
qed

lemma hex_value_hex_digit: "d < 16 \<Longrightarrow> hex_value (hex_digit d) = Some d"
  by (auto simp: hex_value_def hex_digit_def Let_def)

lemma set_hex_digits: "set (hex_digits k n) \<subseteq> set ''0123456789abcdef''"
proof (induction k arbitrary: n)
  case (Suc k)
  then show ?case using hex_digit_in [of "n mod 16"] by simp
qed simp

lemma parse_hex_append:
  "parse_hex v (s @ t) = (case parse_hex v s of None \<Rightarrow> None | Some w \<Rightarrow> parse_hex w t)"
  by (induction s arbitrary: v) (auto split: option.splits)

lemma parse_hex_digits: "parse_hex v (hex_digits k n) = Some (v * 16 ^ k + n mod 16 ^ k)"
proof (induction k arbitrary: n v)
  case (Suc k)
  have "n mod (16 * 16 ^ k) = 16 * (n div 16 mod 16 ^ k) + n mod 16"
    by (rule mod_mult2_eq)
  then show ?case
    by (simp add: parse_hex_append Suc hex_value_hex_digit algebra_simps)
qed simp

lemma length_uuid_hex [simp]: "length (uuid_hex u) = 32"
  by (simp add: uuid_hex_def)

lemma take_drop_split:
  "take a xs @ take b (drop a xs) = take (a + b) xs"
  by (simp add: take_add)

lemma uuid_str_nodash: "filter (\<lambda>x. x \<noteq> CHR ''-'') (uuid_str u) = uuid_hex u"
proof -
  have keep: "filter (\<lambda>x. x \<noteq> CHR ''-'') t = t" if "set t \<subseteq> set (uuid_hex u)" for t
    using that set_hex_digits [of 32 "unat u"] by (auto simp: uuid_hex_def filter_id_conv)
  let ?h = "uuid_hex u"
  have "filter (\<lambda>x. x \<noteq> CHR ''-'') (uuid_str u)
      = take 8 ?h @ take 4 (drop 8 ?h) @ take 4 (drop 12 ?h) @ take 4 (drop 16 ?h) @ drop 20 ?h"
    by (simp add: uuid_str_def Let_def keep set_take_subset set_drop_subset
        subset_trans [OF set_take_subset set_drop_subset])
  also have "\<dots> = ?h"
    by (metis append.assoc append_take_drop_id numeral_plus_numeral semiring_norm(2-10) take_drop_split)
  finally show ?thesis .
qed

lemma set_uuid_str: "set (uuid_str u) \<subseteq> set ''0123456789abcdef-''"
proof -
  have "set (uuid_str u) \<subseteq> insert CHR ''-'' (set (uuid_hex u))"
    by (auto simp: uuid_str_def Let_def dest: in_set_takeD in_set_dropD)
  also have "\<dots> \<subseteq> insert CHR ''-'' (set ''0123456789abcdef'')"
    unfolding uuid_hex_def by (rule insert_mono) (rule set_hex_digits)
  also have "\<dots> \<subseteq> set ''0123456789abcdef-''"
    by simp
  finally show ?thesis .
qed

lemma uuid_str_no_char: "c \<notin> set ''0123456789abcdef-'' \<Longrightarrow> c \<notin> set (uuid_str u)"
  using set_uuid_str by blast

lemma length_uuid_str [simp]: "length (uuid_str u) = 36"
  by (simp add: uuid_str_def Let_def)

lemma uuid_of_str_uuid_str: "uuid_of_str (uuid_str u) = Some u"
proof -
  have a: "replace_all ''urn:'' [] (uuid_str u) = uuid_str u"
    by (rule replace_all_absent [where c = "CHR '':''"]) (simp_all add: uuid_str_no_char)
  have b: "replace_all ''uuid:'' [] (uuid_str u) = uuid_str u"
    by (rule replace_all_absent [where c = "CHR '':''"]) (simp_all add: uuid_str_no_char)
  have c: "strip_chars ''{}'' (uuid_str u) = uuid_str u"
    by (rule strip_chars_absent) (simp add: uuid_str_no_char)
  have "unat u < 16 ^ 32"
    using unsigned_less [of u] by simp
  then have "parse_hex 0 (uuid_hex u) = Some (unat u)"
    by (simp add: uuid_hex_def parse_hex_digits)
  then show ?thesis
    by (simp add: uuid_of_str_def a b c replace_all_char uuid_str_nodash)
qed

lemma uuid_str_inject [simp]: "uuid_str u = uuid_str v \<longleftrightarrow> u = v"
  by (metis option.inject uuid_of_str_uuid_str)

end
