(* ===== verification/Models.thy ===== *)
theory Models
  imports Py_Strings
begin

text \<open>
  The data of the program: the enumerations of \<^verbatim>\<open>app/models/enums.py\<close> as datatypes and the
  mapped classes of \<^verbatim>\<open>app/models\<close> as records. An enumeration member \<^verbatim>\<open>E.M\<close> is the
  constructor \<^verbatim>\<open>E_M\<close>. A mixin of \<^verbatim>\<open>app/models/base.py\<close> is a record that the records of the
  classes using it extend, so that an operation on every class with the mixin is one
  polymorphic function. The columns of a class carry a short prefix (\<^verbatim>\<open>wt_\<close> for
  \<^verbatim>\<open>WeighbridgeTicket\<close>), since records of one theory share the name space of their fields.
  A timestamp is a number of microseconds, a date the triple of year, month and day,
  a \<^verbatim>\<open>Decimal\<close> a rational number.
\<close>

section \<open>Enumerations\<close>

datatype TenantStatus = TenantStatus_ACTIVE | TenantStatus_SUSPENDED | TenantStatus_INACTIVE

datatype UserStatus = UserStatus_ACTIVE | UserStatus_INACTIVE | UserStatus_LOCKED

fun UserStatus_value :: "UserStatus \<Rightarrow> string" where
  "UserStatus_value UserStatus_ACTIVE = ''ACTIVE''"
| "UserStatus_value UserStatus_INACTIVE = ''INACTIVE''"
| "UserStatus_value UserStatus_LOCKED = ''LOCKED''"

datatype ScopeLevel =
    ScopeLevel_PLATFORM | ScopeLevel_TENANT | ScopeLevel_BUSINESS_UNIT
  | ScopeLevel_PLANT | ScopeLevel_SITE | ScopeLevel_DEPARTMENT

datatype OrganizationUnitType =
    OrganizationUnitType_BUSINESS_UNIT | OrganizationUnitType_PLANT
  | OrganizationUnitType_SITE | OrganizationUnitType_DEPARTMENT

datatype MasterDataStatus = MasterDataStatus_ACTIVE | MasterDataStatus_INACTIVE

fun MasterDataStatus_value :: "MasterDataStatus \<Rightarrow> string" where
  "MasterDataStatus_value MasterDataStatus_ACTIVE = ''ACTIVE''"
| "MasterDataStatus_value MasterDataStatus_INACTIVE = ''INACTIVE''"

datatype AuditAction =
    LOGIN | LOGIN_FAILED | LOGOUT | USER_CREATED | USER_UPDATED | USER_DISABLED
  | ROLE_CREATED | ROLE_UPDATED | ROLE_DELETED | PERMISSION_CHANGED
  | TENANT_CREATED | TENANT_UPDATED | TENANT_SUSPENDED | SETTINGS_CHANGED
  | WEIGHBRIDGE_TICKET_CREATED | WEIGHBRIDGE_TICKET_COMPLETED | WEIGHBRIDGE_TICKET_CANCELLED
  | PRODUCTION_ENTRY_CREATED | PRODUCTION_ENTRY_SUBMITTED
  | MASTER_DATA_CREATED | MASTER_DATA_UPDATED | MASTER_DATA_DEACTIVATED
  | PRODUCTION_ENTRY_CANCELLED

fun AuditAction_value :: "AuditAction \<Rightarrow> string" where
  "AuditAction_value LOGIN = ''LOGIN''"
| "AuditAction_value LOGIN_FAILED = ''LOGIN_FAILED''"
| "AuditAction_value LOGOUT = ''LOGOUT''"
| "AuditAction_value USER_CREATED = ''USER_CREATED''"
| "AuditAction_value USER_UPDATED = ''USER_UPDATED''"
| "AuditAction_value USER_DISABLED = ''USER_DISABLED''"
| "AuditAction_value ROLE_CREATED = ''ROLE_CREATED''"
| "AuditAction_value ROLE_UPDATED = ''ROLE_UPDATED''"
| "AuditAction_value ROLE_DELETED = ''ROLE_DELETED''"
| "AuditAction_value PERMISSION_CHANGED = ''PERMISSION_CHANGED''"
| "AuditAction_value TENANT_CREATED = ''TENANT_CREATED''"
| "AuditAction_value TENANT_UPDATED = ''TENANT_UPDATED''"
| "AuditAction_value TENANT_SUSPENDED = ''TENANT_SUSPENDED''"
| "AuditAction_value SETTINGS_CHANGED = ''SETTINGS_CHANGED''"
| "AuditAction_value WEIGHBRIDGE_TICKET_CREATED = ''WEIGHBRIDGE_TICKET_CREATED''"
| "AuditAction_value WEIGHBRIDGE_TICKET_COMPLETED = ''WEIGHBRIDGE_TICKET_COMPLETED''"
| "AuditAction_value WEIGHBRIDGE_TICKET_CANCELLED = ''WEIGHBRIDGE_TICKET_CANCELLED''"
| "AuditAction_value PRODUCTION_ENTRY_CREATED = ''PRODUCTION_ENTRY_CREATED''"
| "AuditAction_value PRODUCTION_ENTRY_SUBMITTED = ''PRODUCTION_ENTRY_SUBMITTED''"
| "AuditAction_value MASTER_DATA_CREATED = ''MASTER_DATA_CREATED''"
| "AuditAction_value MASTER_DATA_UPDATED = ''MASTER_DATA_UPDATED''"
| "AuditAction_value MASTER_DATA_DEACTIVATED = ''MASTER_DATA_DEACTIVATED''"
| "AuditAction_value PRODUCTION_ENTRY_CANCELLED = ''PRODUCTION_ENTRY_CANCELLED''"

datatype NotificationChannel =
    NotificationChannel_IN_APP | NotificationChannel_EMAIL | NotificationChannel_SMS
  | NotificationChannel_PUSH | NotificationChannel_WHATSAPP

datatype WeighbridgeTicketType = WeighbridgeTicketType_INBOUND | WeighbridgeTicketType_OUTBOUND

fun WeighbridgeTicketType_value :: "WeighbridgeTicketType \<Rightarrow> string" where
  "WeighbridgeTicketType_value WeighbridgeTicketType_INBOUND = ''INBOUND''"
| "WeighbridgeTicketType_value WeighbridgeTicketType_OUTBOUND = ''OUTBOUND''"

datatype WeighbridgeTicketStatus =
    WeighbridgeTicketStatus_OPEN | WeighbridgeTicketStatus_COMPLETED
  | WeighbridgeTicketStatus_CANCELLED

fun WeighbridgeTicketStatus_value :: "WeighbridgeTicketStatus \<Rightarrow> string" where
  "WeighbridgeTicketStatus_value WeighbridgeTicketStatus_OPEN = ''OPEN''"
| "WeighbridgeTicketStatus_value WeighbridgeTicketStatus_COMPLETED = ''COMPLETED''"
| "WeighbridgeTicketStatus_value WeighbridgeTicketStatus_CANCELLED = ''CANCELLED''"

datatype ProductionShift = ProductionShift_DAY | ProductionShift_NIGHT

datatype ProductionEntryStatus =
    ProductionEntryStatus_DRAFT | ProductionEntryStatus_SUBMITTED
  | ProductionEntryStatus_CANCELLED

fun ProductionEntryStatus_value :: "ProductionEntryStatus \<Rightarrow> string" where
  "ProductionEntryStatus_value ProductionEntryStatus_DRAFT = ''DRAFT''"
| "ProductionEntryStatus_value ProductionEntryStatus_SUBMITTED = ''SUBMITTED''"
| "ProductionEntryStatus_value ProductionEntryStatus_CANCELLED = ''CANCELLED''"

section \<open>Values of JSON columns and of payload fields\<close>

type_synonym date = "int \<times> int \<times> int"

datatype pyval =
    VNone | VBool bool | VInt int | VStr string | VDecimal rat | VUuid uuid
  | VStatus MasterDataStatus | VTime int | VDate date | VList "pyval list" | VDict "(string \<times> pyval) list"

type_synonym json_dict = "(string \<times> pyval) list"

section \<open>Mixins\<close>

record timestamped =
  created_at :: int
  updated_at :: int

record uuid_row = timestamped +
  row_id :: uuid

record tenant_row = uuid_row +
  tenant_id :: uuid

record audited_row = tenant_row +
  created_by :: "uuid option"
  updated_by :: "uuid option"

section \<open>Tenancy, identity and access control\<close>

record tenant = uuid_row +
  tn_name :: string
  tn_code :: string
  tn_slug :: string
  tn_status :: TenantStatus
  tn_timezone :: string
  tn_currency :: string

record user = uuid_row +
  u_tenant_id :: "uuid option"
  u_email :: string
  u_password_hash :: string
  u_first_name :: string
  u_last_name :: string
  u_phone :: "string option"
  u_status :: UserStatus
  u_is_verified :: bool
  u_is_platform_user :: bool
  u_last_login_at :: "int option"
  u_failed_login_attempts :: nat

record permission = uuid_row +
  p_code :: string
  p_description :: "string option"
  p_module :: string

record role = uuid_row +
  r_tenant_id :: "uuid option"
  r_code :: string
  r_name :: string
  r_description :: "string option"
  r_is_system :: bool

record role_permission = timestamped +
  rp_role_id :: uuid
  rp_permission_id :: uuid

record user_role = uuid_row +
  ur_user_id :: uuid
  ur_role_id :: uuid
  ur_organization_unit_id :: "uuid option"

record scope_assignment = uuid_row +
  sa_user_role_id :: uuid
  sa_scope_level :: ScopeLevel
  sa_organization_unit_id :: "uuid option"

record refresh_session = uuid_row +
  rs_user_id :: uuid
  rs_jti :: uuid
  rs_revoked :: bool
  rs_expires_at :: int
  rs_ip_address :: "string option"
  rs_user_agent :: "string option"

record password_reset_token = uuid_row +
  pr_user_id :: uuid
  pr_token_hash :: string
  pr_expires_at :: int
  pr_used_at :: "int option"

section \<open>Organization, settings, numbering\<close>

record organization_unit = tenant_row +
  ou_name :: string
  ou_code :: string
  ou_unit_type :: OrganizationUnitType
  ou_parent_id :: "uuid option"
  ou_status :: string

record fiscal_year = tenant_row +
  fy_code :: string
  fy_start_date :: date
  fy_end_date :: date
  fy_is_active :: bool
  fy_is_closed :: bool

record document_sequence = tenant_row +
  ds_organization_unit_id :: "uuid option"
  ds_document_type :: string
  ds_fiscal_year_code :: string
  ds_prefix :: string
  ds_last_sequence :: nat
  ds_padding :: nat

record setting = uuid_row +
  st_tenant_id :: "uuid option"
  st_organization_unit_id :: "uuid option"
  st_module :: "string option"
  st_key :: string
  st_value :: pyval

section \<open>Audit trail, notifications, attachments\<close>

record audit_event =
  ae_id :: uuid
  ae_tenant_id :: "uuid option"
  ae_user_id :: "uuid option"
  ae_action :: string
  ae_resource_type :: string
  ae_resource_id :: "string option"
  ae_old_data :: "json_dict option"
  ae_new_data :: "json_dict option"
  ae_ip_address :: "string option"
  ae_user_agent :: "string option"
  ae_request_id :: "string option"
  ae_timestamp :: int

record notification = uuid_row +
  nt_tenant_id :: "uuid option"
  nt_user_id :: uuid
  nt_channel :: NotificationChannel
  nt_title :: string
  nt_body :: string
  nt_entity_type :: "string option"
  nt_entity_id :: "string option"
  nt_is_read :: bool
  nt_read_at :: "int option"

record attachment = tenant_row +
  at_entity_type :: string
  at_entity_id :: string
  at_file_name :: string
  at_content_type :: string
  at_size :: nat
  at_storage_key :: string
  at_uploaded_by :: uuid

section \<open>Units of measurement\<close>

record unit_category = uuid_row +
  uc_code :: string
  uc_name :: string

record measure_unit = uuid_row +
  mu_category_id :: uuid
  mu_code :: string
  mu_name :: string
  mu_symbol :: string

record unit_conversion = uuid_row +
  cv_from_unit_id :: uuid
  cv_to_unit_id :: uuid
  cv_factor :: rat

section \<open>Master data\<close>

text \<open>
  The ten master-data classes share the columns of \<^verbatim>\<open>CodedMasterDataMixin\<close>. The columns a
  class adds (\<^verbatim>\<open>category_id\<close>, \<^verbatim>\<open>phone\<close>, \<^verbatim>\<open>capacity\<close>, ...) are kept by name, because the
  generic service reads and writes them by name with \<^verbatim>\<open>getattr\<close> and \<^verbatim>\<open>setattr\<close>.
\<close>

datatype md_entity =
    MaterialCategory | ProductCategory | TaxCode | PaymentTerm | Material | Product
  | Customer | Supplier | Vehicle | Driver

record md_row = audited_row +
  code :: string
  name :: string
  description :: "string option"
  status :: MasterDataStatus
  extra :: json_dict

section \<open>Weighbridge and production\<close>

record weighbridge_ticket = audited_row +
  wt_organization_unit_id :: "uuid option"
  wt_unit_id :: uuid
  wt_ticket_number :: string
  wt_ticket_type :: WeighbridgeTicketType
  wt_status :: WeighbridgeTicketStatus
  wt_vehicle_number :: string
  wt_driver_name :: "string option"
  wt_party_name :: "string option"
  wt_material_description :: string
  wt_first_weight :: rat
  wt_first_weighed_at :: int
  wt_second_weight :: "rat option"
  wt_second_weighed_at :: "int option"
  wt_net_weight :: "rat option"
  wt_remarks :: "string option"

record production_output = uuid_row +
  po_product_description :: string
  po_quantity :: rat
  po_unit_id :: uuid

text \<open>
  The outputs of an entry are the rows of \<^verbatim>\<open>production_outputs\<close> that refer to it, kept in
  the entry (the relationship cascades, so they live and die with it).
\<close>

record production_entry = audited_row +
  pe_organization_unit_id :: "uuid option"
  pe_raw_material_unit_id :: uuid
  pe_entry_number :: string
  pe_production_date :: date
  pe_shift :: ProductionShift
  pe_status :: ProductionEntryStatus
  pe_raw_material_description :: string
  pe_raw_material_quantity :: rat
  pe_remarks :: "string option"
  pe_outputs :: "production_output list"

end
