(* ===== verification/Store.thy ===== *)
theory Store
  imports Models
begin

text \<open>
  The store and the transactions over it. The database is a record with one list of rows
  per table; a \<^verbatim>\<open>select(...).where(...)\<close> of a repository is a filter on that list. A request
  runs against an \<^verbatim>\<open>AsyncSession\<close>: a record with the last committed database, the current
  one, and what the request has drawn from the outside (UUIDs, clock readings, salts).
  A service function is a transaction: from a session it returns an exception or a value, and
  the session after it. \<^verbatim>\<open>commit\<close> makes the current database the committed one, and what a
  request leaves behind is the committed database only, whether it returns or raises
  (\<^verbatim>\<open>get_db\<close> of \<^verbatim>\<open>app/core/database.py\<close> rolls back on an exception, and closing the session
  drops what was not committed).

  The code outside the repository that the services call is a field of the record
  \<open>env\<close>: the UUID generator, the clocks, Argon2, PyJWT, and the string operators of the
  database. The constraints a mapped class declares are checked by every insertion.
\<close>

section \<open>Configuration: \<^verbatim>\<open>app/core/config.py\<close>\<close>

record config =
  environment :: string
  debug :: bool
  jwt_secret_key :: string
  jwt_algorithm :: string
  access_token_expire_minutes :: int
  refresh_token_expire_days :: int
  cors_allowed_origins :: string
  storage_provider :: string
  local_storage_path :: string
  rate_limit_per_minute :: nat
  max_upload_size_mb :: nat

definition is_production :: "config \<Rightarrow> bool" where
  "is_production c \<longleftrightarrow> environment c = ''production''"

section \<open>Code outside the repository\<close>

datatype argon2_error = VerifyMismatchError | VerificationError | InvalidHash

datatype jwt_error = ExpiredSignatureError | InvalidTokenError

text \<open>The claims handed to \<^verbatim>\<open>jwt.encode\<close> and the payload \<^verbatim>\<open>jwt.decode\<close> gives back.\<close>

record claims =
  cl_sub :: string
  cl_tenant_id :: "string option"
  cl_type :: string
  cl_jti :: string
  cl_iat :: int
  cl_exp :: int

record payload =
  pl_sub :: "string option"
  pl_tenant_id :: "string option"
  pl_type :: "string option"
  pl_jti :: "string option"
  pl_iat :: "int option"
  pl_exp :: "int option"

text \<open>
  \<open>uuid4 n\<close> is the \<open>n\<close>-th value of \<^verbatim>\<open>uuid.uuid4()\<close>, \<open>clock n\<close> the \<open>n\<close>-th reading of
  \<^verbatim>\<open>datetime.now(UTC)\<close>, \<open>server_clock n\<close> the database's \<^verbatim>\<open>now()\<close> in the \<open>n\<close>-th transaction of
  the session, \<open>argon2_hash n\<close> the hasher with its \<open>n\<close>-th random salt. \<open>collation\<close> maps a
  string to its place in the database's sort order, and \<open>normalized_email\<close> is what Pydantic's
  \<^verbatim>\<open>EmailStr\<close> makes of an address, \<^term>\<open>None\<close> when it refuses it.
\<close>

record env =
  config :: config
  uuid4 :: "nat \<Rightarrow> uuid"
  clock :: "nat \<Rightarrow> int"
  server_clock :: "nat \<Rightarrow> int"
  argon2_hash :: "nat \<Rightarrow> string \<Rightarrow> string"
  argon2_verify :: "string \<Rightarrow> string \<Rightarrow> argon2_error + bool"
  jwt_encode :: "claims \<Rightarrow> string \<Rightarrow> string \<Rightarrow> string"
  jwt_decode :: "string \<Rightarrow> string \<Rightarrow> string list \<Rightarrow> int \<Rightarrow> jwt_error + payload"
  sql_like :: "string \<Rightarrow> string \<Rightarrow> bool"
  sql_ilike :: "string \<Rightarrow> string \<Rightarrow> bool"
  collation :: "string \<Rightarrow> rat"
  normalized_email :: "string \<Rightarrow> string option"

section \<open>The database\<close>

record db =
  tenants :: "tenant list"
  users :: "user list"
  permissions :: "permission list"
  roles :: "role list"
  role_permissions :: "role_permission list"
  user_roles :: "user_role list"
  scope_assignments :: "scope_assignment list"
  refresh_sessions :: "refresh_session list"
  password_reset_tokens :: "password_reset_token list"
  organization_units :: "organization_unit list"
  fiscal_years :: "fiscal_year list"
  document_sequences :: "document_sequence list"
  settings :: "setting list"
  audit_events :: "audit_event list"
  notifications :: "notification list"
  attachments :: "attachment list"
  unit_categories :: "unit_category list"
  measure_units :: "measure_unit list"
  unit_conversions :: "unit_conversion list"
  master_data :: "md_entity \<Rightarrow> md_row list"
  weighbridge_tickets :: "weighbridge_ticket list"
  production_entries :: "production_entry list"

definition empty_db :: db where
  "empty_db = \<lparr>tenants = [], users = [], permissions = [], roles = [], role_permissions = [],
     user_roles = [], scope_assignments = [], refresh_sessions = [], password_reset_tokens = [],
     organization_units = [], fiscal_years = [], document_sequences = [], settings = [],
     audit_events = [], notifications = [], attachments = [], unit_categories = [],
     measure_units = [], unit_conversions = [], master_data = (\<lambda>_. []),
     weighbridge_tickets = [], production_entries = []\<rparr>"

section \<open>Exceptions\<close>

text \<open>
  The classes of \<^verbatim>\<open>app/core/exceptions.py\<close> with their message, then the exceptions of the
  libraries that the services let through: a violated constraint of the database, a value out
  of a column's range, \<^verbatim>\<open>scalar_one_or_none\<close> on several rows, Python's own, and the
  \<^verbatim>\<open>TokenError\<close> of \<^verbatim>\<open>app/security/tokens.py\<close>; last, FastAPI's answer to a request that its
  schema rejects.
\<close>

datatype error =
    UnauthorizedError string
  | ForbiddenError string
  | NotFoundError string
  | ConflictError string
  | ValidationAppError string
  | IntegrityError string
  | DataError string
  | MultipleResultsFound
  | NoResultFound
  | ValueError string
  | KeyError string
  | AttributeError string
  | TokenError string
  | FileNotFoundError
  | RequestValidationError

section \<open>Sessions and transactions\<close>

record sess =
  env :: env
  committed :: db
  current :: db
  drawn :: nat
  ticks :: nat
  salts :: nat
  txn :: nat

type_synonym 'a tx = "sess \<Rightarrow> (error + 'a) \<times> sess"

definition return_tx :: "'a \<Rightarrow> 'a tx" where
  "return_tx x = (\<lambda>s. (Inr x, s))"

definition raise_tx :: "error \<Rightarrow> 'a tx" where
  "raise_tx e = (\<lambda>s. (Inl e, s))"

definition bind_tx :: "'a tx \<Rightarrow> ('a \<Rightarrow> 'b tx) \<Rightarrow> 'b tx" where
  "bind_tx m f = (\<lambda>s. case m s of (Inl e, s') \<Rightarrow> (Inl e, s') | (Inr x, s') \<Rightarrow> f x s')"

text \<open>A query: a value computed from the current database.\<close>

definition query_tx :: "(db \<Rightarrow> 'a) \<Rightarrow> 'a tx" where
  "query_tx q = (\<lambda>s. (Inr (q (current s)), s))"

definition env_tx :: "(env \<Rightarrow> 'a) \<Rightarrow> 'a tx" where
  "env_tx q = (\<lambda>s. (Inr (q (env s)), s))"

definition write_tx :: "(db \<Rightarrow> db) \<Rightarrow> unit tx" where
  "write_tx f = (\<lambda>s. (Inr (), s\<lparr>current := f (current s)\<rparr>))"

definition commit_tx :: "unit tx" where
  "commit_tx = (\<lambda>s. (Inr (), s\<lparr>committed := current s, txn := Suc (txn s)\<rparr>))"

text \<open>\<^verbatim>\<open>if not b: raise e\<close>.\<close>

definition require_tx :: "bool \<Rightarrow> error \<Rightarrow> unit tx" where
  "require_tx b e = (if b then return_tx () else raise_tx e)"

text \<open>\<^verbatim>\<open>if b: m\<close>.\<close>

definition when_tx :: "bool \<Rightarrow> unit tx \<Rightarrow> unit tx" where
  "when_tx b m = (if b then m else return_tx ())"

definition uuid4_tx :: "uuid tx" where
  "uuid4_tx = (\<lambda>s. (Inr (uuid4 (env s) (drawn s)), s\<lparr>drawn := Suc (drawn s)\<rparr>))"

definition now_tx :: "int tx" where
  "now_tx = (\<lambda>s. (Inr (clock (env s) (ticks s)), s\<lparr>ticks := Suc (ticks s)\<rparr>))"

definition server_now_tx :: "int tx" where
  "server_now_tx = (\<lambda>s. (Inr (server_clock (env s) (txn s)), s))"

text \<open>\<^verbatim>\<open>for x in xs: f(x)\<close>.\<close>

fun for_tx :: "'a list \<Rightarrow> ('a \<Rightarrow> unit tx) \<Rightarrow> unit tx" where
  "for_tx [] f = return_tx ()"
| "for_tx (x # xs) f = bind_tx (f x) (\<lambda>_. for_tx xs f)"

text \<open>\<^verbatim>\<open>(await session.execute(...)).scalar_one_or_none()\<close> over the rows the query selects.\<close>

definition scalar_tx :: "(db \<Rightarrow> 'a list) \<Rightarrow> 'a option tx" where
  "scalar_tx q = bind_tx (query_tx q) (\<lambda>rs. case scalar_one_or_none rs of
     NoRow \<Rightarrow> return_tx None | OneRow x \<Rightarrow> return_tx (Some x)
   | ManyRows \<Rightarrow> raise_tx MultipleResultsFound)"

text \<open>\<^verbatim>\<open>x = ...; if x is None: raise e\<close>.\<close>

definition some_tx :: "'a option \<Rightarrow> error \<Rightarrow> 'a tx" where
  "some_tx x e = (case x of None \<Rightarrow> raise_tx e | Some y \<Rightarrow> return_tx y)"

text \<open>The request-scoped session of \<^verbatim>\<open>get_db\<close>: a fresh session, and what it committed.\<close>

definition new_session :: "env \<Rightarrow> db \<Rightarrow> sess" where
  "new_session e d = \<lparr>env = e, committed = d, current = d, drawn = 0, ticks = 0, salts = 0, txn = 0\<rparr>"

lemma new_session_sel [simp]:
  "env (new_session e d) = e" "committed (new_session e d) = d" "current (new_session e d) = d"
  "drawn (new_session e d) = 0" "ticks (new_session e d) = 0" "txn (new_session e d) = 0"
  by (simp_all add: new_session_def)

definition run_tx :: "'a tx \<Rightarrow> env \<Rightarrow> db \<Rightarrow> (error + 'a) \<times> db" where
  "run_tx m e d = (let (r, s) = m (new_session e d) in (r, committed s))"

subsection \<open>Symbolic execution\<close>

lemma bind_return [tx_simps]: "bind_tx (return_tx x) f = f x"
  by (simp add: bind_tx_def return_tx_def)

lemma bind_raise [tx_simps]: "bind_tx (raise_tx e) f = raise_tx e"
  by (simp add: bind_tx_def raise_tx_def)

lemma bind_assoc: "bind_tx (bind_tx m f) g = bind_tx m (\<lambda>x. bind_tx (f x) g)"
  by (rule ext) (auto simp: bind_tx_def split: prod.splits sum.splits)

lemma return_apply [tx_simps]: "return_tx x s = (Inr x, s)"
  by (simp add: return_tx_def)

lemma raise_apply [tx_simps]: "raise_tx e s = (Inl e, s)"
  by (simp add: raise_tx_def)

lemma query_apply [tx_simps]: "query_tx q s = (Inr (q (current s)), s)"
  by (simp add: query_tx_def)

lemma env_apply [tx_simps]: "env_tx q s = (Inr (q (env s)), s)"
  by (simp add: env_tx_def)

lemma write_apply [tx_simps]: "write_tx f s = (Inr (), s\<lparr>current := f (current s)\<rparr>)"
  by (simp add: write_tx_def)

lemma commit_apply [tx_simps]:
  "commit_tx s = (Inr (), s\<lparr>committed := current s, txn := Suc (txn s)\<rparr>)"
  by (simp add: commit_tx_def)

lemma require_apply [tx_simps]: "require_tx b e s = (if b then (Inr (), s) else (Inl e, s))"
  by (simp add: require_tx_def tx_simps)

lemma uuid4_apply [tx_simps]:
  "uuid4_tx s = (Inr (uuid4 (env s) (drawn s)), s\<lparr>drawn := Suc (drawn s)\<rparr>)"
  by (simp add: uuid4_tx_def)

lemma now_apply [tx_simps]: "now_tx s = (Inr (clock (env s) (ticks s)), s\<lparr>ticks := Suc (ticks s)\<rparr>)"
  by (simp add: now_tx_def)

lemma server_now_apply [tx_simps]: "server_now_tx s = (Inr (server_clock (env s) (txn s)), s)"
  by (simp add: server_now_tx_def)

lemma some_apply [tx_simps]:
  "some_tx x e s = (case x of None \<Rightarrow> (Inl e, s) | Some y \<Rightarrow> (Inr y, s))"
  by (simp add: some_tx_def tx_simps split: option.splits)

lemma when_apply [tx_simps]: "when_tx b m s = (if b then m s else (Inr (), s))"
  by (simp add: when_tx_def tx_simps)

lemma scalar_apply [tx_simps]:
  "scalar_tx q s = (case scalar_one_or_none (q (current s)) of
     NoRow \<Rightarrow> (Inr None, s) | OneRow x \<Rightarrow> (Inr (Some x), s)
   | ManyRows \<Rightarrow> (Inl MultipleResultsFound, s))"
  by (simp add: scalar_tx_def bind_tx_def query_tx_def return_tx_def raise_tx_def
      split: one_or_none.split)

lemma bind_apply_Inr: "m s = (Inr x, s') \<Longrightarrow> bind_tx m f s = f x s'"
  by (simp add: bind_tx_def)

lemma bind_apply_Inl: "m s = (Inl e, s') \<Longrightarrow> bind_tx m f s = (Inl e, s')"
  by (simp add: bind_tx_def)

text \<open>Running the first step of a transaction whose effect is known.\<close>

lemma bind_first_step [tx_run]:
  "bind_tx (return_tx x) f s = f x s"
  "bind_tx (raise_tx e) f s = (Inl e, s)"
  "bind_tx (query_tx q) f s = f (q (current s)) s"
  "bind_tx (env_tx g) f s = f (g (env s)) s"
  "bind_tx (write_tx w) h s = h () (s\<lparr>current := w (current s)\<rparr>)"
  "bind_tx commit_tx h s = h () (s\<lparr>committed := current s, txn := Suc (txn s)\<rparr>)"
  "bind_tx uuid4_tx k s = k (uuid4 (env s) (drawn s)) (s\<lparr>drawn := Suc (drawn s)\<rparr>)"
  "bind_tx now_tx l s = l (clock (env s) (ticks s)) (s\<lparr>ticks := Suc (ticks s)\<rparr>)"
  "bind_tx server_now_tx l s = l (server_clock (env s) (txn s)) s"
  "bind_tx (require_tx b e) h s = (if b then h () s else (Inl e, s))"
  "bind_tx (some_tx y e) f s = (case y of None \<Rightarrow> (Inl e, s) | Some x \<Rightarrow> f x s)"
  by (simp_all add: bind_tx_def tx_simps split: option.split)

lemma bind_scalar_step [tx_run]:
  "bind_tx (scalar_tx q) f s = (case scalar_one_or_none (q (current s)) of
     NoRow \<Rightarrow> f None s | OneRow x \<Rightarrow> f (Some x) s | ManyRows \<Rightarrow> (Inl MultipleResultsFound, s))"
  by (simp add: bind_tx_def scalar_apply split: one_or_none.split)

text \<open>
  Evaluation by the simplifier: with this congruence rule the continuation of a step is left
  alone until the step has run.
\<close>

lemma bind_step_cong: "s = s' \<Longrightarrow> bind_tx m f s = bind_tx m f s'"
  by simp

lemma bind_case_step [tx_run]:
  "bind_tx (case x of None \<Rightarrow> m | Some y \<Rightarrow> n y) f s =
     (case x of None \<Rightarrow> bind_tx m f s | Some y \<Rightarrow> bind_tx (n y) f s)"
  "bind_tx (if b then m else m') f s = (if b then bind_tx m f s else bind_tx m' f s)"
  "bind_tx (when_tx b k) g s = (if b then bind_tx k g s else g () s)"
  "bind_tx (Pair (Inr y0)) f s = f y0 s" "bind_tx (Pair (Inl e)) f s = (Inl e, s)"
  by (simp_all add: when_tx_def return_tx_def bind_tx_def split: option.split)

lemma run_tx_step: "run_tx m e d = (case m (new_session e d) of (r, s) \<Rightarrow> (r, committed s))"
  by (simp add: run_tx_def Let_def)

text \<open>Running a transaction backwards: where a result comes from.\<close>

lemma bind_InrE:
  assumes "bind_tx m f s = (Inr y, s'')"
  obtains x s' where "m s = (Inr x, s')" and "f x s' = (Inr y, s'')"
  using assms by (auto simp: bind_tx_def split: prod.splits sum.splits)

lemma bind_InlE:
  assumes "bind_tx m f s = (Inl e, s'')"
  obtains "m s = (Inl e, s'')"
  | x s' where "m s = (Inr x, s')" and "f x s' = (Inl e, s'')"
  using assms by (auto simp: bind_tx_def split: prod.splits sum.splits)

lemma require_InrE:
  assumes "require_tx b e s = (Inr u, s')"
  obtains b and "s' = s"
  using assms by (auto simp: tx_simps split: if_splits)

lemma some_InrE:
  assumes "some_tx x e s = (Inr y, s')"
  obtains "x = Some y" and "s' = s"
  using assms by (auto simp: tx_simps split: option.splits)

lemma scalar_InrE:
  assumes "scalar_tx q s = (Inr x, s')"
  obtains "x = None" "q (current s) = []" "s' = s"
  | y where "x = Some y" "q (current s) = [y]" "s' = s"
proof (cases "scalar_one_or_none (q (current s))")
  case NoRow
  from NoRow assms have "x = None" "s' = s" by (simp_all add: scalar_apply)
  moreover from NoRow have "q (current s) = []" by (simp only: scalar_NoRow_iff)
  ultimately show ?thesis by (intro that(1))
next
  case (OneRow y)
  from OneRow assms have "x = Some y" "s' = s" by (simp_all add: scalar_apply)
  moreover from OneRow have "q (current s) = [y]" by (simp only: scalar_OneRow_iff)
  ultimately show ?thesis by (intro that(2))
next
  case ManyRows
  with assms show ?thesis by (simp add: scalar_apply)
qed

lemma query_InrE:
  assumes "query_tx q s = (Inr x, s')"
  obtains "x = q (current s)" "s' = s"
  using assms unfolding query_tx_def by blast

lemma env_InrE:
  assumes "env_tx g s = (Inr x, s')"
  obtains "x = g (env s)" "s' = s"
  using assms unfolding env_tx_def by blast

lemma return_InrE:
  assumes "return_tx z s = (Inr x, s')"
  obtains "x = z" "s' = s"
  using assms unfolding return_tx_def by blast

lemma now_InrE:
  assumes "now_tx s = (Inr n, s')"
  obtains "n = clock (env s) (ticks s)" "s' = s\<lparr>ticks := Suc (ticks s)\<rparr>"
  using assms unfolding now_tx_def by blast

lemma uuid4_InrE:
  assumes "uuid4_tx s = (Inr i, s')"
  obtains "i = uuid4 (env s) (drawn s)" "s' = s\<lparr>drawn := Suc (drawn s)\<rparr>"
  using assms unfolding uuid4_tx_def by blast

lemma commit_InrE:
  assumes "commit_tx s = (Inr u, s')"
  obtains "s' = s\<lparr>committed := current s, txn := Suc (txn s)\<rparr>"
  using assms unfolding commit_tx_def by blast

text \<open>The steps of a run that returned, one after the other.\<close>

lemmas tx_elims = bind_InrE require_InrE some_InrE query_InrE env_InrE return_InrE
  now_InrE uuid4_InrE commit_InrE

end
