(* ===== verification/Repository.thy ===== *)
theory Repository
  imports Store
begin

text \<open>
  What every repository does to its table (insert a row after checking the constraints its
  class declares, write a changed row back, delete), and the two ways the library reasons
  about whole transactions.

  The locale \<open>store_relation\<close> takes a reflexive and transitive relation between databases
  (the audit trail has only grown, the rows of other tenants are the same, ...) and gives a
  rule per transaction primitive that shows that every database a transaction leaves, current
  or committed, is related to the one it started from. The predicates \<open>keeps\<close> and \<open>atomic\<close>
  say that a transaction does not commit, and that it commits nothing when it raises. The
  locale \<open>table\<close> is the interface between a repository and the database record.
\<close>

section \<open>Rows\<close>

definition stamp :: "int \<Rightarrow> 'a timestamped_scheme \<Rightarrow> 'a timestamped_scheme" where
  "stamp n r = r\<lparr>created_at := n, updated_at := n\<rparr>"

text \<open>\<^verbatim>\<open>onupdate=func.now()\<close> applies when the flush finds a changed column.\<close>

definition touch :: "int \<Rightarrow> 'a timestamped_scheme \<Rightarrow> 'a timestamped_scheme \<Rightarrow> 'a timestamped_scheme" where
  "touch n r r' = (if r' = r then r else r'\<lparr>updated_at := n\<rparr>)"

definition put_row :: "'a uuid_row_scheme \<Rightarrow> 'a uuid_row_scheme list \<Rightarrow> 'a uuid_row_scheme list" where
  "put_row r rs = map (\<lambda>x. if row_id x = row_id r then r else x) rs"

text \<open>The first violated constraint, by name.\<close>

definition violated :: "(string \<times> bool) list \<Rightarrow> string option" where
  "violated cs = map_option fst (find (\<lambda>c. \<not> snd c) cs)"

text \<open>\<^verbatim>\<open>session.add(row)\<close> followed by the flush that inserts it.\<close>

definition add_row ::
  "(('a timestamped_scheme list \<Rightarrow> 'a timestamped_scheme list) \<Rightarrow> db \<Rightarrow> db) \<Rightarrow>
   (db \<Rightarrow> 'a timestamped_scheme \<Rightarrow> (string \<times> bool) list) \<Rightarrow>
   'a timestamped_scheme \<Rightarrow> 'a timestamped_scheme tx" where
  "add_row upd constraints r =
     bind_tx server_now_tx (\<lambda>n.
     bind_tx (query_tx (\<lambda>d. violated (constraints d (stamp n r)))) (\<lambda>v.
     case v of
       Some c \<Rightarrow> raise_tx (IntegrityError c)
     | None \<Rightarrow> bind_tx (write_tx (upd (\<lambda>rs. rs @ [stamp n r]))) (\<lambda>_. return_tx (stamp n r))))"

text \<open>
  The flush of an object \<open>r\<close> of the session whose attributes were set to those of \<open>r'\<close>
  (which has the same identifier): the row with that identifier is rewritten.
\<close>

definition save_row ::
  "(('a uuid_row_scheme list \<Rightarrow> 'a uuid_row_scheme list) \<Rightarrow> db \<Rightarrow> db) \<Rightarrow>
   'a uuid_row_scheme \<Rightarrow> 'a uuid_row_scheme \<Rightarrow> 'a uuid_row_scheme tx" where
  "save_row upd r r' =
     bind_tx server_now_tx (\<lambda>n.
     bind_tx (write_tx (upd (put_row (touch n r r')))) (\<lambda>_.
     return_tx (touch n r r')))"

definition delete_row ::
  "(('a uuid_row_scheme list \<Rightarrow> 'a uuid_row_scheme list) \<Rightarrow> db \<Rightarrow> db) \<Rightarrow>
   'a uuid_row_scheme \<Rightarrow> unit tx" where
  "delete_row upd r = write_tx (upd (filter (\<lambda>x. row_id x \<noteq> row_id r)))"

text \<open>The primary key of a mixin row, and a reference that may be absent.\<close>

definition fresh_id :: "'a uuid_row_scheme list \<Rightarrow> 'b uuid_row_scheme \<Rightarrow> bool" where
  "fresh_id rs r \<longleftrightarrow> row_id r \<notin> row_id ` set rs"

definition refers :: "'a uuid_row_scheme list \<Rightarrow> uuid option \<Rightarrow> bool" where
  "refers rs i = (case i of None \<Rightarrow> True | Some i \<Rightarrow> i \<in> row_id ` set rs)"

text \<open>
  The listings share one query: the number of rows that satisfy the conditions, and a page of
  them, the newest first. Rows created at the same time come in insertion order here; SQL
  leaves their order open.
\<close>

definition newest_page ::
  "('a timestamped_scheme \<Rightarrow> bool) \<Rightarrow> nat \<Rightarrow> nat \<Rightarrow> 'a timestamped_scheme list \<Rightarrow>
   'a timestamped_scheme list \<times> nat" where
  "newest_page conditions off cnt rs =
     (let sel = filter conditions rs
      in (page_of off cnt (sort_key (\<lambda>r. - created_at r) sel), length sel))"

lemma in_newest_page:
  assumes "r \<in> set (fst (newest_page c off cnt rs))"
  shows "r \<in> set rs" "c r"
proof -
  have "r \<in> set (filter c rs)"
    using assms set_page_of [of off cnt "sort_key (\<lambda>r. - created_at r) (filter c rs)"]
    by (auto simp: newest_page_def Let_def)
  then show "r \<in> set rs" "c r" by simp_all
qed

text \<open>The pages together are the rows that satisfy the conditions, each once.\<close>

lemma newest_pages:
  "concat (map (\<lambda>k. fst (newest_page c (k * n) n rs)) [0..<p])
     = take (p * n) (sort_key (\<lambda>r. - created_at r) (filter c rs))"
  by (simp add: newest_page_def Let_def concat_pages)

lemma stamp_fields [simp]:
  "created_at (stamp n r) = n" "updated_at (stamp n r) = n"
  "timestamped.more (stamp n r) = timestamped.more r"
  by (simp_all add: stamp_def)

lemma row_id_stamp [simp]: "row_id (stamp n r) = row_id r"
  by (simp add: stamp_def)

lemma row_id_touch [simp]: "row_id (touch n r r') = row_id r'"
  by (simp add: touch_def)

lemma tenant_id_touch [simp]: "tenant_id (touch n r r') = tenant_id r'"
  by (simp add: touch_def)

lemma tenant_id_stamp [simp]: "tenant_id (stamp n r) = tenant_id r"
  by (simp add: stamp_def)

lemma more_touch [simp]: "timestamped.more (touch n r r') = timestamped.more r'"
  by (simp add: touch_def)

lemma map_row_id_put_row [simp]: "map row_id (put_row r rs) = map row_id rs"
  by (simp add: put_row_def)

lemma put_row_Nil [simp]: "put_row r [] = []"
  by (simp add: put_row_def)

lemma put_row_Cons [simp]:
  "put_row r (x # xs) = (if row_id x = row_id r then r else x) # put_row r xs"
  by (simp add: put_row_def)

lemma length_put_row [simp]: "length (put_row r rs) = length rs"
  by (simp add: put_row_def)

lemma in_put_row:
  "x \<in> set (put_row r rs) \<Longrightarrow> x = r \<or> (x \<in> set rs \<and> row_id x \<noteq> row_id r)"
  by (auto simp: put_row_def split: if_splits)

lemma put_row_other: "x \<in> set rs \<Longrightarrow> row_id x \<noteq> row_id r \<Longrightarrow> x \<in> set (put_row r rs)"
  by (auto simp: put_row_def intro!: image_eqI [of _ _ x])

lemma put_row_self: "x \<in> set rs \<Longrightarrow> row_id x = row_id r \<Longrightarrow> r \<in> set (put_row r rs)"
  by (auto simp: put_row_def intro!: image_eqI [of _ _ x])

lemma map_put_row:
  assumes "distinct (map row_id rs)" and "r \<in> set rs" and "row_id r' = row_id r" and "f r' = f r"
  shows "map f (put_row r' rs) = map f rs"
proof -
  have "f (if row_id x = row_id r' then r' else x) = f x" if "x \<in> set rs" for x
    using distinct_map_same_key [OF assms(1) that assms(2)] assms(3,4) by auto
  then show ?thesis by (simp add: put_row_def)
qed

text \<open>Writing an object back leaves every row that fails a property the object has, too.\<close>

lemma filter_put_row:
  assumes "distinct (map row_id rs)" and "r \<in> set rs" and "row_id r' = row_id r"
    and "\<not> P r" and "\<not> P r'"
  shows "filter P (put_row r' rs) = filter P rs"
proof -
  have same: "x = r" if "x \<in> set rs" and "row_id x = row_id r" for x
    using assms(1) that(1) assms(2) that(2) by (rule distinct_map_same_key)
  have eq: "put_row r' rs = map (\<lambda>x. if x = r then r' else x) rs"
    unfolding put_row_def using same assms(3) by (intro map_cong refl if_cong) auto
  show ?thesis
    unfolding eq using assms(4,5) by (induction rs) auto
qed

section \<open>Column types\<close>

text \<open>
  A \<^verbatim>\<open>String(n)\<close> column takes at most \<open>n\<close> characters, a \<^verbatim>\<open>Numeric(12, 3)\<close> column
  rounds to three decimals (ties away from zero) and takes nine digits before the point;
  PostgreSQL answers a value out of range with a data error.
\<close>

fun fits :: "nat \<Rightarrow> string option \<Rightarrow> bool" where
  "fits n None \<longleftrightarrow> True"
| "fits n (Some s) \<longleftrightarrow> length s \<le> n"

definition round_half_away :: "rat \<Rightarrow> int" where
  "round_half_away x = (if 0 \<le> x then \<lfloor>x + 1 / 2\<rfloor> else - \<lfloor>1 / 2 - x\<rfloor>)"

definition numeric_3 :: "rat \<Rightarrow> rat" where
  "numeric_3 x = of_int (round_half_away (x * 1000)) / 1000"

definition numeric_12_3 :: "rat \<Rightarrow> bool" where
  "numeric_12_3 x \<longleftrightarrow> \<bar>numeric_3 x\<bar> < 1000000000"

definition three_decimals :: "rat \<Rightarrow> bool" where
  "three_decimals x \<longleftrightarrow> numeric_3 x = x"

lemma round_half_away_of_int [simp]: "round_half_away (of_int k) = k"
  by (auto simp: round_half_away_def floor_eq_iff)

lemma round_half_away_bound: "\<bar>of_int (round_half_away x) - x\<bar> \<le> 1 / 2"
proof (cases "0 \<le> x")
  case True
  then show ?thesis
    using of_int_floor_le [of "x + 1 / 2"] floor_correct [of "x + 1 / 2"]
    unfolding round_half_away_def abs_le_iff by (simp only: if_True) linarith
next
  case False
  then show ?thesis
    using of_int_floor_le [of "1 / 2 - x"] floor_correct [of "1 / 2 - x"]
    unfolding round_half_away_def abs_le_iff of_int_minus by (simp only: if_False of_int_minus) linarith
qed

lemma numeric_3_numeral [simp]: "numeric_3 (numeral k) = numeral k" "numeric_3 0 = 0" "numeric_3 1 = 1"
proof -
  have "numeric_3 (of_int n) = of_int n" for n
    using round_half_away_of_int [of "n * 1000"] by (simp add: numeric_3_def del: round_half_away_of_int)
  from this [of "numeral k"] this [of 0] this [of 1]
  show "numeric_3 (numeral k) = numeral k" "numeric_3 0 = 0" "numeric_3 1 = 1" by simp_all
qed

lemma three_decimals_numeric_3 [simp]: "three_decimals (numeric_3 x)"
  by (simp add: three_decimals_def numeric_3_def)

lemma numeric_3_bound: "\<bar>numeric_3 x - x\<bar> \<le> 1 / 2000"
  using round_half_away_bound [of "x * 1000"] by (simp add: numeric_3_def abs_le_iff field_simps)

lemma three_decimals_iff: "three_decimals x \<longleftrightarrow> (\<exists>k::int. x = of_int k / 1000)"
proof
  assume "three_decimals x"
  then have "x = of_int (round_half_away (x * 1000)) / 1000"
    by (simp add: three_decimals_def numeric_3_def)
  then show "\<exists>k::int. x = of_int k / 1000" by blast
next
  assume "\<exists>k::int. x = of_int k / 1000"
  then show "three_decimals x" by (auto simp: three_decimals_def numeric_3_def)
qed

lemma three_decimals_diff: "three_decimals x \<Longrightarrow> three_decimals y \<Longrightarrow> three_decimals \<bar>x - y\<bar>"
proof -
  assume "three_decimals x" and "three_decimals y"
  then obtain k l :: int where "x = of_int k / 1000" "y = of_int l / 1000"
    by (auto simp: three_decimals_iff)
  then have "\<bar>x - y\<bar> = \<bar>(of_int k - of_int l) / 1000\<bar>" by (simp add: diff_divide_distrib)
  then have "\<bar>x - y\<bar> = of_int \<bar>k - l\<bar> / 1000" by simp
  then show ?thesis unfolding three_decimals_iff by blast
qed

lemma numeric_3_nonneg: "0 \<le> x \<Longrightarrow> 0 \<le> numeric_3 x"
  by (simp add: numeric_3_def round_half_away_def)

section \<open>Transactions within a store relation\<close>

definition tx_pre :: "(db \<Rightarrow> db \<Rightarrow> bool) \<Rightarrow> (db \<Rightarrow> bool) \<Rightarrow> 'a tx \<Rightarrow> bool" where
  "tx_pre R P m \<longleftrightarrow>
     (\<forall>d s r s'. R d (committed s) \<longrightarrow> R d (current s) \<longrightarrow> P (current s) \<longrightarrow> m s = (r, s') \<longrightarrow>
        R d (committed s') \<and> R d (current s'))"

abbreviation tx_within :: "(db \<Rightarrow> db \<Rightarrow> bool) \<Rightarrow> 'a tx \<Rightarrow> bool" where
  "tx_within R \<equiv> tx_pre R (\<lambda>_. True)"

lemma tx_preI:
  assumes "\<And>d s r s'. R d (committed s) \<Longrightarrow> R d (current s) \<Longrightarrow> P (current s) \<Longrightarrow>
    m s = (r, s') \<Longrightarrow> R d (committed s') \<and> R d (current s')"
  shows "tx_pre R P m"
  using assms unfolding tx_pre_def by blast

lemma tx_preD:
  "tx_pre R P m \<Longrightarrow> m s = (r, s') \<Longrightarrow> R d (committed s) \<Longrightarrow> R d (current s) \<Longrightarrow> P (current s)
    \<Longrightarrow> R d (committed s') \<and> R d (current s')"
  unfolding tx_pre_def by blast

lemma tx_pre_mono: "tx_pre R Q m \<Longrightarrow> (\<And>d. P d \<Longrightarrow> Q d) \<Longrightarrow> tx_pre R P m"
  unfolding tx_pre_def by blast

lemma tx_pre_within: "tx_within R m \<Longrightarrow> tx_pre R P m"
  by (erule tx_pre_mono) simp

lemma tx_pre_bind:
  assumes "tx_pre R P m" and "\<And>x. tx_within R (f x)"
  shows "tx_pre R P (bind_tx m f)"
proof (rule tx_preI)
  fix d s r s''
  assume a: "R d (committed s)" "R d (current s)" "P (current s)" and b: "bind_tx m f s = (r, s'')"
  obtain q s' where m: "m s = (q, s')" by (cases "m s") auto
  have m': "R d (committed s') \<and> R d (current s')"
    using tx_preD [OF assms(1) m a] .
  show "R d (committed s'') \<and> R d (current s'')"
  proof (cases q)
    case (Inl e)
    with b m m' show ?thesis by (simp add: bind_tx_def)
  next
    case (Inr x)
    with b m have "f x s' = (r, s'')" by (simp add: bind_tx_def)
    with tx_preD [OF assms(2)] m' show ?thesis by blast
  qed
qed

text \<open>A step that reads: the continuation keeps the precondition and learns what was read.\<close>

lemma tx_pre_bind_read:
  assumes "\<And>s. current (snd (m s)) = current s \<and> committed (snd (m s)) = committed s"
    and "\<And>x. tx_pre R (\<lambda>d. P d \<and> (\<exists>s. current s = d \<and> fst (m s) = Inr x)) (f x)"
  shows "tx_pre R P (bind_tx m f)"
proof (rule tx_preI)
  fix d s r s''
  assume a: "R d (committed s)" "R d (current s)" "P (current s)" and b: "bind_tx m f s = (r, s'')"
  obtain q s' where m: "m s = (q, s')" by (cases "m s") auto
  have s': "current s' = current s" "committed s' = committed s"
    using assms(1) [of s] m by simp_all
  show "R d (committed s'') \<and> R d (current s'')"
  proof (cases q)
    case (Inl e)
    with b m a s' show ?thesis by (simp add: bind_tx_def)
  next
    case (Inr x)
    with b m have f: "f x s' = (r, s'')" by (simp add: bind_tx_def)
    have "P (current s') \<and> (\<exists>t. current t = current s' \<and> fst (m t) = Inr x)"
      using a(3) s' m Inr by (auto intro!: exI [of _ s])
    then show ?thesis
      using tx_preD [OF assms(2) f, of d] a s' by simp
  qed
qed

lemma tx_pre_bind_unknown:
  assumes "\<And>s. current (snd (m s)) = current s \<and> committed (snd (m s)) = committed s"
    and "\<And>x. tx_pre R P (f x)"
  shows "tx_pre R P (bind_tx m f)"
proof (rule tx_pre_bind_read [OF assms(1)])
  show "tx_pre R (\<lambda>d. P d \<and> (\<exists>s. current s = d \<and> fst (m s) = Inr x)) (f x)" for x
    using assms(2) by (rule tx_pre_mono) simp
qed

lemma tx_pre_assoc [tx_rules]:
  "tx_pre R P (bind_tx m (\<lambda>x. bind_tx (f x) g)) \<Longrightarrow> tx_pre R P (bind_tx (bind_tx m f) g)"
  by (simp only: bind_assoc)

lemma tx_pre_bind_return [tx_rules]: "tx_pre R P (f x) \<Longrightarrow> tx_pre R P (bind_tx (return_tx x) f)"
  by (simp add: tx_simps)

lemma tx_pre_return [tx_rules]: "tx_pre R P (return_tx x)"
  by (rule tx_preI) (simp add: tx_simps)

lemma tx_pre_raise [tx_rules]: "tx_pre R P (raise_tx e)"
  by (rule tx_preI) (simp add: tx_simps)

lemma tx_pre_bind_raise [tx_rules]: "tx_pre R P (bind_tx (raise_tx e) f)"
  by (simp add: tx_simps tx_pre_raise)

lemma tx_pre_bind_query [tx_rules]:
  assumes "\<And>x. tx_pre R (\<lambda>d. P d \<and> x = q d) (f x)"
  shows "tx_pre R P (bind_tx (query_tx q) f)"
proof (rule tx_pre_bind_read)
  show "tx_pre R (\<lambda>d. P d \<and> (\<exists>s. current s = d \<and> fst (query_tx q s) = Inr x)) (f x)" for x
    using assms by (rule tx_pre_mono) (auto simp: query_apply)
qed (simp add: tx_simps)

lemma tx_pre_query [tx_rules]: "tx_pre R P (query_tx q)"
  by (rule tx_preI) (simp add: tx_simps)

lemma tx_pre_bind_env [tx_rules]:
  "(\<And>x. tx_pre R P (f x)) \<Longrightarrow> tx_pre R P (bind_tx (env_tx q) f)"
  by (rule tx_pre_bind_unknown) (simp_all add: tx_simps)

lemma tx_pre_bind_env_known:
  assumes "\<And>e. tx_pre R P (f (q e))"
  shows "tx_pre R P (bind_tx (env_tx q) f)"
proof (rule tx_preI)
  fix d s r s'
  assume a: "R d (committed s)" "R d (current s)" "P (current s)" and b: "bind_tx (env_tx q) f s = (r, s')"
  from b have "f (q (env s)) s = (r, s')" by (simp only: bind_first_step)
  from tx_preD [OF assms this a] show "R d (committed s') \<and> R d (current s')" .
qed

lemma tx_pre_bind_uuid4 [tx_rules]:
  "(\<And>x. tx_pre R P (f x)) \<Longrightarrow> tx_pre R P (bind_tx uuid4_tx f)"
  by (rule tx_pre_bind_unknown) (simp_all add: tx_simps)

lemma tx_pre_bind_now [tx_rules]:
  "(\<And>x. tx_pre R P (f x)) \<Longrightarrow> tx_pre R P (bind_tx now_tx f)"
  by (rule tx_pre_bind_unknown) (simp_all add: tx_simps)

lemma tx_pre_bind_server_now [tx_rules]:
  "(\<And>x. tx_pre R P (f x)) \<Longrightarrow> tx_pre R P (bind_tx server_now_tx f)"
  by (rule tx_pre_bind_unknown) (simp_all add: tx_simps)

lemma tx_pre_bind_require [tx_rules]:
  "(b \<Longrightarrow> tx_pre R P (f ())) \<Longrightarrow> tx_pre R P (bind_tx (require_tx b e) f)"
  by (cases b) (simp_all add: require_tx_def tx_simps tx_pre_raise)

lemma tx_pre_bind_some [tx_rules]:
  "(\<And>y. x = Some y \<Longrightarrow> tx_pre R P (f y)) \<Longrightarrow> tx_pre R P (bind_tx (some_tx x e) f)"
  by (cases x) (simp_all add: some_tx_def tx_simps tx_pre_raise)

lemma tx_pre_some [tx_rules]: "tx_pre R P (some_tx x e)"
  by (rule tx_preI) (auto simp: tx_simps split: option.splits)

lemma tx_pre_require [tx_rules]: "tx_pre R P (require_tx b e)"
  by (rule tx_preI) (auto simp: tx_simps split: if_splits)

lemma tx_pre_bind_scalar [tx_rules]:
  assumes "tx_pre R P (f None)" and "\<And>y. tx_pre R (\<lambda>d. P d \<and> q d = [y]) (f (Some y))"
  shows "tx_pre R P (bind_tx (scalar_tx q) f)"
proof (rule tx_pre_bind_read)
  fix s :: sess
  show "current (snd (scalar_tx q s)) = current s \<and> committed (snd (scalar_tx q s)) = committed s"
    by (simp add: scalar_apply split: one_or_none.split)
next
  fix x
  show "tx_pre R (\<lambda>d. P d \<and> (\<exists>s. current s = d \<and> fst (scalar_tx q s) = Inr x)) (f x)"
  proof (cases x)
    case None
    show ?thesis unfolding None using assms(1) by (rule tx_pre_mono) (rule conjunct1)
  next
    case (Some y)
    have q: "q (current s) = [y]" if "fst (scalar_tx q s) = Inr (Some y)" for s :: sess
      using that by (simp add: scalar_apply scalar_OneRow_iff split: one_or_none.splits)
    show ?thesis unfolding Some using assms(2) [of y] by (rule tx_pre_mono) (use q in blast)
  qed
qed

lemma tx_pre_bind_commit [tx_rules]:
  assumes "tx_pre R P (f ())"
  shows "tx_pre R P (bind_tx commit_tx f)"
proof (rule tx_preI)
  fix d s r s'
  assume a: "R d (committed s)" "R d (current s)" "P (current s)" and b: "bind_tx commit_tx f s = (r, s')"
  from b have "f () (s\<lparr>committed := current s, txn := Suc (txn s)\<rparr>) = (r, s')"
    by (simp only: bind_apply_Inr [OF commit_apply])
  from tx_preD [OF assms this, of d] a show "R d (committed s') \<and> R d (current s')"
    by simp
qed

lemma tx_pre_commit [tx_rules]: "tx_pre R P commit_tx"
  by (rule tx_preI) (auto simp: tx_simps)

lemma tx_pre_if [tx_rules]:
  "(b \<Longrightarrow> tx_pre R P m) \<Longrightarrow> (\<not> b \<Longrightarrow> tx_pre R P n) \<Longrightarrow> tx_pre R P (if b then m else n)"
  by simp

lemma tx_pre_bind_if [tx_rules]:
  "(b \<Longrightarrow> tx_pre R P (bind_tx m f)) \<Longrightarrow> (\<not> b \<Longrightarrow> tx_pre R P (bind_tx n f))
    \<Longrightarrow> tx_pre R P (bind_tx (if b then m else n) f)"
  by simp

lemma tx_pre_bind_when [tx_rules]:
  "(b \<Longrightarrow> tx_pre R P (bind_tx m f)) \<Longrightarrow> (\<not> b \<Longrightarrow> tx_pre R P (f ()))
    \<Longrightarrow> tx_pre R P (bind_tx (when_tx b m) f)"
  by (simp add: when_tx_def tx_simps)

lemma tx_pre_case_option [tx_rules]:
  "(x = None \<Longrightarrow> tx_pre R P m) \<Longrightarrow> (\<And>y. x = Some y \<Longrightarrow> tx_pre R P (n y))
    \<Longrightarrow> tx_pre R P (case x of None \<Rightarrow> m | Some y \<Rightarrow> n y)"
  by (simp split: option.split)

lemma tx_pre_bind_case_option [tx_rules]:
  "(x = None \<Longrightarrow> tx_pre R P (bind_tx m f)) \<Longrightarrow> (\<And>y. x = Some y \<Longrightarrow> tx_pre R P (bind_tx (n y) f))
    \<Longrightarrow> tx_pre R P (bind_tx (case x of None \<Rightarrow> m | Some y \<Rightarrow> n y) f)"
  by (simp split: option.split)

lemma tx_pre_case_sum [tx_rules]:
  "(\<And>y. x = Inl y \<Longrightarrow> tx_pre R P (m y)) \<Longrightarrow> (\<And>y. x = Inr y \<Longrightarrow> tx_pre R P (n y))
    \<Longrightarrow> tx_pre R P (case x of Inl y \<Rightarrow> m y | Inr y \<Rightarrow> n y)"
  by (simp split: sum.split)

lemma tx_pre_case_prod [tx_rules]:
  "(\<And>a b. x = (a, b) \<Longrightarrow> tx_pre R P (m a b)) \<Longrightarrow> tx_pre R P (case x of (a, b) \<Rightarrow> m a b)"
  by (simp split: prod.split)

lemma tx_pre_let [tx_rules]: "tx_pre R P (m x) \<Longrightarrow> tx_pre R P (let y = x in m y)"
  by simp

locale store_relation =
  fixes R :: "db \<Rightarrow> db \<Rightarrow> bool"
  assumes R_refl: "R d d"
    and R_trans: "R a b \<Longrightarrow> R b c \<Longrightarrow> R a c"
begin

lemma within_write [tx_rules]:
  assumes "\<And>d. P d \<Longrightarrow> R d (g d)"
  shows "tx_pre R P (write_tx g)"
  by (rule tx_preI) (auto simp: tx_simps intro: R_trans assms)

lemma within_bind_write [tx_rules]:
  assumes "\<And>d. P d \<Longrightarrow> R d (g d)" and "tx_within R (f ())"
  shows "tx_pre R P (bind_tx (write_tx g) f)"
proof (rule tx_pre_bind)
  show "tx_pre R P (write_tx g)" using assms(1) by (rule within_write)
  show "tx_within R (f x)" for x using assms(2) by (cases x) simp
qed

lemma within_add_row [tx_rules]:
  assumes "\<And>d x. P d \<Longrightarrow> violated (cs d x) = None \<Longrightarrow> \<exists>n. x = stamp n r
    \<Longrightarrow> R d (upd (\<lambda>rs. rs @ [x]) d)"
  shows "tx_pre R P (add_row upd cs r)"
  unfolding add_row_def
  by (intro tx_rules within_bind_write) (auto intro!: assms)

lemma within_bind_add_row [tx_rules]:
  assumes "\<And>d x. P d \<Longrightarrow> violated (cs d x) = None \<Longrightarrow> \<exists>n. x = stamp n r
    \<Longrightarrow> R d (upd (\<lambda>rs. rs @ [x]) d)" and "\<And>x. tx_within R (f x)"
  shows "tx_pre R P (bind_tx (add_row upd cs r) f)"
  by (rule tx_pre_bind [OF within_add_row]) (rule assms; assumption)+

lemma within_save_row [tx_rules]:
  assumes "\<And>d n. P d \<Longrightarrow> R d (upd (put_row (touch n r r')) d)"
  shows "tx_pre R P (save_row upd r r')"
  unfolding save_row_def
  by (intro tx_rules within_bind_write) (auto intro!: assms)

lemma within_bind_save_row [tx_rules]:
  assumes "\<And>d n. P d \<Longrightarrow> R d (upd (put_row (touch n r r')) d)" and "\<And>x. tx_within R (f x)"
  shows "tx_pre R P (bind_tx (save_row upd r r') f)"
  by (rule tx_pre_bind [OF within_save_row]) (rule assms; assumption)+

text \<open>What is known of the tables that the write leaves alone is known after it, too.\<close>

lemma within_bind_save_row_known:
  assumes "\<And>d n. P d \<Longrightarrow> R d (upd (put_row (touch n r r')) d)"
    and "\<And>d n. P d \<Longrightarrow> Q (upd (put_row (touch n r r')) d)" and "\<And>x. tx_pre R Q (f x)"
  shows "tx_pre R P (bind_tx (save_row upd r r') f)"
proof (rule tx_preI)
  fix d s q s'
  assume a: "R d (committed s)" "R d (current s)" "P (current s)"
    and b: "bind_tx (save_row upd r r') f s = (q, s')"
  define x where "x = touch (server_clock (env s) (txn s)) r r'"
  from b have f: "f x (s\<lparr>current := upd (put_row x) (current s)\<rparr>) = (q, s')"
    by (simp add: save_row_def bind_tx_def tx_simps x_def)
  have "R d (upd (put_row x) (current s))"
    using assms(1) [OF a(3)] a(2) R_trans unfolding x_def by blast
  then show "R d (committed s') \<and> R d (current s')"
    using tx_preD [OF assms(3) f, of d] a assms(2) [OF a(3)] unfolding x_def by simp
qed

lemma within_delete_row [tx_rules]:
  assumes "\<And>d. P d \<Longrightarrow> R d (upd (filter (\<lambda>x. row_id x \<noteq> row_id r)) d)"
  shows "tx_pre R P (delete_row upd r)"
  unfolding delete_row_def by (rule within_write) (rule assms)

lemma within_bind_delete_row [tx_rules]:
  assumes "\<And>d. P d \<Longrightarrow> R d (upd (filter (\<lambda>x. row_id x \<noteq> row_id r)) d)" and "\<And>x. tx_within R (f x)"
  shows "tx_pre R P (bind_tx (delete_row upd r) f)"
  by (rule tx_pre_bind [OF within_delete_row]) (rule assms; assumption)+

lemma within_for [tx_rules]:
  assumes "\<And>x. x \<in> set xs \<Longrightarrow> tx_within R (f x)"
  shows "tx_within R (for_tx xs f)"
  using assms
proof (induction xs)
  case Nil
  show ?case by (simp add: tx_pre_return)
next
  case (Cons x xs)
  then show ?case by (auto intro: tx_pre_bind)
qed

lemma within_bind_for [tx_rules]:
  assumes "\<And>x. x \<in> set xs \<Longrightarrow> tx_within R (g x)" and "tx_within R (f ())"
  shows "tx_pre R P (bind_tx (for_tx xs g) f)"
proof (rule tx_pre_bind)
  show "tx_pre R P (for_tx xs g)" by (rule tx_pre_within, rule within_for, rule assms(1))
  show "tx_within R (f x)" for x using assms(2) by (cases x) simp
qed

text \<open>What a request leaves in the database is related to what it found.\<close>

lemma run_within:
  assumes "tx_within R m"
  shows "R d (snd (run_tx m e d))"
proof -
  obtain r s' where m: "m (new_session e d) = (r, s')" by (cases "m (new_session e d)") auto
  have "R d (committed s')"
    using tx_preD [OF assms m, of d] by (simp add: new_session_def R_refl)
  then show ?thesis by (simp add: run_tx_def m)
qed

end

text \<open>An invariant as a store relation.\<close>

definition preserves :: "(db \<Rightarrow> bool) \<Rightarrow> db \<Rightarrow> db \<Rightarrow> bool" where
  "preserves I d d' \<longleftrightarrow> (I d \<longrightarrow> I d')"

interpretation preserves: store_relation "preserves I"
  by unfold_locales (simp_all add: preserves_def)

section \<open>Tables\<close>

text \<open>
  What the repositories rely on of a table of the database record: reading it after writing
  it. From this follow the effects of the three row operations on the table, in particular
  what a lookup by primary key finds afterwards.
\<close>

lemma bind_add_row_step [tx_run]:
  "bind_tx (add_row upd cs r) f s =
     (let x = stamp (server_clock (env s) (txn s)) r in
      case violated (cs (current s) x) of
        Some c \<Rightarrow> (Inl (IntegrityError c), s)
      | None \<Rightarrow> f x (s\<lparr>current := upd (\<lambda>rs. rs @ [x]) (current s)\<rparr>))"
  by (simp add: add_row_def bind_tx_def tx_simps Let_def split: option.split)

lemma add_row_InrE:
  assumes "add_row upd cs r s = (Inr x, s')"
  obtains "x = stamp (server_clock (env s) (txn s)) r" "violated (cs (current s) x) = None"
    "s' = s\<lparr>current := upd (\<lambda>rs. rs @ [x]) (current s)\<rparr>"
  using assms
  by (auto simp: add_row_def bind_tx_def tx_simps split: option.splits)

lemma save_row_apply:
  "save_row upd r r' s =
     (let x = touch (server_clock (env s) (txn s)) r r'
      in (Inr x, s\<lparr>current := upd (put_row x) (current s)\<rparr>))"
  by (simp add: save_row_def bind_tx_def tx_simps Let_def)

lemma bind_save_row_step [tx_run]:
  "bind_tx (save_row upd r r') f s =
     (let x = touch (server_clock (env s) (txn s)) r r'
      in f x (s\<lparr>current := upd (put_row x) (current s)\<rparr>))"
  by (simp add: bind_tx_def save_row_apply Let_def)

lemma add_row_apply:
  "add_row upd cs r s =
     (let x = stamp (server_clock (env s) (txn s)) r in
      case violated (cs (current s) x) of
        Some c \<Rightarrow> (Inl (IntegrityError c), s)
      | None \<Rightarrow> (Inr x, s\<lparr>current := upd (\<lambda>rs. rs @ [x]) (current s)\<rparr>))"
  by (simp add: add_row_def bind_tx_def tx_simps Let_def split: option.split)

lemma save_row_InrE:
  assumes "save_row upd r r' s = (Inr x, s')"
  obtains "x = touch (server_clock (env s) (txn s)) r r'"
    "s' = s\<lparr>current := upd (put_row x) (current s)\<rparr>"
  using assms by (auto simp: save_row_apply Let_def)

lemma violated_Nil [simp]: "violated [] = None"
  by (simp add: violated_def)

lemma violated_Cons_None [simp]:
  "violated (c # cs) = None \<longleftrightarrow> snd c \<and> violated cs = None"
  by (simp add: violated_def)

lemma violated_None_iff: "violated cs = None \<longleftrightarrow> (\<forall>c\<in>set cs. snd c)"
  by (induction cs) auto

locale table =
  fixes rows :: "db \<Rightarrow> 'a uuid_row_scheme list"
    and upd :: "('a uuid_row_scheme list \<Rightarrow> 'a uuid_row_scheme list) \<Rightarrow> db \<Rightarrow> db"
  assumes rows_upd: "rows (upd f d) = f (rows d)"
begin

lemma rows_after_add:
  assumes "add_row upd cs r s = (Inr x, s')"
  shows "rows (current s') = rows (current s) @ [x]"
  using assms by (cases rule: add_row_InrE) (simp add: rows_upd)

lemma rows_after_save:
  assumes "save_row upd r r' s = (Inr x, s')"
  shows "rows (current s') = put_row x (rows (current s))"
  using assms by (cases rule: save_row_InrE) (simp add: rows_upd)

lemma lookup_after_add:
  assumes "add_row upd cs r s = (Inr x, s')" and "fresh_id (rows (current s)) x"
  shows "filter (\<lambda>y. row_id y = row_id x) (rows (current s')) = [x]"
  unfolding rows_after_add [OF assms(1)] using assms(2)
  by (auto simp: fresh_id_def filter_empty_conv image_iff)

lemma lookup_after_save:
  assumes "save_row upd r r' s = (Inr x, s')" and "row_id r' = row_id r"
    and "filter (\<lambda>y. row_id y = row_id r) (rows (current s)) = [r]"
  shows "filter (\<lambda>y. row_id y = row_id r) (rows (current s')) = [x]"
proof -
  have x: "row_id x = row_id r"
    using assms(1,2) by (cases rule: save_row_InrE) simp
  have "filter (\<lambda>y. row_id y = row_id r) (put_row x rs)
      = map (\<lambda>_. x) (filter (\<lambda>y. row_id y = row_id r) rs)" for rs
    using x by (induction rs) auto
  then show ?thesis
    unfolding rows_after_save [OF assms(1)] by (simp add: assms(3))
qed

lemma rows_after_delete:
  assumes "delete_row upd r s = (Inr u, s')"
  shows "rows (current s') = filter (\<lambda>x. row_id x \<noteq> row_id r) (rows (current s))"
  using assms by (auto simp: delete_row_def tx_simps rows_upd)

end

section \<open>Frames\<close>

text \<open>
  \<open>frame P rs rs'\<close>: the rows with \<open>P\<close> of a table with primary keys are the same before and
  after, and the keys stay unique.
\<close>

definition frame ::
  "('a uuid_row_scheme \<Rightarrow> bool) \<Rightarrow> 'a uuid_row_scheme list \<Rightarrow> 'a uuid_row_scheme list \<Rightarrow> bool" where
  "frame P rs rs' \<longleftrightarrow> (distinct (map row_id rs) \<longrightarrow>
     distinct (map row_id rs') \<and> filter P rs' = filter P rs)"

lemma frame_refl [simp]: "frame P rs rs"
  by (simp add: frame_def)

lemma frame_trans: "frame P a b \<Longrightarrow> frame P b c \<Longrightarrow> frame P a c"
  by (simp add: frame_def)

lemma frame_snoc: "fresh_id rs x \<Longrightarrow> \<not> P x \<Longrightarrow> frame P rs (rs @ [x])"
  by (auto simp: frame_def fresh_id_def)

lemma frame_put_row:
  "r \<in> set rs \<Longrightarrow> row_id r' = row_id r \<Longrightarrow> \<not> P r \<Longrightarrow> \<not> P r' \<Longrightarrow> frame P rs (put_row r' rs)"
  by (simp add: frame_def filter_put_row)

lemma frame_delete:
  assumes "r \<in> set rs" and "\<not> P r"
  shows "frame P rs (filter (\<lambda>x. row_id x \<noteq> row_id r) rs)"
  unfolding frame_def
proof (intro impI conjI)
  assume d: "distinct (map row_id rs)"
  then show "distinct (map row_id (filter (\<lambda>x. row_id x \<noteq> row_id r) rs))"
    by (rule distinct_map_filter)
  have "P x \<Longrightarrow> row_id x \<noteq> row_id r" if "x \<in> set rs" for x
    using distinct_map_same_key [OF d that assms(1)] assms(2) by auto
  then show "filter P (filter (\<lambda>x. row_id x \<noteq> row_id r) rs) = filter P rs"
    by (auto intro!: filter_cong)
qed

section \<open>Documents that evolve by steps\<close>

text \<open>
  A table whose rows change only by steps of a relation: \<open>evolves\<close> says that every row of the
  first database is still there in the second, after some steps. The locale
  \<open>document_lifecycle\<close> is the contract that the tickets and the production entries share: a
  row that no step leaves is frozen, and what the steps preserve holds for ever.
\<close>

definition evolves ::
  "(db \<Rightarrow> 'a uuid_row_scheme list) \<Rightarrow> ('a uuid_row_scheme \<Rightarrow> 'a uuid_row_scheme \<Rightarrow> bool) \<Rightarrow> db \<Rightarrow> db \<Rightarrow> bool" where
  "evolves rows step d d' \<longleftrightarrow> (distinct (map row_id (rows d)) \<longrightarrow>
     distinct (map row_id (rows d')) \<and> (\<forall>r\<in>set (rows d). \<exists>r'\<in>set (rows d'). step\<^sup>*\<^sup>* r r'))"

locale document_lifecycle = table rows upd
  for rows :: "db \<Rightarrow> 'a uuid_row_scheme list" and upd +
  fixes step :: "'a uuid_row_scheme \<Rightarrow> 'a uuid_row_scheme \<Rightarrow> bool"
  assumes step_id: "step r r' \<Longrightarrow> row_id r' = row_id r"
begin

lemma evolves_same: "rows d' = rows d \<Longrightarrow> evolves rows step d d'"
  by (auto simp: evolves_def)

lemma evolves_trans: "evolves rows step a b \<Longrightarrow> evolves rows step b c \<Longrightarrow> evolves rows step a c"
  unfolding evolves_def by (meson rtranclp_trans)

lemma evolves_snoc: "fresh_id (rows d) x \<Longrightarrow> evolves rows step d (upd (\<lambda>rs. rs @ [x]) d)"
  by (auto simp: evolves_def fresh_id_def rows_upd)

lemma evolves_put_row:
  assumes "r \<in> set (rows d)" and "step\<^sup>*\<^sup>* r r'"
  shows "evolves rows step d (upd (put_row r') d)"
  unfolding evolves_def rows_upd map_row_id_put_row
proof (intro impI conjI ballI)
  fix x assume d: "distinct (map row_id (rows d))" and x: "x \<in> set (rows d)"
  have id: "row_id r' = row_id r" using assms(2) by (induction) (auto dest: step_id)
  show "\<exists>y\<in>set (put_row r' (rows d)). step\<^sup>*\<^sup>* x y"
  proof (cases "row_id x = row_id r")
    case True
    with d x assms(1) have "x = r" by (metis distinct_map_same_key)
    with assms id show ?thesis by (metis put_row_self)
  next
    case False
    with x id show ?thesis by (metis put_row_other rtranclp.rtrancl_refl)
  qed
qed

lemma frozen:
  assumes "evolves rows step d d'" and "distinct (map row_id (rows d))" and "r \<in> set (rows d)"
    and "\<And>r'. \<not> step r r'"
  shows "r \<in> set (rows d')"
proof -
  from assms(1-3) obtain r' where "r' \<in> set (rows d')" "step\<^sup>*\<^sup>* r r'" by (auto simp: evolves_def)
  moreover from this(2) assms(4) have "r' = r" by (auto elim: converse_rtranclpE)
  ultimately show ?thesis by simp
qed

lemma preserved:
  assumes "evolves rows step d d'" and "distinct (map row_id (rows d))" and "r \<in> set (rows d)" and "I r"
    and "\<And>r r'. I r \<Longrightarrow> step r r' \<Longrightarrow> I r'"
  shows "\<exists>r'\<in>set (rows d'). row_id r' = row_id r \<and> I r'"
proof -
  from assms(1-3) obtain r' where r': "r' \<in> set (rows d')" "step\<^sup>*\<^sup>* r r'" by (auto simp: evolves_def)
  from r'(2) have "row_id r' = row_id r \<and> I r'"
    by induction (use assms(4,5) step_id in auto)
  with r'(1) show ?thesis by blast
qed

end

sublocale document_lifecycle \<subseteq> lifecycle: store_relation "evolves rows step"
  by unfold_locales (auto intro: evolves_same evolves_trans)

section \<open>Transactions that commit nothing when they raise\<close>

definition keeps :: "'a tx \<Rightarrow> bool" where
  "keeps m \<longleftrightarrow> (\<forall>s r s'. m s = (r, s') \<longrightarrow> committed s' = committed s)"

definition atomic :: "'a tx \<Rightarrow> bool" where
  "atomic m \<longleftrightarrow> (\<forall>s e s'. m s = (Inl e, s') \<longrightarrow> committed s' = committed s)"

named_theorems atomic_rules \<open>rules showing that a transaction commits nothing when it raises\<close>

lemma keepsD: "keeps m \<Longrightarrow> m s = (r, s') \<Longrightarrow> committed s' = committed s"
  unfolding keeps_def by blast

lemma keeps_atomic: "keeps m \<Longrightarrow> atomic m"
  unfolding keeps_def atomic_def by blast

lemma keeps_primitives [atomic_rules]:
  "keeps (return_tx x)" "keeps (raise_tx e)" "keeps (query_tx q)" "keeps (env_tx g)"
  "keeps (write_tx w)" "keeps uuid4_tx" "keeps now_tx" "keeps server_now_tx"
  "keeps (require_tx b e)" "keeps (some_tx y e)"
  by (auto simp: keeps_def tx_simps split: if_splits option.splits)

lemma keeps_scalar [atomic_rules]: "keeps (scalar_tx q)"
  by (auto simp: keeps_def scalar_apply split: one_or_none.splits)

lemma keeps_bind [atomic_rules]:
  assumes "keeps m" and "\<And>x. keeps (f x)"
  shows "keeps (bind_tx m f)"
  unfolding keeps_def
proof (intro allI impI)
  fix s r s'' assume b: "bind_tx m f s = (r, s'')"
  obtain q s' where m: "m s = (q, s')" by (cases "m s") auto
  from keepsD [OF assms(1) m] b m keepsD [OF assms(2)] show "committed s'' = committed s"
    by (cases q) (fastforce simp: bind_tx_def)+
qed

lemma keeps_if [atomic_rules]: "keeps m \<Longrightarrow> keeps n \<Longrightarrow> keeps (if b then m else n)"
  by simp

lemma keeps_when [atomic_rules]: "keeps m \<Longrightarrow> keeps (when_tx b m)"
  by (simp add: when_tx_def keeps_primitives)

lemma keeps_case_option [atomic_rules]:
  "keeps m \<Longrightarrow> (\<And>y. keeps (n y)) \<Longrightarrow> keeps (case x of None \<Rightarrow> m | Some y \<Rightarrow> n y)"
  by (simp split: option.split)

lemma keeps_case_sum [atomic_rules]:
  "(\<And>y. keeps (m y)) \<Longrightarrow> (\<And>y. keeps (n y)) \<Longrightarrow> keeps (case x of Inl y \<Rightarrow> m y | Inr y \<Rightarrow> n y)"
  by (simp split: sum.split)

lemma keeps_case_prod [atomic_rules]:
  "(\<And>a b. keeps (m a b)) \<Longrightarrow> keeps (case x of (a, b) \<Rightarrow> m a b)"
  by (simp split: prod.split)

lemma keeps_let [atomic_rules]: "(\<And>y. keeps (m y)) \<Longrightarrow> keeps (let y = x in m y)"
  by simp

lemma keeps_for [atomic_rules]: "(\<And>x. keeps (f x)) \<Longrightarrow> keeps (for_tx xs f)"
  by (induction xs) (simp_all add: keeps_primitives keeps_bind)

lemma keeps_rows [atomic_rules]:
  "keeps (add_row upd cs a)" "keeps (save_row upd' b b')" "keeps (delete_row upd'' c)"
  unfolding add_row_def save_row_def delete_row_def by (intro atomic_rules)+

lemma atomic_bind [atomic_rules]:
  assumes "keeps m" and "\<And>x. atomic (f x)"
  shows "atomic (bind_tx m f)"
  unfolding atomic_def
proof (intro allI impI)
  fix s e s'' assume "bind_tx m f s = (Inl e, s'')"
  then show "committed s'' = committed s"
  proof (cases rule: bind_InlE)
    case 1
    then show ?thesis by (rule keepsD [OF assms(1)])
  next
    case (2 x s')
    from assms(2) 2(2) have "committed s'' = committed s'" unfolding atomic_def by blast
    with keepsD [OF assms(1) 2(1)] show ?thesis by simp
  qed
qed

lemma atomic_commit_return [atomic_rules]: "atomic (bind_tx commit_tx (\<lambda>_. return_tx x))"
  by (simp add: atomic_def bind_tx_def tx_simps)

lemma atomic_commit [atomic_rules]: "atomic commit_tx"
  by (simp add: atomic_def tx_simps)

lemma atomic_if [atomic_rules]: "atomic m \<Longrightarrow> atomic n \<Longrightarrow> atomic (if b then m else n)"
  by simp

lemma atomic_case_option [atomic_rules]:
  "atomic m \<Longrightarrow> (\<And>y. atomic (n y)) \<Longrightarrow> atomic (case x of None \<Rightarrow> m | Some y \<Rightarrow> n y)"
  by (simp split: option.split)

lemma atomic_case_sum [atomic_rules]:
  "(\<And>y. atomic (m y)) \<Longrightarrow> (\<And>y. atomic (n y)) \<Longrightarrow> atomic (case x of Inl y \<Rightarrow> m y | Inr y \<Rightarrow> n y)"
  by (simp split: sum.split)

lemma atomic_let [atomic_rules]: "(\<And>y. atomic (m y)) \<Longrightarrow> atomic (let y = x in m y)"
  by simp

text \<open>Transactions that only read.\<close>

definition reads :: "'a tx \<Rightarrow> bool" where
  "reads m \<longleftrightarrow> (\<forall>s r s'. m s = (r, s') \<longrightarrow> current s' = current s \<and> committed s' = committed s)"

lemma reads_primitives [reads_only]:
  "reads (return_tx x)" "reads (raise_tx e)" "reads (query_tx q)" "reads (env_tx g)"
  "reads uuid4_tx" "reads now_tx" "reads server_now_tx" "reads (require_tx b e)" "reads (some_tx y e)"
  by (auto simp: reads_def tx_simps split: if_splits option.splits)

lemma reads_scalar [reads_only]: "reads (scalar_tx q)"
  by (auto simp: reads_def scalar_apply split: one_or_none.splits)

lemma reads_bind [reads_only]:
  assumes "reads m" and "\<And>x. reads (f x)"
  shows "reads (bind_tx m f)"
  unfolding reads_def
proof (intro allI impI)
  fix s r s'' assume b: "bind_tx m f s = (r, s'')"
  obtain q s' where m: "m s = (q, s')" by (cases "m s") auto
  with assms(1) have s': "current s' = current s" "committed s' = committed s"
    unfolding reads_def by blast+
  show "current s'' = current s \<and> committed s'' = committed s"
  proof (cases q)
    case (Inl e)
    with b m s' show ?thesis by (simp add: bind_tx_def)
  next
    case (Inr x)
    with b m have "f x s' = (r, s'')" by (simp add: bind_tx_def)
    with assms(2) s' show ?thesis unfolding reads_def by metis
  qed
qed

lemma run_atomic:
  assumes "atomic m" and "fst (run_tx m e d) = Inl err"
  shows "snd (run_tx m e d) = d"
proof -
  obtain r s' where m: "m (new_session e d) = (r, s')" by (cases "m (new_session e d)") auto
  with assms(2) have "r = Inl err" by (simp add: run_tx_def)
  with assms(1) m have "committed s' = committed (new_session e d)" unfolding atomic_def by blast
  then have "committed s' = d" by (simp add: new_session_def)
  then show ?thesis by (simp add: run_tx_def m)
qed

end
