(* ===== verification/Audit_Trail.thy ===== *)
theory Audit_Trail
  imports Repository
begin

text \<open>
  The audit trail: \<^verbatim>\<open>app/services/audit_service.py\<close> (\<^verbatim>\<open>record\<close>), the listing of
  \<^verbatim>\<open>app/repositories/audit_repository.py\<close>, and the relation that the module promises to every
  reader: the list of audit events only ever grows at its end. Each later theory shows for its
  operations that they stay within this relation.
\<close>

section \<open>Recording an event\<close>

text \<open>What \<^verbatim>\<open>record\<close> reads of the Starlette request.\<close>

record web_request =
  rq_client_host :: "string option"
  rq_user_agent :: "string option"
  rq_request_id :: "string option"

text \<open>The keyword arguments of \<^verbatim>\<open>record\<close>.\<close>

record audit_args =
  aa_action :: string
  aa_resource_type :: string
  aa_resource_id :: "string option"
  aa_tenant_id :: "uuid option"
  aa_user_id :: "uuid option"
  aa_old_data :: "json_dict option"
  aa_new_data :: "json_dict option"

definition audit_event_of ::
  "audit_args \<Rightarrow> web_request option \<Rightarrow> uuid \<Rightarrow> int \<Rightarrow> audit_event" where
  "audit_event_of a rq i n = \<lparr>ae_id = i, ae_tenant_id = aa_tenant_id a, ae_user_id = aa_user_id a,
     ae_action = aa_action a, ae_resource_type = aa_resource_type a,
     ae_resource_id = aa_resource_id a, ae_old_data = aa_old_data a, ae_new_data = aa_new_data a,
     ae_ip_address = (case rq of None \<Rightarrow> None | Some r \<Rightarrow> rq_client_host r),
     ae_user_agent = (case rq of None \<Rightarrow> None | Some r \<Rightarrow> rq_user_agent r),
     ae_request_id = (case rq of None \<Rightarrow> None | Some r \<Rightarrow> rq_request_id r),
     ae_timestamp = n\<rparr>"

lemma ae_id_audit_event_of [simp]: "ae_id (audit_event_of a rq i n) = i"
  by (simp add: audit_event_of_def)

text \<open>The columns whose values come from the client; the others hold short constants.\<close>

definition audit_columns_fit :: "audit_event \<Rightarrow> bool" where
  "audit_columns_fit e \<longleftrightarrow> fits 100 (ae_resource_id e) \<and> fits 64 (ae_ip_address e) \<and>
     fits 255 (ae_user_agent e) \<and> fits 64 (ae_request_id e)"

definition record_event :: "audit_args \<Rightarrow> web_request option \<Rightarrow> audit_event tx" where
  "record_event a rq =
     bind_tx uuid4_tx (\<lambda>i.
     bind_tx server_now_tx (\<lambda>n.
     bind_tx (require_tx (audit_columns_fit (audit_event_of a rq i n))
       (DataError ''value too long for type character varying'')) (\<lambda>_.
     bind_tx (query_tx (\<lambda>d. i \<in> ae_id ` set (audit_events d))) (\<lambda>taken.
     bind_tx (require_tx (\<not> taken) (IntegrityError ''audit_events_pkey'')) (\<lambda>_.
     bind_tx (write_tx (audit_events_update (\<lambda>es. es @ [audit_event_of a rq i n]))) (\<lambda>_.
     return_tx (audit_event_of a rq i n)))))))"

section \<open>Listing events\<close>

record audit_filter =
  af_tenant_id :: "uuid option"
  af_action :: "string option"
  af_resource_type :: "string option"
  af_user_id :: "uuid option"
  af_date_from :: "int option"
  af_date_to :: "int option"

text \<open>An optional string filter is dropped when it is absent or empty (Python's truth value).\<close>

definition given :: "string option \<Rightarrow> bool" where
  "given x \<longleftrightarrow> x \<noteq> None \<and> x \<noteq> Some ''''"

definition audit_selected :: "audit_filter \<Rightarrow> audit_event \<Rightarrow> bool" where
  "audit_selected f e \<longleftrightarrow>
     (af_tenant_id f \<noteq> None \<longrightarrow> ae_tenant_id e = af_tenant_id f) \<and>
     (given (af_action f) \<longrightarrow> Some (ae_action e) = af_action f) \<and>
     (given (af_resource_type f) \<longrightarrow> Some (ae_resource_type e) = af_resource_type f) \<and>
     (af_user_id f \<noteq> None \<longrightarrow> ae_user_id e = af_user_id f) \<and>
     (case af_date_from f of None \<Rightarrow> True | Some n \<Rightarrow> n \<le> ae_timestamp e) \<and>
     (case af_date_to f of None \<Rightarrow> True | Some n \<Rightarrow> ae_timestamp e \<le> n)"

text \<open>Rows with equal sort keys come in insertion order here; SQL leaves their order open.\<close>

definition list_events :: "audit_filter \<Rightarrow> nat \<Rightarrow> nat \<Rightarrow> db \<Rightarrow> audit_event list \<times> nat" where
  "list_events f off cnt d =
     (let es = filter (audit_selected f) (audit_events d)
      in (page_of off cnt (sort_key (\<lambda>e. - ae_timestamp e) es), length es))"

lemma list_events_tenant:
  assumes "af_tenant_id f = Some t" and "e \<in> set (fst (list_events f off cnt d))"
  shows "ae_tenant_id e = Some t" and "e \<in> set (audit_events d)"
proof -
  let ?es = "filter (audit_selected f) (audit_events d)"
  have "e \<in> set (page_of off cnt (sort_key (\<lambda>e. - ae_timestamp e) ?es))"
    using assms(2) by (simp add: list_events_def Let_def)
  then have "e \<in> set ?es"
    using set_page_of by fastforce
  then show "ae_tenant_id e = Some t" and "e \<in> set (audit_events d)"
    using assms(1) by (simp_all add: audit_selected_def)
qed

section \<open>The trail only grows\<close>

definition audit_grows :: "db \<Rightarrow> db \<Rightarrow> bool" where
  "audit_grows d d' \<longleftrightarrow> prefix (audit_events d) (audit_events d')"

interpretation audit_trail: store_relation audit_grows
  by unfold_locales (auto simp: audit_grows_def)

lemma audit_grows_same: "audit_events d' = audit_events d \<Longrightarrow> audit_grows d d'"
  by (simp add: audit_grows_def)

lemma audit_grows_snoc: "audit_events d' = audit_events d @ es \<Longrightarrow> audit_grows d d'"
  by (simp add: audit_grows_def)

section \<open>A write elsewhere\<close>

text \<open>
  Recording an event is a transaction within every store relation that does not look at the
  audit trail; \<open>tx_pre_bind_record\<close> lets the precondition that the transaction has read
  carry over it, since no other table is touched.
\<close>

locale blind_to_audit = store_relation +
  assumes blind: "R d (audit_events_update f d)"
begin

lemma within_record [tx_rules]: "tx_pre R P (record_event a rq)"
  unfolding record_event_def by (intro tx_rules within_bind_write blind)

lemma within_bind_record [tx_rules]:
  "(\<And>x. tx_within R (f x)) \<Longrightarrow> tx_pre R P (bind_tx (record_event a rq) f)"
  by (rule tx_pre_bind [OF within_record])

end

lemma audit_within_record [tx_rules]: "tx_pre audit_grows P (record_event a rq)"
  unfolding record_event_def
  by (intro tx_rules audit_trail.within_bind_write) (simp add: audit_grows_def)

lemma audit_within_bind_record [tx_rules]:
  "(\<And>x. tx_within audit_grows (f x)) \<Longrightarrow> tx_pre audit_grows P (bind_tx (record_event a rq) f)"
  by (rule tx_pre_bind [OF audit_within_record])

lemma keeps_record [atomic_rules]: "keeps (record_event a rq)"
  unfolding record_event_def by (intro atomic_rules)

lemma record_InrE:
  assumes "record_event a rq s = (Inr e, s')"
  obtains "e = audit_event_of a rq (uuid4 (env s) (drawn s)) (server_clock (env s) (txn s))"
    "audit_columns_fit e" "ae_id e \<notin> ae_id ` set (audit_events (current s))"
    "s' = s\<lparr>drawn := Suc (drawn s),
            current := (current s)\<lparr>audit_events := audit_events (current s) @ [e]\<rparr>\<rparr>"
  using assms
  by (auto simp: record_event_def tx_simps bind_tx_def audit_event_of_def split: if_splits)

lemma record_current:
  assumes "record_event a rq s = (Inr e, s')"
  shows "current s' = audit_events_update (\<lambda>es. es @ [e]) (current s)"
  using assms by (elim record_InrE) simp

lemma record_InlE:
  assumes "record_event a rq s = (Inl err, s')"
  shows "err = IntegrityError ''audit_events_pkey'' \<or>
    err = DataError ''value too long for type character varying''"
  using assms by (auto simp: record_event_def tx_simps bind_tx_def split: if_splits)

text \<open>When the audit event of an operation can be written.\<close>

definition can_record :: "audit_args \<Rightarrow> web_request option \<Rightarrow> sess \<Rightarrow> bool" where
  "can_record a rq s \<longleftrightarrow>
     audit_columns_fit (audit_event_of a rq (uuid4 (env s) (drawn s)) (server_clock (env s) (txn s))) \<and>
     uuid4 (env s) (drawn s) \<notin> ae_id ` set (audit_events (current s))"

lemma record_event_apply:
  assumes "can_record a rq s"
  shows "record_event a rq s =
    (let e = audit_event_of a rq (uuid4 (env s) (drawn s)) (server_clock (env s) (txn s))
     in (Inr e, s\<lparr>drawn := Suc (drawn s),
           current := (current s)\<lparr>audit_events := audit_events (current s) @ [e]\<rparr>\<rparr>))"
  using assms
  by (simp add: record_event_def can_record_def bind_tx_def tx_simps Let_def audit_event_of_def)

lemma bind_record_step [tx_run]:
  "bind_tx (record_event a rq) f s =
    (let e = audit_event_of a rq (uuid4 (env s) (drawn s)) (server_clock (env s) (txn s));
         s1 = s\<lparr>drawn := Suc (drawn s)\<rparr>
     in if \<not> audit_columns_fit e then (Inl (DataError ''value too long for type character varying''), s1)
        else if uuid4 (env s) (drawn s) \<in> ae_id ` set (audit_events (current s))
        then (Inl (IntegrityError ''audit_events_pkey''), s1)
        else f e (s1\<lparr>current := audit_events_update (\<lambda>es. es @ [e]) (current s)\<rparr>))"
  by (simp add: record_event_def bind_assoc bind_first_step Let_def)

section \<open>The end of an operation\<close>

text \<open>
  The services end alike: they write the changed row, record the event and commit. What that
  leaves behind is stated once.
\<close>

lemma save_audit_commit_InrE:
  assumes "bind_tx (save_row upd r r') (\<lambda>x. bind_tx (record_event (a x) rq) (\<lambda>_.
    bind_tx commit_tx (\<lambda>_. return_tx (g x)))) s = (Inr y, s')"
  obtains x where "x = touch (server_clock (env s) (txn s)) r r'" "y = g x"
    "committed s' = (upd (put_row x) (current s))\<lparr>audit_events :=
       audit_events (upd (put_row x) (current s)) @ [audit_event_of (a x) rq (uuid4 (env s) (drawn s))
       (server_clock (env s) (txn s))]\<rparr>"
    "current s' = committed s'" "can_record (a x) rq (s\<lparr>current := upd (put_row x) (current s)\<rparr>)"
proof -
  let ?x = "touch (server_clock (env s) (txn s)) r r'"
  let ?s = "s\<lparr>current := upd (put_row ?x) (current s)\<rparr>"
  from assms have "bind_tx (record_event (a ?x) rq) (\<lambda>_. bind_tx commit_tx (\<lambda>_. return_tx (g ?x))) ?s = (Inr y, s')"
    by (simp add: bind_tx_def [of "save_row _ _ _"] save_row_apply Let_def)
  then obtain e s1 where e: "record_event (a ?x) rq ?s = (Inr e, s1)"
    and rest: "y = g ?x" "s' = s1\<lparr>committed := current s1, txn := Suc (txn s1)\<rparr>"
    by (elim bind_InrE) (simp_all add: tx_simps)
  from e rest show thesis
    by (elim record_InrE, intro that [of ?x]) (simp_all add: can_record_def)
qed

lemma add_audit_commit_InrE:
  assumes "bind_tx (add_row upd cs r) (\<lambda>x. bind_tx (record_event (a x) rq) (\<lambda>_.
    bind_tx commit_tx (\<lambda>_. return_tx (g x)))) s = (Inr y, s')"
  obtains x where "x = stamp (server_clock (env s) (txn s)) r" "y = g x" "violated (cs (current s) x) = None"
    "committed s' = (upd (\<lambda>rs. rs @ [x]) (current s))\<lparr>audit_events :=
       audit_events (upd (\<lambda>rs. rs @ [x]) (current s)) @ [audit_event_of (a x) rq (uuid4 (env s) (drawn s))
       (server_clock (env s) (txn s))]\<rparr>"
    "current s' = committed s'"
proof -
  from assms obtain x s0 where x: "add_row upd cs r s = (Inr x, s0)"
    and tail: "bind_tx (record_event (a x) rq) (\<lambda>_. bind_tx commit_tx (\<lambda>_. return_tx (g x))) s0 = (Inr y, s')"
    by (rule bind_InrE)
  from tail obtain e s1 where e: "record_event (a x) rq s0 = (Inr e, s1)"
    and rest: "y = g x" "s' = s1\<lparr>committed := current s1, txn := Suc (txn s1)\<rparr>"
    by (elim bind_InrE) (simp_all add: tx_simps)
  from x e rest show thesis
    by (elim add_row_InrE record_InrE, intro that [of x]) simp_all
qed

text \<open>What is known of the other tables is known after the event is recorded, too.\<close>

context blind_to_audit
begin

lemma within_bind_record_known:
  assumes "\<And>d f. P d \<Longrightarrow> Q (audit_events_update f d)" and "\<And>x. tx_pre R Q (f x)"
  shows "tx_pre R P (bind_tx (record_event a rq) f)"
proof (rule tx_preI)
  fix d s r s'
  assume a: "R d (committed s)" "R d (current s)" "P (current s)" and b: "bind_tx (record_event a rq) f s = (r, s')"
  let ?e = "audit_event_of a rq (uuid4 (env s) (drawn s)) (server_clock (env s) (txn s))"
  let ?s = "s\<lparr>drawn := Suc (drawn s), current := audit_events_update (\<lambda>es. es @ [?e]) (current s)\<rparr>"
  have c: "R d (current ?s)" "Q (current ?s)"
    using a(2) blind R_trans assms(1) [OF a(3)] by auto
  from b consider "s' = s\<lparr>drawn := Suc (drawn s)\<rparr>" | "f ?e ?s = (r, s')"
    unfolding bind_record_step by (auto simp: Let_def split: if_splits)
  then show "R d (committed s') \<and> R d (current s')"
  proof cases
    case 2
    from tx_preD [OF assms(2) 2, of d] a(1) c show ?thesis by simp
  qed (use a in simp)
qed

end

end
