(* ===== verification/Numbering.thy ===== *)
theory Numbering
  imports Repository
begin

text \<open>
  Document numbering, \<^verbatim>\<open>app/services/numbering_service.py\<close>. \<open>next_number\<close> finds or creates
  the counter row of its scope, increments it, commits, and formats the number. A counter
  column is a 32-bit \<^verbatim>\<open>INTEGER\<close>: the increment past \<open>2 ^ 31 - 1\<close> is a data error.
\<close>

section \<open>The counter rows\<close>

definition sequence_scope ::
  "uuid \<Rightarrow> uuid option \<Rightarrow> string \<Rightarrow> string \<Rightarrow> document_sequence \<Rightarrow> bool" where
  "sequence_scope t o' ty fy r \<longleftrightarrow> tenant_id r = t \<and> ds_organization_unit_id r = o' \<and>
     ds_document_type r = ty \<and> ds_fiscal_year_code r = fy"

definition same_scope :: "document_sequence \<Rightarrow> document_sequence \<Rightarrow> bool" where
  "same_scope r x \<longleftrightarrow>
     sequence_scope (tenant_id r) (ds_organization_unit_id r) (ds_document_type r) (ds_fiscal_year_code r) x"

text \<open>
  The constraints of \<^verbatim>\<open>DocumentSequence\<close>. A \<^verbatim>\<open>UniqueConstraint\<close> does not compare rows with
  a \<^verbatim>\<open>NULL\<close> in one of its columns.
\<close>

definition sequence_constraints :: "db \<Rightarrow> document_sequence \<Rightarrow> (string \<times> bool) list" where
  "sequence_constraints d r =
     [(''document_sequences_pkey'', fresh_id (document_sequences d) r),
      (''uq_document_sequence_scope'', ds_organization_unit_id r = None \<or>
         \<not> list_ex (same_scope r) (document_sequences d)),
      (''document_sequences_tenant_id_fkey'', tenant_id r \<in> row_id ` set (tenants d)),
      (''document_sequences_organization_unit_id_fkey'',
         refers (organization_units d) (ds_organization_unit_id r))]"

definition new_sequence ::
  "uuid \<Rightarrow> uuid \<Rightarrow> uuid option \<Rightarrow> string \<Rightarrow> string \<Rightarrow> string \<Rightarrow> nat \<Rightarrow> document_sequence" where
  "new_sequence i t o' ty fy pre pad = \<lparr>created_at = 0, updated_at = 0, row_id = i, tenant_id = t,
     ds_organization_unit_id = o', ds_document_type = ty, ds_fiscal_year_code = fy,
     ds_prefix = pre, ds_last_sequence = 0, ds_padding = pad\<rparr>"

definition max_int32 :: nat where
  "max_int32 = 2147483647"

text \<open>\<^verbatim>\<open>f"{prefix}-{str(n).zfill(padding)}"\<close>.\<close>

definition format_number :: "string \<Rightarrow> nat \<Rightarrow> nat \<Rightarrow> string" where
  "format_number pre n pad = pre @ ''-'' @ zfill (str_nat n) pad"

text \<open>The row of the scope, created by the first call.\<close>

definition sequence_row ::
  "uuid \<Rightarrow> string \<Rightarrow> string \<Rightarrow> string \<Rightarrow> uuid option \<Rightarrow> nat \<Rightarrow> document_sequence tx" where
  "sequence_row t ty fy pre o' pad =
     bind_tx (scalar_tx (\<lambda>d. filter (sequence_scope t o' ty fy) (document_sequences d))) (\<lambda>existing.
     case existing of
       Some r \<Rightarrow> return_tx r
     | None \<Rightarrow>
         bind_tx uuid4_tx (\<lambda>i.
         add_row document_sequences_update sequence_constraints
           (new_sequence i t o' ty fy pre pad)))"

text \<open>\<^verbatim>\<open>UPDATE ... SET last_sequence = last_sequence + 1 ... RETURNING\<close>, then \<^verbatim>\<open>commit\<close>.\<close>

definition increment_sequence :: "document_sequence \<Rightarrow> document_sequence tx" where
  "increment_sequence row =
     bind_tx (require_tx (ds_last_sequence row < max_int32)
       (DataError ''integer out of range'')) (\<lambda>_.
     bind_tx (save_row document_sequences_update row
       (row\<lparr>ds_last_sequence := ds_last_sequence row + 1\<rparr>)) (\<lambda>row'.
     bind_tx commit_tx (\<lambda>_.
     return_tx row')))"

definition next_number ::
  "uuid \<Rightarrow> string \<Rightarrow> string \<Rightarrow> string \<Rightarrow> uuid option \<Rightarrow> nat \<Rightarrow> string tx" where
  "next_number t ty fy pre o' pad =
     bind_tx (sequence_row t ty fy pre o' pad) (\<lambda>row.
     bind_tx (increment_sequence row) (\<lambda>row'.
     return_tx (format_number (ds_prefix row') (ds_last_sequence row') (ds_padding row'))))"

interpretation sequence_table: table document_sequences document_sequences_update
  by unfold_locales simp

section \<open>The format\<close>

lemma format_number_inject:
  "format_number pre m pad = format_number pre n pad' \<Longrightarrow> m = n"
  by (simp add: format_number_def) (metis zfill_str_nat_inject)

lemma length_format_number:
  "n < 10 ^ pad \<Longrightarrow> 0 < pad \<Longrightarrow> length (format_number pre n pad) = length pre + 1 + pad"
  by (simp add: format_number_def length_zfill_str_nat)

section \<open>What a call does\<close>

text \<open>The counter a scope has reached: the last number given out, or zero.\<close>

definition sequence_rows :: "db \<Rightarrow> uuid \<Rightarrow> uuid option \<Rightarrow> string \<Rightarrow> string \<Rightarrow> document_sequence list" where
  "sequence_rows d t o' ty fy = filter (sequence_scope t o' ty fy) (document_sequences d)"

definition counter :: "db \<Rightarrow> uuid \<Rightarrow> uuid option \<Rightarrow> string \<Rightarrow> string \<Rightarrow> nat" where
  "counter d t o' ty fy = (case sequence_rows d t o' ty fy of [] \<Rightarrow> 0 | r # _ \<Rightarrow> ds_last_sequence r)"

text \<open>The prefix and padding of a scope are those of its first call.\<close>

definition scope_format ::
  "db \<Rightarrow> uuid \<Rightarrow> uuid option \<Rightarrow> string \<Rightarrow> string \<Rightarrow> string \<Rightarrow> nat \<Rightarrow> string \<times> nat" where
  "scope_format d t o' ty fy pre pad =
     (case sequence_rows d t o' ty fy of [] \<Rightarrow> (pre, pad) | r # _ \<Rightarrow> (ds_prefix r, ds_padding r))"

lemma sequence_row_InrE:
  assumes "sequence_row t ty fy pre o' pad s = (Inr r, s')"
  obtains (found) "sequence_rows (current s) t o' ty fy = [r]" "s' = s"
  | (created) "sequence_rows (current s) t o' ty fy = []"
      "r = stamp (server_clock (env s) (txn s)) (new_sequence (uuid4 (env s) (drawn s)) t o' ty fy pre pad)"
      "violated (sequence_constraints (current s) r) = None"
      "s' = s\<lparr>drawn := Suc (drawn s),
              current := (current s)\<lparr>document_sequences := document_sequences (current s) @ [r]\<rparr>\<rparr>"
proof -
  from assms obtain existing s1 where
    e: "scalar_tx (\<lambda>d. filter (sequence_scope t o' ty fy) (document_sequences d)) s = (Inr existing, s1)"
    and rest: "(case existing of Some r \<Rightarrow> return_tx r
       | None \<Rightarrow> bind_tx uuid4_tx (\<lambda>i. add_row document_sequences_update sequence_constraints
           (new_sequence i t o' ty fy pre pad))) s1 = (Inr r, s')"
    unfolding sequence_row_def by (elim bind_InrE)
  from e show thesis
  proof (cases rule: scalar_InrE)
    case 1
    with rest have "add_row document_sequences_update sequence_constraints
        (new_sequence (uuid4 (env s) (drawn s)) t o' ty fy pre pad) (s\<lparr>drawn := Suc (drawn s)\<rparr>) = (Inr r, s')"
      by (simp add: bind_tx_def tx_simps)
    then show thesis
      by (cases rule: add_row_InrE) (use 1 in \<open>auto simp: sequence_rows_def intro!: created\<close>)
  next
    case (2 y)
    with rest show thesis by (auto simp: tx_simps sequence_rows_def intro!: found)
  qed
qed

lemma increment_sequence_InrE:
  assumes "increment_sequence r s = (Inr r', s')"
  obtains d where "ds_last_sequence r < max_int32" "ds_last_sequence r' = ds_last_sequence r + 1"
    "row_id r' = row_id r" "ds_prefix r' = ds_prefix r" "ds_padding r' = ds_padding r"
    "same_scope r = same_scope r'"
    "d = (current s)\<lparr>document_sequences := put_row r' (document_sequences (current s))\<rparr>"
    "s' = s\<lparr>current := d, committed := d, txn := Suc (txn s)\<rparr>"
proof -
  let ?u = "r\<lparr>ds_last_sequence := ds_last_sequence r + 1\<rparr>"
  from assms have lim: "ds_last_sequence r < max_int32"
    and r': "r' = touch (server_clock (env s) (txn s)) r ?u"
    and s': "s' = s\<lparr>current := (current s)\<lparr>document_sequences := put_row r' (document_sequences (current s))\<rparr>,
      committed := (current s)\<lparr>document_sequences := put_row r' (document_sequences (current s))\<rparr>,
      txn := Suc (txn s)\<rparr>"
    by (auto simp: increment_sequence_def bind_tx_def tx_simps save_row_apply Let_def split: if_splits)
  have "?u \<noteq> r" by (metis Suc_eq_plus1 document_sequence.select_convs(5) document_sequence.surjective
      document_sequence.update_convs(5) n_not_Suc_n)
  then have u: "r' = ?u\<lparr>updated_at := server_clock (env s) (txn s)\<rparr>" by (simp add: r' touch_def)
  show thesis
    by (rule that [OF lim _ _ _ _ _ refl s']) (simp_all add: u same_scope_def fun_eq_iff sequence_scope_def)
qed

lemma filter_put_row_same:
  assumes "filter P rs = [r]" and "P r'" and "row_id r' = row_id r"
    and "\<And>x. x \<in> set rs \<Longrightarrow> row_id x = row_id r \<Longrightarrow> P x"
  shows "filter P (put_row r' rs) = [r']"
proof -
  have "filter P (put_row r' rs) = map (\<lambda>x. if row_id x = row_id r then r' else x) (filter P rs)"
    using assms(2-4) by (induction rs) auto
  then show ?thesis by (simp add: assms(1))
qed

text \<open>
  One successful call: the scope has one row afterwards, whose counter is one more than
  before; the number is that counter in the format of the scope; the rows of the other scopes
  and every other table are as they were; and the result is committed.
\<close>

definition unique_sequence_ids :: "db \<Rightarrow> bool" where
  "unique_sequence_ids d \<longleftrightarrow> distinct (map row_id (document_sequences d))"

lemma sequence_row_effect:
  assumes "sequence_row t ty fy pre o' pad s = (Inr r, s')" and "unique_sequence_ids (current s)"
  shows "sequence_rows (current s') t o' ty fy = [r]" "unique_sequence_ids (current s')"
    "sequence_scope t o' ty fy r" "r \<in> set (document_sequences (current s'))"
    "ds_last_sequence r = counter (current s) t o' ty fy"
    "(ds_prefix r, ds_padding r) = scope_format (current s) t o' ty fy pre pad"
    "\<not> sequence_scope t2 o2 ty2 fy2 r \<Longrightarrow>
       sequence_rows (current s') t2 o2 ty2 fy2 = sequence_rows (current s) t2 o2 ty2 fy2"
    "current s' = (current s)\<lparr>document_sequences := document_sequences (current s')\<rparr>"
    "committed s' = committed s" "env s' = env s"
proof -
  have all: "sequence_rows (current s') t o' ty fy = [r] \<and> unique_sequence_ids (current s') \<and>
    ds_last_sequence r = counter (current s) t o' ty fy \<and>
    (ds_prefix r, ds_padding r) = scope_format (current s) t o' ty fy pre pad \<and>
    (\<not> sequence_scope t2 o2 ty2 fy2 r \<longrightarrow>
       sequence_rows (current s') t2 o2 ty2 fy2 = sequence_rows (current s) t2 o2 ty2 fy2) \<and>
    current s' = (current s)\<lparr>document_sequences := document_sequences (current s')\<rparr> \<and>
    committed s' = committed s \<and> env s' = env s"
    using assms(1)
    by (cases rule: sequence_row_InrE;
        use assms(2) in \<open>auto simp: sequence_rows_def counter_def scope_format_def unique_sequence_ids_def
          new_sequence_def stamp_def sequence_scope_def sequence_constraints_def fresh_id_def\<close>)
  then show "sequence_rows (current s') t o' ty fy = [r]" "unique_sequence_ids (current s')"
    "ds_last_sequence r = counter (current s) t o' ty fy"
    "(ds_prefix r, ds_padding r) = scope_format (current s) t o' ty fy pre pad"
    "\<not> sequence_scope t2 o2 ty2 fy2 r \<Longrightarrow>
       sequence_rows (current s') t2 o2 ty2 fy2 = sequence_rows (current s) t2 o2 ty2 fy2"
    "current s' = (current s)\<lparr>document_sequences := document_sequences (current s')\<rparr>"
    "committed s' = committed s" "env s' = env s" by simp_all
  have "r \<in> set (sequence_rows (current s') t o' ty fy)" using all by simp
  then show "sequence_scope t o' ty fy r" "r \<in> set (document_sequences (current s'))"
    by (simp_all add: sequence_rows_def)
qed

lemma increment_sequence_effect:
  assumes "increment_sequence r s = (Inr r', s')" and "unique_sequence_ids (current s)"
    and "r \<in> set (document_sequences (current s))"
    and rows: "sequence_rows (current s) t o' ty fy = [r]"
  shows "sequence_rows (current s') t o' ty fy = [r']" "unique_sequence_ids (current s')"
    "\<not> sequence_scope t2 o2 ty2 fy2 r \<Longrightarrow>
       sequence_rows (current s') t2 o2 ty2 fy2 = sequence_rows (current s) t2 o2 ty2 fy2"
    "current s' = (current s)\<lparr>document_sequences := document_sequences (current s')\<rparr>"
    "committed s' = current s'" "env s' = env s"
proof -
  obtain d where 1: "same_scope r = same_scope r'" "row_id r' = row_id r"
    "d = (current s)\<lparr>document_sequences := put_row r' (document_sequences (current s))\<rparr>"
    "s' = s\<lparr>current := d, committed := d, txn := Suc (txn s)\<rparr>"
    using assms(1) by (rule increment_sequence_InrE) blast
  have scope: "sequence_scope a b c e r' = sequence_scope a b c e r" for a b c e
    using 1(1) by (auto simp: same_scope_def fun_eq_iff sequence_scope_def)
  have ids: "distinct (map row_id (document_sequences (current s)))"
    using assms(2) by (simp add: unique_sequence_ids_def)
  have ds: "document_sequences (current s') = put_row r' (document_sequences (current s))"
    using 1(3,4) by simp
  show "sequence_rows (current s') t o' ty fy = [r']"
    unfolding sequence_rows_def ds
  proof (rule filter_put_row_same)
    show "filter (sequence_scope t o' ty fy) (document_sequences (current s)) = [r]"
      using rows by (simp add: sequence_rows_def)
    have "r \<in> set (sequence_rows (current s) t o' ty fy)" using rows by simp
    then have "sequence_scope t o' ty fy r" by (simp add: sequence_rows_def)
    then show "sequence_scope t o' ty fy r'" by (simp add: scope)
    show "x \<in> set (document_sequences (current s)) \<Longrightarrow> row_id x = row_id r \<Longrightarrow> sequence_scope t o' ty fy x" for x
      using distinct_map_same_key [OF ids _ assms(3)] \<open>sequence_scope t o' ty fy r\<close> by metis
  qed (rule 1(2))
  show "unique_sequence_ids (current s')"
    using ids by (simp add: unique_sequence_ids_def ds)
  show "sequence_rows (current s') t2 o2 ty2 fy2 = sequence_rows (current s) t2 o2 ty2 fy2"
    if "\<not> sequence_scope t2 o2 ty2 fy2 r"
    unfolding sequence_rows_def ds using that 1(2) scope by (intro filter_put_row [OF ids assms(3)]) auto
  show "current s' = (current s)\<lparr>document_sequences := document_sequences (current s')\<rparr>"
    "committed s' = current s'" "env s' = env s"
    by (simp_all add: 1(3,4))
qed

lemma next_number_effect:
  assumes run: "next_number t ty fy pre o' pad s = (Inr n, s')" and ids: "unique_sequence_ids (current s)"
    and pp: "scope_format (current s) t o' ty fy pre pad = (p, w)"
  shows "n = format_number p (counter (current s) t o' ty fy + 1) w"
    "\<exists>r. sequence_rows (current s') t o' ty fy = [r] \<and> ds_prefix r = p \<and> ds_padding r = w \<and>
       ds_last_sequence r = counter (current s) t o' ty fy + 1"
    "counter (current s) t o' ty fy < max_int32"
    "(t2, o2, ty2, fy2) \<noteq> (t, o', ty, fy) \<Longrightarrow>
       sequence_rows (current s') t2 o2 ty2 fy2 = sequence_rows (current s) t2 o2 ty2 fy2"
    "current s' = (current s)\<lparr>document_sequences := document_sequences (current s')\<rparr>"
    "committed s' = current s'" "unique_sequence_ids (current s')" "env s' = env s"
proof -
  from run obtain r s1 r' where a: "sequence_row t ty fy pre o' pad s = (Inr r, s1)"
    and b: "increment_sequence r s1 = (Inr r', s')"
    and n: "n = format_number (ds_prefix r') (ds_last_sequence r') (ds_padding r')"
    unfolding next_number_def by (auto simp: tx_simps elim!: bind_InrE)
  note A = sequence_row_effect [OF a ids]
  note B = increment_sequence_effect [OF b A(2) A(4) A(1)]
  from b have r': "ds_last_sequence r < max_int32" "ds_last_sequence r' = ds_last_sequence r + 1"
    "ds_prefix r' = ds_prefix r" "ds_padding r' = ds_padding r"
    by (auto elim: increment_sequence_InrE)
  with A(5,6) pp show "n = format_number p (counter (current s) t o' ty fy + 1) w"
    and "counter (current s) t o' ty fy < max_int32"
    and "\<exists>r. sequence_rows (current s') t o' ty fy = [r] \<and> ds_prefix r = p \<and> ds_padding r = w \<and>
       ds_last_sequence r = counter (current s) t o' ty fy + 1"
    by (simp_all add: n B(1))
  show "sequence_rows (current s') t2 o2 ty2 fy2 = sequence_rows (current s) t2 o2 ty2 fy2"
    if "(t2, o2, ty2, fy2) \<noteq> (t, o', ty, fy)"
  proof -
    have "\<not> sequence_scope t2 o2 ty2 fy2 r" using that A(3) by (auto simp: sequence_scope_def)
    then show ?thesis using A(7) B(3) by simp
  qed
  show "current s' = (current s)\<lparr>document_sequences := document_sequences (current s')\<rparr>"
    by (subst B(4), subst A(8)) simp
  show "committed s' = current s'" "unique_sequence_ids (current s')" "env s' = env s"
    using B(2,5,6) A(10) by simp_all
qed

section \<open>What is left of a failed request\<close>

text \<open>
  \<open>next_number\<close> commits, so a request that fails after it leaves the advanced counter behind.
  \<open>only_numbers\<close> says that a failing request leaves nothing else.
\<close>

definition sequences_differ :: "db \<Rightarrow> db \<Rightarrow> bool" where
  "sequences_differ d d' \<longleftrightarrow> d' = d\<lparr>document_sequences := document_sequences d'\<rparr>"

definition only_numbers :: "'a tx \<Rightarrow> bool" where
  "only_numbers m \<longleftrightarrow> (\<forall>s e s'. m s = (Inl e, s') \<longrightarrow> current s = committed s
     \<longrightarrow> sequences_differ (committed s) (committed s'))"

lemma sequences_differ_refl [simp]: "sequences_differ d d"
  by (simp add: sequences_differ_def)

lemma sequence_row_differ:
  assumes "sequence_row t ty fy pre o' pad s = (Inr r, s')"
  shows "sequences_differ (current s) (current s') \<and> committed s' = committed s"
  using assms by (cases rule: sequence_row_InrE) (auto simp: sequences_differ_def)

lemma next_number_differ:
  assumes "next_number t ty fy pre o' pad s = (Inr n, s')"
  shows "sequences_differ (current s) (current s') \<and> committed s' = current s'"
proof -
  from assms obtain r s1 r' where a: "sequence_row t ty fy pre o' pad s = (Inr r, s1)"
    and b: "increment_sequence r s1 = (Inr r', s')"
    unfolding next_number_def by (auto simp: tx_simps elim!: bind_InrE)
  from b have "current s' = (current s1)\<lparr>document_sequences := document_sequences (current s')\<rparr>"
    and "committed s' = current s'"
    by (auto elim!: increment_sequence_InrE)
  moreover have "current s1 = (current s)\<lparr>document_sequences := document_sequences (current s1)\<rparr>"
    using sequence_row_differ [OF a] by (simp add: sequences_differ_def)
  ultimately show ?thesis unfolding sequences_differ_def
    by (metis db.update_convs(12) db.surjective)
qed

lemma next_number_env:
  assumes "next_number t ty fy pre o' pad s = (Inr n, s')"
  shows "env s' = env s"
proof -
  from assms obtain r s1 r' where "sequence_row t ty fy pre o' pad s = (Inr r, s1)"
    and "increment_sequence r s1 = (Inr r', s')"
    unfolding next_number_def by (auto simp: tx_simps elim!: bind_InrE)
  then show ?thesis by (auto elim!: sequence_row_InrE increment_sequence_InrE)
qed

lemma atomic_next_number [atomic_rules]: "atomic (next_number t ty fy pre o' pad)"
proof -
  have "keeps (sequence_row t ty fy pre o' pad)"
    unfolding sequence_row_def by (intro atomic_rules)
  moreover have "atomic (bind_tx (increment_sequence r) (\<lambda>row'.
      return_tx (format_number (ds_prefix row') (ds_last_sequence row') (ds_padding row'))))" for r
    unfolding increment_sequence_def atomic_def
    by (auto simp: bind_tx_def tx_simps save_row_apply Let_def split: if_splits)
  ultimately show ?thesis unfolding next_number_def by (rule atomic_bind)
qed

lemma only_numbers_next:
  assumes "\<And>n. atomic (f n)"
  shows "only_numbers (bind_tx (next_number t ty fy pre o' pad) f)"
  unfolding only_numbers_def
proof (intro allI impI)
  fix s e s'' assume b: "bind_tx (next_number t ty fy pre o' pad) f s = (Inl e, s'')"
    and eq: "current s = committed s"
  from b show "sequences_differ (committed s) (committed s'')"
  proof (cases rule: bind_InlE)
    case 1
    then have "committed s'' = committed s" using atomic_next_number unfolding atomic_def by blast
    then show ?thesis by simp
  next
    case (2 n s')
    then have "committed s'' = committed s'" using assms unfolding atomic_def by blast
    with next_number_differ [OF 2(1)] eq show ?thesis by simp
  qed
qed

lemma only_numbers_read:
  assumes "reads m" and "\<And>x. only_numbers (f x)"
  shows "only_numbers (bind_tx m f)"
  unfolding only_numbers_def
proof (intro allI impI)
  fix s e s'' assume b: "bind_tx m f s = (Inl e, s'')" and eq: "current s = committed s"
  from b show "sequences_differ (committed s) (committed s'')"
  proof (cases rule: bind_InlE)
    case 1
    with assms(1) have "committed s'' = committed s" unfolding reads_def by blast
    then show ?thesis by simp
  next
    case (2 x s')
    with assms(1) have "current s' = current s" "committed s' = committed s"
      unfolding reads_def by blast+
    with 2(2) assms(2) eq show ?thesis unfolding only_numbers_def by metis
  qed
qed

lemma run_only_numbers:
  assumes "only_numbers m" and "run_tx m e d = (Inl err, d')"
  shows "d' = d\<lparr>document_sequences := document_sequences d'\<rparr>"
proof -
  obtain r s' where m: "m (new_session e d) = (r, s')" by (cases "m (new_session e d)") auto
  with assms(2) have s': "m (new_session e d) = (Inl err, s')" "committed s' = d'"
    by (simp_all add: run_tx_def)
  have "current (new_session e d) = committed (new_session e d)" by simp
  with assms(1) s'(1) have "sequences_differ (committed (new_session e d)) (committed s')"
    unfolding only_numbers_def by blast
  with s'(2) show ?thesis by (simp add: sequences_differ_def)
qed

section \<open>Histories of calls\<close>

text \<open>
  A history: requests one after the other, each a call of \<open>next_number\<close> in a session of its
  own, or anything that leaves the counters alone; the list holds the scope and the number of
  each call that returned.
\<close>

type_synonym scope = "uuid \<times> uuid option \<times> string \<times> string"

inductive numbered :: "db \<Rightarrow> (scope \<times> string) list \<Rightarrow> db \<Rightarrow> bool" for d0 :: db where
  start: "numbered d0 [] d0"
| call: "numbered d0 h d \<Longrightarrow> run_tx (next_number t ty fy pre o' pad) e d = (Inr n, d')
    \<Longrightarrow> numbered d0 (((t, o', ty, fy), n) # h) d'"
| other: "numbered d0 h d \<Longrightarrow> document_sequences d' = document_sequences d \<Longrightarrow> numbered d0 h d'"

inductive_cases numbered_ConsE: "numbered d0 (x # h) d"

definition issued :: "db \<Rightarrow> scope \<Rightarrow> string \<Rightarrow> bool" where
  "issued d sc n \<longleftrightarrow> (case sc of (t, o', ty, fy) \<Rightarrow>
     (\<exists>r k. sequence_rows d t o' ty fy = [r] \<and> k \<le> ds_last_sequence r \<and>
        n = format_number (ds_prefix r) k (ds_padding r)))"

lemma run_next_number:
  assumes "run_tx (next_number t ty fy pre o' pad) e d = (Inr n, d')" and "unique_sequence_ids d"
  obtains s' where "next_number t ty fy pre o' pad (new_session e d) = (Inr n, s')" "current s' = d'"
    "unique_sequence_ids d'"
proof -
  obtain r s' where s': "next_number t ty fy pre o' pad (new_session e d) = (r, s')"
    by (cases "next_number t ty fy pre o' pad (new_session e d)") auto
  with assms(1) have s'': "next_number t ty fy pre o' pad (new_session e d) = (Inr n, s')" "committed s' = d'"
    by (simp_all add: run_tx_def)
  have ids: "unique_sequence_ids (current (new_session e d))"
    using assms(2) by (simp add: new_session_def)
  obtain p w where pw: "scope_format (current (new_session e d)) t o' ty fy pre pad = (p, w)"
    by (cases "scope_format (current (new_session e d)) t o' ty fy pre pad") auto
  from next_number_effect(6,7) [OF s''(1) ids pw] s''(2) show thesis
    by (intro that [OF s''(1)]) auto
qed

lemma numbered_invariant:
  assumes "numbered d0 h d" and "unique_sequence_ids d0"
  shows "unique_sequence_ids d \<and> distinct h \<and> (\<forall>(sc, n)\<in>set h. issued d sc n)"
  using assms(1)
proof induction
  case start
  show ?case using assms(2) by simp
next
  case (other h d d')
  then show ?case
    by (auto simp: unique_sequence_ids_def issued_def sequence_rows_def)
next
  case (call h d t ty fy pre o' pad e n d')
  then have ids: "unique_sequence_ids d" by simp
  obtain s' where s': "next_number t ty fy pre o' pad (new_session e d) = (Inr n, s')"
    "current s' = d'" "unique_sequence_ids d'"
    using run_next_number [OF call.hyps(2) ids] .
  obtain p w where pw: "scope_format d t o' ty fy pre pad = (p, w)"
    by (cases "scope_format d t o' ty fy pre pad") auto
  have cur: "current (new_session e d) = d" by (simp add: new_session_def)
  note E = next_number_effect [OF s'(1), unfolded cur, OF ids pw]
  from E(2) s'(2) obtain r where r: "sequence_rows d' t o' ty fy = [r]" "ds_prefix r = p"
    "ds_padding r = w" "ds_last_sequence r = counter d t o' ty fy + 1" by auto
  have old: "issued d' sc m \<and> (sc = (t, o', ty, fy) \<longrightarrow> m \<noteq> n)" if "(sc, m) \<in> set h" for sc m
  proof (cases "sc = (t, o', ty, fy)")
    case True
    with that call.IH obtain r0 k where k: "sequence_rows d t o' ty fy = [r0]"
      "k \<le> ds_last_sequence r0" "m = format_number (ds_prefix r0) k (ds_padding r0)"
      by (fastforce simp: issued_def)
    then have "ds_prefix r0 = p" "ds_padding r0 = w" "counter d t o' ty fy = ds_last_sequence r0"
      using pw by (simp_all add: scope_format_def counter_def)
    with k E(1) r show ?thesis
      by (auto simp: issued_def True dest: format_number_inject intro!: exI [of _ k])
  next
    case False
    obtain t2 o2 ty2 fy2 where sc: "sc = (t2, o2, ty2, fy2)" by (cases sc) auto
    have "sequence_rows d' t2 o2 ty2 fy2 = sequence_rows d t2 o2 ty2 fy2"
      using E(4) [of t2 o2 ty2 fy2] False unfolding sc s'(2) by blast
    moreover have "issued d sc m" using that call.IH by blast
    ultimately have "issued d' sc m" by (simp add: issued_def sc)
    with False show ?thesis by blast
  qed
  have "issued d' (t, o', ty, fy) n"
    using r E(1) by (auto simp: issued_def)
  with old have "\<forall>(sc, m)\<in>set (((t, o', ty, fy), n) # h). issued d' sc m" by auto
  moreover have "distinct (((t, o', ty, fy), n) # h)"
    using old [of "(t, o', ty, fy)" n] call.IH by auto
  ultimately show ?case using s'(3) by blast
qed

end
