(* ===== verification/Tenant_Isolation.thy ===== *)
theory Tenant_Isolation
  imports Audit_Trail Numbering
begin

text \<open>
  Isolation of tenants as a store relation: \<open>tenant_frame t\<close> relates two databases with the
  same rows of every tenant other than \<open>t\<close>, over the tables whose rows belong to a tenant.
  \<^verbatim>\<open>docs/multi-tenancy.md\<close> asks this of every service; the component theories show for each
  operation of a user of tenant \<open>t\<close> that it stays within the relation. Recording an audit
  event and numbering a document stay within it, so the rules for both are given here.
\<close>

definition tenant_frame :: "uuid \<Rightarrow> db \<Rightarrow> db \<Rightarrow> bool" where
  "tenant_frame t d d' \<longleftrightarrow>
     frame (\<lambda>r. row_id r \<noteq> t) (tenants d) (tenants d') \<and>
     frame (\<lambda>r. u_tenant_id r \<noteq> Some t) (users d) (users d') \<and>
     frame (\<lambda>r. r_tenant_id r \<noteq> Some t) (roles d) (roles d') \<and>
     frame (\<lambda>r. tenant_id r \<noteq> t) (organization_units d) (organization_units d') \<and>
     frame (\<lambda>r. tenant_id r \<noteq> t) (fiscal_years d) (fiscal_years d') \<and>
     frame (\<lambda>r. tenant_id r \<noteq> t) (document_sequences d) (document_sequences d') \<and>
     frame (\<lambda>r. st_tenant_id r \<noteq> Some t) (settings d) (settings d') \<and>
     frame (\<lambda>r. nt_tenant_id r \<noteq> Some t) (notifications d) (notifications d') \<and>
     frame (\<lambda>r. tenant_id r \<noteq> t) (attachments d) (attachments d') \<and>
     (\<forall>e. frame (\<lambda>r. tenant_id r \<noteq> t) (master_data d e) (master_data d' e)) \<and>
     frame (\<lambda>r. tenant_id r \<noteq> t) (weighbridge_tickets d) (weighbridge_tickets d') \<and>
     frame (\<lambda>r. tenant_id r \<noteq> t) (production_entries d) (production_entries d')"

text \<open>The fields of \<open>db\<close> that no claim about tenants is made of.\<close>

lemma tenant_frame_refl [simp]: "tenant_frame t d d"
  by (simp add: tenant_frame_def)

lemma tenant_frame_trans: "tenant_frame t a b \<Longrightarrow> tenant_frame t b c \<Longrightarrow> tenant_frame t a c"
  unfolding tenant_frame_def by (blast intro: frame_trans)

interpretation isolation: store_relation "tenant_frame t"
  by unfold_locales (auto intro: tenant_frame_trans)

text \<open>A write to one table is within the frame when it is within the frame of that table.\<close>

lemma tenant_frame_write:
  "frame (\<lambda>r. row_id r \<noteq> t) (tenants d) (f0 (tenants d)) \<Longrightarrow> tenant_frame t d (tenants_update f0 d)"
  "frame (\<lambda>r. u_tenant_id r \<noteq> Some t) (users d) (f1 (users d)) \<Longrightarrow> tenant_frame t d (users_update f1 d)"
  "frame (\<lambda>r. r_tenant_id r \<noteq> Some t) (roles d) (f2 (roles d)) \<Longrightarrow> tenant_frame t d (roles_update f2 d)"
  "frame (\<lambda>r. tenant_id r \<noteq> t) (organization_units d) (f3 (organization_units d))
     \<Longrightarrow> tenant_frame t d (organization_units_update f3 d)"
  "frame (\<lambda>r. tenant_id r \<noteq> t) (fiscal_years d) (f4 (fiscal_years d))
     \<Longrightarrow> tenant_frame t d (fiscal_years_update f4 d)"
  "frame (\<lambda>r. tenant_id r \<noteq> t) (document_sequences d) (f5 (document_sequences d))
     \<Longrightarrow> tenant_frame t d (document_sequences_update f5 d)"
  "frame (\<lambda>r. st_tenant_id r \<noteq> Some t) (settings d) (f6 (settings d))
     \<Longrightarrow> tenant_frame t d (settings_update f6 d)"
  "frame (\<lambda>r. nt_tenant_id r \<noteq> Some t) (notifications d) (f7 (notifications d))
     \<Longrightarrow> tenant_frame t d (notifications_update f7 d)"
  "frame (\<lambda>r. tenant_id r \<noteq> t) (attachments d) (f8 (attachments d))
     \<Longrightarrow> tenant_frame t d (attachments_update f8 d)"
  "frame (\<lambda>r. tenant_id r \<noteq> t) (weighbridge_tickets d) (f9 (weighbridge_tickets d))
     \<Longrightarrow> tenant_frame t d (weighbridge_tickets_update f9 d)"
  "frame (\<lambda>r. tenant_id r \<noteq> t) (production_entries d) (f10 (production_entries d))
     \<Longrightarrow> tenant_frame t d (production_entries_update f10 d)"
  by (simp_all add: tenant_frame_def)

text \<open>A write to a table that the frame does not speak of.\<close>

lemma tenant_frame_elsewhere [simp]:
  "tenant_frame t d (audit_events_update g0 d)" "tenant_frame t d (user_roles_update g1 d)"
  "tenant_frame t d (scope_assignments_update g2 d)" "tenant_frame t d (role_permissions_update g3 d)"
  "tenant_frame t d (refresh_sessions_update g4 d)" "tenant_frame t d (permissions_update g5 d)"
  "tenant_frame t d (password_reset_tokens_update g6 d)"
  by (simp_all add: tenant_frame_def)

lemma tenant_frame_master_data:
  "frame (\<lambda>r. tenant_id r \<noteq> t) (master_data d e) (f (master_data d e))
     \<Longrightarrow> tenant_frame t d (master_data_update (\<lambda>m. m(e := f (m e))) d)"
  by (simp add: tenant_frame_def)

text \<open>What the frame gives for one row of another tenant.\<close>

lemma frame_foreign_row:
  assumes "frame P rs rs'" and "distinct (map row_id rs)" and "P r"
  shows "r \<in> set rs' \<longleftrightarrow> r \<in> set rs"
proof -
  have "filter P rs' = filter P rs" using assms(1,2) by (simp add: frame_def)
  then have "r \<in> set (filter P rs') \<longleftrightarrow> r \<in> set (filter P rs)" by simp
  with assms(3) show ?thesis by simp
qed

interpretation isolation: blind_to_audit "tenant_frame t"
  by unfold_locales simp

section \<open>Numbering within a store relation\<close>

text \<open>
  A store relation that does not look at the counters allows any call of \<open>next_number\<close>; the
  frame of tenants allows the calls for its own tenant.
\<close>

locale blind_to_sequences = store_relation +
  assumes blind_sequences: "R d (document_sequences_update f d)"
begin

lemma within_next_number [tx_rules]: "tx_pre R P (next_number t ty fy pre o' pad)"
  unfolding next_number_def sequence_row_def increment_sequence_def
  by (intro tx_rules blind_sequences)

lemma within_bind_next_number [tx_rules]:
  "(\<And>x. tx_within R (f x)) \<Longrightarrow> tx_pre R P (bind_tx (next_number t ty fy pre o' pad) f)"
  by (rule tx_pre_bind [OF within_next_number])

end

interpretation audit_trail: blind_to_sequences audit_grows
  by unfold_locales (simp add: audit_grows_def)

lemma tenant_within_sequence_row: "tx_pre (tenant_frame t) P (sequence_row t ty fy pre o' pad)"
  unfolding sequence_row_def
  by (intro tx_rules)
    (auto intro!: tenant_frame_write frame_snoc simp: sequence_constraints_def new_sequence_def)

lemma tenant_within_next_number [tx_rules]:
  "tx_pre (tenant_frame t) P (next_number t ty fy pre o' pad)"
  unfolding tx_pre_def
proof (intro allI impI)
  fix d s r s'
  assume s: "tenant_frame t d (committed s)" "tenant_frame t d (current s)"
    and run: "next_number t ty fy pre o' pad s = (r, s')"
  show "tenant_frame t d (committed s') \<and> tenant_frame t d (current s')"
  proof (cases "sequence_row t ty fy pre o' pad s")
    case (Pair q s1)
    have s1: "tenant_frame t d (committed s1) \<and> tenant_frame t d (current s1)"
      using tx_preD [OF tenant_within_sequence_row Pair s] by simp
    show ?thesis
    proof (cases q)
      case (Inl e)
      with run Pair s1 show ?thesis by (simp add: next_number_def bind_tx_def)
    next
      case (Inr row)
      then have own: "row \<in> set (document_sequences (current s1))" "tenant_id row = t"
        using Pair by (auto elim!: sequence_row_InrE
          dest!: arg_cong [of "sequence_rows _ _ _ _ _" _ set]
          simp: sequence_rows_def sequence_scope_def new_sequence_def)
      have "tx_pre (tenant_frame t) (\<lambda>d. row \<in> set (document_sequences d)) (increment_sequence row)"
        unfolding increment_sequence_def
        by (intro tx_rules) (use own(2) in \<open>auto intro!: tenant_frame_write frame_put_row\<close>)
      then have "tx_pre (tenant_frame t) (\<lambda>d. row \<in> set (document_sequences d))
          (bind_tx (increment_sequence row) (\<lambda>row'.
             return_tx (format_number (ds_prefix row') (ds_last_sequence row') (ds_padding row'))))"
        by (rule tx_pre_bind) (rule tx_rules)
      moreover have "bind_tx (increment_sequence row) (\<lambda>row'.
          return_tx (format_number (ds_prefix row') (ds_last_sequence row') (ds_padding row'))) s1 = (r, s')"
        using run Pair Inr by (simp add: next_number_def bind_tx_def [of "sequence_row _ _ _ _ _ _"])
      ultimately show ?thesis using s1 own(1) by (blast dest: tx_preD)
    qed
  qed
qed

lemma tenant_within_bind_next_number [tx_rules]:
  "(\<And>x. tx_within (tenant_frame t) (f x))
     \<Longrightarrow> tx_pre (tenant_frame t) P (bind_tx (next_number t ty fy pre o' pad) f)"
  by (rule tx_pre_bind [OF tenant_within_next_number])

end
