(* ===== verification/Organization.thy ===== *)
theory Organization
  imports Repository
begin

text \<open>
  The organization-unit hierarchy, \<^verbatim>\<open>app/repositories/organization_repository.py\<close>: the listing
  of a tenant's units and the bounded walk up \<^verbatim>\<open>parent_id\<close>. The walk is compared with its
  specification: the set of the first ten elements of the parent chain, whatever the
  hierarchy looks like (dangling parents and cycles included).
\<close>

definition list_for_tenant :: "env \<Rightarrow> uuid \<Rightarrow> db \<Rightarrow> organization_unit list" where
  "list_for_tenant e t d =
     sort_key (\<lambda>u. collation e (ou_name u)) (filter (\<lambda>u. tenant_id u = t) (organization_units d))"

definition max_depth :: nat where
  "max_depth = 10"

text \<open>\<^verbatim>\<open>select(OrganizationUnit.parent_id).where(OrganizationUnit.id == current_id)\<close>, \<^verbatim>\<open>first()\<close>.\<close>

definition parent_row :: "db \<Rightarrow> uuid \<Rightarrow> uuid option option" where
  "parent_row d i = map_option ou_parent_id (find (\<lambda>u. row_id u = i) (organization_units d))"

function ancestor_loop :: "db \<Rightarrow> uuid set \<Rightarrow> uuid option \<Rightarrow> nat \<Rightarrow> uuid set" where
  "ancestor_loop d ids current_id depth =
     (if depth < max_depth then
        (case current_id of
           None \<Rightarrow> ids
         | Some i \<Rightarrow>
             (case parent_row d i of
                None \<Rightarrow> insert i ids
              | Some p \<Rightarrow> ancestor_loop d (insert i ids) p (Suc depth)))
      else ids)"
  by auto
termination
  by (relation "measure (\<lambda>(d, ids, current_id, depth). max_depth - depth)") auto

declare ancestor_loop.simps [simp del]

definition get_self_and_ancestor_ids :: "db \<Rightarrow> uuid option \<Rightarrow> uuid set" where
  "get_self_and_ancestor_ids d i = (case i of None \<Rightarrow> {} | Some i \<Rightarrow> ancestor_loop d {} (Some i) 0)"

section \<open>The chain of parents\<close>

definition parent_of :: "db \<Rightarrow> uuid \<Rightarrow> uuid option" where
  "parent_of d i = Option.bind (parent_row d i) id"

fun chain :: "db \<Rightarrow> uuid option \<Rightarrow> nat \<Rightarrow> uuid option" where
  "chain d i 0 = i"
| "chain d i (Suc k) = chain d (Option.bind i (parent_of d)) k"

lemma chain_None [simp]: "chain d None k = None"
  by (induction k) simp_all

lemma chain_add: "chain d i (k + n) = chain d (chain d i k) n"
  by (induction k arbitrary: i) simp_all

lemma chain_Suc: "chain d i (Suc k) = Option.bind (chain d i k) (parent_of d)"
  using chain_add [of d i k 1] by simp

lemma shifted_image: "{i. \<exists>k<Suc n. f k = Some i} = {i. f 0 = Some i} \<union> {i. \<exists>k<n. f (Suc k) = Some i}"
  by (auto simp: less_Suc_eq_0_disj)

lemma ancestor_loop_chain:
  "depth \<le> max_depth \<Longrightarrow>
     ancestor_loop d ids i depth = ids \<union> {x. \<exists>k < max_depth - depth. chain d i k = Some x}"
proof (induction "max_depth - depth" arbitrary: ids i depth)
  case 0
  then show ?case by (simp add: ancestor_loop.simps)
next
  case (Suc n)
  then have lt: "depth < max_depth" and n: "max_depth - depth = Suc n" "n = max_depth - Suc depth"
    by simp_all
  show ?case
  proof (cases i)
    case None
    with lt show ?thesis by (simp add: ancestor_loop.simps)
  next
    case (Some c)
    show ?thesis
    proof (cases "parent_row d c")
      case None
      then have "parent_of d c = None" by (simp add: parent_of_def)
      with None Some lt n show ?thesis
        by (auto simp: ancestor_loop.simps [of _ _ "Some c"] shifted_image)
    next
      case (Some p)
      then have p: "parent_of d c = p" by (simp add: parent_of_def)
      have "ancestor_loop d ids i depth = ancestor_loop d (insert c ids) p (Suc depth)"
        using Some \<open>i = Some c\<close> lt by (simp add: ancestor_loop.simps [of _ _ "Some c"])
      also have "\<dots> = insert c ids \<union> {x. \<exists>k < n. chain d p k = Some x}"
        using Suc.hyps(1) [of "Suc depth" "insert c ids" p] n(2) lt by simp
      also have "\<dots> = ids \<union> {x. \<exists>k < max_depth - depth. chain d i k = Some x}"
        unfolding n(1) shifted_image using p \<open>i = Some c\<close> by auto
      finally show ?thesis .
    qed
  qed
qed

lemma ancestors_chain:
  "get_self_and_ancestor_ids d i = {x. \<exists>k < max_depth. chain d i k = Some x}"
  by (cases i) (simp_all add: get_self_and_ancestor_ids_def ancestor_loop_chain)

lemma self_in_ancestors: "i \<in> get_self_and_ancestor_ids d (Some i)"
  by (auto simp: ancestors_chain max_depth_def intro!: exI [of _ 0])

lemma ancestors_of_parent:
  assumes "parent_of d i = Some p" and "x \<in> get_self_and_ancestor_ids d (Some p)"
    and short: "chain d (Some i) max_depth = None"
  shows "x \<in> get_self_and_ancestor_ids d (Some i)"
proof -
  from assms(2) obtain k where k: "k < max_depth" "chain d (Some p) k = Some x"
    by (auto simp: ancestors_chain)
  with assms(1) have c: "chain d (Some i) (Suc k) = Some x" by simp
  have "Suc k \<noteq> max_depth" using c short by (metis option.distinct(1))
  with k(1) have "Suc k < max_depth" by simp
  with c show ?thesis unfolding ancestors_chain by blast
qed

lemma ancestors_finite: "finite (get_self_and_ancestor_ids d i)" "card (get_self_and_ancestor_ids d i) \<le> 10"
proof -
  have sub: "get_self_and_ancestor_ids d i \<subseteq> (\<lambda>k. the (chain d i k)) ` {..<max_depth}"
    by (force simp: ancestors_chain)
  then show "finite (get_self_and_ancestor_ids d i)"
    by (rule finite_subset) simp
  have "card (get_self_and_ancestor_ids d i) \<le> card ((\<lambda>k. the (chain d i k)) ` {..<max_depth})"
    using sub by (intro card_mono) auto
  also have "\<dots> \<le> max_depth"
    using card_image_le [of "{..<max_depth}" "\<lambda>k. the (chain d i k)"] by simp
  finally show "card (get_self_and_ancestor_ids d i) \<le> 10"
    by (simp add: max_depth_def)
qed

end
