(* ===== verification/Authorization.thy ===== *)
theory Authorization
  imports Organization
begin

text \<open>
  Permissions: the security context of \<^verbatim>\<open>app/security/security_context.py\<close>, how
  \<^verbatim>\<open>app/services/security_context_service.py\<close> builds it from the role tables, and the scope
  check of \<^verbatim>\<open>app/services/authorization_service.py\<close> with its specification.
\<close>

section \<open>Security contexts\<close>

record permission_grant =
  permission_code :: string
  scope_level :: ScopeLevel
  grant_unit :: "uuid option"

record security_context =
  cx_user :: user
  cx_tenant_id :: "uuid option"
  cx_is_platform_user :: bool
  cx_role_codes :: "string list"
  cx_grants :: "permission_grant list"

definition permission_codes :: "security_context \<Rightarrow> string set" where
  "permission_codes cx = permission_code ` set (cx_grants cx)"

definition has_permission :: "security_context \<Rightarrow> string \<Rightarrow> bool" where
  "has_permission cx p \<longleftrightarrow> p \<in> permission_codes cx"

definition grants_for :: "security_context \<Rightarrow> string \<Rightarrow> permission_grant list" where
  "grants_for cx p = filter (\<lambda>g. permission_code g = p) (cx_grants cx)"

lemma grants_for_Nil_iff: "grants_for cx p = [] \<longleftrightarrow> \<not> has_permission cx p"
  by (auto simp: grants_for_def has_permission_def permission_codes_def filter_empty_conv)

section \<open>Building the context\<close>

fun unit_type_scope :: "OrganizationUnitType \<Rightarrow> ScopeLevel" where
  "unit_type_scope OrganizationUnitType_BUSINESS_UNIT = ScopeLevel_BUSINESS_UNIT"
| "unit_type_scope OrganizationUnitType_PLANT = ScopeLevel_PLANT"
| "unit_type_scope OrganizationUnitType_SITE = ScopeLevel_SITE"
| "unit_type_scope OrganizationUnitType_DEPARTMENT = ScopeLevel_DEPARTMENT"

text \<open>The relationships \<^verbatim>\<open>UserRole.role\<close> and \<^verbatim>\<open>Role.role_permissions[*].permission\<close>.\<close>

definition role_of :: "db \<Rightarrow> user_role \<Rightarrow> role option" where
  "role_of d ur = find (\<lambda>r. row_id r = ur_role_id ur) (roles d)"

definition permission_of :: "db \<Rightarrow> role_permission \<Rightarrow> permission option" where
  "permission_of d rp = find (\<lambda>p. row_id p = rp_permission_id rp) (permissions d)"

definition role_permission_codes :: "db \<Rightarrow> uuid \<Rightarrow> string list" where
  "role_permission_codes d r =
     concat (map (\<lambda>rp. case permission_of d rp of None \<Rightarrow> [] | Some p \<Rightarrow> [p_code p])
       (filter (\<lambda>rp. rp_role_id rp = r) (role_permissions d)))"

text \<open>The \<^verbatim>\<open>resolved_scopes\<close> of one user role.\<close>

definition resolved_scopes ::
  "db \<Rightarrow> bool \<Rightarrow> user_role \<Rightarrow> (ScopeLevel \<times> uuid option) list" where
  "resolved_scopes d platform ur =
     (let explicit = filter (\<lambda>sa. sa_user_role_id sa = row_id ur) (scope_assignments d) in
      if explicit \<noteq> [] then map (\<lambda>sa. (sa_scope_level sa, sa_organization_unit_id sa)) explicit
      else case ur_organization_unit_id ur of
        Some o' \<Rightarrow>
          [(case find (\<lambda>u. row_id u = o') (organization_units d) of
              Some u \<Rightarrow> unit_type_scope (ou_unit_type u) | None \<Rightarrow> ScopeLevel_DEPARTMENT, Some o')]
      | None \<Rightarrow> [(if platform then ScopeLevel_PLATFORM else ScopeLevel_TENANT, None)])"

definition grants_of_user_role :: "db \<Rightarrow> bool \<Rightarrow> user_role \<Rightarrow> permission_grant list" where
  "grants_of_user_role d platform ur =
     concat (map (\<lambda>p. map (\<lambda>(l, o'). \<lparr>permission_code = p, scope_level = l, grant_unit = o'\<rparr>)
         (resolved_scopes d platform ur))
       (role_permission_codes d (ur_role_id ur)))"

text \<open>The loop over the user roles; a missing role would be an attribute of \<^verbatim>\<open>None\<close>.\<close>

fun context_loop ::
  "db \<Rightarrow> bool \<Rightarrow> user_role list \<Rightarrow> error + (string list \<times> permission_grant list)" where
  "context_loop d platform [] = Inr ([], [])"
| "context_loop d platform (ur # urs) =
     (case role_of d ur of
        None \<Rightarrow> Inl (AttributeError ''code'')
      | Some r \<Rightarrow>
          (case context_loop d platform urs of
             Inl e \<Rightarrow> Inl e
           | Inr (cs, gs) \<Rightarrow>
               Inr (r_code r # cs, grants_of_user_role d platform ur @ gs)))"

definition user_roles_of :: "db \<Rightarrow> user \<Rightarrow> user_role list" where
  "user_roles_of d u = filter (\<lambda>ur. ur_user_id ur = row_id u) (user_roles d)"

definition build_security_context :: "user \<Rightarrow> db \<Rightarrow> error + security_context" where
  "build_security_context u d =
     (let platform = (u_tenant_id u = None \<and> u_is_platform_user u) in
      case context_loop d platform (user_roles_of d u) of
        Inl e \<Rightarrow> Inl e
      | Inr (cs, gs) \<Rightarrow>
          Inr \<lparr>cx_user = u, cx_tenant_id = u_tenant_id u, cx_is_platform_user = platform,
               cx_role_codes = cs, cx_grants = gs\<rparr>)"

lemma context_loop_Inr:
  "context_loop d platform urs = Inr (cs, gs) \<longleftrightarrow>
     (\<forall>ur\<in>set urs. role_of d ur \<noteq> None) \<and> cs = map (\<lambda>ur. r_code (the (role_of d ur))) urs \<and>
     gs = concat (map (grants_of_user_role d platform) urs)"
proof (induction urs arbitrary: cs gs)
  case (Cons ur urs)
  let ?all = "\<forall>ur\<in>set urs. role_of d ur \<noteq> None"
  show ?case
  proof (cases "context_loop d platform urs")
    case (Inl e)
    with Cons.IH have "\<not> ?all" by auto
    with Inl show ?thesis by (auto split: option.splits)
  next
    case (Inr r)
    then obtain cs' gs' where "context_loop d platform urs = Inr (cs', gs')" by (cases r) auto
    moreover from this Cons.IH have "?all" "cs' = map (\<lambda>ur. r_code (the (role_of d ur))) urs"
      "gs' = concat (map (grants_of_user_role d platform) urs)" by blast+
    ultimately show ?thesis by (auto split: option.splits)
  qed
qed auto

text \<open>Where a grant of the context comes from: a permission of a role the user has.\<close>

definition holds_via :: "db \<Rightarrow> user \<Rightarrow> user_role \<Rightarrow> string \<Rightarrow> bool" where
  "holds_via d u ur p \<longleftrightarrow> ur \<in> set (user_roles d) \<and> ur_user_id ur = row_id u \<and>
     (\<exists>rp\<in>set (role_permissions d). rp_role_id rp = ur_role_id ur \<and>
        (\<exists>x. permission_of d rp = Some x \<and> p_code x = p))"

lemma in_role_permission_codes:
  "p \<in> set (role_permission_codes d r) \<longleftrightarrow>
     (\<exists>rp\<in>set (role_permissions d). rp_role_id rp = r \<and>
        (\<exists>x. permission_of d rp = Some x \<and> p_code x = p))"
  by (force simp: role_permission_codes_def split: option.splits)

lemma in_grants_of_user_role:
  "g \<in> set (grants_of_user_role d platform ur) \<longleftrightarrow>
     permission_code g \<in> set (role_permission_codes d (ur_role_id ur)) \<and>
     (scope_level g, grant_unit g) \<in> set (resolved_scopes d platform ur)"
  by (cases g) (force simp: grants_of_user_role_def)

lemma context_grants:
  assumes "build_security_context u d = Inr cx"
  shows "g \<in> set (cx_grants cx) \<longleftrightarrow>
    (\<exists>ur. holds_via d u ur (permission_code g) \<and>
       (scope_level g, grant_unit g) \<in> set (resolved_scopes d (cx_is_platform_user cx) ur))"
proof -
  let ?pf = "u_tenant_id u = None \<and> u_is_platform_user u"
  from assms obtain cs where cx: "context_loop d ?pf (user_roles_of d u) = Inr (cs, cx_grants cx)"
    "cx_is_platform_user cx = ?pf"
    by (auto simp: build_security_context_def Let_def split: sum.splits prod.splits)
  then have gs: "cx_grants cx = concat (map (grants_of_user_role d ?pf) (user_roles_of d u))"
    by (simp add: context_loop_Inr)
  show ?thesis
    unfolding gs cx(2)
    by (auto simp: in_grants_of_user_role in_role_permission_codes holds_via_def user_roles_of_def)
qed

lemma context_identity:
  assumes "build_security_context u d = Inr cx"
  shows "cx_user cx = u" "cx_tenant_id cx = u_tenant_id u"
    "cx_is_platform_user cx \<longleftrightarrow> u_tenant_id u = None \<and> u_is_platform_user u"
  using assms by (auto simp: build_security_context_def Let_def split: sum.splits prod.splits)

section \<open>The scope check\<close>

fun covers_ids :: "uuid option \<Rightarrow> uuid set \<Rightarrow> bool" where
  "covers_ids None ids \<longleftrightarrow> False"
| "covers_ids (Some i) ids \<longleftrightarrow> i \<in> ids"

text \<open>
  The loop over the grants; the third argument is \<^verbatim>\<open>resource_ancestor_ids\<close>, computed at the
  first grant that needs it.
\<close>

fun authorized_loop :: "db \<Rightarrow> uuid option \<Rightarrow> uuid set option \<Rightarrow> permission_grant list \<Rightarrow> bool" where
  "authorized_loop d res ids [] \<longleftrightarrow> False"
| "authorized_loop d res ids (g # gs) \<longleftrightarrow>
     (if scope_level g = ScopeLevel_PLATFORM then True
      else if scope_level g = ScopeLevel_TENANT then True
      else if res = None then authorized_loop d res ids gs
      else if grant_unit g = res then True
      else
        (let ids' = (case ids of None \<Rightarrow> get_self_and_ancestor_ids d res | Some i \<Rightarrow> i) in
         if covers_ids (grant_unit g) ids' then True else authorized_loop d res (Some ids') gs))"

definition is_authorized :: "security_context \<Rightarrow> string \<Rightarrow> uuid option \<Rightarrow> db \<Rightarrow> bool" where
  "is_authorized cx p res d =
     (let gs = grants_for cx p in if gs = [] then False else authorized_loop d res None gs)"

definition authorize :: "security_context \<Rightarrow> string \<Rightarrow> uuid option \<Rightarrow> unit tx" where
  "authorize cx p res =
     bind_tx (query_tx (is_authorized cx p res)) (\<lambda>ok.
     require_tx ok (ForbiddenError ''You do not have permission to perform this action.''))"

text \<open>What the service promises: one grant for the permission covers the resource.\<close>

definition grant_covers :: "db \<Rightarrow> permission_grant \<Rightarrow> uuid option \<Rightarrow> bool" where
  "grant_covers d g res \<longleftrightarrow>
     scope_level g = ScopeLevel_PLATFORM \<or> scope_level g = ScopeLevel_TENANT \<or>
     (\<exists>i k. res = Some i \<and> k < max_depth \<and> grant_unit g \<noteq> None \<and> chain d res k = grant_unit g)"

lemma covers_ids_ancestors:
  "covers_ids g (get_self_and_ancestor_ids d res) \<longleftrightarrow>
     (\<exists>k < max_depth. g \<noteq> None \<and> chain d res k = g)"
  by (cases g) (auto simp: ancestors_chain)

lemma authorized_loop_iff:
  assumes "ids = None \<or> ids = Some (get_self_and_ancestor_ids d res)"
  shows "authorized_loop d res ids gs \<longleftrightarrow> (\<exists>g\<in>set gs. grant_covers d g res)"
  using assms
proof (induction gs arbitrary: ids)
  case (Cons g gs)
  have ids: "(case ids of None \<Rightarrow> get_self_and_ancestor_ids d res | Some i \<Rightarrow> i)
      = get_self_and_ancestor_ids d res"
    using Cons.prems by (cases ids) auto
  show ?case
  proof (cases res)
    case None
    then show ?thesis using Cons.IH [OF Cons.prems] by (simp add: grant_covers_def)
  next
    case (Some i)
    then have "res \<noteq> None" by simp
    have self: "grant_unit g = res \<Longrightarrow> grant_covers d g res"
      using Some by (auto simp: grant_covers_def max_depth_def intro!: exI [of _ 0])
    have rest: "authorized_loop d res (Some (get_self_and_ancestor_ids d res)) gs
        \<longleftrightarrow> (\<exists>g\<in>set gs. grant_covers d g res)"
      by (rule Cons.IH) simp
    have here: "grant_covers d g res \<longleftrightarrow> scope_level g = ScopeLevel_PLATFORM \<or>
        scope_level g = ScopeLevel_TENANT \<or> covers_ids (grant_unit g) (get_self_and_ancestor_ids d res)"
      using Some by (auto simp: grant_covers_def covers_ids_ancestors)
    have "authorized_loop d res ids (g # gs) \<longleftrightarrow>
        grant_covers d g res \<or> authorized_loop d res (Some (get_self_and_ancestor_ids d res)) gs"
      using self here \<open>res \<noteq> None\<close> unfolding authorized_loop.simps ids Let_def by auto
    then show ?thesis by (simp add: rest)
  qed
qed simp

lemma is_authorized_iff:
  "is_authorized cx p res d \<longleftrightarrow>
     (\<exists>g\<in>set (cx_grants cx). permission_code g = p \<and> grant_covers d g res)"
proof (cases "grants_for cx p = []")
  case True
  then show ?thesis
    by (auto simp: is_authorized_def grants_for_def filter_empty_conv)
next
  case False
  then have "is_authorized cx p res d \<longleftrightarrow> (\<exists>g\<in>set (grants_for cx p). grant_covers d g res)"
    by (simp add: is_authorized_def authorized_loop_iff)
  then show ?thesis by (auto simp: grants_for_def)
qed

lemma is_authorized_has_permission: "is_authorized cx p res d \<Longrightarrow> has_permission cx p"
  by (auto simp: is_authorized_iff has_permission_def permission_codes_def)

text \<open>A grant on a unit covers what lies beneath it.\<close>

lemma grant_covers_child:
  assumes "grant_covers d g (Some p)" and "parent_of d i = Some p"
    and short: "chain d (Some i) max_depth = None"
  shows "grant_covers d g (Some i)"
proof (cases "scope_level g = ScopeLevel_PLATFORM \<or> scope_level g = ScopeLevel_TENANT")
  case False
  with assms(1) obtain k where k: "k < max_depth" "grant_unit g \<noteq> None" "chain d (Some p) k = grant_unit g"
    by (auto simp: grant_covers_def)
  then have c: "chain d (Some i) (Suc k) = grant_unit g"
    using assms(2) by simp
  have "Suc k \<noteq> max_depth" using c k(2) short by metis
  with k c show ?thesis unfolding grant_covers_def by (metis Suc_lessI)
qed (auto simp: grant_covers_def)

lemma authorize_Inr_iff:
  "authorize cx p res s = (r, s') \<longleftrightarrow>
     s' = s \<and> r = (if is_authorized cx p res (current s) then Inr ()
       else Inl (ForbiddenError ''You do not have permission to perform this action.''))"
  by (auto simp: authorize_def bind_tx_def tx_simps)

lemma bind_authorize_step [tx_run]:
  "bind_tx (authorize cx p res) f s = (if is_authorized cx p res (current s) then f () s
     else (Inl (ForbiddenError ''You do not have permission to perform this action.''), s))"
  by (simp add: bind_tx_def authorize_def tx_simps)

text \<open>The guards before the writes of an operation; the tail of the transaction is left alone.\<close>

lemmas guard_run = bind_authorize_step bind_first_step(7,8,10,11)

lemma authorize_InrE:
  assumes "authorize cx p res s = (Inr u, s')"
  obtains "is_authorized cx p res (current s)" and "s' = s"
  using assms by (auto simp: authorize_Inr_iff split: if_splits)

lemma keeps_authorize [atomic_rules]: "keeps (authorize cx p res)"
  unfolding authorize_def by (intro atomic_rules)

lemma reads_authorize [reads_only]: "reads (authorize cx p res)"
  unfolding authorize_def by (intro reads_only)

lemma tx_pre_bind_authorize [tx_rules]:
  "tx_pre R P (f ()) \<Longrightarrow> tx_pre R P (bind_tx (authorize cx p res) f)"
  by (rule tx_pre_bind_unknown) (auto simp: authorize_def bind_tx_def tx_simps)

lemma tx_pre_authorize [tx_rules]: "tx_pre R P (authorize cx p res)"
  by (rule tx_preI) (auto simp: authorize_Inr_iff)

text \<open>Every permission of a role the user has is in his context, whatever its scopes.\<close>

text \<open>The context can be built as long as every assignment names a role.\<close>

lemma context_returns:
  "(\<exists>cx. build_security_context u d = Inr cx) \<longleftrightarrow> (\<forall>ur\<in>set (user_roles_of d u). role_of d ur \<noteq> None)"
proof -
  let ?l = "context_loop d (u_tenant_id u = None \<and> u_is_platform_user u) (user_roles_of d u)"
  have "(\<exists>cx. build_security_context u d = Inr cx) \<longleftrightarrow> (\<exists>cs gs. ?l = Inr (cs, gs))"
    by (auto simp: build_security_context_def Let_def split: sum.splits)
  also have "\<dots> \<longleftrightarrow> (\<forall>ur\<in>set (user_roles_of d u). role_of d ur \<noteq> None)"
    unfolding context_loop_Inr by blast
  finally show ?thesis .
qed

lemma context_has_permission:
  assumes "build_security_context u d = Inr cx" and "ur \<in> set (user_roles_of d u)"
    and "p \<in> set (role_permission_codes d (ur_role_id ur))"
  shows "has_permission cx p"
proof -
  let ?platform = "u_tenant_id u = None \<and> u_is_platform_user u"
  from assms(1) obtain cs gs where "context_loop d ?platform (user_roles_of d u) = Inr (cs, gs)" "cx_grants cx = gs"
    by (auto simp: build_security_context_def Let_def split: sum.splits)
  then have g: "cx_grants cx = concat (map (grants_of_user_role d ?platform) (user_roles_of d u))"
    by (simp add: context_loop_Inr)
  have "resolved_scopes d ?platform ur \<noteq> []" by (simp add: resolved_scopes_def Let_def split: option.split)
  then obtain l o' where "(l, o') \<in> set (resolved_scopes d ?platform ur)" by (cases "resolved_scopes d ?platform ur") auto
  with assms(3) have "\<lparr>permission_code = p, scope_level = l, grant_unit = o'\<rparr> \<in> set (grants_of_user_role d ?platform ur)"
    by (force simp: grants_of_user_role_def)
  with g assms(2) show ?thesis by (force simp: has_permission_def permission_codes_def)
qed

end
