(* ===== verification/Weighbridge.thy ===== *)
theory Weighbridge
  imports Tenant_Isolation Authorization
begin

text \<open>
  Weighbridge tickets: \<^verbatim>\<open>app/services/weighbridge_service.py\<close> over
  \<^verbatim>\<open>app/repositories/weighbridge_repository.py\<close> and \<^verbatim>\<open>fiscal_year_repository.py\<close>, with the
  payloads of \<^verbatim>\<open>app/schemas/weighbridge.py\<close>. The life of a ticket is the step relation
  \<open>ticket_step\<close>, and the service is shown to change the ticket table by its steps only.
\<close>

section \<open>Payloads\<close>

record ticket_create =
  tc_organization_unit_id :: "uuid option"
  tc_unit_id :: uuid
  tc_ticket_type :: WeighbridgeTicketType
  tc_vehicle_number :: string
  tc_driver_name :: "string option"
  tc_party_name :: "string option"
  tc_material_description :: string
  tc_first_weight :: rat
  tc_remarks :: "string option"

text \<open>What Pydantic accepts.\<close>

definition valid_ticket_create :: "ticket_create \<Rightarrow> bool" where
  "valid_ticket_create p \<longleftrightarrow>
     1 \<le> length (tc_vehicle_number p) \<and> length (tc_vehicle_number p) \<le> 20 \<and>
     fits 100 (tc_driver_name p) \<and> fits 200 (tc_party_name p) \<and>
     1 \<le> length (tc_material_description p) \<and> length (tc_material_description p) \<le> 200 \<and>
     0 < tc_first_weight p"

definition valid_ticket_complete :: "rat \<Rightarrow> bool" where
  "valid_ticket_complete second_weight \<longleftrightarrow> 0 < second_weight"

section \<open>Repositories\<close>

definition get_active_for_tenant :: "uuid \<Rightarrow> fiscal_year option tx" where
  "get_active_for_tenant t =
     scalar_tx (\<lambda>d. filter (\<lambda>y. tenant_id y = t \<and> fy_is_active y) (fiscal_years d))"

definition get_ticket_in_tenant :: "uuid \<Rightarrow> uuid \<Rightarrow> weighbridge_ticket option tx" where
  "get_ticket_in_tenant i t =
     scalar_tx (\<lambda>d. filter (\<lambda>w. row_id w = i \<and> tenant_id w = t) (weighbridge_tickets d))"

definition list_tickets_in_tenant ::
  "uuid \<Rightarrow> nat \<Rightarrow> nat \<Rightarrow> WeighbridgeTicketStatus option \<Rightarrow> db \<Rightarrow> weighbridge_ticket list \<times> nat" where
  "list_tickets_in_tenant t off cnt st d =
     newest_page (\<lambda>w. tenant_id w = t \<and> (st = None \<or> Some (wt_status w) = st)) off cnt
       (weighbridge_tickets d)"

text \<open>The constraints of \<^verbatim>\<open>WeighbridgeTicket\<close>.\<close>

definition ticket_constraints :: "db \<Rightarrow> weighbridge_ticket \<Rightarrow> (string \<times> bool) list" where
  "ticket_constraints d w =
     [(''weighbridge_tickets_pkey'', fresh_id (weighbridge_tickets d) w),
      (''uq_weighbridge_ticket_number'',
         \<not> list_ex (\<lambda>x. tenant_id x = tenant_id w \<and> wt_ticket_number x = wt_ticket_number w)
           (weighbridge_tickets d)),
      (''weighbridge_tickets_tenant_id_fkey'', tenant_id w \<in> row_id ` set (tenants d)),
      (''weighbridge_tickets_organization_unit_id_fkey'',
         refers (organization_units d) (wt_organization_unit_id w)),
      (''weighbridge_tickets_unit_id_fkey'', wt_unit_id w \<in> row_id ` set (measure_units d)),
      (''weighbridge_tickets_created_by_fkey'', refers (users d) (created_by w)),
      (''weighbridge_tickets_updated_by_fkey'', refers (users d) (updated_by w))]"

section \<open>The service\<close>

definition weighbridge_document_type :: string where
  "weighbridge_document_type = ''WEIGHBRIDGE_TICKET''"

definition ticket_prefix :: string where
  "ticket_prefix = ''WBT''"

definition weighbridge_platform_error :: error where
  "weighbridge_platform_error =
     ForbiddenError ''Platform users must access weighbridge data through a tenant.''"

definition list_tickets ::
  "security_context \<Rightarrow> nat \<Rightarrow> nat \<Rightarrow> WeighbridgeTicketStatus option \<Rightarrow> (weighbridge_ticket list \<times> nat) tx" where
  "list_tickets cx page page_size st =
     bind_tx (some_tx (cx_tenant_id cx) weighbridge_platform_error) (\<lambda>t.
     query_tx (list_tickets_in_tenant t ((page - 1) * page_size) page_size st))"

definition get_ticket :: "security_context \<Rightarrow> uuid \<Rightarrow> weighbridge_ticket tx" where
  "get_ticket cx i =
     bind_tx (some_tx (cx_tenant_id cx) weighbridge_platform_error) (\<lambda>t.
     bind_tx (get_ticket_in_tenant i t) (\<lambda>w.
     some_tx w (NotFoundError ''Weighbridge ticket not found.'')))"

text \<open>
  The object that \<^verbatim>\<open>create_ticket\<close> builds, with the first weight as its column stores it.
\<close>

definition new_ticket ::
  "uuid \<Rightarrow> uuid \<Rightarrow> string \<Rightarrow> uuid \<Rightarrow> int \<Rightarrow> ticket_create \<Rightarrow> weighbridge_ticket" where
  "new_ticket i t n u now p = \<lparr>created_at = 0, updated_at = 0, row_id = i, tenant_id = t,
     created_by = Some u, updated_by = None,
     wt_organization_unit_id = tc_organization_unit_id p, wt_unit_id = tc_unit_id p,
     wt_ticket_number = n, wt_ticket_type = tc_ticket_type p, wt_status = WeighbridgeTicketStatus_OPEN,
     wt_vehicle_number = upper (tc_vehicle_number p), wt_driver_name = tc_driver_name p,
     wt_party_name = tc_party_name p, wt_material_description = tc_material_description p,
     wt_first_weight = numeric_3 (tc_first_weight p), wt_first_weighed_at = now,
     wt_second_weight = None, wt_second_weighed_at = None, wt_net_weight = None,
     wt_remarks = tc_remarks p\<rparr>"

definition ticket_audit ::
  "AuditAction \<Rightarrow> security_context \<Rightarrow> weighbridge_ticket \<Rightarrow> json_dict option \<Rightarrow> audit_args" where
  "ticket_audit act cx w new = \<lparr>aa_action = AuditAction_value act, aa_resource_type = ''weighbridge_ticket'',
     aa_resource_id = Some (uuid_str (row_id w)), aa_tenant_id = cx_tenant_id cx,
     aa_user_id = Some (row_id (cx_user cx)), aa_old_data = None, aa_new_data = new\<rparr>"

text \<open>
  The object returned keeps the weight of the payload: a flush does not read a column back
  that the client wrote, and \<^verbatim>\<open>expire_on_commit\<close> is off.
\<close>

definition create_ticket ::
  "security_context \<Rightarrow> ticket_create \<Rightarrow> web_request option \<Rightarrow> weighbridge_ticket tx" where
  "create_ticket cx p rq =
     bind_tx (some_tx (cx_tenant_id cx) weighbridge_platform_error) (\<lambda>t.
     bind_tx (authorize cx ''weighbridge.create'' (tc_organization_unit_id p)) (\<lambda>_.
     bind_tx (get_active_for_tenant t) (\<lambda>active.
     bind_tx (some_tx active (ConflictError (''No active fiscal year is configured for this tenant. ''
         @ ''An administrator must set one up before recording weighbridge tickets.''))) (\<lambda>fiscal_year.
     bind_tx (next_number t weighbridge_document_type (fy_code fiscal_year) ticket_prefix
         (tc_organization_unit_id p) 6) (\<lambda>ticket_number.
     bind_tx now_tx (\<lambda>now.
     bind_tx uuid4_tx (\<lambda>i.
     bind_tx (require_tx (numeric_12_3 (tc_first_weight p)) (DataError ''numeric field overflow'')) (\<lambda>_.
     bind_tx (add_row weighbridge_tickets_update ticket_constraints
         (new_ticket i t ticket_number (row_id (cx_user cx)) now p)) (\<lambda>ticket.
     bind_tx (record_event (ticket_audit WEIGHBRIDGE_TICKET_CREATED cx ticket
         (Some [(''ticket_number'', VStr (wt_ticket_number ticket)),
                (''ticket_type'', VStr (WeighbridgeTicketType_value (wt_ticket_type ticket)))])) rq) (\<lambda>_.
     bind_tx commit_tx (\<lambda>_.
     return_tx (ticket\<lparr>wt_first_weight := tc_first_weight p\<rparr>))))))))))))"

text \<open>The attributes \<^verbatim>\<open>complete_ticket\<close> sets, as the columns store them.\<close>

definition completed_ticket :: "uuid \<Rightarrow> int \<Rightarrow> rat \<Rightarrow> weighbridge_ticket \<Rightarrow> weighbridge_ticket" where
  "completed_ticket u now second_weight w = w\<lparr>
     wt_second_weight := Some (numeric_3 second_weight), wt_second_weighed_at := Some now,
     wt_net_weight := Some (numeric_3 \<bar>wt_first_weight w - second_weight\<bar>),
     wt_status := WeighbridgeTicketStatus_COMPLETED, updated_by := Some u\<rparr>"

definition complete_ticket ::
  "security_context \<Rightarrow> uuid \<Rightarrow> rat \<Rightarrow> web_request option \<Rightarrow> weighbridge_ticket tx" where
  "complete_ticket cx i second_weight rq =
     bind_tx (get_ticket cx i) (\<lambda>ticket.
     bind_tx (authorize cx ''weighbridge.update'' (wt_organization_unit_id ticket)) (\<lambda>_.
     bind_tx (require_tx (wt_status ticket = WeighbridgeTicketStatus_OPEN)
       (ConflictError (''Ticket is '' @ lower (WeighbridgeTicketStatus_value (wt_status ticket)) @ '', not open.''))) (\<lambda>_.
     bind_tx now_tx (\<lambda>now.
     bind_tx (require_tx (numeric_12_3 second_weight \<and> numeric_12_3 \<bar>wt_first_weight ticket - second_weight\<bar>)
       (DataError ''numeric field overflow'')) (\<lambda>_.
     bind_tx (save_row weighbridge_tickets_update ticket
       (completed_ticket (row_id (cx_user cx)) now second_weight ticket)) (\<lambda>saved.
     bind_tx (record_event (ticket_audit WEIGHBRIDGE_TICKET_COMPLETED cx ticket
       (Some [(''net_weight'', VDecimal \<bar>wt_first_weight ticket - second_weight\<bar>)])) rq) (\<lambda>_.
     bind_tx commit_tx (\<lambda>_.
     return_tx (saved\<lparr>wt_second_weight := Some second_weight,
       wt_net_weight := Some \<bar>wt_first_weight ticket - second_weight\<bar>\<rparr>)))))))))"

definition cancelled_ticket :: "uuid \<Rightarrow> weighbridge_ticket \<Rightarrow> weighbridge_ticket" where
  "cancelled_ticket u w = w\<lparr>wt_status := WeighbridgeTicketStatus_CANCELLED, updated_by := Some u\<rparr>"

definition cancel_ticket ::
  "security_context \<Rightarrow> uuid \<Rightarrow> web_request option \<Rightarrow> weighbridge_ticket tx" where
  "cancel_ticket cx i rq =
     bind_tx (get_ticket cx i) (\<lambda>ticket.
     bind_tx (authorize cx ''weighbridge.update'' (wt_organization_unit_id ticket)) (\<lambda>_.
     bind_tx (require_tx (wt_status ticket \<noteq> WeighbridgeTicketStatus_COMPLETED)
       (ConflictError ''A completed ticket cannot be cancelled.'')) (\<lambda>_.
     bind_tx (save_row weighbridge_tickets_update ticket
       (cancelled_ticket (row_id (cx_user cx)) ticket)) (\<lambda>saved.
     bind_tx (record_event (ticket_audit WEIGHBRIDGE_TICKET_CANCELLED cx ticket None) rq) (\<lambda>_.
     bind_tx commit_tx (\<lambda>_.
     return_tx saved))))))"

section \<open>Reading\<close>

interpretation ticket_table: table weighbridge_tickets weighbridge_tickets_update
  by unfold_locales simp

lemma get_ticket_InrE:
  assumes "get_ticket cx i s = (Inr w, s')"
  obtains t where "cx_tenant_id cx = Some t" "s' = s" "w \<in> set (weighbridge_tickets (current s))"
    "row_id w = i" "tenant_id w = t"
    "filter (\<lambda>w. row_id w = i \<and> tenant_id w = t) (weighbridge_tickets (current s)) = [w]"
  using assms unfolding get_ticket_def get_ticket_in_tenant_def
proof (elim bind_InrE some_InrE)
  fix t s1 x s2
  assume "scalar_tx (\<lambda>d. filter (\<lambda>w. row_id w = i \<and> tenant_id w = t) (weighbridge_tickets d)) s1 = (Inr x, s2)"
    and x: "cx_tenant_id cx = Some t" "s1 = s" "x = Some w" "s' = s2"
  then have f: "filter (\<lambda>w. row_id w = i \<and> tenant_id w = t) (weighbridge_tickets (current s)) = [w]" "s2 = s"
    by (auto elim: scalar_InrE)
  from filter_singletonD [OF f(1)] f x show thesis by (intro that [of t]) simp_all
qed

text \<open>In a database with unique identifiers, what \<open>get_ticket\<close> answers.\<close>

lemma get_ticket_own:
  assumes "cx_tenant_id cx = Some t" and "w \<in> set (weighbridge_tickets (current s))"
    and "row_id w = i" and "tenant_id w = t" and "distinct (map row_id (weighbridge_tickets (current s)))"
  shows "get_ticket cx i s = (Inr w, s)"
proof -
  have "filter (\<lambda>x. row_id x = i \<and> tenant_id x = t) (weighbridge_tickets (current s)) = [w]"
    using filter_key_and_eq [OF assms(5,2), of "\<lambda>x. tenant_id x = t"] assms(3,4) by simp
  then show ?thesis
    by (simp add: get_ticket_def get_ticket_in_tenant_def bind_tx_def tx_simps assms(1))
qed

lemma get_ticket_foreign:
  assumes "cx_tenant_id cx = Some t"
    and "\<And>w. w \<in> set (weighbridge_tickets (current s)) \<Longrightarrow> row_id w = i \<Longrightarrow> tenant_id w \<noteq> t"
  shows "get_ticket cx i s = (Inl (NotFoundError ''Weighbridge ticket not found.''), s)"
proof -
  have "filter (\<lambda>x. row_id x = i \<and> tenant_id x = t) (weighbridge_tickets (current s)) = []"
    using assms(2) by (auto simp: filter_empty_conv)
  then show ?thesis
    by (simp add: get_ticket_def get_ticket_in_tenant_def bind_tx_def tx_simps assms(1))
qed

section \<open>The life of a ticket\<close>

text \<open>The diagram of \<^verbatim>\<open>docs/weighbridge.md\<close>; a cancelled ticket may be cancelled again.\<close>

inductive ticket_status_step :: "WeighbridgeTicketStatus \<Rightarrow> WeighbridgeTicketStatus \<Rightarrow> bool" where
  complete: "ticket_status_step WeighbridgeTicketStatus_OPEN WeighbridgeTicketStatus_COMPLETED"
| cancel: "ticket_status_step WeighbridgeTicketStatus_OPEN WeighbridgeTicketStatus_CANCELLED"
| cancel_again: "ticket_status_step WeighbridgeTicketStatus_CANCELLED WeighbridgeTicketStatus_CANCELLED"

inductive_cases ticket_status_stepE: "ticket_status_step st st'"

text \<open>The steps of a row: what \<open>complete_ticket\<close> and \<open>cancel_ticket\<close> write.\<close>

inductive ticket_step :: "weighbridge_ticket \<Rightarrow> weighbridge_ticket \<Rightarrow> bool" where
  complete: "wt_status w = WeighbridgeTicketStatus_OPEN
     \<Longrightarrow> ticket_step w (touch n w (completed_ticket u now x w))"
| cancel: "wt_status w \<noteq> WeighbridgeTicketStatus_COMPLETED
     \<Longrightarrow> ticket_step w (touch n w (cancelled_ticket u w))"

lemma touch_ticket [simp]:
  "wt_status (touch n w w') = wt_status w'" "wt_first_weight (touch n w w') = wt_first_weight w'"
  "wt_second_weight (touch n w w') = wt_second_weight w'" "wt_net_weight (touch n w w') = wt_net_weight w'"
  "wt_ticket_number (touch n w w') = wt_ticket_number w'"
  "wt_organization_unit_id (touch n w w') = wt_organization_unit_id w'"
  "wt_second_weighed_at (touch n w w') = wt_second_weighed_at w'"
  "created_by (touch n w w') = created_by w'" "updated_by (touch n w w') = updated_by w'"
  for w w' :: weighbridge_ticket
  by (simp_all add: touch_def)

lemma completed_ticket_fields [simp]:
  "row_id (completed_ticket u now x w) = row_id w" "tenant_id (completed_ticket u now x w) = tenant_id w"
  "wt_status (completed_ticket u now x w) = WeighbridgeTicketStatus_COMPLETED"
  "wt_first_weight (completed_ticket u now x w) = wt_first_weight w"
  "wt_second_weight (completed_ticket u now x w) = Some (numeric_3 x)"
  "wt_net_weight (completed_ticket u now x w) = Some (numeric_3 \<bar>wt_first_weight w - x\<bar>)"
  "wt_ticket_number (completed_ticket u now x w) = wt_ticket_number w"
  by (simp_all add: completed_ticket_def)

lemma cancelled_ticket_fields [simp]:
  "row_id (cancelled_ticket u w) = row_id w" "tenant_id (cancelled_ticket u w) = tenant_id w"
  "wt_status (cancelled_ticket u w) = WeighbridgeTicketStatus_CANCELLED"
  "wt_first_weight (cancelled_ticket u w) = wt_first_weight w"
  "wt_second_weight (cancelled_ticket u w) = wt_second_weight w"
  "wt_net_weight (cancelled_ticket u w) = wt_net_weight w"
  "wt_ticket_number (cancelled_ticket u w) = wt_ticket_number w"
  by (simp_all add: cancelled_ticket_def)

lemma ticket_step_refines: "ticket_step w w' \<Longrightarrow> ticket_status_step (wt_status w) (wt_status w')"
proof (induction rule: ticket_step.induct)
  case (cancel w n u)
  then show ?case by (cases "wt_status w") (auto intro: ticket_status_step.intros)
qed (auto intro: ticket_status_step.intros)

lemma ticket_step_keeps:
  "ticket_step w w' \<Longrightarrow> row_id w' = row_id w \<and> tenant_id w' = tenant_id w \<and>
     wt_ticket_number w' = wt_ticket_number w \<and> wt_first_weight w' = wt_first_weight w"
  by (induction rule: ticket_step.induct) simp_all

lemma completed_final: "wt_status w = WeighbridgeTicketStatus_COMPLETED \<Longrightarrow> \<not> ticket_step w w'"
  by (auto elim!: ticket_step.cases)

text \<open>What holds of every ticket.\<close>

definition ticket_ok :: "weighbridge_ticket \<Rightarrow> bool" where
  "ticket_ok w \<longleftrightarrow> three_decimals (wt_first_weight w) \<and> 0 \<le> wt_first_weight w \<and>
     (if wt_status w = WeighbridgeTicketStatus_COMPLETED
      then (case (wt_second_weight w, wt_net_weight w) of
              (Some x, Some y) \<Rightarrow> three_decimals x \<and> three_decimals y \<and> 0 \<le> y \<and>
                 \<bar>y - \<bar>wt_first_weight w - x\<bar>\<bar> \<le> 1 / 1000
            | _ \<Rightarrow> False)
      else wt_second_weight w = None \<and> wt_net_weight w = None)"

lemma net_weight_error:
  "\<bar>numeric_3 \<bar>f - x\<bar> - \<bar>f - numeric_3 x\<bar>\<bar> \<le> 1 / 1000"
  using numeric_3_bound [of x] numeric_3_bound [of "\<bar>f - x\<bar>"] by linarith

lemma ticket_step_ok:
  assumes "ticket_ok w" and "ticket_step w w'"
  shows "ticket_ok w'"
  using assms(2)
proof cases
  case (complete n u now x)
  have "three_decimals (wt_first_weight w) \<and> 0 \<le> wt_first_weight w"
    using assms(1) by (simp add: ticket_ok_def)
  then show ?thesis
    unfolding ticket_ok_def complete(1) touch_ticket completed_ticket_fields
    using net_weight_error [of "wt_first_weight w" x] by (simp add: numeric_3_nonneg)
next
  case (cancel n u)
  with assms(1) show ?thesis by (simp add: ticket_ok_def)
qed

lemma new_ticket_ok: "0 < tc_first_weight p \<Longrightarrow> ticket_ok (stamp n (new_ticket i t m u now p))"
  by (simp add: ticket_ok_def new_ticket_def stamp_def numeric_3_nonneg)

interpretation ticket_lifecycle:
  document_lifecycle weighbridge_tickets weighbridge_tickets_update ticket_step
  by unfold_locales (simp add: ticket_step_keeps)

interpretation ticket_lifecycle: blind_to_audit "evolves weighbridge_tickets ticket_step"
  by unfold_locales (auto intro: ticket_lifecycle.evolves_same)

interpretation ticket_lifecycle: blind_to_sequences "evolves weighbridge_tickets ticket_step"
  by unfold_locales (auto intro: ticket_lifecycle.evolves_same)

lemmas weighbridge_defs = create_ticket_def complete_ticket_def cancel_ticket_def get_ticket_def
  get_ticket_in_tenant_def get_active_for_tenant_def

lemma create_ticket_audit: "tx_within audit_grows (create_ticket cx p rq)"
  unfolding weighbridge_defs by (intro tx_rules) (simp_all add: audit_grows_def)

lemma complete_ticket_audit: "tx_within audit_grows (complete_ticket cx i x rq)"
  unfolding weighbridge_defs by (intro tx_rules) (simp_all add: audit_grows_def)

lemma cancel_ticket_audit: "tx_within audit_grows (cancel_ticket cx i rq)"
  unfolding weighbridge_defs by (intro tx_rules) (simp_all add: audit_grows_def)

lemma create_ticket_lifecycle:
  "tx_within (evolves weighbridge_tickets ticket_step) (create_ticket cx p rq)"
  unfolding weighbridge_defs
  by (intro tx_rules) (auto simp: ticket_constraints_def intro!: ticket_lifecycle.evolves_snoc)

lemma complete_ticket_lifecycle:
  "tx_within (evolves weighbridge_tickets ticket_step) (complete_ticket cx i x rq)"
  unfolding weighbridge_defs
  by (intro tx_rules)
    (auto dest!: filter_singletonD
      intro!: ticket_lifecycle.evolves_put_row r_into_rtranclp ticket_step.complete)

lemma cancel_ticket_lifecycle:
  "tx_within (evolves weighbridge_tickets ticket_step) (cancel_ticket cx i rq)"
  unfolding weighbridge_defs
  by (intro tx_rules)
    (auto dest!: filter_singletonD
      intro!: ticket_lifecycle.evolves_put_row r_into_rtranclp ticket_step.cancel)

lemma create_ticket_isolation:
  assumes "cx_tenant_id cx = Some t"
  shows "tx_within (tenant_frame t) (create_ticket cx p rq)"
  unfolding weighbridge_defs assms some_tx_def option.case bind_return
  by (intro tx_rules)
    (auto simp: ticket_constraints_def new_ticket_def intro!: tenant_frame_write frame_snoc)

lemma complete_ticket_isolation:
  assumes "cx_tenant_id cx = Some t"
  shows "tx_within (tenant_frame t) (complete_ticket cx i x rq)"
  unfolding weighbridge_defs assms some_tx_def option.case bind_return
  by (intro tx_rules) (auto dest!: filter_singletonD intro!: tenant_frame_write frame_put_row)

lemma cancel_ticket_isolation:
  assumes "cx_tenant_id cx = Some t"
  shows "tx_within (tenant_frame t) (cancel_ticket cx i rq)"
  unfolding weighbridge_defs assms some_tx_def option.case bind_return
  by (intro tx_rules) (auto dest!: filter_singletonD intro!: tenant_frame_write frame_put_row)

lemma complete_ticket_atomic: "atomic (complete_ticket cx i x rq)"
  unfolding weighbridge_defs by (intro atomic_rules)

lemma cancel_ticket_atomic: "atomic (cancel_ticket cx i rq)"
  unfolding weighbridge_defs by (intro atomic_rules)

lemma create_ticket_only_numbers: "only_numbers (create_ticket cx p rq)"
  unfolding weighbridge_defs
  by (intro only_numbers_read only_numbers_next atomic_rules reads_only)

section \<open>What the operations do\<close>

lemma complete_ticket_not_open:
  assumes "get_ticket cx i s = (Inr w, s)"
    and "is_authorized cx ''weighbridge.update'' (wt_organization_unit_id w) (current s)"
    and "wt_status w \<noteq> WeighbridgeTicketStatus_OPEN"
  shows "complete_ticket cx i x rq s = (Inl (ConflictError
    (''Ticket is '' @ lower (WeighbridgeTicketStatus_value (wt_status w)) @ '', not open.'')), s)"
  using assms by (simp add: complete_ticket_def bind_tx_def authorize_def tx_simps)

lemma complete_ticket_forbidden:
  assumes "get_ticket cx i s = (Inr w, s)"
    and "\<not> is_authorized cx ''weighbridge.update'' (wt_organization_unit_id w) (current s)"
  shows "complete_ticket cx i x rq s =
    (Inl (ForbiddenError ''You do not have permission to perform this action.''), s)"
  using assms by (simp add: complete_ticket_def bind_tx_def authorize_def tx_simps)

text \<open>What a completed and what a cancelled ticket leave behind.\<close>

definition saved_and_audited ::
  "weighbridge_ticket \<Rightarrow> audit_args \<Rightarrow> web_request option \<Rightarrow> sess \<Rightarrow> db" where
  "saved_and_audited w a rq s = (weighbridge_tickets_update (put_row w) (current s))
     \<lparr>audit_events := audit_events (current s) @
        [audit_event_of a rq (uuid4 (env s) (drawn s)) (server_clock (env s) (txn s))]\<rparr>"

lemma saved_and_audited_sel [simp]:
  "weighbridge_tickets (saved_and_audited w a rq s) = put_row w (weighbridge_tickets (current s))"
  "audit_events (saved_and_audited w a rq s) = audit_events (current s) @
     [audit_event_of a rq (uuid4 (env s) (drawn s)) (server_clock (env s) (txn s))]"
  by (simp_all add: saved_and_audited_def)

lemma complete_ticket_Inr:
  assumes "complete_ticket cx i x rq s = (Inr w', s')"
  obtains w stored where "get_ticket cx i s = (Inr w, s)" "wt_status w = WeighbridgeTicketStatus_OPEN"
    "is_authorized cx ''weighbridge.update'' (wt_organization_unit_id w) (current s)"
    "stored = touch (server_clock (env s) (txn s)) w
       (completed_ticket (row_id (cx_user cx)) (clock (env s) (ticks s)) x w)"
    "committed s' = saved_and_audited stored (ticket_audit WEIGHBRIDGE_TICKET_COMPLETED cx w
       (Some [(''net_weight'', VDecimal \<bar>wt_first_weight w - x\<bar>)])) rq s"
    "w' = stored\<lparr>wt_second_weight := Some x, wt_net_weight := Some \<bar>wt_first_weight w - x\<bar>\<rparr>"
proof -
  from assms obtain w where g: "get_ticket cx i s = (Inr w, s)"
    unfolding complete_ticket_def by (elim bind_InrE) (auto elim: get_ticket_InrE)
  from assms show thesis
    unfolding complete_ticket_def bind_apply_Inr [where m = "get_ticket cx i" and s = s, OF g] guard_run
    by (auto split: if_splits elim!: save_audit_commit_InrE intro!: that [OF g] simp: saved_and_audited_def)
qed

lemma cancel_ticket_Inr:
  assumes "cancel_ticket cx i rq s = (Inr w', s')"
  obtains w where "get_ticket cx i s = (Inr w, s)" "wt_status w \<noteq> WeighbridgeTicketStatus_COMPLETED"
    "is_authorized cx ''weighbridge.update'' (wt_organization_unit_id w) (current s)"
    "w' = touch (server_clock (env s) (txn s)) w (cancelled_ticket (row_id (cx_user cx)) w)"
    "committed s' = saved_and_audited w' (ticket_audit WEIGHBRIDGE_TICKET_CANCELLED cx w None) rq s"
proof -
  from assms obtain w where g: "get_ticket cx i s = (Inr w, s)"
    unfolding cancel_ticket_def by (elim bind_InrE) (auto elim: get_ticket_InrE)
  from assms show thesis
    unfolding cancel_ticket_def bind_apply_Inr [where m = "get_ticket cx i" and s = s, OF g] guard_run
    by (auto split: if_splits elim!: save_audit_commit_InrE intro!: that [OF g] simp: saved_and_audited_def)
qed

text \<open>What a created ticket leaves behind.\<close>

lemma create_ticket_Inr:
  assumes "create_ticket cx p rq s = (Inr w', s')"
  obtains t fy n s1 stored where "cx_tenant_id cx = Some t"
    "is_authorized cx ''weighbridge.create'' (tc_organization_unit_id p) (current s)"
    "filter (\<lambda>y. tenant_id y = t \<and> fy_is_active y) (fiscal_years (current s)) = [fy]"
    "next_number t weighbridge_document_type (fy_code fy) ticket_prefix
       (tc_organization_unit_id p) 6 s = (Inr n, s1)"
    "stored = stamp (server_clock (env s1) (txn s1))
       (new_ticket (uuid4 (env s1) (drawn s1)) t n (row_id (cx_user cx)) (clock (env s1) (ticks s1)) p)"
    "violated (ticket_constraints (current s1) stored) = None" "numeric_12_3 (tc_first_weight p)"
    "weighbridge_tickets (committed s') = weighbridge_tickets (current s1) @ [stored]"
    "\<exists>e. audit_events (committed s') = audit_events (current s1) @ [e] \<and>
       ae_action e = ''WEIGHBRIDGE_TICKET_CREATED'' \<and> ae_resource_id e = Some (uuid_str (row_id stored))"
    "w' = stored\<lparr>wt_first_weight := tc_first_weight p\<rparr>"
proof -
  from assms obtain t active fy n s1 where t: "cx_tenant_id cx = Some t"
    and a: "is_authorized cx ''weighbridge.create'' (tc_organization_unit_id p) (current s)"
    and f: "filter (\<lambda>y. tenant_id y = t \<and> fy_is_active y) (fiscal_years (current s)) = [fy]"
    and n: "next_number t weighbridge_document_type (fy_code fy) ticket_prefix
       (tc_organization_unit_id p) 6 s = (Inr n, s1)"
    and tail: "bind_tx now_tx (\<lambda>now. bind_tx uuid4_tx (\<lambda>i.
     bind_tx (require_tx (numeric_12_3 (tc_first_weight p)) (DataError ''numeric field overflow'')) (\<lambda>_.
     bind_tx (add_row weighbridge_tickets_update ticket_constraints
         (new_ticket i t n (row_id (cx_user cx)) now p)) (\<lambda>ticket.
     bind_tx (record_event (ticket_audit WEIGHBRIDGE_TICKET_CREATED cx ticket
         (Some [(''ticket_number'', VStr (wt_ticket_number ticket)),
                (''ticket_type'', VStr (WeighbridgeTicketType_value (wt_ticket_type ticket)))])) rq) (\<lambda>_.
     bind_tx commit_tx (\<lambda>_.
     return_tx (ticket\<lparr>wt_first_weight := tc_first_weight p\<rparr>))))))) s1 = (Inr w', s')"
    unfolding create_ticket_def get_active_for_tenant_def
    by (elim bind_InrE [of "some_tx _ _"] bind_InrE [of "authorize _ _ _"] bind_InrE [of "scalar_tx _"]
        bind_InrE [of "next_number _ _ _ _ _ _"] some_InrE authorize_InrE scalar_InrE) auto
  from tail show thesis
    unfolding guard_run
    by (auto split: if_splits elim!: add_audit_commit_InrE
        intro!: that [OF t a f n] simp: ticket_audit_def audit_event_of_def)
qed

lemma create_ticket_taken:
  assumes "cx_tenant_id cx = Some t"
    and "is_authorized cx ''weighbridge.create'' (tc_organization_unit_id p) (current s)"
    and "filter (\<lambda>y. tenant_id y = t \<and> fy_is_active y) (fiscal_years (current s)) = [fy]"
    and nn: "next_number t weighbridge_document_type (fy_code fy) ticket_prefix
       (tc_organization_unit_id p) 6 s = (Inr n, s1)"
    and "numeric_12_3 (tc_first_weight p)"
    and fresh: "uuid4 (env s1) (drawn s1) \<notin> row_id ` set (weighbridge_tickets (current s))"
    and taken: "x \<in> set (weighbridge_tickets (current s))" "tenant_id x = t" "wt_ticket_number x = n"
  shows "fst (create_ticket cx p rq s) = Inl (IntegrityError ''uq_weighbridge_ticket_number'')"
    and "committed (snd (create_ticket cx p rq s)) = current s1"
proof -
  have same: "weighbridge_tickets (current s1) = weighbridge_tickets (current s)"
    using next_number_differ [OF nn] unfolding sequences_differ_def
    by (metis (no_types, lifting) db.ext_inject db.surjective db.update_convs(12))
  have c: "committed s1 = current s1" using next_number_differ [OF nn] by simp
  have v: "violated (ticket_constraints (current s1)
      (stamp k (new_ticket (uuid4 (env s1) (drawn s1)) t n u now p))) = Some ''uq_weighbridge_ticket_number''" for k u now
    using fresh taken
    by (auto simp: ticket_constraints_def violated_def same fresh_id_def new_ticket_def stamp_def list_ex_iff)
  have "create_ticket cx p rq s = (Inl (IntegrityError ''uq_weighbridge_ticket_number''),
      s1\<lparr>ticks := Suc (ticks s1), drawn := Suc (drawn s1)\<rparr>)"
    using assms(1-3,5) v
    by (simp add: create_ticket_def get_active_for_tenant_def tx_run nn bind_tx_def [of "next_number _ _ _ _ _ _"])
  with c show "fst (create_ticket cx p rq s) = Inl (IntegrityError ''uq_weighbridge_ticket_number'')"
    and "committed (snd (create_ticket cx p rq s)) = current s1"
    by simp_all
qed

section \<open>The invariant of the table\<close>

definition ticket_table_ok :: "db \<Rightarrow> bool" where
  "ticket_table_ok d \<longleftrightarrow> distinct (map row_id (weighbridge_tickets d)) \<and>
     distinct (map (\<lambda>w. (tenant_id w, wt_ticket_number w)) (weighbridge_tickets d)) \<and>
     (\<forall>w\<in>set (weighbridge_tickets d). ticket_ok w)"

interpretation ticket_invariant: blind_to_audit "preserves ticket_table_ok"
  by unfold_locales (simp add: preserves_def ticket_table_ok_def)

interpretation ticket_invariant: blind_to_sequences "preserves ticket_table_ok"
  by unfold_locales (simp add: preserves_def ticket_table_ok_def)

lemma ticket_table_ok_snoc:
  assumes "violated (ticket_constraints d w) = None" and "ticket_ok w"
  shows "preserves ticket_table_ok d (weighbridge_tickets_update (\<lambda>ws. ws @ [w]) d)"
  using assms
  by (auto simp: preserves_def ticket_table_ok_def ticket_constraints_def fresh_id_def list_ex_iff)

lemma ticket_table_ok_step:
  assumes "w \<in> set (weighbridge_tickets d)" and "ticket_step w w'"
  shows "preserves ticket_table_ok d (weighbridge_tickets_update (put_row w') d)"
  unfolding preserves_def
proof
  assume ok: "ticket_table_ok d"
  then have ids: "distinct (map row_id (weighbridge_tickets d))" by (simp add: ticket_table_ok_def)
  have keep: "row_id w' = row_id w" "(tenant_id w', wt_ticket_number w') = (tenant_id w, wt_ticket_number w)"
    using ticket_step_keeps [OF assms(2)] by simp_all
  have "ticket_ok w'" using ticket_step_ok [OF _ assms(2)] ok assms(1) by (simp add: ticket_table_ok_def)
  with ok show "ticket_table_ok (weighbridge_tickets_update (put_row w') d)"
    using map_put_row [where f = "\<lambda>w. (tenant_id w, wt_ticket_number w)", OF ids assms(1) keep]
    by (auto simp: ticket_table_ok_def dest!: in_put_row)
qed

lemma create_ticket_invariant:
  "valid_ticket_create p \<Longrightarrow> tx_within (preserves ticket_table_ok) (create_ticket cx p rq)"
  unfolding weighbridge_defs
  by (intro tx_rules) (auto intro!: ticket_table_ok_snoc new_ticket_ok simp: valid_ticket_create_def)

lemma complete_ticket_invariant: "tx_within (preserves ticket_table_ok) (complete_ticket cx i x rq)"
  unfolding weighbridge_defs
  by (intro tx_rules) (auto dest!: filter_singletonD intro!: ticket_table_ok_step ticket_step.complete)

lemma cancel_ticket_invariant: "tx_within (preserves ticket_table_ok) (cancel_ticket cx i rq)"
  unfolding weighbridge_defs
  by (intro tx_rules) (auto dest!: filter_singletonD intro!: ticket_table_ok_step ticket_step.cancel)

end
