(* ===== verification/Production.thy ===== *)
theory Production
  imports Weighbridge
begin

text \<open>
  Production entries: \<^verbatim>\<open>app/services/production_service.py\<close> over
  \<^verbatim>\<open>app/repositories/production_repository.py\<close>, with the payloads of
  \<^verbatim>\<open>app/schemas/production.py\<close>. The same contract as for tickets: the rows change by the
  steps \<open>entry_step\<close> only, and a cancelled entry is final.
\<close>

section \<open>Payloads\<close>

record output_input =
  oi_product_description :: string
  oi_quantity :: rat
  oi_unit_id :: uuid

record entry_create =
  ec_organization_unit_id :: "uuid option"
  ec_production_date :: date
  ec_shift :: ProductionShift
  ec_raw_material_description :: string
  ec_raw_material_quantity :: rat
  ec_raw_material_unit_id :: uuid
  ec_remarks :: "string option"
  ec_outputs :: "output_input list"

definition valid_output_input :: "output_input \<Rightarrow> bool" where
  "valid_output_input p \<longleftrightarrow> 1 \<le> length (oi_product_description p) \<and>
     length (oi_product_description p) \<le> 200 \<and> 0 < oi_quantity p"

definition valid_entry_create :: "entry_create \<Rightarrow> bool" where
  "valid_entry_create p \<longleftrightarrow> 1 \<le> length (ec_raw_material_description p) \<and>
     length (ec_raw_material_description p) \<le> 200 \<and> 0 < ec_raw_material_quantity p \<and>
     1 \<le> length (ec_outputs p) \<and> list_all valid_output_input (ec_outputs p)"

section \<open>Repository\<close>

definition get_entry_in_tenant :: "uuid \<Rightarrow> uuid \<Rightarrow> production_entry option tx" where
  "get_entry_in_tenant i t =
     scalar_tx (\<lambda>d. filter (\<lambda>x. row_id x = i \<and> tenant_id x = t) (production_entries d))"

definition list_entries_in_tenant ::
  "uuid \<Rightarrow> nat \<Rightarrow> nat \<Rightarrow> ProductionEntryStatus option \<Rightarrow> db \<Rightarrow> production_entry list \<times> nat" where
  "list_entries_in_tenant t off cnt st d =
     newest_page (\<lambda>x. tenant_id x = t \<and> (st = None \<or> Some (pe_status x) = st)) off cnt
       (production_entries d)"

definition entry_constraints :: "db \<Rightarrow> production_entry \<Rightarrow> (string \<times> bool) list" where
  "entry_constraints d x =
     [(''production_entries_pkey'', fresh_id (production_entries d) x),
      (''uq_production_entry_number'',
         \<not> list_ex (\<lambda>y. tenant_id y = tenant_id x \<and> pe_entry_number y = pe_entry_number x)
           (production_entries d)),
      (''production_entries_tenant_id_fkey'', tenant_id x \<in> row_id ` set (tenants d)),
      (''production_entries_organization_unit_id_fkey'',
         refers (organization_units d) (pe_organization_unit_id x)),
      (''production_entries_raw_material_unit_id_fkey'',
         pe_raw_material_unit_id x \<in> row_id ` set (measure_units d)),
      (''production_entries_created_by_fkey'', refers (users d) (created_by x)),
      (''production_entries_updated_by_fkey'', refers (users d) (updated_by x))]"

text \<open>The constraints of \<^verbatim>\<open>ProductionOutput\<close> on the outputs of an entry just inserted.\<close>

definition outputs_ok :: "production_entry \<Rightarrow> db \<Rightarrow> bool" where
  "outputs_ok x d \<longleftrightarrow>
     distinct (map row_id (concat (map pe_outputs (production_entries d)))) \<and>
     list_all (\<lambda>p. po_unit_id p \<in> row_id ` set (measure_units d)) (pe_outputs x)"

section \<open>The service\<close>

definition production_document_type :: string where
  "production_document_type = ''PRODUCTION_ENTRY''"

definition entry_prefix :: string where
  "entry_prefix = ''PRD''"

definition production_platform_error :: error where
  "production_platform_error =
     ForbiddenError ''Platform users must access production data through a tenant.''"

definition list_entries ::
  "security_context \<Rightarrow> nat \<Rightarrow> nat \<Rightarrow> ProductionEntryStatus option \<Rightarrow> (production_entry list \<times> nat) tx" where
  "list_entries cx page page_size st =
     bind_tx (some_tx (cx_tenant_id cx) production_platform_error) (\<lambda>t.
     query_tx (list_entries_in_tenant t ((page - 1) * page_size) page_size st))"

definition get_entry :: "security_context \<Rightarrow> uuid \<Rightarrow> production_entry tx" where
  "get_entry cx i =
     bind_tx (some_tx (cx_tenant_id cx) production_platform_error) (\<lambda>t.
     bind_tx (get_entry_in_tenant i t) (\<lambda>x.
     some_tx x (NotFoundError ''Production entry not found.'')))"

definition new_output :: "uuid \<Rightarrow> int \<Rightarrow> output_input \<Rightarrow> production_output" where
  "new_output i n p = \<lparr>created_at = n, updated_at = n, row_id = i,
     po_product_description = oi_product_description p, po_quantity = numeric_3 (oi_quantity p),
     po_unit_id = oi_unit_id p\<rparr>"

fun new_outputs :: "output_input list \<Rightarrow> production_output list tx" where
  "new_outputs [] = return_tx []"
| "new_outputs (p # ps) =
     bind_tx uuid4_tx (\<lambda>i.
     bind_tx server_now_tx (\<lambda>n.
     bind_tx (new_outputs ps) (\<lambda>xs.
     return_tx (new_output i n p # xs))))"

definition new_entry ::
  "uuid \<Rightarrow> uuid \<Rightarrow> string \<Rightarrow> uuid \<Rightarrow> production_output list \<Rightarrow> entry_create \<Rightarrow> production_entry" where
  "new_entry i t n u os p = \<lparr>created_at = 0, updated_at = 0, row_id = i, tenant_id = t,
     created_by = Some u, updated_by = None,
     pe_organization_unit_id = ec_organization_unit_id p,
     pe_raw_material_unit_id = ec_raw_material_unit_id p, pe_entry_number = n,
     pe_production_date = ec_production_date p, pe_shift = ec_shift p,
     pe_status = ProductionEntryStatus_DRAFT,
     pe_raw_material_description = ec_raw_material_description p,
     pe_raw_material_quantity = numeric_3 (ec_raw_material_quantity p),
     pe_remarks = ec_remarks p, pe_outputs = os\<rparr>"

definition entry_audit ::
  "AuditAction \<Rightarrow> security_context \<Rightarrow> production_entry \<Rightarrow> json_dict option \<Rightarrow> audit_args" where
  "entry_audit act cx x new = \<lparr>aa_action = AuditAction_value act, aa_resource_type = ''production_entry'',
     aa_resource_id = Some (uuid_str (row_id x)), aa_tenant_id = cx_tenant_id cx,
     aa_user_id = Some (row_id (cx_user cx)), aa_old_data = None, aa_new_data = new\<rparr>"

text \<open>The object returned keeps the quantities of the payload.\<close>

definition payload_quantities :: "entry_create \<Rightarrow> production_entry \<Rightarrow> production_entry" where
  "payload_quantities p x = x\<lparr>pe_raw_material_quantity := ec_raw_material_quantity p,
     pe_outputs := map (\<lambda>(o', q). o'\<lparr>po_quantity := oi_quantity q\<rparr>) (zip (pe_outputs x) (ec_outputs p))\<rparr>"

definition create_entry ::
  "security_context \<Rightarrow> entry_create \<Rightarrow> web_request option \<Rightarrow> production_entry tx" where
  "create_entry cx p rq =
     bind_tx (some_tx (cx_tenant_id cx) production_platform_error) (\<lambda>t.
     bind_tx (authorize cx ''production.create'' (ec_organization_unit_id p)) (\<lambda>_.
     bind_tx (get_active_for_tenant t) (\<lambda>active.
     bind_tx (some_tx active (ConflictError (''No active fiscal year is configured for this tenant. ''
         @ ''An administrator must set one up before recording production entries.''))) (\<lambda>fiscal_year.
     bind_tx (next_number t production_document_type (fy_code fiscal_year) entry_prefix
         (ec_organization_unit_id p) 6) (\<lambda>entry_number.
     bind_tx uuid4_tx (\<lambda>i.
     bind_tx (new_outputs (ec_outputs p)) (\<lambda>os.
     bind_tx (require_tx (numeric_12_3 (ec_raw_material_quantity p)) (DataError ''numeric field overflow'')) (\<lambda>_.
     bind_tx (add_row production_entries_update entry_constraints
         (new_entry i t entry_number (row_id (cx_user cx)) os p)) (\<lambda>entry.
     bind_tx (require_tx (list_all (\<lambda>q. numeric_12_3 (oi_quantity q)) (ec_outputs p))
         (DataError ''numeric field overflow'')) (\<lambda>_.
     bind_tx (query_tx (outputs_ok entry)) (\<lambda>ok.
     bind_tx (require_tx ok (IntegrityError ''production_outputs'')) (\<lambda>_.
     bind_tx (record_event (entry_audit PRODUCTION_ENTRY_CREATED cx entry
         (Some [(''entry_number'', VStr (pe_entry_number entry)),
                (''output_count'', VInt (int (length (pe_outputs entry))))])) rq) (\<lambda>_.
     bind_tx commit_tx (\<lambda>_.
     return_tx (payload_quantities p entry)))))))))))))))"

definition submitted_entry :: "uuid \<Rightarrow> production_entry \<Rightarrow> production_entry" where
  "submitted_entry u x = x\<lparr>pe_status := ProductionEntryStatus_SUBMITTED, updated_by := Some u\<rparr>"

definition submit_entry ::
  "security_context \<Rightarrow> uuid \<Rightarrow> web_request option \<Rightarrow> production_entry tx" where
  "submit_entry cx i rq =
     bind_tx (get_entry cx i) (\<lambda>entry.
     bind_tx (authorize cx ''production.update'' (pe_organization_unit_id entry)) (\<lambda>_.
     bind_tx (require_tx (pe_status entry = ProductionEntryStatus_DRAFT)
       (ConflictError (''Entry is '' @ lower (ProductionEntryStatus_value (pe_status entry)) @ '', not draft.''))) (\<lambda>_.
     bind_tx (save_row production_entries_update entry
       (submitted_entry (row_id (cx_user cx)) entry)) (\<lambda>saved.
     bind_tx (record_event (entry_audit PRODUCTION_ENTRY_SUBMITTED cx entry None) rq) (\<lambda>_.
     bind_tx commit_tx (\<lambda>_.
     return_tx saved))))))"

definition cancelled_entry :: "uuid \<Rightarrow> production_entry \<Rightarrow> production_entry" where
  "cancelled_entry u x = x\<lparr>pe_status := ProductionEntryStatus_CANCELLED, updated_by := Some u\<rparr>"

definition cancel_entry ::
  "security_context \<Rightarrow> uuid \<Rightarrow> web_request option \<Rightarrow> production_entry tx" where
  "cancel_entry cx i rq =
     bind_tx (get_entry cx i) (\<lambda>entry.
     bind_tx (authorize cx ''production.update'' (pe_organization_unit_id entry)) (\<lambda>_.
     bind_tx (require_tx (pe_status entry \<noteq> ProductionEntryStatus_CANCELLED)
       (ConflictError ''Entry is already cancelled.'')) (\<lambda>_.
     bind_tx (save_row production_entries_update entry
       (cancelled_entry (row_id (cx_user cx)) entry)) (\<lambda>saved.
     bind_tx (record_event (entry_audit PRODUCTION_ENTRY_CANCELLED cx entry None) rq) (\<lambda>_.
     bind_tx commit_tx (\<lambda>_.
     return_tx saved))))))"

section \<open>The life of an entry\<close>

inductive entry_status_step :: "ProductionEntryStatus \<Rightarrow> ProductionEntryStatus \<Rightarrow> bool" where
  submit: "entry_status_step ProductionEntryStatus_DRAFT ProductionEntryStatus_SUBMITTED"
| cancel_draft: "entry_status_step ProductionEntryStatus_DRAFT ProductionEntryStatus_CANCELLED"
| cancel_submitted: "entry_status_step ProductionEntryStatus_SUBMITTED ProductionEntryStatus_CANCELLED"

inductive_cases entry_status_stepE: "entry_status_step st st'"

inductive entry_step :: "production_entry \<Rightarrow> production_entry \<Rightarrow> bool" where
  submit: "pe_status x = ProductionEntryStatus_DRAFT \<Longrightarrow> entry_step x (touch n x (submitted_entry u x))"
| cancel: "pe_status x \<noteq> ProductionEntryStatus_CANCELLED \<Longrightarrow> entry_step x (touch n x (cancelled_entry u x))"

lemma touch_entry [simp]:
  "pe_status (touch n x x') = pe_status x'" "pe_outputs (touch n x x') = pe_outputs x'"
  "pe_entry_number (touch n x x') = pe_entry_number x'"
  "pe_raw_material_quantity (touch n x x') = pe_raw_material_quantity x'"
  for x x' :: production_entry
  by (simp_all add: touch_def)

lemma submitted_entry_fields [simp]:
  "row_id (submitted_entry u x) = row_id x" "tenant_id (submitted_entry u x) = tenant_id x"
  "pe_status (submitted_entry u x) = ProductionEntryStatus_SUBMITTED"
  "pe_outputs (submitted_entry u x) = pe_outputs x"
  "pe_entry_number (submitted_entry u x) = pe_entry_number x"
  "pe_raw_material_quantity (submitted_entry u x) = pe_raw_material_quantity x"
  by (simp_all add: submitted_entry_def)

lemma cancelled_entry_fields [simp]:
  "row_id (cancelled_entry u x) = row_id x" "tenant_id (cancelled_entry u x) = tenant_id x"
  "pe_status (cancelled_entry u x) = ProductionEntryStatus_CANCELLED"
  "pe_outputs (cancelled_entry u x) = pe_outputs x"
  "pe_entry_number (cancelled_entry u x) = pe_entry_number x"
  "pe_raw_material_quantity (cancelled_entry u x) = pe_raw_material_quantity x"
  by (simp_all add: cancelled_entry_def)

lemma entry_step_refines: "entry_step x x' \<Longrightarrow> entry_status_step (pe_status x) (pe_status x')"
proof (induction rule: entry_step.induct)
  case (cancel x n u)
  then show ?case by (cases "pe_status x") (auto intro: entry_status_step.intros)
qed (auto intro: entry_status_step.intros)

lemma entry_step_keeps:
  "entry_step x x' \<Longrightarrow> row_id x' = row_id x \<and> tenant_id x' = tenant_id x \<and>
     pe_entry_number x' = pe_entry_number x \<and> pe_outputs x' = pe_outputs x \<and>
     pe_raw_material_quantity x' = pe_raw_material_quantity x"
  by (induction rule: entry_step.induct) simp_all

lemma cancelled_final: "pe_status x = ProductionEntryStatus_CANCELLED \<Longrightarrow> \<not> entry_step x x'"
  by (auto elim!: entry_step.cases)

interpretation entry_lifecycle:
  document_lifecycle production_entries production_entries_update entry_step
  by unfold_locales (simp_all add: entry_step_keeps)

interpretation entry_lifecycle: blind_to_audit "evolves production_entries entry_step"
  by unfold_locales (auto intro: entry_lifecycle.evolves_same)

interpretation entry_lifecycle: blind_to_sequences "evolves production_entries entry_step"
  by unfold_locales (auto intro: entry_lifecycle.evolves_same)

section \<open>The operations within the store relations\<close>

lemmas production_defs = create_entry_def submit_entry_def cancel_entry_def get_entry_def
  get_entry_in_tenant_def get_active_for_tenant_def

lemma reads_new_outputs [reads_only]: "reads (new_outputs ps)"
  by (induction ps) (auto intro!: reads_only)

lemma tx_pre_bind_new_outputs [tx_rules]:
  "(\<And>os. tx_pre R P (f os)) \<Longrightarrow> tx_pre R P (bind_tx (new_outputs ps) f)"
  by (rule tx_pre_bind_unknown) (metis reads_def reads_new_outputs surjective_pairing)

lemma keeps_new_outputs [atomic_rules]: "keeps (new_outputs ps)"
  using reads_new_outputs unfolding reads_def keeps_def by blast

lemma create_entry_audit: "tx_within audit_grows (create_entry cx p rq)"
  unfolding production_defs by (intro tx_rules) (simp_all add: audit_grows_def)

lemma submit_entry_audit: "tx_within audit_grows (submit_entry cx i rq)"
  unfolding production_defs by (intro tx_rules) (simp_all add: audit_grows_def)

lemma cancel_entry_audit: "tx_within audit_grows (cancel_entry cx i rq)"
  unfolding production_defs by (intro tx_rules) (simp_all add: audit_grows_def)

lemma create_entry_lifecycle: "tx_within (evolves production_entries entry_step) (create_entry cx p rq)"
  unfolding production_defs
  by (intro tx_rules) (auto simp: entry_constraints_def intro!: entry_lifecycle.evolves_snoc)

lemma submit_entry_lifecycle: "tx_within (evolves production_entries entry_step) (submit_entry cx i rq)"
  unfolding production_defs
  by (intro tx_rules)
    (auto dest!: filter_singletonD
      intro!: entry_lifecycle.evolves_put_row r_into_rtranclp entry_step.submit)

lemma cancel_entry_lifecycle: "tx_within (evolves production_entries entry_step) (cancel_entry cx i rq)"
  unfolding production_defs
  by (intro tx_rules)
    (auto dest!: filter_singletonD
      intro!: entry_lifecycle.evolves_put_row r_into_rtranclp entry_step.cancel)

lemma create_entry_isolation:
  assumes "cx_tenant_id cx = Some t"
  shows "tx_within (tenant_frame t) (create_entry cx p rq)"
  unfolding production_defs assms some_tx_def option.case bind_return
  by (intro tx_rules)
    (auto simp: entry_constraints_def new_entry_def intro!: tenant_frame_write frame_snoc)

lemma submit_entry_isolation:
  assumes "cx_tenant_id cx = Some t"
  shows "tx_within (tenant_frame t) (submit_entry cx i rq)"
  unfolding production_defs assms some_tx_def option.case bind_return
  by (intro tx_rules) (auto dest!: filter_singletonD intro!: tenant_frame_write frame_put_row)

lemma cancel_entry_isolation:
  assumes "cx_tenant_id cx = Some t"
  shows "tx_within (tenant_frame t) (cancel_entry cx i rq)"
  unfolding production_defs assms some_tx_def option.case bind_return
  by (intro tx_rules) (auto dest!: filter_singletonD intro!: tenant_frame_write frame_put_row)

lemma submit_entry_atomic: "atomic (submit_entry cx i rq)"
  unfolding production_defs by (intro atomic_rules)

lemma cancel_entry_atomic: "atomic (cancel_entry cx i rq)"
  unfolding production_defs by (intro atomic_rules)

lemma create_entry_only_numbers: "only_numbers (create_entry cx p rq)"
  unfolding production_defs
  by (intro only_numbers_read only_numbers_next atomic_rules reads_only)

section \<open>The invariant of the table\<close>

text \<open>
  Every entry has an output, quantities have three decimals and are not negative, identifiers
  and the entry numbers of a tenant are unique, and so are the identifiers of the outputs.
\<close>

definition entry_ok :: "production_entry \<Rightarrow> bool" where
  "entry_ok x \<longleftrightarrow> pe_outputs x \<noteq> [] \<and> three_decimals (pe_raw_material_quantity x) \<and>
     0 \<le> pe_raw_material_quantity x \<and>
     (\<forall>p\<in>set (pe_outputs x). three_decimals (po_quantity p) \<and> 0 \<le> po_quantity p)"

definition entry_table_ok :: "db \<Rightarrow> bool" where
  "entry_table_ok d \<longleftrightarrow> distinct (map row_id (production_entries d)) \<and>
     distinct (map (\<lambda>x. (tenant_id x, pe_entry_number x)) (production_entries d)) \<and>
     (\<forall>x\<in>set (production_entries d). entry_ok x)"

interpretation entry_invariant: blind_to_audit "preserves entry_table_ok"
  by unfold_locales (simp add: preserves_def entry_table_ok_def)

interpretation entry_invariant: blind_to_sequences "preserves entry_table_ok"
  by unfold_locales (simp add: preserves_def entry_table_ok_def)

lemma new_outputs_Inr:
  assumes "new_outputs ps s = (Inr os, s')"
  shows "length os = length ps \<and> (\<forall>x\<in>set os. \<exists>i n p. p \<in> set ps \<and> x = new_output i n p)"
  using assms
proof (induction ps arbitrary: s os s')
  case Nil
  then show ?case by (simp add: tx_simps)
next
  case (Cons p ps)
  then obtain i n xs where os: "os = new_output i n p # xs" and
    r: "length xs = length ps \<and> (\<forall>x\<in>set xs. \<exists>i n p. p \<in> set ps \<and> x = new_output i n p)"
    by (auto simp: tx_simps elim!: bind_InrE)
  have "x \<in> set xs \<Longrightarrow> \<exists>i n q. (q = p \<or> q \<in> set ps) \<and> x = new_output i n q" for x
    using r by blast
  then show ?case using r by (auto simp: os)
qed

lemma tx_pre_bind_new_outputs_ok:
  assumes "\<And>os. length os = length ps \<Longrightarrow> \<forall>x\<in>set os. \<exists>i n p. p \<in> set ps \<and> x = new_output i n p
    \<Longrightarrow> tx_pre R P (f os)"
  shows "tx_pre R P (bind_tx (new_outputs ps) f)"
proof (rule tx_preI)
  fix d s r s'
  assume a: "R d (committed s)" "R d (current s)" "P (current s)"
    and b: "bind_tx (new_outputs ps) f s = (r, s')"
  obtain q s1 where q: "new_outputs ps s = (q, s1)" by (cases "new_outputs ps s") auto
  with reads_new_outputs have s1: "current s1 = current s" "committed s1 = committed s"
    unfolding reads_def by blast+
  show "R d (committed s') \<and> R d (current s')"
  proof (cases q)
    case (Inl e)
    with b q a s1 show ?thesis by (simp add: bind_tx_def)
  next
    case (Inr os)
    with b q have f: "f os s1 = (r, s')" by (simp add: bind_tx_def)
    have "tx_pre R P (f os)"
      using new_outputs_Inr [of ps s os s1] q Inr by (intro assms) auto
    from tx_preD [OF this f, of d] a s1 show ?thesis by simp
  qed
qed

lemma new_entry_ok:
  assumes "valid_entry_create p" and "length os = length (ec_outputs p)"
    and "\<forall>x\<in>set os. \<exists>i n q. q \<in> set (ec_outputs p) \<and> x = new_output i n q"
  shows "entry_ok (stamp m (new_entry i t n u os p))"
  using assms
  by (auto simp: entry_ok_def new_entry_def stamp_def valid_entry_create_def valid_output_input_def
      new_output_def numeric_3_nonneg list_all_iff less_imp_le)

lemma entry_table_ok_snoc:
  assumes "violated (entry_constraints d x) = None" and "entry_ok x"
  shows "preserves entry_table_ok d (production_entries_update (\<lambda>xs. xs @ [x]) d)"
  using assms
  by (auto simp: preserves_def entry_table_ok_def entry_constraints_def fresh_id_def list_ex_iff)

lemma entry_table_ok_step:
  assumes "x \<in> set (production_entries d)" and "entry_step x x'"
  shows "preserves entry_table_ok d (production_entries_update (put_row x') d)"
  unfolding preserves_def
proof
  assume ok: "entry_table_ok d"
  then have ids: "distinct (map row_id (production_entries d))" by (simp add: entry_table_ok_def)
  have keep: "row_id x' = row_id x" "(tenant_id x', pe_entry_number x') = (tenant_id x, pe_entry_number x)"
    using entry_step_keeps [OF assms(2)] by simp_all
  have "entry_ok x'"
    using entry_step_keeps [OF assms(2)] ok assms(1) by (simp add: entry_table_ok_def entry_ok_def)
  with ok show "entry_table_ok (production_entries_update (put_row x') d)"
    using map_put_row [where f = "\<lambda>x. (tenant_id x, pe_entry_number x)", OF ids assms(1) keep]
    by (auto simp: entry_table_ok_def dest!: in_put_row)
qed

lemma create_entry_invariant:
  "valid_entry_create p \<Longrightarrow> tx_within (preserves entry_table_ok) (create_entry cx p rq)"
  unfolding production_defs
  by (intro tx_pre_bind_new_outputs_ok tx_rules) (auto intro!: entry_table_ok_snoc new_entry_ok)

lemma submit_entry_invariant: "tx_within (preserves entry_table_ok) (submit_entry cx i rq)"
  unfolding production_defs
  by (intro tx_rules) (auto dest!: filter_singletonD intro!: entry_table_ok_step entry_step.submit)

lemma cancel_entry_invariant: "tx_within (preserves entry_table_ok) (cancel_entry cx i rq)"
  unfolding production_defs
  by (intro tx_rules) (auto dest!: filter_singletonD intro!: entry_table_ok_step entry_step.cancel)

end
