(* ===== verification/Master_Catalog.thy ===== *)
theory Master_Catalog
  imports Repository
begin

text \<open>
  The ten kinds of master data: their classes (\<^verbatim>\<open>app/models/master_data.py\<close>, \<^verbatim>\<open>material.py\<close>, \<^verbatim>\<open>party.py\<close>,
  \<^verbatim>\<open>fleet.py\<close>), the schemas of their requests and responses (\<^verbatim>\<open>app/schemas\<close>, same names), their
  instances of the generic service (\<^verbatim>\<open>app/services/material_service.py\<close>, \<^verbatim>\<open>party_service.py\<close>,
  \<^verbatim>\<open>fleet_service.py\<close>) and of the generic router (\<^verbatim>\<open>app/api/v1/materials.py\<close>, \<^verbatim>\<open>parties.py\<close>,
  \<^verbatim>\<open>fleet.py\<close>). They are tables, from which the generic operations read what differs from one kind
  to the next. Every class has the columns of \<^verbatim>\<open>CodedMasterDataMixin\<close>; a class lists those it adds.
\<close>

section \<open>Classes\<close>

datatype column =
    Text_column nat
  | Numeric_column
  | Unit_column
  | Category_column md_entity

record md_class =
  class_table :: string
  class_unique :: string
  class_columns :: "(string \<times> column) list"

definition material_category_class :: md_class where
  "material_category_class = \<lparr>class_table = ''material_categories'',
     class_unique = ''uq_material_category_code'', class_columns = []\<rparr>"

definition product_category_class :: md_class where
  "product_category_class = \<lparr>class_table = ''product_categories'',
     class_unique = ''uq_product_category_code'', class_columns = []\<rparr>"

definition tax_code_class :: md_class where
  "tax_code_class = \<lparr>class_table = ''tax_codes'', class_unique = ''uq_tax_code_code'', class_columns = []\<rparr>"

definition payment_term_class :: md_class where
  "payment_term_class = \<lparr>class_table = ''payment_terms'', class_unique = ''uq_payment_term_code'',
     class_columns = []\<rparr>"

definition material_class :: md_class where
  "material_class = \<lparr>class_table = ''materials'', class_unique = ''uq_material_code'',
     class_columns = [(''category_id'', Category_column MaterialCategory), (''default_unit_id'', Unit_column)]\<rparr>"

definition product_class :: md_class where
  "product_class = \<lparr>class_table = ''products'', class_unique = ''uq_product_code'',
     class_columns = [(''category_id'', Category_column ProductCategory), (''default_unit_id'', Unit_column)]\<rparr>"

definition customer_class :: md_class where
  "customer_class = \<lparr>class_table = ''customers'', class_unique = ''uq_customer_code'',
     class_columns = [(''contact_name'', Text_column 200), (''phone'', Text_column 30), (''email'', Text_column 320),
       (''address'', Text_column 500), (''tax_id'', Text_column 50)]\<rparr>"

definition supplier_class :: md_class where
  "supplier_class = \<lparr>class_table = ''suppliers'', class_unique = ''uq_supplier_code'',
     class_columns = [(''contact_name'', Text_column 200), (''phone'', Text_column 30), (''email'', Text_column 320),
       (''address'', Text_column 500), (''tax_id'', Text_column 50)]\<rparr>"

definition vehicle_class :: md_class where
  "vehicle_class = \<lparr>class_table = ''vehicles'', class_unique = ''uq_vehicle_code'',
     class_columns = [(''vehicle_type'', Text_column 50), (''capacity'', Numeric_column),
       (''capacity_unit_id'', Unit_column)]\<rparr>"

definition driver_class :: md_class where
  "driver_class = \<lparr>class_table = ''drivers'', class_unique = ''uq_driver_code'',
     class_columns = [(''phone'', Text_column 30)]\<rparr>"

fun class_of :: "md_entity \<Rightarrow> md_class" where
  "class_of MaterialCategory = material_category_class"
| "class_of ProductCategory = product_category_class"
| "class_of TaxCode = tax_code_class"
| "class_of PaymentTerm = payment_term_class"
| "class_of Material = material_class"
| "class_of Product = product_class"
| "class_of Customer = customer_class"
| "class_of Supplier = supplier_class"
| "class_of Vehicle = vehicle_class"
| "class_of Driver = driver_class"

lemmas class_defs = material_category_class_def product_category_class_def tax_code_class_def payment_term_class_def
  material_class_def product_class_def customer_class_def supplier_class_def vehicle_class_def driver_class_def

definition extra_fields :: "md_entity \<Rightarrow> string list" where
  "extra_fields e = map fst (class_columns (class_of e))"

lemma extra_fields_simps [simp]:
  "extra_fields MaterialCategory = []" "extra_fields ProductCategory = []" "extra_fields TaxCode = []"
  "extra_fields PaymentTerm = []"
  "extra_fields Material = [''category_id'', ''default_unit_id'']"
  "extra_fields Product = [''category_id'', ''default_unit_id'']"
  "extra_fields Customer = [''contact_name'', ''phone'', ''email'', ''address'', ''tax_id'']"
  "extra_fields Supplier = [''contact_name'', ''phone'', ''email'', ''address'', ''tax_id'']"
  "extra_fields Vehicle = [''vehicle_type'', ''capacity'', ''capacity_unit_id'']"
  "extra_fields Driver = [''phone'']"
  by (simp_all add: extra_fields_def class_defs)

section \<open>Schemas\<close>

text \<open>What a field of a request may hold: \<^verbatim>\<open>str\<close> with its bounds, and the optional types.\<close>

datatype field_type =
    Text nat nat
  | Optional_text nat nat
  | Optional_string
  | Optional_uuid
  | Optional_status
  | Optional_positive

fun has_type :: "pyval \<Rightarrow> field_type \<Rightarrow> bool" where
  "has_type (VStr s) (Text lo hi) \<longleftrightarrow> lo \<le> length s \<and> length s \<le> hi"
| "has_type VNone (Optional_text lo hi) \<longleftrightarrow> True"
| "has_type (VStr s) (Optional_text lo hi) \<longleftrightarrow> lo \<le> length s \<and> length s \<le> hi"
| "has_type VNone Optional_string \<longleftrightarrow> True"
| "has_type (VStr s) Optional_string \<longleftrightarrow> True"
| "has_type VNone Optional_uuid \<longleftrightarrow> True"
| "has_type (VUuid i) Optional_uuid \<longleftrightarrow> True"
| "has_type VNone Optional_status \<longleftrightarrow> True"
| "has_type (VStatus s) Optional_status \<longleftrightarrow> True"
| "has_type VNone Optional_positive \<longleftrightarrow> True"
| "has_type (VDecimal x) Optional_positive \<longleftrightarrow> 0 < x"
| "has_type _ _ \<longleftrightarrow> False"

type_synonym schema = "(string \<times> field_type) list"

definition MasterDataCreateRequest :: schema where
  "MasterDataCreateRequest = [(''code'', Text 1 50), (''name'', Text 1 200), (''description'', Optional_string)]"

definition MasterDataUpdateRequest :: schema where
  "MasterDataUpdateRequest =
     [(''name'', Optional_text 1 200), (''description'', Optional_string), (''status'', Optional_status)]"

definition MasterDataResponse :: "string list" where
  "MasterDataResponse =
     [''id'', ''code'', ''name'', ''description'', ''status'', ''created_at'', ''updated_at'']"

definition MaterialCreateRequest :: schema where
  "MaterialCreateRequest = [(''code'', Text 1 50), (''name'', Text 1 200), (''description'', Optional_string),
     (''category_id'', Optional_uuid), (''default_unit_id'', Optional_uuid)]"

definition MaterialUpdateRequest :: schema where
  "MaterialUpdateRequest =
     [(''name'', Optional_text 1 200), (''description'', Optional_string), (''status'', Optional_status),
      (''category_id'', Optional_uuid), (''default_unit_id'', Optional_uuid)]"

definition MaterialResponse :: "string list" where
  "MaterialResponse = [''id'', ''code'', ''name'', ''description'', ''status'', ''category_id'',
     ''default_unit_id'', ''created_at'', ''updated_at'']"

definition ProductCreateRequest :: schema where
  "ProductCreateRequest = [(''code'', Text 1 50), (''name'', Text 1 200), (''description'', Optional_string),
     (''category_id'', Optional_uuid), (''default_unit_id'', Optional_uuid)]"

definition ProductUpdateRequest :: schema where
  "ProductUpdateRequest =
     [(''name'', Optional_text 1 200), (''description'', Optional_string), (''status'', Optional_status),
      (''category_id'', Optional_uuid), (''default_unit_id'', Optional_uuid)]"

definition ProductResponse :: "string list" where
  "ProductResponse = [''id'', ''code'', ''name'', ''description'', ''status'', ''category_id'',
     ''default_unit_id'', ''created_at'', ''updated_at'']"

definition PartyCreateRequest :: schema where
  "PartyCreateRequest = [(''code'', Text 1 50), (''name'', Text 1 200), (''description'', Optional_string),
     (''contact_name'', Optional_text 0 200), (''phone'', Optional_text 0 30), (''email'', Optional_text 0 320),
     (''address'', Optional_text 0 500), (''tax_id'', Optional_text 0 50)]"

definition PartyUpdateRequest :: schema where
  "PartyUpdateRequest =
     [(''name'', Optional_text 1 200), (''description'', Optional_string), (''status'', Optional_status),
      (''contact_name'', Optional_text 0 200), (''phone'', Optional_text 0 30), (''email'', Optional_text 0 320),
      (''address'', Optional_text 0 500), (''tax_id'', Optional_text 0 50)]"

definition PartyResponse :: "string list" where
  "PartyResponse = [''id'', ''code'', ''name'', ''description'', ''status'', ''contact_name'', ''phone'',
     ''email'', ''address'', ''tax_id'', ''created_at'', ''updated_at'']"

definition VehicleCreateRequest :: schema where
  "VehicleCreateRequest = [(''code'', Text 1 50), (''name'', Text 1 200), (''description'', Optional_string),
     (''vehicle_type'', Optional_text 0 50), (''capacity'', Optional_positive), (''capacity_unit_id'', Optional_uuid)]"

definition VehicleUpdateRequest :: schema where
  "VehicleUpdateRequest =
     [(''name'', Optional_text 1 200), (''description'', Optional_string), (''status'', Optional_status),
      (''vehicle_type'', Optional_text 0 50), (''capacity'', Optional_positive), (''capacity_unit_id'', Optional_uuid)]"

definition VehicleResponse :: "string list" where
  "VehicleResponse = [''id'', ''code'', ''name'', ''description'', ''status'', ''vehicle_type'', ''capacity'',
     ''capacity_unit_id'', ''created_at'', ''updated_at'']"

definition DriverCreateRequest :: schema where
  "DriverCreateRequest = [(''code'', Text 1 50), (''name'', Text 1 200), (''description'', Optional_string),
     (''phone'', Optional_text 0 30)]"

definition DriverUpdateRequest :: schema where
  "DriverUpdateRequest =
     [(''name'', Optional_text 1 200), (''description'', Optional_string), (''status'', Optional_status),
      (''phone'', Optional_text 0 30)]"

definition DriverResponse :: "string list" where
  "DriverResponse = [''id'', ''code'', ''name'', ''description'', ''status'', ''phone'', ''created_at'', ''updated_at'']"

section \<open>Services\<close>

text \<open>\<^verbatim>\<open>MasterDataAuditActions\<close> and what distinguishes an instance of \<^verbatim>\<open>MasterDataService\<close>.\<close>

record audit_actions =
  ac_created :: AuditAction
  ac_updated :: AuditAction
  ac_deactivated :: AuditAction

record md_service =
  sv_model :: md_entity
  sv_resource_type :: string
  sv_audit_actions :: audit_actions

definition material_actions :: audit_actions where
  "material_actions = \<lparr>ac_created = MASTER_DATA_CREATED, ac_updated = MASTER_DATA_UPDATED,
     ac_deactivated = MASTER_DATA_DEACTIVATED\<rparr>"

definition party_actions :: audit_actions where
  "party_actions = \<lparr>ac_created = MASTER_DATA_CREATED, ac_updated = MASTER_DATA_UPDATED,
     ac_deactivated = MASTER_DATA_DEACTIVATED\<rparr>"

definition fleet_actions :: audit_actions where
  "fleet_actions = \<lparr>ac_created = MASTER_DATA_CREATED, ac_updated = MASTER_DATA_UPDATED,
     ac_deactivated = MASTER_DATA_DEACTIVATED\<rparr>"

definition material_category_service :: md_service where
  "material_category_service = \<lparr>sv_model = MaterialCategory, sv_resource_type = ''material_category'',
     sv_audit_actions = material_actions\<rparr>"

definition product_category_service :: md_service where
  "product_category_service = \<lparr>sv_model = ProductCategory, sv_resource_type = ''product_category'',
     sv_audit_actions = material_actions\<rparr>"

definition tax_code_service :: md_service where
  "tax_code_service = \<lparr>sv_model = TaxCode, sv_resource_type = ''tax_code'', sv_audit_actions = material_actions\<rparr>"

definition payment_term_service :: md_service where
  "payment_term_service = \<lparr>sv_model = PaymentTerm, sv_resource_type = ''payment_term'',
     sv_audit_actions = material_actions\<rparr>"

definition material_service :: md_service where
  "material_service = \<lparr>sv_model = Material, sv_resource_type = ''material'', sv_audit_actions = material_actions\<rparr>"

definition product_service :: md_service where
  "product_service = \<lparr>sv_model = Product, sv_resource_type = ''product'', sv_audit_actions = material_actions\<rparr>"

definition customer_service :: md_service where
  "customer_service = \<lparr>sv_model = Customer, sv_resource_type = ''customer'', sv_audit_actions = party_actions\<rparr>"

definition supplier_service :: md_service where
  "supplier_service = \<lparr>sv_model = Supplier, sv_resource_type = ''supplier'', sv_audit_actions = party_actions\<rparr>"

definition vehicle_service :: md_service where
  "vehicle_service = \<lparr>sv_model = Vehicle, sv_resource_type = ''vehicle'', sv_audit_actions = fleet_actions\<rparr>"

definition driver_service :: md_service where
  "driver_service = \<lparr>sv_model = Driver, sv_resource_type = ''driver'', sv_audit_actions = fleet_actions\<rparr>"

lemmas service_defs = material_category_service_def product_category_service_def tax_code_service_def
  payment_term_service_def material_service_def product_service_def customer_service_def supplier_service_def
  vehicle_service_def driver_service_def material_actions_def party_actions_def fleet_actions_def

section \<open>Routers\<close>

text \<open>The arguments of \<^verbatim>\<open>build_master_data_router\<close>.\<close>

record md_router =
  rt_prefix :: string
  rt_permission_prefix :: string
  rt_create_schema :: schema
  rt_update_schema :: schema
  rt_response_schema :: "string list"
  rt_service :: md_service

definition material_categories_router :: md_router where
  "material_categories_router = \<lparr>rt_prefix = ''/material-categories'', rt_permission_prefix = ''material_categories'',
     rt_create_schema = MasterDataCreateRequest, rt_update_schema = MasterDataUpdateRequest,
     rt_response_schema = MasterDataResponse, rt_service = material_category_service\<rparr>"

definition materials_router :: md_router where
  "materials_router = \<lparr>rt_prefix = ''/materials'', rt_permission_prefix = ''materials'',
     rt_create_schema = MaterialCreateRequest, rt_update_schema = MaterialUpdateRequest,
     rt_response_schema = MaterialResponse, rt_service = material_service\<rparr>"

definition product_categories_router :: md_router where
  "product_categories_router = \<lparr>rt_prefix = ''/product-categories'', rt_permission_prefix = ''product_categories'',
     rt_create_schema = MasterDataCreateRequest, rt_update_schema = MasterDataUpdateRequest,
     rt_response_schema = MasterDataResponse, rt_service = product_category_service\<rparr>"

definition products_router :: md_router where
  "products_router = \<lparr>rt_prefix = ''/products'', rt_permission_prefix = ''products'',
     rt_create_schema = ProductCreateRequest, rt_update_schema = ProductUpdateRequest,
     rt_response_schema = ProductResponse, rt_service = product_service\<rparr>"

definition tax_codes_router :: md_router where
  "tax_codes_router = \<lparr>rt_prefix = ''/tax-codes'', rt_permission_prefix = ''tax_codes'',
     rt_create_schema = MasterDataCreateRequest, rt_update_schema = MasterDataUpdateRequest,
     rt_response_schema = MasterDataResponse, rt_service = tax_code_service\<rparr>"

definition payment_terms_router :: md_router where
  "payment_terms_router = \<lparr>rt_prefix = ''/payment-terms'', rt_permission_prefix = ''payment_terms'',
     rt_create_schema = MasterDataCreateRequest, rt_update_schema = MasterDataUpdateRequest,
     rt_response_schema = MasterDataResponse, rt_service = payment_term_service\<rparr>"

definition customers_router :: md_router where
  "customers_router = \<lparr>rt_prefix = ''/customers'', rt_permission_prefix = ''customers'',
     rt_create_schema = PartyCreateRequest, rt_update_schema = PartyUpdateRequest,
     rt_response_schema = PartyResponse, rt_service = customer_service\<rparr>"

definition suppliers_router :: md_router where
  "suppliers_router = \<lparr>rt_prefix = ''/suppliers'', rt_permission_prefix = ''suppliers'',
     rt_create_schema = PartyCreateRequest, rt_update_schema = PartyUpdateRequest,
     rt_response_schema = PartyResponse, rt_service = supplier_service\<rparr>"

definition vehicles_router :: md_router where
  "vehicles_router = \<lparr>rt_prefix = ''/vehicles'', rt_permission_prefix = ''vehicles'',
     rt_create_schema = VehicleCreateRequest, rt_update_schema = VehicleUpdateRequest,
     rt_response_schema = VehicleResponse, rt_service = vehicle_service\<rparr>"

definition drivers_router :: md_router where
  "drivers_router = \<lparr>rt_prefix = ''/drivers'', rt_permission_prefix = ''drivers'',
     rt_create_schema = DriverCreateRequest, rt_update_schema = DriverUpdateRequest,
     rt_response_schema = DriverResponse, rt_service = driver_service\<rparr>"

text \<open>The router that serves an entity.\<close>

fun router_of :: "md_entity \<Rightarrow> md_router" where
  "router_of MaterialCategory = material_categories_router"
| "router_of Material = materials_router"
| "router_of ProductCategory = product_categories_router"
| "router_of Product = products_router"
| "router_of TaxCode = tax_codes_router"
| "router_of PaymentTerm = payment_terms_router"
| "router_of Customer = customers_router"
| "router_of Supplier = suppliers_router"
| "router_of Vehicle = vehicles_router"
| "router_of Driver = drivers_router"

lemmas router_defs = material_categories_router_def materials_router_def product_categories_router_def products_router_def tax_codes_router_def payment_terms_router_def customers_router_def suppliers_router_def vehicles_router_def drivers_router_def

lemmas schema_defs = MasterDataCreateRequest_def MasterDataUpdateRequest_def MasterDataResponse_def
  MaterialCreateRequest_def MaterialUpdateRequest_def MaterialResponse_def
  ProductCreateRequest_def ProductUpdateRequest_def ProductResponse_def
  PartyCreateRequest_def PartyUpdateRequest_def PartyResponse_def
  VehicleCreateRequest_def VehicleUpdateRequest_def VehicleResponse_def
  DriverCreateRequest_def DriverUpdateRequest_def DriverResponse_def

definition service_of :: "md_entity \<Rightarrow> md_service" where
  "service_of e = rt_service (router_of e)"

definition resource_type :: "md_entity \<Rightarrow> string" where
  "resource_type e = sv_resource_type (service_of e)"

definition permission_prefix :: "md_entity \<Rightarrow> string" where
  "permission_prefix e = rt_permission_prefix (router_of e)"

lemma resource_type_simps [simp]:
  "resource_type MaterialCategory = ''material_category''" "resource_type ProductCategory = ''product_category''"
  "resource_type TaxCode = ''tax_code''" "resource_type PaymentTerm = ''payment_term''"
  "resource_type Material = ''material''" "resource_type Product = ''product''"
  "resource_type Customer = ''customer''" "resource_type Supplier = ''supplier''"
  "resource_type Vehicle = ''vehicle''" "resource_type Driver = ''driver''"
  by (simp_all add: resource_type_def service_of_def router_defs service_defs)

lemma permission_prefix_simps [simp]:
  "permission_prefix MaterialCategory = ''material_categories''" "permission_prefix Material = ''materials''"
  "permission_prefix ProductCategory = ''product_categories''" "permission_prefix Product = ''products''"
  "permission_prefix TaxCode = ''tax_codes''" "permission_prefix PaymentTerm = ''payment_terms''"
  "permission_prefix Customer = ''customers''" "permission_prefix Supplier = ''suppliers''"
  "permission_prefix Vehicle = ''vehicles''" "permission_prefix Driver = ''drivers''"
  by (simp_all add: permission_prefix_def router_defs)

section \<open>The tables fit together\<close>

lemma service_model: "sv_model (service_of e) = e"
  by (cases e) (simp_all add: service_of_def router_defs service_defs)

lemma service_actions [simp]:
  "ac_created (sv_audit_actions (service_of e)) = MASTER_DATA_CREATED"
  "ac_updated (sv_audit_actions (service_of e)) = MASTER_DATA_UPDATED"
  "ac_deactivated (sv_audit_actions (service_of e)) = MASTER_DATA_DEACTIVATED"
  by (cases e; simp add: service_of_def router_defs service_defs)+

lemma schema_fields:
  "map fst (rt_create_schema (router_of e)) = [''code'', ''name'', ''description''] @ extra_fields e"
  "map fst (rt_update_schema (router_of e)) = [''name'', ''description'', ''status''] @ extra_fields e"
  "rt_response_schema (router_of e) =
     [''id'', ''code'', ''name'', ''description'', ''status''] @ extra_fields e @ [''created_at'', ''updated_at'']"
  by (cases e; simp add: router_defs schema_defs)+

lemma unique_names: "class_unique (class_of e) = ''uq_'' @ resource_type e @ ''_code''"
  by (cases e) (simp_all add: class_defs)

text \<open>A value that a request schema lets through is not too long for its column.\<close>

fun fits_column :: "pyval \<Rightarrow> column \<Rightarrow> bool" where
  "fits_column (VStr s) (Text_column n) \<longleftrightarrow> length s \<le> n"
| "fits_column (VDecimal x) (Text_column n) \<longleftrightarrow> False"
| "fits_column (VUuid i) (Text_column n) \<longleftrightarrow> False"
| "fits_column _ _ \<longleftrightarrow> True"

lemma has_type_text: "has_type v (Optional_text lo hi) \<Longrightarrow> fits_column v (Text_column hi)"
  by (cases v) simp_all

lemma schema_fits_column:
  assumes "map_of (rt_create_schema (router_of e)) k = Some ty \<or> map_of (rt_update_schema (router_of e)) k = Some ty"
    and "map_of (class_columns (class_of e)) k = Some (Text_column n)" and "has_type v ty"
  shows "fits_column v (Text_column n)"
  using assms
  by (cases e) (auto simp: router_defs schema_defs class_defs has_type_text split: if_splits)

end
