(* ===== verification/Master_Data.thy ===== *)
theory Master_Data
  imports Tenant_Isolation Authorization Master_Catalog
begin

text \<open>
  Master data: the generic service of \<^verbatim>\<open>app/services/master_data_service.py\<close> over the generic
  repository of \<^verbatim>\<open>app/repositories/master_data_repository.py\<close>, and its ten instances of
  \<^verbatim>\<open>material_service.py\<close>, \<^verbatim>\<open>party_service.py\<close> and \<^verbatim>\<open>fleet_service.py\<close>, told apart by
  \<open>md_entity\<close> and described by the tables of \<open>Master_Catalog\<close>. Payloads are lists of named values, as \<^verbatim>\<open>model_dump\<close> gives them, and
  the schemas say which names and values a payload may have.
\<close>

section \<open>Payloads\<close>

record md_create =
  mc_code :: string
  mc_name :: string
  mc_description :: "string option"
  mc_extra :: json_dict

definition md_payload_json :: "md_create \<Rightarrow> json_dict" where
  "md_payload_json p =
     [(''code'', VStr (mc_code p)), (''name'', VStr (mc_name p)),
      (''description'', case mc_description p of None \<Rightarrow> VNone | Some s \<Rightarrow> VStr s)] @ mc_extra p"

text \<open>\<^verbatim>\<open>model_dump(mode="json")\<close>: a UUID becomes its text; a \<^verbatim>\<open>Decimal\<close> is kept for its digits.\<close>

fun json_value :: "pyval \<Rightarrow> pyval" where
  "json_value (VUuid i) = VStr (uuid_str i)"
| "json_value v = v"

definition json_mode :: "json_dict \<Rightarrow> json_dict" where
  "json_mode = map (\<lambda>(k, v). (k, json_value v))"

text \<open>A payload with the fields of a schema, in its order, each of its type.\<close>

definition conforms :: "schema \<Rightarrow> json_dict \<Rightarrow> bool" where
  "conforms sch data \<longleftrightarrow> map fst data = map fst sch \<and> list_all2 (\<lambda>field kv. has_type (snd kv) (snd field)) sch data"

definition valid_md_create :: "md_entity \<Rightarrow> md_create \<Rightarrow> bool" where
  "valid_md_create e p \<longleftrightarrow> conforms (rt_create_schema (router_of e)) (md_payload_json p)"

text \<open>An update payload: the fields the client sent, \<^verbatim>\<open>model_dump(exclude_unset=True)\<close>.\<close>

fun valid_update_field :: "md_entity \<Rightarrow> string \<times> pyval \<Rightarrow> bool" where
  "valid_update_field e (k, v) \<longleftrightarrow> (case map_of (rt_update_schema (router_of e)) k of
     None \<Rightarrow> False | Some ty \<Rightarrow> has_type v ty)"

definition valid_md_update :: "md_entity \<Rightarrow> json_dict \<Rightarrow> bool" where
  "valid_md_update e data \<longleftrightarrow> distinct (map fst data) \<and> list_all (valid_update_field e) data"

section \<open>Attributes by name\<close>

fun assoc_set :: "string \<Rightarrow> pyval \<Rightarrow> json_dict \<Rightarrow> json_dict" where
  "assoc_set k v [] = []"
| "assoc_set k v (kv # kvs) = (if fst kv = k then (k, v) # kvs else kv # assoc_set k v kvs)"

definition md_getattr :: "string \<Rightarrow> md_row \<Rightarrow> pyval" where
  "md_getattr k r =
     (if k = ''name'' then VStr (name r)
      else if k = ''description'' then (case description r of None \<Rightarrow> VNone | Some s \<Rightarrow> VStr s)
      else if k = ''status'' then VStatus (status r)
      else (case map_of (extra r) k of None \<Rightarrow> VNone | Some v \<Rightarrow> v))"

text \<open>
  An attribute set to a value of its column's type. \<^verbatim>\<open>None\<close> for a column that is not nullable
  stays in the object until the flush, which rejects it: see \<open>not_null_ok\<close>.
\<close>

fun md_setattr :: "string \<times> pyval \<Rightarrow> md_row \<Rightarrow> md_row" where
  "md_setattr (k, v) r =
     (if k = ''name'' then (case v of VStr s \<Rightarrow> r\<lparr>name := s\<rparr> | _ \<Rightarrow> r)
      else if k = ''description'' then
        r\<lparr>description := (case v of VStr s \<Rightarrow> Some s | _ \<Rightarrow> None)\<rparr>
      else if k = ''status'' then (case v of VStatus s \<Rightarrow> r\<lparr>status := s\<rparr> | _ \<Rightarrow> r)
      else r\<lparr>extra := assoc_set k v (extra r)\<rparr>)"

definition not_null_ok :: "json_dict \<Rightarrow> bool" where
  "not_null_ok data \<longleftrightarrow>
     list_all (\<lambda>(k, v). k \<in> set [''name'', ''status''] \<longrightarrow> v \<noteq> VNone) data"

text \<open>A value as its column stores it, and whether the column can.\<close>

fun column_value :: "pyval \<Rightarrow> pyval" where
  "column_value (VDecimal x) = VDecimal (numeric_3 x)"
| "column_value v = v"

fun column_fits :: "pyval \<Rightarrow> bool" where
  "column_fits (VDecimal x) \<longleftrightarrow> numeric_12_3 x"
| "column_fits v \<longleftrightarrow> True"

definition column_values :: "json_dict \<Rightarrow> json_dict" where
  "column_values = map (\<lambda>(k, v). (k, column_value v))"

text \<open>Python's \<^verbatim>\<open>str\<close> on the values of a payload; a \<^verbatim>\<open>Decimal\<close> is kept as it is.\<close>

fun py_str :: "pyval \<Rightarrow> pyval" where
  "py_str VNone = VStr ''None''"
| "py_str (VUuid i) = VStr (uuid_str i)"
| "py_str (VStatus s) = VStr (MasterDataStatus_value s)"
| "py_str v = v"

section \<open>Repository\<close>

definition md_update_table :: "md_entity \<Rightarrow> (md_row list \<Rightarrow> md_row list) \<Rightarrow> db \<Rightarrow> db" where
  "md_update_table e f = master_data_update (\<lambda>m. m(e := f (m e)))"

interpretation md_table: table "\<lambda>d. master_data d e" "md_update_table e"
  by unfold_locales (simp add: md_update_table_def)

definition md_by_id_in_tenant :: "md_entity \<Rightarrow> uuid \<Rightarrow> uuid \<Rightarrow> md_row option tx" where
  "md_by_id_in_tenant e i t =
     scalar_tx (\<lambda>d. filter (\<lambda>r. row_id r = i \<and> tenant_id r = t) (master_data d e))"

definition md_by_code_in_tenant :: "md_entity \<Rightarrow> string \<Rightarrow> uuid \<Rightarrow> md_row option tx" where
  "md_by_code_in_tenant e c t =
     scalar_tx (\<lambda>d. filter (\<lambda>r. code r = c \<and> tenant_id r = t) (master_data d e))"

definition md_list_in_tenant ::
  "env \<Rightarrow> md_entity \<Rightarrow> uuid \<Rightarrow> nat \<Rightarrow> nat \<Rightarrow> string option \<Rightarrow> db \<Rightarrow> md_row list \<times> nat" where
  "md_list_in_tenant v e t off cnt search d =
     (let found = (\<lambda>r. case search of
            None \<Rightarrow> True
          | Some s \<Rightarrow> s = '''' \<or> sql_ilike v (code r) (''%'' @ s @ ''%'') \<or> sql_ilike v (name r) (''%'' @ s @ ''%''));
          rs = filter (\<lambda>r. tenant_id r = t \<and> found r) (master_data d e)
      in (page_of off cnt (sort_key (\<lambda>r. collation v (name r)) rs), length rs))"

text \<open>The foreign keys among the columns of an entity. They do not look at tenants.\<close>

definition reference_ok :: "db \<Rightarrow> md_entity \<Rightarrow> string \<times> pyval \<Rightarrow> bool" where
  "reference_ok d e kv = (case (map_of (class_columns (class_of e)) (fst kv), snd kv) of
     (Some (Category_column c), VUuid i) \<Rightarrow> i \<in> row_id ` set (master_data d c)
   | (Some Unit_column, VUuid i) \<Rightarrow> i \<in> row_id ` set (measure_units d)
   | _ \<Rightarrow> True)"

definition md_references :: "db \<Rightarrow> md_entity \<Rightarrow> md_row \<Rightarrow> (string \<times> bool) list" where
  "md_references d e r = map (\<lambda>kv. (fst kv, reference_ok d e kv)) (extra r)"

definition md_constraints :: "md_entity \<Rightarrow> db \<Rightarrow> md_row \<Rightarrow> (string \<times> bool) list" where
  "md_constraints e d r =
     [(''pkey'', fresh_id (master_data d e) r),
      (class_unique (class_of e),
         \<not> list_ex (\<lambda>x. tenant_id x = tenant_id r \<and> code x = code r) (master_data d e)),
      (''tenant_id_fkey'', tenant_id r \<in> row_id ` set (tenants d)),
      (''created_by_fkey'', refers (users d) (created_by r))]
     @ md_references d e r"

section \<open>The service\<close>

definition md_platform_error :: "md_entity \<Rightarrow> error" where
  "md_platform_error e =
     ForbiddenError (''Platform users must access '' @ resource_type e @ '' data through a tenant.'')"

definition spaced :: "md_entity \<Rightarrow> string" where
  "spaced e = replace_all ''_'' '' '' (resource_type e)"

text \<open>\<^verbatim>\<open>str.title()\<close> on a string of words of small letters.\<close>

fun title_words :: "bool \<Rightarrow> string \<Rightarrow> string" where
  "title_words start [] = []"
| "title_words start (c # cs) = (if start then upper_char c else lower_char c) # title_words (c = CHR '' '') cs"

definition md_audit ::
  "AuditAction \<Rightarrow> md_entity \<Rightarrow> security_context \<Rightarrow> md_row \<Rightarrow> json_dict option \<Rightarrow> json_dict option \<Rightarrow> audit_args" where
  "md_audit act e cx r old new = \<lparr>aa_action = AuditAction_value act, aa_resource_type = resource_type e,
     aa_resource_id = Some (uuid_str (row_id r)), aa_tenant_id = cx_tenant_id cx,
     aa_user_id = Some (row_id (cx_user cx)), aa_old_data = old, aa_new_data = new\<rparr>"

definition md_list ::
  "md_entity \<Rightarrow> security_context \<Rightarrow> nat \<Rightarrow> nat \<Rightarrow> string option \<Rightarrow> (md_row list \<times> nat) tx" where
  "md_list e cx page page_size search =
     bind_tx (some_tx (cx_tenant_id cx) (md_platform_error e)) (\<lambda>t.
     bind_tx (env_tx id) (\<lambda>v.
     query_tx (md_list_in_tenant v e t ((page - 1) * page_size) page_size search)))"

definition md_get :: "md_entity \<Rightarrow> security_context \<Rightarrow> uuid \<Rightarrow> md_row tx" where
  "md_get e cx i =
     bind_tx (some_tx (cx_tenant_id cx) (md_platform_error e)) (\<lambda>t.
     bind_tx (md_by_id_in_tenant e i t) (\<lambda>r.
     some_tx r (NotFoundError (title_words True (spaced e) @ '' not found.''))))"

definition new_md_row :: "uuid \<Rightarrow> uuid \<Rightarrow> uuid \<Rightarrow> md_create \<Rightarrow> md_row" where
  "new_md_row i t u p = \<lparr>created_at = 0, updated_at = 0, row_id = i, tenant_id = t,
     created_by = Some u, updated_by = None, code = mc_code p, name = mc_name p,
     description = mc_description p, status = MasterDataStatus_ACTIVE,
     extra = column_values (mc_extra p)\<rparr>"

definition md_create_item ::
  "md_entity \<Rightarrow> security_context \<Rightarrow> md_create \<Rightarrow> web_request option \<Rightarrow> md_row tx" where
  "md_create_item e cx p rq =
     bind_tx (some_tx (cx_tenant_id cx) (md_platform_error e)) (\<lambda>t.
     bind_tx (md_by_code_in_tenant e (mc_code p) t) (\<lambda>existing.
     bind_tx (require_tx (existing = None)
       (ConflictError (''A '' @ spaced e @ '' with this code already exists.''))) (\<lambda>_.
     bind_tx uuid4_tx (\<lambda>i.
     bind_tx (require_tx (list_all (\<lambda>kv. column_fits (snd kv)) (mc_extra p))
       (DataError ''numeric field overflow'')) (\<lambda>_.
     bind_tx (add_row (md_update_table e) (md_constraints e)
       (new_md_row i t (row_id (cx_user cx)) p)) (\<lambda>instance.
     bind_tx (record_event (md_audit (ac_created (sv_audit_actions (service_of e))) e cx instance None (Some (json_mode (md_payload_json p)))) rq) (\<lambda>_.
     bind_tx commit_tx (\<lambda>_.
     return_tx (instance\<lparr>extra := mc_extra p\<rparr>)))))))))"

text \<open>The row an update writes, and the object it returns (which keeps the values sent).\<close>

definition md_updated :: "uuid \<Rightarrow> json_dict \<Rightarrow> md_row \<Rightarrow> md_row" where
  "md_updated u data r = (fold md_setattr (column_values data) r)\<lparr>updated_by := Some u\<rparr>"

definition md_update_item ::
  "md_entity \<Rightarrow> security_context \<Rightarrow> uuid \<Rightarrow> json_dict \<Rightarrow> web_request option \<Rightarrow> md_row tx" where
  "md_update_item e cx i data rq =
     bind_tx (md_get e cx i) (\<lambda>instance.
     bind_tx (require_tx (list_all (\<lambda>kv. column_fits (snd kv)) data)
       (DataError ''numeric field overflow'')) (\<lambda>_.
     bind_tx (require_tx (not_null_ok data) (IntegrityError ''not null'')) (\<lambda>_.
     bind_tx (query_tx (\<lambda>d. violated (md_references d e (md_updated (row_id (cx_user cx)) data instance)))) (\<lambda>v.
     bind_tx (require_tx (v = None) (IntegrityError ''foreign key'')) (\<lambda>_.
     bind_tx (save_row (md_update_table e) instance (md_updated (row_id (cx_user cx)) data instance)) (\<lambda>saved.
     bind_tx (record_event (md_audit (ac_updated (sv_audit_actions (service_of e))) e cx instance
       (Some (map (\<lambda>(k, v). (k, py_str (md_getattr k instance))) data))
       (Some (map (\<lambda>(k, v). (k, py_str v)) data))) rq) (\<lambda>_.
     bind_tx commit_tx (\<lambda>_.
     return_tx (fold md_setattr data saved)))))))))"

definition md_deactivated :: "uuid \<Rightarrow> md_row \<Rightarrow> md_row" where
  "md_deactivated u r = r\<lparr>status := MasterDataStatus_INACTIVE, updated_by := Some u\<rparr>"

definition md_deactivate ::
  "md_entity \<Rightarrow> security_context \<Rightarrow> uuid \<Rightarrow> web_request option \<Rightarrow> md_row tx" where
  "md_deactivate e cx i rq =
     bind_tx (md_get e cx i) (\<lambda>instance.
     bind_tx (require_tx (status instance \<noteq> MasterDataStatus_INACTIVE)
       (ConflictError (''This '' @ spaced e @ '' is already inactive.''))) (\<lambda>_.
     bind_tx (save_row (md_update_table e) instance (md_deactivated (row_id (cx_user cx)) instance)) (\<lambda>saved.
     bind_tx (record_event (md_audit (ac_deactivated (sv_audit_actions (service_of e))) e cx instance None None) rq) (\<lambda>_.
     bind_tx commit_tx (\<lambda>_.
     return_tx saved)))))"

section \<open>What an update can change\<close>

text \<open>The fields of an update payload are the common ones or the columns that the class adds.\<close>

lemma valid_update_common:
  "valid_update_field e (''name'', v) \<longleftrightarrow> v = VNone \<or> (\<exists>s. v = VStr s \<and> 1 \<le> length s \<and> length s \<le> 200)"
  "valid_update_field e (''description'', v) \<longleftrightarrow> v = VNone \<or> (\<exists>s. v = VStr s)"
  "valid_update_field e (''status'', v) \<longleftrightarrow> v = VNone \<or> (\<exists>s. v = VStatus s)"
  by (cases e; cases v; simp add: router_defs schema_defs)+

lemma valid_update_extra:
  assumes "valid_update_field e (k, v)" and "k \<notin> set [''name'', ''description'', ''status'']"
  shows "k \<in> set (extra_fields e)"
proof -
  from assms(1) have "k \<in> set (map fst (rt_update_schema (router_of e)))"
    by (force split: option.splits dest: map_of_SomeD)
  with assms(2) show ?thesis unfolding schema_fields by auto
qed

text \<open>The identity of a row: no update touches it.\<close>

definition md_identity :: "md_row \<Rightarrow> uuid \<times> uuid \<times> string \<times> uuid option \<times> int" where
  "md_identity r = (row_id r, tenant_id r, code r, created_by r, created_at r)"

lemma md_setattr_identity [simp]: "md_identity (md_setattr kv r) = md_identity r"
  by (cases kv) (auto simp: md_identity_def split: pyval.splits)

lemma fold_md_setattr_identity: "md_identity (fold md_setattr kvs r) = md_identity r"
  by (induction kvs arbitrary: r) simp_all

lemma map_fst_assoc_set [simp]: "map fst (assoc_set k v kvs) = map fst kvs"
  by (induction kvs) auto

lemma md_setattr_fields [simp]: "map fst (extra (md_setattr kv r)) = map fst (extra r)"
  by (cases kv) (auto split: pyval.splits)

lemma fold_md_setattr_fields: "map fst (extra (fold md_setattr kvs r)) = map fst (extra r)"
  by (induction kvs arbitrary: r) simp_all

lemma assoc_set_other: "k' \<noteq> k \<Longrightarrow> map_of (assoc_set k v kvs) k' = map_of kvs k'"
  by (induction kvs) auto

lemma assoc_set_same: "k \<in> fst ` set kvs \<Longrightarrow> map_of (assoc_set k v kvs) k = Some v"
  by (induction kvs) auto

text \<open>An attribute that the payload does not name keeps its value.\<close>

lemma md_setattr_other: "k' \<noteq> fst kv \<Longrightarrow> md_getattr k' (md_setattr kv r) = md_getattr k' r"
  by (cases kv) (auto simp: md_getattr_def assoc_set_other split: pyval.splits option.splits)

lemma fold_md_setattr_other:
  "k \<notin> fst ` set kvs \<Longrightarrow> md_getattr k (fold md_setattr kvs r) = md_getattr k r"
  by (induction kvs arbitrary: r) (auto simp: md_setattr_other)

text \<open>An attribute that the payload names has the value of the payload.\<close>

lemma md_setattr_same:
  assumes "valid_update_field e (k, v)" and "not_null_ok [(k, v)]" and "map fst (extra r) = extra_fields e"
  shows "md_getattr k (md_setattr (k, v) r) = v"
proof (cases "k \<in> set [''name'', ''description'', ''status'']")
  case True
  then consider "k = ''name''" | "k = ''description''" | "k = ''status''" by auto
  then show ?thesis
    by cases (use assms(1,2) in \<open>auto simp: valid_update_common md_getattr_def not_null_ok_def
      simp del: valid_update_field.simps\<close>)
next
  case False
  then have "k \<in> set (extra_fields e)" using valid_update_extra [OF assms(1)] by blast
  then have "k \<in> fst ` set (extra r)" by (simp only: assms(3) [symmetric] set_map)
  with False show ?thesis by (auto simp: md_getattr_def assoc_set_same)
qed

lemma fold_md_setattr_same:
  assumes "valid_md_update e data" and "not_null_ok data" and "map fst (extra r) = extra_fields e"
    and "(k, v) \<in> set data"
  shows "md_getattr k (fold md_setattr data r) = v"
  using assms
proof (induction data arbitrary: r)
  case (Cons kv data)
  obtain k' v' where kv: "kv = (k', v')" by (cases kv)
  have tl: "valid_md_update e data" "not_null_ok data"
    "map fst (extra (md_setattr kv r)) = extra_fields e"
    using Cons.prems by (auto simp: valid_md_update_def not_null_ok_def simp del: valid_update_field.simps)
  show ?case
  proof (cases "(k, v) \<in> set data")
    case True
    then show ?thesis using Cons.IH [OF tl] by simp
  next
    case False
    with Cons.prems(4) kv have eq: "k' = k" "v' = v" by auto
    have "k \<notin> fst ` set data" using Cons.prems(1) kv eq by (auto simp: valid_md_update_def)
    moreover have "md_getattr k (md_setattr kv r) = v"
      unfolding kv eq using Cons.prems(1-3) kv eq
      by (intro md_setattr_same [of e]) (auto simp: valid_md_update_def not_null_ok_def simp del: valid_update_field.simps)
    ultimately show ?thesis by (simp add: fold_md_setattr_other)
  qed
qed simp

text \<open>The same for the values as the columns store them.\<close>

lemma fst_column_values [simp]: "fst ` set (column_values data) = fst ` set data"
  by (force simp: column_values_def)

lemma md_setattr_stored:
  assumes "valid_update_field e (k, v)" and "not_null_ok [(k, v)]" and "map fst (extra r) = extra_fields e"
  shows "md_getattr k (md_setattr (k, column_value v) r) = column_value v"
proof (cases "k \<in> set [''name'', ''description'', ''status'']")
  case True
  then consider "k = ''name''" | "k = ''description''" | "k = ''status''" by auto
  then show ?thesis
    by cases (use assms(1,2) in \<open>auto simp: valid_update_common md_getattr_def not_null_ok_def
      simp del: valid_update_field.simps\<close>)
next
  case False
  then have "k \<in> set (extra_fields e)" using valid_update_extra [OF assms(1)] by blast
  then have "k \<in> fst ` set (extra r)" by (simp only: assms(3) [symmetric] set_map)
  with False show ?thesis by (auto simp: md_getattr_def assoc_set_same)
qed

lemma fold_md_setattr_stored:
  assumes "valid_md_update e data" and "not_null_ok data" and "map fst (extra r) = extra_fields e"
    and "(k, v) \<in> set data"
  shows "md_getattr k (fold md_setattr (column_values data) r) = column_value v"
  using assms
proof (induction data arbitrary: r)
  case (Cons kv data)
  obtain k' v' where kv: "kv = (k', v')" by (cases kv)
  let ?r = "md_setattr (k', column_value v') r"
  have tl: "valid_md_update e data" "not_null_ok data" "map fst (extra ?r) = extra_fields e"
    using Cons.prems(1,2) by (simp_all add: valid_md_update_def not_null_ok_def md_setattr_fields Cons.prems(3)
        del: md_setattr.simps valid_update_field.simps)
  have step: "fold md_setattr (column_values (kv # data)) r = fold md_setattr (column_values data) ?r"
    by (simp add: column_values_def kv)
  show ?case
  proof (cases "(k, v) \<in> set data")
    case True
    then show ?thesis unfolding step by (rule Cons.IH [OF tl])
  next
    case False
    with Cons.prems(4) kv have eq: "k' = k" "v' = v" by auto
    have "k \<notin> fst ` set data" using Cons.prems(1) kv eq by (simp add: valid_md_update_def)
    moreover have "md_getattr k ?r = column_value v"
      unfolding eq using Cons.prems(1-3) kv eq
      by (intro md_setattr_stored [of e])
        (simp_all add: valid_md_update_def not_null_ok_def del: valid_update_field.simps)
    ultimately show ?thesis unfolding step by (simp add: fold_md_setattr_other)
  qed
qed simp

lemma md_updated_attributes:
  assumes "valid_md_update e data" and "not_null_ok data" and "map fst (extra r) = extra_fields e"
  shows "(k, v) \<in> set data \<Longrightarrow> md_getattr k (md_updated u data r) = column_value v"
    "k \<notin> fst ` set data \<Longrightarrow> md_getattr k (md_updated u data r) = md_getattr k r"
    "updated_by (md_updated u data r) = Some u"
proof -
  have skip: "md_getattr k (x\<lparr>updated_by := y\<rparr>) = md_getattr k x" for x :: md_row and y
    by (simp add: md_getattr_def)
  show "(k, v) \<in> set data \<Longrightarrow> md_getattr k (md_updated u data r) = column_value v"
    unfolding md_updated_def skip by (rule fold_md_setattr_stored [OF assms])
  show "k \<notin> fst ` set data \<Longrightarrow> md_getattr k (md_updated u data r) = md_getattr k r"
    unfolding md_updated_def skip by (simp add: fold_md_setattr_other)
  show "updated_by (md_updated u data r) = Some u" by (simp add: md_updated_def)
qed

lemma md_getattr_touch [simp]: "md_getattr k (touch n r r') = md_getattr k r'" for r r' :: md_row
  by (simp add: touch_def md_getattr_def)

lemma md_updated_identity [simp]: "md_identity (md_updated u data r) = md_identity r"
  using fold_md_setattr_identity [of "column_values data" r]
  by (simp add: md_updated_def md_identity_def)

lemma md_identity_ids:
  "row_id (md_updated u data r) = row_id r" "tenant_id (md_updated u data r) = tenant_id r"
  "code (md_updated u data r) = code r"
  using md_updated_identity [of u data r] by (simp_all add: md_identity_def del: md_updated_identity)

lemma md_deactivated_fields [simp]:
  "row_id (md_deactivated u r) = row_id r" "tenant_id (md_deactivated u r) = tenant_id r"
  "code (md_deactivated u r) = code r" "status (md_deactivated u r) = MasterDataStatus_INACTIVE"
  "name (md_deactivated u r) = name r" "extra (md_deactivated u r) = extra r"
  by (simp_all add: md_deactivated_def)

lemma code_touch [simp]: "code (touch n r r') = code r'" for r r' :: md_row
  by (simp add: touch_def)

section \<open>The operations within the store relations\<close>

lemmas md_defs = md_create_item_def md_update_item_def md_deactivate_def md_get_def
  md_by_id_in_tenant_def md_by_code_in_tenant_def

lemma audit_events_md_update_table [simp]: "audit_events (md_update_table e f d) = audit_events d"
  by (simp add: md_update_table_def)

lemma master_data_md_update_table [simp]:
  "master_data (md_update_table e f d) e' = (if e' = e then f (master_data d e) else master_data d e')"
  by (simp add: md_update_table_def)

lemma md_create_audit: "tx_within audit_grows (md_create_item e cx p rq)"
  unfolding md_defs by (intro tx_rules) (simp_all add: audit_grows_def)

lemma md_update_audit: "tx_within audit_grows (md_update_item e cx i data rq)"
  unfolding md_defs by (intro tx_rules) (simp_all add: audit_grows_def)

lemma md_deactivate_audit: "tx_within audit_grows (md_deactivate e cx i rq)"
  unfolding md_defs by (intro tx_rules) (simp_all add: audit_grows_def)

lemma md_create_atomic: "atomic (md_create_item e cx p rq)"
  unfolding md_defs by (intro atomic_rules)

lemma md_update_atomic: "atomic (md_update_item e cx i data rq)"
  unfolding md_defs by (intro atomic_rules)

lemma md_deactivate_atomic: "atomic (md_deactivate e cx i rq)"
  unfolding md_defs by (intro atomic_rules)

lemma md_frame:
  "frame (\<lambda>r. tenant_id r \<noteq> t) (master_data d e) (f (master_data d e))
     \<Longrightarrow> tenant_frame t d (md_update_table e f d)"
  unfolding md_update_table_def by (rule tenant_frame_master_data)

lemma md_create_isolation:
  assumes "cx_tenant_id cx = Some t"
  shows "tx_within (tenant_frame t) (md_create_item e cx p rq)"
  unfolding md_defs assms some_tx_def option.case bind_return
  by (intro tx_rules) (auto simp: md_constraints_def new_md_row_def intro!: md_frame frame_snoc)

lemma md_update_isolation:
  assumes "cx_tenant_id cx = Some t"
  shows "tx_within (tenant_frame t) (md_update_item e cx i data rq)"
  unfolding md_defs assms some_tx_def option.case bind_return
  by (intro tx_rules) (auto dest!: filter_singletonD intro!: md_frame frame_put_row simp: md_identity_ids)

lemma md_deactivate_isolation:
  assumes "cx_tenant_id cx = Some t"
  shows "tx_within (tenant_frame t) (md_deactivate e cx i rq)"
  unfolding md_defs assms some_tx_def option.case bind_return
  by (intro tx_rules) (auto dest!: filter_singletonD intro!: md_frame frame_put_row)

section \<open>The invariant of the tables\<close>

text \<open>Identifiers are unique, and so are the codes of a tenant.\<close>

definition md_table_ok :: "md_entity \<Rightarrow> db \<Rightarrow> bool" where
  "md_table_ok e d \<longleftrightarrow> distinct (map row_id (master_data d e)) \<and>
     distinct (map (\<lambda>r. (tenant_id r, code r)) (master_data d e))"

definition md_tables_ok :: "db \<Rightarrow> bool" where
  "md_tables_ok d \<longleftrightarrow> (\<forall>e. md_table_ok e d)"

interpretation md_invariant: blind_to_audit "preserves md_tables_ok"
  by unfold_locales (simp add: preserves_def md_tables_ok_def md_table_ok_def)

lemma md_tables_ok_write:
  assumes "md_table_ok e d \<Longrightarrow> md_table_ok e (md_update_table e f d)"
  shows "preserves md_tables_ok d (md_update_table e f d)"
  using assms unfolding preserves_def md_tables_ok_def md_table_ok_def
  by (auto simp: md_update_table_def split: if_splits)

lemma md_table_ok_snoc:
  assumes "violated (md_constraints e d r) = None" and "md_table_ok e d"
  shows "md_table_ok e (md_update_table e (\<lambda>rs. rs @ [r]) d)"
  using assms
  by (auto simp: md_table_ok_def md_constraints_def fresh_id_def list_ex_iff violated_None_iff)

lemma md_table_ok_put_row:
  assumes "r \<in> set (master_data d e)" and "row_id r' = row_id r" and "tenant_id r' = tenant_id r"
    and "code r' = code r" and "md_table_ok e d"
  shows "md_table_ok e (md_update_table e (put_row r') d)"
proof -
  have ids: "distinct (map row_id (master_data d e))" using assms(5) by (simp add: md_table_ok_def)
  show ?thesis
    using map_put_row [where f = "\<lambda>r. (tenant_id r, code r)", OF ids assms(1,2)] assms(3-5)
    by (simp add: md_table_ok_def)
qed

lemma md_create_invariant: "tx_within (preserves md_tables_ok) (md_create_item e cx p rq)"
  unfolding md_defs by (intro tx_rules) (auto intro!: md_tables_ok_write md_table_ok_snoc)

lemma md_update_invariant: "tx_within (preserves md_tables_ok) (md_update_item e cx i data rq)"
  unfolding md_defs
  by (intro tx_rules)
    (auto dest!: filter_singletonD intro!: md_tables_ok_write md_table_ok_put_row simp: md_identity_ids)

lemma md_deactivate_invariant: "tx_within (preserves md_tables_ok) (md_deactivate e cx i rq)"
  unfolding md_defs
  by (intro tx_rules) (auto dest!: filter_singletonD intro!: md_tables_ok_write md_table_ok_put_row)

section \<open>What the operations do\<close>

lemma md_get_InrE:
  assumes "md_get e cx i s = (Inr r, s')"
  obtains t where "cx_tenant_id cx = Some t" "s' = s" "r \<in> set (master_data (current s) e)"
    "row_id r = i" "tenant_id r = t"
  using assms unfolding md_get_def md_by_id_in_tenant_def
proof (elim bind_InrE some_InrE)
  fix t s1 x s2
  assume "scalar_tx (\<lambda>d. filter (\<lambda>r. row_id r = i \<and> tenant_id r = t) (master_data d e)) s1 = (Inr x, s2)"
    and x: "cx_tenant_id cx = Some t" "s1 = s" "x = Some r" "s' = s2"
  then have f: "filter (\<lambda>r. row_id r = i \<and> tenant_id r = t) (master_data (current s) e) = [r]" "s2 = s"
    by (auto elim: scalar_InrE)
  from filter_singletonD [OF f(1)] f x show thesis by (intro that [of t]) simp_all
qed

lemma md_get_own:
  assumes "cx_tenant_id cx = Some t" and "r \<in> set (master_data (current s) e)"
    and "row_id r = i" and "tenant_id r = t" and "distinct (map row_id (master_data (current s) e))"
  shows "md_get e cx i s = (Inr r, s)"
proof -
  have "filter (\<lambda>x. row_id x = i \<and> tenant_id x = t) (master_data (current s) e) = [r]"
    using filter_key_and_eq [OF assms(5,2), of "\<lambda>x. tenant_id x = t"] assms(3,4) by simp
  then show ?thesis
    by (simp add: md_get_def md_by_id_in_tenant_def bind_tx_def tx_simps assms(1))
qed

lemma md_create_Inr:
  assumes "md_create_item e cx p rq s = (Inr r, s')"
  obtains t stored where "cx_tenant_id cx = Some t"
    "stored = stamp (server_clock (env s) (txn s)) (new_md_row (uuid4 (env s) (drawn s)) t (row_id (cx_user cx)) p)"
    "violated (md_constraints e (current s) stored) = None"
    "master_data (committed s') e = master_data (current s) e @ [stored]"
    "r = stored\<lparr>extra := mc_extra p\<rparr>"
proof -
  from assms obtain t where t: "cx_tenant_id cx = Some t"
    unfolding md_create_item_def by (elim bind_InrE [of "some_tx _ _"] some_InrE)
  from assms show thesis
    unfolding md_create_item_def t md_by_code_in_tenant_def bind_scalar_step guard_run option.case
    by (auto split: one_or_none.splits if_splits elim!: add_audit_commit_InrE intro!: that [OF t])
qed

lemma md_update_Inr:
  assumes "md_update_item e cx i data rq s = (Inr r', s')"
  obtains r stored where "md_get e cx i s = (Inr r, s)" "not_null_ok data"
    "stored = touch (server_clock (env s) (txn s)) r (md_updated (row_id (cx_user cx)) data r)"
    "master_data (committed s') e = put_row stored (master_data (current s) e)"
    "r' = fold md_setattr data stored"
proof -
  from assms obtain r where g: "md_get e cx i s = (Inr r, s)"
    unfolding md_update_item_def by (elim bind_InrE) (auto elim: md_get_InrE)
  from assms show thesis
    unfolding md_update_item_def bind_apply_Inr [where m = "md_get e cx i" and s = s, OF g]
      bind_first_step(3) guard_run
    by (auto split: if_splits elim!: save_audit_commit_InrE intro!: that [OF g])
qed

lemma md_update_null:
  assumes "md_get e cx i s = (Inr r, s)" and "\<not> not_null_ok data"
    and "list_all (\<lambda>kv. column_fits (snd kv)) data"
  shows "md_update_item e cx i data rq s = (Inl (IntegrityError ''not null''), s)"
  using assms by (simp add: md_update_item_def bind_tx_def tx_simps)

lemma md_deactivate_Inr:
  assumes "md_deactivate e cx i rq s = (Inr r', s')"
  obtains r where "md_get e cx i s = (Inr r, s)" "status r \<noteq> MasterDataStatus_INACTIVE"
    "r' = touch (server_clock (env s) (txn s)) r (md_deactivated (row_id (cx_user cx)) r)"
    "master_data (committed s') e = put_row r' (master_data (current s) e)"
proof -
  from assms obtain r where g: "md_get e cx i s = (Inr r, s)"
    unfolding md_deactivate_def by (elim bind_InrE) (auto elim: md_get_InrE)
  from assms show thesis
    unfolding md_deactivate_def bind_apply_Inr [where m = "md_get e cx i" and s = s, OF g] guard_run
    by (auto split: if_splits elim!: save_audit_commit_InrE intro!: that [OF g])
qed

text \<open>A created row is found again by its identifier, with the values its columns store.\<close>

lemma md_create_get:
  assumes "md_create_item e cx p rq s = (Inr r, s')" and "md_table_ok e (current s)"
  shows "md_get e cx (row_id r) (new_session v (committed s'))
    = (Inr (r\<lparr>extra := column_values (mc_extra p)\<rparr>), new_session v (committed s'))"
  using assms(1)
proof (rule md_create_Inr)
  fix t stored assume t: "cx_tenant_id cx = Some t"
    and stored: "stored = stamp (server_clock (env s) (txn s)) (new_md_row (uuid4 (env s) (drawn s)) t (row_id (cx_user cx)) p)"
    and v: "violated (md_constraints e (current s) stored) = None"
    and c: "master_data (committed s') e = master_data (current s) e @ [stored]"
    and r: "r = stored\<lparr>extra := mc_extra p\<rparr>"
  have same: "r\<lparr>extra := column_values (mc_extra p)\<rparr> = stored"
    by (simp add: r stored new_md_row_def stamp_def)
  have "tenant_id stored = t" "row_id r = row_id stored"
    by (simp_all add: r stored new_md_row_def)
  moreover have "distinct (map row_id (master_data (committed s') e))"
    using assms(2) v by (auto simp: c md_table_ok_def md_constraints_def fresh_id_def)
  ultimately show ?thesis
    unfolding same by (intro md_get_own [OF t]) (simp_all add: c)
qed

end
