(* ===== verification/Settings_Service.thy ===== *)
theory Settings_Service
  imports Tenant_Isolation
begin

text \<open>
  Hierarchical settings: \<^verbatim>\<open>app/services/settings_service.py\<close> over
  \<^verbatim>\<open>app/repositories/setting_repository.py\<close>. \<open>resolve\<close> picks the most specific row that
  applies; it is compared with the order of precedence that the module documents, and shown
  to read what \<open>upsert\<close> wrote.
\<close>

section \<open>Repository\<close>

definition setting_scope ::
  "uuid option \<Rightarrow> uuid option \<Rightarrow> string option \<Rightarrow> string \<Rightarrow> setting \<Rightarrow> bool" where
  "setting_scope t o' m k r \<longleftrightarrow> st_tenant_id r = t \<and> st_organization_unit_id r = o' \<and>
     st_module r = m \<and> st_key r = k"

definition find_setting ::
  "uuid option \<Rightarrow> uuid option \<Rightarrow> string option \<Rightarrow> string \<Rightarrow> setting option tx" where
  "find_setting t o' m k = scalar_tx (\<lambda>d. filter (setting_scope t o' m k) (settings d))"

definition list_candidates :: "uuid option \<Rightarrow> string \<Rightarrow> db \<Rightarrow> setting list" where
  "list_candidates t k d =
     filter (\<lambda>r. st_key r = k \<and> (st_tenant_id r = None \<or> st_tenant_id r = t)) (settings d)"

definition setting_constraints :: "db \<Rightarrow> setting \<Rightarrow> (string \<times> bool) list" where
  "setting_constraints d r =
     [(''settings_pkey'', fresh_id (settings d) r),
      (''uq_setting_scope_key'',
         st_tenant_id r = None \<or> st_organization_unit_id r = None \<or> st_module r = None \<or>
         \<not> list_ex (setting_scope (st_tenant_id r) (st_organization_unit_id r) (st_module r) (st_key r))
             (settings d)),
      (''settings_tenant_id_fkey'', refers (tenants d) (st_tenant_id r)),
      (''settings_organization_unit_id_fkey'', refers (organization_units d) (st_organization_unit_id r))]"

section \<open>Resolution\<close>

definition specificity :: "setting \<Rightarrow> nat" where
  "specificity r = (if st_tenant_id r \<noteq> None then 1 else 0)
     + (if st_organization_unit_id r \<noteq> None then 2 else 0) + (if st_module r \<noteq> None then 4 else 0)"

text \<open>Python's \<^verbatim>\<open>max(xs, key=f)\<close>: the first of the greatest.\<close>

fun first_max :: "('a \<Rightarrow> nat) \<Rightarrow> 'a \<Rightarrow> 'a list \<Rightarrow> 'a" where
  "first_max f x [] = x"
| "first_max f x (y # ys) = (if f x < f y then first_max f y ys else first_max f x ys)"

definition applicable :: "uuid option \<Rightarrow> string option \<Rightarrow> setting \<Rightarrow> bool" where
  "applicable o' m r \<longleftrightarrow> (st_organization_unit_id r = None \<or> st_organization_unit_id r = o') \<and>
     (st_module r = None \<or> st_module r = m)"

definition resolve ::
  "uuid option \<Rightarrow> string \<Rightarrow> uuid option \<Rightarrow> string option \<Rightarrow> pyval \<Rightarrow> db \<Rightarrow> pyval" where
  "resolve t k o' m dflt d =
     (case filter (applicable o' m) (list_candidates t k d) of
        [] \<Rightarrow> dflt
      | r # rs \<Rightarrow> st_value (first_max specificity r rs))"

section \<open>Writing\<close>

definition new_setting ::
  "uuid \<Rightarrow> uuid option \<Rightarrow> uuid option \<Rightarrow> string option \<Rightarrow> string \<Rightarrow> pyval \<Rightarrow> setting" where
  "new_setting i t o' m k v = \<lparr>created_at = 0, updated_at = 0, row_id = i, st_tenant_id = t,
     st_organization_unit_id = o', st_module = m, st_key = k, st_value = v\<rparr>"

definition setting_audit :: "uuid option \<Rightarrow> uuid \<Rightarrow> string \<Rightarrow> pyval \<Rightarrow> pyval \<Rightarrow> audit_args" where
  "setting_audit t u k old new = \<lparr>aa_action = AuditAction_value SETTINGS_CHANGED, aa_resource_type = ''setting'',
     aa_resource_id = Some k, aa_tenant_id = t, aa_user_id = Some u,
     aa_old_data = Some [(''value'', old)], aa_new_data = Some [(''value'', new)]\<rparr>"

definition upsert ::
  "uuid option \<Rightarrow> string \<Rightarrow> pyval \<Rightarrow> uuid option \<Rightarrow> string option \<Rightarrow> uuid \<Rightarrow> setting tx" where
  "upsert t k v o' m changed_by =
     bind_tx (find_setting t o' m k) (\<lambda>existing.
     case existing of
       Some r \<Rightarrow>
         bind_tx (save_row settings_update r (r\<lparr>st_value := v\<rparr>)) (\<lambda>x.
         bind_tx (record_event (setting_audit t changed_by k (st_value r) v) None) (\<lambda>_.
         bind_tx commit_tx (\<lambda>_.
         return_tx x)))
     | None \<Rightarrow>
         bind_tx (require_tx (length k \<le> 100 \<and> fits 50 m)
           (DataError ''value too long for type character varying'')) (\<lambda>_.
         bind_tx uuid4_tx (\<lambda>i.
         bind_tx (add_row settings_update setting_constraints (new_setting i t o' m k v)) (\<lambda>x.
         bind_tx (record_event (setting_audit t changed_by k VNone v) None) (\<lambda>_.
         bind_tx commit_tx (\<lambda>_.
         return_tx x))))))"

interpretation settings_table: table settings settings_update
  by unfold_locales simp

section \<open>The most specific row\<close>

lemma first_max_in: "first_max f x xs \<in> set (x # xs)"
  by (induction xs arbitrary: x) auto

lemma first_max_ge: "y \<in> set (x # xs) \<Longrightarrow> f y \<le> f (first_max f x xs)"
proof (induction xs arbitrary: x y)
  case (Cons z zs)
  let ?w = "if f x < f z then z else x"
  have w: "f ?w \<le> f (first_max f ?w zs)" by (rule Cons.IH) simp
  consider "y = x" | "y = z" | "y \<in> set zs" using Cons.prems by auto
  then show ?case
  proof cases
    case 3
    then have "f y \<le> f (first_max f ?w zs)" by (intro Cons.IH) simp
    then show ?thesis by (cases "f x < f z") simp_all
  qed (use w in \<open>auto split: if_splits\<close>)
qed simp

lemma first_max_unique:
  assumes "y \<in> set (x # xs)" and "\<And>z. z \<in> set (x # xs) \<Longrightarrow> z \<noteq> y \<Longrightarrow> f z < f y"
  shows "first_max f x xs = y"
  using first_max_in [of f x xs] first_max_ge [OF assms(1), of f] assms(2) by fastforce

lemma first_max_filter:
  assumes "f (first_max f x xs) = n"
  shows "hd (filter (\<lambda>y. f y = n) (x # xs)) = first_max f x xs"
  using assms
proof (induction xs arbitrary: x)
  case (Cons z zs)
  show ?case
  proof (cases "f x < f z")
    case True
    have "f z \<le> f (first_max f z zs)" by (rule first_max_ge) simp
    with True Cons.prems have "f x \<noteq> n" by simp
    with True Cons show ?thesis by simp
  next
    case False
    have x: "f x \<le> f (first_max f x zs)" by (rule first_max_ge) simp
    show ?thesis
    proof (cases "f x = n")
      case True
      then show ?thesis using Cons.IH [of x] Cons.prems False by simp
    next
      case False
      with x \<open>\<not> f x < f z\<close> Cons.prems have "f z \<noteq> n" by simp
      with False Cons.IH [of x] Cons.prems \<open>\<not> f x < f z\<close> show ?thesis by simp
    qed
  qed
qed simp

lemma resolve_best:
  assumes "r \<in> set (list_candidates t k d)" and "applicable o' m r"
    and "\<And>x. x \<in> set (list_candidates t k d) \<Longrightarrow> applicable o' m x \<Longrightarrow> x \<noteq> r
      \<Longrightarrow> specificity x < specificity r"
  shows "resolve t k o' m dflt d = st_value r"
proof (cases "filter (applicable o' m) (list_candidates t k d)")
  case Nil
  with assms(1,2) show ?thesis by (auto simp: filter_empty_conv)
next
  case (Cons y ys)
  then have s: "set (y # ys) = {x \<in> set (list_candidates t k d). applicable o' m x}" by (metis set_filter)
  then have "first_max specificity y ys = r"
    using assms by (intro first_max_unique) blast+
  with Cons show ?thesis by (simp add: resolve_def)
qed

text \<open>The row of a scope is more specific than every other applicable row.\<close>

lemma specificity_strict:
  assumes r: "setting_scope t o' m k r" and x: "x \<in> set (list_candidates t k d)" "applicable o' m x"
    and "\<not> setting_scope t o' m k x"
  shows "specificity x < specificity r"
proof -
  have k: "st_key x = k" and t: "st_tenant_id x = None \<or> st_tenant_id x = t"
    using x(1) by (simp_all add: list_candidates_def)
  have u: "st_organization_unit_id x = None \<or> st_organization_unit_id x = o'"
    and m: "st_module x = None \<or> st_module x = m"
    using x(2) by (simp_all add: applicable_def)
  have R: "st_tenant_id r = t" "st_organization_unit_id r = o'" "st_module r = m"
    using r by (simp_all add: setting_scope_def)
  have "st_tenant_id x \<noteq> t \<or> st_organization_unit_id x \<noteq> o' \<or> st_module x \<noteq> m"
    using assms(4) k by (simp add: setting_scope_def)
  with t u m show ?thesis unfolding specificity_def R by (elim disjE) simp_all
qed

section \<open>The documented precedence\<close>

text \<open>Module+Plant, Module+Tenant, Plant, Tenant, Platform: the first scope that has a row.\<close>

fun first_found :: "db \<Rightarrow> string \<Rightarrow> (uuid option \<times> uuid option \<times> string option) list \<Rightarrow> setting option" where
  "first_found d k [] = None"
| "first_found d k ((t, o', m) # scs) =
     (case filter (setting_scope t o' m k) (settings d) of
        r # _ \<Rightarrow> Some r
      | [] \<Rightarrow> first_found d k scs)"

definition precedence :: "uuid \<Rightarrow> uuid \<Rightarrow> string \<Rightarrow> (uuid option \<times> uuid option \<times> string option) list" where
  "precedence t o' m = [(Some t, Some o', Some m), (Some t, None, Some m),
     (Some t, Some o', None), (Some t, None, None), (None, None, None)]"

definition plain_platform_rows :: "db \<Rightarrow> string \<Rightarrow> bool" where
  "plain_platform_rows d k \<longleftrightarrow> (\<forall>r\<in>set (settings d). st_key r = k \<longrightarrow> st_tenant_id r = None \<longrightarrow>
     st_organization_unit_id r = None \<and> st_module r = None)"

definition scope_score :: "uuid option \<times> uuid option \<times> string option \<Rightarrow> nat" where
  "scope_score sc = (case sc of (t, o', m) \<Rightarrow> (if t \<noteq> None then 1 else 0)
     + (if o' \<noteq> None then 2 else 0) + (if m \<noteq> None then 4 else 0))"

lemma first_found_None:
  "first_found d k scs = None \<longleftrightarrow> (\<forall>(t, o', m)\<in>set scs. filter (setting_scope t o' m k) (settings d) = [])"
  by (induction d k scs rule: first_found.induct) (auto split: list.splits)

lemma first_found_Some:
  "first_found d k scs = Some r \<Longrightarrow> \<exists>t o' m ys zs. scs = ys @ (t, o', m) # zs \<and>
     (\<exists>rs. filter (setting_scope t o' m k) (settings d) = r # rs) \<and>
     (\<forall>(t', o2, m')\<in>set ys. filter (setting_scope t' o2 m' k) (settings d) = [])"
proof (induction d k scs rule: first_found.induct)
  case (2 d k t o' m scs)
  show ?case
  proof (cases "filter (setting_scope t o' m k) (settings d)")
    case Nil
    with 2 obtain t2 o2 m2 ys zs rs where "scs = ys @ (t2, o2, m2) # zs"
      "filter (setting_scope t2 o2 m2 k) (settings d) = r # rs"
      "\<forall>(t', o2, m')\<in>set ys. filter (setting_scope t' o2 m' k) (settings d) = []"
      by auto
    with Nil show ?thesis
      by (intro exI [of _ t2] exI [of _ o2] exI [of _ m2] exI [of _ "(t, o', m) # ys"] exI [of _ zs]) auto
  next
    case (Cons y ys)
    with 2 have "y = r" by simp
    with Cons show ?thesis
      by (intro exI [of _ t] exI [of _ o'] exI [of _ m] exI [of _ "[]"] exI [of _ scs]) auto
  qed
qed simp

text \<open>The rows that apply are those of the five scopes.\<close>

lemma applicable_scopes:
  assumes "plain_platform_rows d k"
  shows "x \<in> set (filter (applicable (Some o') (Some m)) (list_candidates (Some t) k d)) \<longleftrightarrow>
    x \<in> set (settings d) \<and> (\<exists>(t2, o2, m2)\<in>set (precedence t o' m). setting_scope t2 o2 m2 k x)"
  using assms
  by (cases "st_tenant_id x"; cases "st_organization_unit_id x"; cases "st_module x")
    (auto simp: plain_platform_rows_def list_candidates_def applicable_def precedence_def setting_scope_def)

lemma resolve_precedence_aux:
  assumes plain: "plain_platform_rows d k"
    and app: "filter (applicable (Some o') (Some m)) (list_candidates (Some t) k d) = y # ys"
    and found: "first_found d k (precedence t o' m) = Some r"
  shows "first_max specificity y ys = r"
proof -
  let ?xs = "filter (applicable (Some o') (Some m)) (list_candidates (Some t) k d)"
  let ?b = "first_max specificity y ys"
  have b: "?b \<in> set ?xs" using first_max_in [of specificity y ys] app by simp
  have scoped: "setting_scope t2 o2 m2 k x \<Longrightarrow> specificity x = scope_score (t2, o2, m2)" for t2 o2 m2 x
    by (auto simp: setting_scope_def specificity_def scope_score_def)
  from first_found_Some [OF found] obtain t1 o1 m1 pre post rs where
    split: "precedence t o' m = pre @ (t1, o1, m1) # post"
    and here: "filter (setting_scope t1 o1 m1 k) (settings d) = r # rs"
    and none: "\<forall>(t', o2, m')\<in>set pre. filter (setting_scope t' o2 m' k) (settings d) = []" by blast
  have desc: "sorted_wrt (\<lambda>a b. scope_score a > scope_score b) (precedence t o' m)"
    by (simp add: precedence_def scope_score_def)
  then have later: "\<forall>sc\<in>set post. scope_score sc < scope_score (t1, o1, m1)"
    unfolding split by (simp add: sorted_wrt_append)
  have r: "r \<in> set (settings d)" "setting_scope t1 o1 m1 k r"
    using here by (metis filter_eq_ConsD in_set_conv_decomp list.set_intros(1) mem_Collect_eq set_filter)+
  have rx: "r \<in> set ?xs"
    unfolding applicable_scopes [OF plain] using r split by auto
  from b obtain t2 o2 m2 where b2: "?b \<in> set (settings d)" "(t2, o2, m2) \<in> set (precedence t o' m)"
    "setting_scope t2 o2 m2 k ?b" unfolding applicable_scopes [OF plain] by blast
  have "(t2, o2, m2) \<notin> set pre" using none b2 by (auto simp: filter_empty_conv)
  moreover have "specificity r \<le> specificity ?b"
    using first_max_ge [of r y ys specificity] rx app by simp
  ultimately have same: "(t2, o2, m2) = (t1, o1, m1)"
    using b2 later scoped [OF b2(3)] scoped [OF r(2)] unfolding split by fastforce
  define n where "n = scope_score (t1, o1, m1)"
  have uniq: "x \<in> set ?xs \<Longrightarrow> specificity x = n \<longleftrightarrow> setting_scope t1 o1 m1 k x" for x
  proof
    assume "x \<in> set ?xs" and n: "specificity x = n"
    then obtain t3 o3 m3 where x: "(t3, o3, m3) \<in> set (precedence t o' m)" "setting_scope t3 o3 m3 k x"
      unfolding applicable_scopes [OF plain] by blast
    have "scope_score (t3, o3, m3) = scope_score (t1, o1, m1)"
      using scoped [OF x(2)] n n_def by simp
    moreover have "(t1, o1, m1) \<in> set (precedence t o' m)" using split by simp
    ultimately have "(t3, o3, m3) = (t1, o1, m1)"
      using x(1) by (auto simp: precedence_def scope_score_def)
    with x(2) show "setting_scope t1 o1 m1 k x" by simp
  qed (simp add: scoped n_def)
  have "hd (filter (\<lambda>x. specificity x = n) (y # ys)) = ?b"
    by (rule first_max_filter) (use scoped [OF b2(3)] same n_def in simp)
  moreover have "filter (\<lambda>x. specificity x = n) ?xs = filter (setting_scope t1 o1 m1 k) ?xs"
    using uniq by (rule filter_cong [OF refl])
  moreover have "filter (setting_scope t1 o1 m1 k) ?xs = filter (setting_scope t1 o1 m1 k) (settings d)"
  proof -
    have "setting_scope t1 o1 m1 k x \<Longrightarrow> x \<in> set (settings d) \<Longrightarrow> x \<in> set ?xs" for x
      unfolding applicable_scopes [OF plain] using split by auto
    then show ?thesis
      unfolding list_candidates_def filter_filter by (intro filter_cong refl) auto
  qed
  ultimately show ?thesis using app here by (metis list.sel(1))
qed

lemma resolve_precedence:
  assumes plain: "plain_platform_rows d k"
  shows "resolve (Some t) k (Some o') (Some m) dflt d =
    (case first_found d k (precedence t o' m) of None \<Rightarrow> dflt | Some r \<Rightarrow> st_value r)"
proof (cases "first_found d k (precedence t o' m)")
  case None
  have "filter (applicable (Some o') (Some m)) (list_candidates (Some t) k d) = []"
  proof (rule ccontr)
    assume "filter (applicable (Some o') (Some m)) (list_candidates (Some t) k d) \<noteq> []"
    then obtain x where x: "x \<in> set (filter (applicable (Some o') (Some m)) (list_candidates (Some t) k d))"
      by (meson last_in_set)
    then show False
      using None unfolding applicable_scopes [OF plain] first_found_None by (auto simp: filter_empty_conv)
  qed
  then show ?thesis by (simp add: resolve_def None)
next
  case (Some r)
  from first_found_Some [OF Some] obtain t1 o1 m1 pre post rs where
    split: "precedence t o' m = pre @ (t1, o1, m1) # post"
    and here: "filter (setting_scope t1 o1 m1 k) (settings d) = r # rs" by blast
  have "r \<in> set (filter (setting_scope t1 o1 m1 k) (settings d))" using here by simp
  then have "r \<in> set (filter (applicable (Some o') (Some m)) (list_candidates (Some t) k d))"
    unfolding applicable_scopes [OF plain] using split by auto
  then obtain y ys where "filter (applicable (Some o') (Some m)) (list_candidates (Some t) k d) = y # ys"
    by (cases "filter (applicable (Some o') (Some m)) (list_candidates (Some t) k d)") auto
  with resolve_precedence_aux [OF plain this Some] Some show ?thesis by (simp add: resolve_def)
qed

section \<open>Reading what was written\<close>

lemma upsert_Inr:
  assumes "upsert t k v o' m u s = (Inr x, s')"
  obtains r where "filter (setting_scope t o' m k) (settings (current s)) = [r]"
    "x = touch (server_clock (env s) (txn s)) r (r\<lparr>st_value := v\<rparr>)"
    "settings (committed s') = put_row x (settings (current s))"
  | i n where "filter (setting_scope t o' m k) (settings (current s)) = []"
    "x = stamp n (new_setting i t o' m k v)" "violated (setting_constraints (current s) x) = None"
    "settings (committed s') = settings (current s) @ [x]"
proof -
  from assms obtain e s1 where e: "find_setting t o' m k s = (Inr e, s1)"
    and rest: "(case e of
       Some r \<Rightarrow>
         bind_tx (save_row settings_update r (r\<lparr>st_value := v\<rparr>)) (\<lambda>x.
         bind_tx (record_event (setting_audit t u k (st_value r) v) None) (\<lambda>_.
         bind_tx commit_tx (\<lambda>_. return_tx x)))
     | None \<Rightarrow>
         bind_tx (require_tx (length k \<le> 100 \<and> fits 50 m)
           (DataError ''value too long for type character varying'')) (\<lambda>_.
         bind_tx uuid4_tx (\<lambda>i.
         bind_tx (add_row settings_update setting_constraints (new_setting i t o' m k v)) (\<lambda>x.
         bind_tx (record_event (setting_audit t u k VNone v) None) (\<lambda>_.
         bind_tx commit_tx (\<lambda>_. return_tx x)))))) s1 = (Inr x, s')"
    unfolding upsert_def by (rule bind_InrE)
  from e have "(e = None \<and> filter (setting_scope t o' m k) (settings (current s)) = [] \<or>
      (\<exists>r. e = Some r \<and> filter (setting_scope t o' m k) (settings (current s)) = [r])) \<and> s1 = s"
    unfolding find_setting_def by (auto elim: scalar_InrE)
  then show thesis
  proof (elim conjE disjE exE)
    assume n: "e = None" "filter (setting_scope t o' m k) (settings (current s)) = []" "s1 = s"
    from rest show thesis
      unfolding n option.case bind_first_step(7,8,10,11)
      by (auto split: if_splits elim!: add_audit_commit_InrE intro!: that(2) [OF n(2)])
  next
    fix r assume r: "e = Some r" "filter (setting_scope t o' m k) (settings (current s)) = [r]" "s1 = s"
    from rest show thesis
      unfolding r option.case
      by (auto elim!: save_audit_commit_InrE intro!: that(1) [OF r(2)])
  qed
qed

lemma upsert_row:
  assumes "upsert t k v o' m u s = (Inr x, s')" and "distinct (map row_id (settings (current s)))"
  shows "filter (setting_scope t o' m k) (settings (committed s')) = [x]" "st_value x = v"
    "setting_scope t o' m k x"
proof -
  have all: "filter (setting_scope t o' m k) (settings (committed s')) = [x] \<and> st_value x = v \<and>
    setting_scope t o' m k x"
    using assms(1)
  proof (cases rule: upsert_Inr)
    case (1 r)
    from filter_singletonD [OF 1(1)] have r: "r \<in> set (settings (current s))" "setting_scope t o' m k r"
      by simp_all
    have x: "row_id x = row_id r" "setting_scope t o' m k x" "st_value x = v"
      using r(2) by (simp_all add: 1(2) touch_def setting_scope_def) (metis setting.select_convs(5) setting.surjective setting.update_convs(5))
    moreover have "filter (setting_scope t o' m k) (put_row x (settings (current s))) = [x]"
    proof (rule filter_put_row_same [OF 1(1) x(2,1)])
      show "y \<in> set (settings (current s)) \<Longrightarrow> row_id y = row_id r \<Longrightarrow> setting_scope t o' m k y" for y
        using distinct_map_same_key [OF assms(2) _ r(1)] r(2) by metis
    qed
    ultimately show ?thesis by (simp add: 1(3))
  next
    case (2 i n)
    then show ?thesis by (auto simp: new_setting_def stamp_def setting_scope_def)
  qed
  then show "filter (setting_scope t o' m k) (settings (committed s')) = [x]" "st_value x = v"
    "setting_scope t o' m k x" by simp_all
qed

lemma upsert_resolve:
  assumes "upsert t k v o' m u s = (Inr x, s')" and "distinct (map row_id (settings (current s)))"
  shows "resolve t k o' m dflt (committed s') = v"
proof -
  note row = upsert_row [OF assms]
  from filter_singletonD [OF row(1)] have x: "x \<in> set (settings (committed s'))" by simp
  have "resolve t k o' m dflt (committed s') = st_value x"
  proof (rule resolve_best)
    show "x \<in> set (list_candidates t k (committed s'))" and "applicable o' m x"
      using x row(3) by (auto simp: list_candidates_def applicable_def setting_scope_def)
    show "specificity y < specificity x" if "y \<in> set (list_candidates t k (committed s'))"
      and "applicable o' m y" and "y \<noteq> x" for y
    proof (rule specificity_strict [OF row(3) that(1,2)])
      show "\<not> setting_scope t o' m k y"
      proof
        assume "setting_scope t o' m k y"
        moreover have "y \<in> set (settings (committed s'))" using that(1) by (simp add: list_candidates_def)
        ultimately have "y \<in> set (filter (setting_scope t o' m k) (settings (committed s')))" by simp
        with row(1) that(3) show False by simp
      qed
    qed
  qed
  with row(2) show ?thesis by simp
qed

section \<open>The operation within the store relations\<close>

lemma st_tenant_id_touch [simp]: "st_tenant_id (touch n r r') = st_tenant_id r'" for r r' :: setting
  by (simp add: touch_def)

lemma upsert_audit: "tx_within audit_grows (upsert t k v o' m u)"
  unfolding upsert_def find_setting_def by (intro tx_rules) (simp_all add: audit_grows_def)

lemma upsert_atomic: "atomic (upsert t k v o' m u)"
  unfolding upsert_def find_setting_def by (intro atomic_rules)

lemma upsert_isolation: "tx_within (tenant_frame t) (upsert (Some t) k v o' m u)"
  unfolding upsert_def find_setting_def
  by (intro tx_rules)
    (auto dest!: filter_singletonD intro!: tenant_frame_write frame_put_row frame_snoc
      simp: setting_scope_def setting_constraints_def new_setting_def stamp_def)

end
