(* ===== verification/Auth_Service.thy ===== *)
theory Auth_Service
  imports Audit_Trail Authorization
begin

text \<open>
  Authentication: \<^verbatim>\<open>app/security/tokens.py\<close>, \<^verbatim>\<open>app/security/passwords.py\<close>,
  \<^verbatim>\<open>app/services/auth_service.py\<close> with its repositories, and the request dependencies of
  \<^verbatim>\<open>app/security/dependencies.py\<close>. PyJWT and Argon2 are fields of the environment. A time is
  a number of microseconds; the registered claims of a token are in seconds.
\<close>

section \<open>Passwords\<close>

definition hash_password :: "string \<Rightarrow> string tx" where
  "hash_password pw = (\<lambda>s. (Inr (argon2_hash (env s) (salts s) pw), s\<lparr>salts := Suc (salts s)\<rparr>))"

definition verify_password :: "env \<Rightarrow> string \<Rightarrow> string \<Rightarrow> bool" where
  "verify_password e pw h = (case argon2_verify e h pw of Inl err \<Rightarrow> False | Inr b \<Rightarrow> b)"

section \<open>Tokens\<close>

datatype TokenType = TokenType_ACCESS | TokenType_REFRESH

fun TokenType_value :: "TokenType \<Rightarrow> string" where
  "TokenType_value TokenType_ACCESS = ''access''"
| "TokenType_value TokenType_REFRESH = ''refresh''"

text \<open>\<^verbatim>\<open>TokenType(token_type_raw)\<close>.\<close>

definition TokenType_of :: "string option \<Rightarrow> TokenType option" where
  "TokenType_of x = (if x = Some ''access'' then Some TokenType_ACCESS
     else if x = Some ''refresh'' then Some TokenType_REFRESH else None)"

record decoded_token =
  dt_subject :: string
  dt_tenant_id :: "string option"
  dt_token_type :: TokenType
  dt_jti :: string
  dt_issued_at :: int
  dt_expires_at :: int

definition is_token_error :: "error \<Rightarrow> bool" where
  "is_token_error e = (case e of TokenError m \<Rightarrow> True | _ \<Rightarrow> False)"

text \<open>\<^verbatim>\<open>except TokenError as exc: raise UnauthorizedError(str(exc))\<close>.\<close>

definition token_rejection :: "error \<Rightarrow> error" where
  "token_rejection e = (case e of TokenError m \<Rightarrow> UnauthorizedError m | _ \<Rightarrow> e)"

definition encode_token :: "env \<Rightarrow> claims \<Rightarrow> string" where
  "encode_token e c = jwt_encode e c (jwt_secret_key (config e)) (jwt_algorithm (config e))"

definition minute :: int where
  "minute = 60000000"

definition create_access_token :: "uuid \<Rightarrow> uuid option \<Rightarrow> string tx" where
  "create_access_token u t =
     bind_tx now_tx (\<lambda>now.
     bind_tx uuid4_tx (\<lambda>j.
     env_tx (\<lambda>e. encode_token e \<lparr>cl_sub = uuid_str u, cl_tenant_id = map_option uuid_str t,
       cl_type = TokenType_value TokenType_ACCESS, cl_jti = uuid_str j, cl_iat = now,
       cl_exp = now + minute * access_token_expire_minutes (config e)\<rparr>)))"

definition create_refresh_token :: "uuid \<Rightarrow> uuid option \<Rightarrow> uuid \<Rightarrow> string tx" where
  "create_refresh_token u t jti =
     bind_tx now_tx (\<lambda>now.
     env_tx (\<lambda>e. encode_token e \<lparr>cl_sub = uuid_str u, cl_tenant_id = map_option uuid_str t,
       cl_type = TokenType_value TokenType_REFRESH, cl_jti = uuid_str jti, cl_iat = now,
       cl_exp = now + 24 * 60 * minute * refresh_token_expire_days (config e)\<rparr>))"

definition empty_string :: "string option \<Rightarrow> bool" where
  "empty_string x \<longleftrightarrow> x = None \<or> x = Some ''''"

text \<open>\<^verbatim>\<open>decode_token\<close> at the time \<open>now\<close>; PyJWT reads the clock to check \<^verbatim>\<open>exp\<close>.\<close>

definition decode_token :: "env \<Rightarrow> int \<Rightarrow> string \<Rightarrow> TokenType option \<Rightarrow> error + decoded_token" where
  "decode_token e now token expected =
     (case jwt_decode e token (jwt_secret_key (config e)) [jwt_algorithm (config e)] now of
        Inl ExpiredSignatureError \<Rightarrow> Inl (TokenError ''Token has expired.'')
      | Inl InvalidTokenError \<Rightarrow> Inl (TokenError ''Token is invalid.'')
      | Inr p \<Rightarrow>
          (case TokenType_of (pl_type p) of
             None \<Rightarrow> Inl (TokenError ''Token has an invalid type.'')
           | Some ty \<Rightarrow>
               if expected \<noteq> None \<and> expected \<noteq> Some ty then
                 Inl (TokenError (''Expected a '' @ TokenType_value (the expected) @ '' token, got ''
                   @ TokenType_value ty @ ''.''))
               else if empty_string (pl_sub p) \<or> empty_string (pl_jti p) then
                 Inl (TokenError ''Token is missing required claims.'')
               else if pl_iat p = None then Inl (KeyError ''iat'')
               else if pl_exp p = None then Inl (KeyError ''exp'')
               else Inr \<lparr>dt_subject = the (pl_sub p), dt_tenant_id = pl_tenant_id p,
                 dt_token_type = ty, dt_jti = the (pl_jti p), dt_issued_at = 1000000 * the (pl_iat p),
                 dt_expires_at = 1000000 * the (pl_exp p)\<rparr>))"

definition decode_tx :: "string \<Rightarrow> TokenType option \<Rightarrow> (error + decoded_token) tx" where
  "decode_tx token expected =
     bind_tx now_tx (\<lambda>now. env_tx (\<lambda>e. decode_token e now token expected))"

text \<open>\<^verbatim>\<open>uuid.UUID(s)\<close>.\<close>

definition parse_uuid :: "string \<Rightarrow> uuid tx" where
  "parse_uuid s = some_tx (uuid_of_str s) (ValueError ''badly formed hexadecimal UUID string'')"

section \<open>Repositories\<close>

definition get_by_email :: "string \<Rightarrow> user option tx" where
  "get_by_email m = scalar_tx (\<lambda>d. filter (\<lambda>u. lower (u_email u) = lower m) (users d))"

definition get_user_by_id :: "uuid \<Rightarrow> user option tx" where
  "get_user_by_id i = scalar_tx (\<lambda>d. filter (\<lambda>u. row_id u = i) (users d))"

definition get_by_jti :: "uuid \<Rightarrow> refresh_session option tx" where
  "get_by_jti j = scalar_tx (\<lambda>d. filter (\<lambda>r. rs_jti r = j) (refresh_sessions d))"

definition refresh_session_constraints :: "db \<Rightarrow> refresh_session \<Rightarrow> (string \<times> bool) list" where
  "refresh_session_constraints d r =
     [(''refresh_sessions_pkey'', fresh_id (refresh_sessions d) r),
      (''refresh_sessions_jti_key'', rs_jti r \<notin> rs_jti ` set (refresh_sessions d)),
      (''refresh_sessions_user_id_fkey'', rs_user_id r \<in> row_id ` set (users d))]"

definition password_reset_constraints :: "db \<Rightarrow> password_reset_token \<Rightarrow> (string \<times> bool) list" where
  "password_reset_constraints d r =
     [(''password_reset_tokens_pkey'', fresh_id (password_reset_tokens d) r),
      (''password_reset_tokens_token_hash_key'',
         pr_token_hash r \<notin> pr_token_hash ` set (password_reset_tokens d)),
      (''password_reset_tokens_user_id_fkey'', pr_user_id r \<in> row_id ` set (users d))]"

section \<open>The service\<close>

definition max_failed_attempts :: nat where
  "max_failed_attempts = 10"

record token_pair =
  tp_access_token :: string
  tp_refresh_token :: string
  tp_expires_in :: int

definition new_refresh_session ::
  "uuid \<Rightarrow> uuid \<Rightarrow> uuid \<Rightarrow> int \<Rightarrow> web_request option \<Rightarrow> refresh_session" where
  "new_refresh_session i u j x rq = \<lparr>created_at = 0, updated_at = 0, row_id = i, rs_user_id = u,
     rs_jti = j, rs_revoked = False, rs_expires_at = x,
     rs_ip_address = (case rq of None \<Rightarrow> None | Some r \<Rightarrow> rq_client_host r),
     rs_user_agent = (case rq of None \<Rightarrow> None | Some r \<Rightarrow> rq_user_agent r)\<rparr>"

definition issue_token_pair :: "user \<Rightarrow> web_request option \<Rightarrow> token_pair tx" where
  "issue_token_pair u rq =
     bind_tx uuid4_tx (\<lambda>jti.
     bind_tx (create_access_token (row_id u) (u_tenant_id u)) (\<lambda>access.
     bind_tx (create_refresh_token (row_id u) (u_tenant_id u) jti) (\<lambda>refresh.
     bind_tx (decode_tx refresh (Some TokenType_REFRESH)) (\<lambda>decoded.
     case decoded of
       Inl err \<Rightarrow> raise_tx err
     | Inr dt \<Rightarrow>
         bind_tx uuid4_tx (\<lambda>i.
         bind_tx (require_tx (fits 64 (rs_ip_address (new_refresh_session i (row_id u) jti (dt_expires_at dt) rq))
             \<and> fits 255 (rs_user_agent (new_refresh_session i (row_id u) jti (dt_expires_at dt) rq)))
           (DataError ''value too long for type character varying'')) (\<lambda>_.
         bind_tx (add_row refresh_sessions_update refresh_session_constraints
           (new_refresh_session i (row_id u) jti (dt_expires_at dt) rq)) (\<lambda>_.
         bind_tx (env_tx (\<lambda>e. access_token_expire_minutes (config e) * 60)) (\<lambda>x.
         return_tx \<lparr>tp_access_token = access, tp_refresh_token = refresh, tp_expires_in = x\<rparr>))))))))"

definition user_audit ::
  "AuditAction \<Rightarrow> user option \<Rightarrow> json_dict option \<Rightarrow> audit_args" where
  "user_audit act u new = \<lparr>aa_action = AuditAction_value act, aa_resource_type = ''user'',
     aa_resource_id = map_option (\<lambda>u. uuid_str (row_id u)) u,
     aa_tenant_id = Option.bind u u_tenant_id, aa_user_id = map_option row_id u,
     aa_old_data = None, aa_new_data = new\<rparr>"

definition count_failure :: "user \<Rightarrow> user" where
  "count_failure u =
     (let n = u_failed_login_attempts u + 1;
          v = u\<lparr>u_failed_login_attempts := n\<rparr>
      in if max_failed_attempts \<le> n then v\<lparr>u_status := UserStatus_LOCKED\<rparr> else v)"

definition login :: "string \<Rightarrow> string \<Rightarrow> web_request option \<Rightarrow> (user \<times> token_pair) tx" where
  "login email password rq =
     bind_tx (get_by_email email) (\<lambda>found.
     bind_tx (env_tx (\<lambda>e. case found of None \<Rightarrow> False
       | Some u \<Rightarrow> verify_password e password (u_password_hash u))) (\<lambda>ok.
     case (found, ok) of
       (None, _) \<Rightarrow>
         bind_tx (record_event (user_audit LOGIN_FAILED None None) rq) (\<lambda>_.
         bind_tx commit_tx (\<lambda>_.
         raise_tx (UnauthorizedError ''Invalid email or password.'')))
     | (Some u, False) \<Rightarrow>
         bind_tx (save_row users_update u (count_failure u)) (\<lambda>u'.
         bind_tx (record_event (user_audit LOGIN_FAILED (Some u) None) rq) (\<lambda>_.
         bind_tx commit_tx (\<lambda>_.
         raise_tx (UnauthorizedError ''Invalid email or password.''))))
     | (Some u, True) \<Rightarrow>
         if u_status u \<noteq> UserStatus_ACTIVE then
           bind_tx (record_event (user_audit LOGIN_FAILED (Some u)
             (Some [(''reason'', VStr (''account status is '' @ UserStatus_value (u_status u)))])) rq) (\<lambda>_.
           bind_tx commit_tx (\<lambda>_.
           raise_tx (UnauthorizedError ''This account is not active.'')))
         else
           bind_tx now_tx (\<lambda>now.
           bind_tx (save_row users_update u
             (u\<lparr>u_failed_login_attempts := 0, u_last_login_at := Some now\<rparr>)) (\<lambda>u'.
           bind_tx (issue_token_pair u' rq) (\<lambda>pair.
           bind_tx (record_event (user_audit LOGIN (Some u') None) rq) (\<lambda>_.
           bind_tx commit_tx (\<lambda>_.
           return_tx (u', pair))))))))"

definition refresh :: "string \<Rightarrow> web_request option \<Rightarrow> token_pair tx" where
  "refresh token rq =
     bind_tx (decode_tx token (Some TokenType_REFRESH)) (\<lambda>decoded.
     case decoded of
       Inl err \<Rightarrow> raise_tx (token_rejection err)
     | Inr dt \<Rightarrow>
         bind_tx (parse_uuid (dt_jti dt)) (\<lambda>jti.
         bind_tx (get_by_jti jti) (\<lambda>found.
         bind_tx (some_tx found (UnauthorizedError ''Refresh token has been revoked or does not exist.'')) (\<lambda>r.
         bind_tx (require_tx (\<not> rs_revoked r)
           (UnauthorizedError ''Refresh token has been revoked or does not exist.'')) (\<lambda>_.
         bind_tx now_tx (\<lambda>now.
         bind_tx (require_tx (now \<le> rs_expires_at r) (UnauthorizedError ''Refresh token has expired.'')) (\<lambda>_.
         bind_tx (parse_uuid (dt_subject dt)) (\<lambda>sub.
         bind_tx (get_user_by_id sub) (\<lambda>found_user.
         bind_tx (some_tx found_user (UnauthorizedError ''User no longer active.'')) (\<lambda>u.
         bind_tx (require_tx (u_status u = UserStatus_ACTIVE) (UnauthorizedError ''User no longer active.'')) (\<lambda>_.
         bind_tx (save_row refresh_sessions_update r (r\<lparr>rs_revoked := True\<rparr>)) (\<lambda>_.
         bind_tx (issue_token_pair u rq) (\<lambda>pair.
         bind_tx commit_tx (\<lambda>_.
         return_tx pair))))))))))))))"

definition logout :: "string \<Rightarrow> uuid option \<Rightarrow> unit tx" where
  "logout token user_id =
     bind_tx (decode_tx token (Some TokenType_REFRESH)) (\<lambda>decoded.
     case decoded of
       Inl err \<Rightarrow> if is_token_error err then return_tx () else raise_tx err
     | Inr dt \<Rightarrow>
         bind_tx (parse_uuid (dt_jti dt)) (\<lambda>jti.
         bind_tx (get_by_jti jti) (\<lambda>found.
         case found of
           None \<Rightarrow> return_tx ()
         | Some r \<Rightarrow>
             bind_tx (save_row refresh_sessions_update r (r\<lparr>rs_revoked := True\<rparr>)) (\<lambda>_.
             bind_tx (record_event \<lparr>aa_action = AuditAction_value LOGOUT, aa_resource_type = ''user'',
               aa_resource_id = Some (uuid_str (rs_user_id r)), aa_tenant_id = None,
               aa_user_id = or_else user_id (Some (rs_user_id r)), aa_old_data = None,
               aa_new_data = None\<rparr> None) (\<lambda>_.
             commit_tx)))))"

definition new_password_reset :: "uuid \<Rightarrow> uuid \<Rightarrow> string \<Rightarrow> int \<Rightarrow> password_reset_token" where
  "new_password_reset i u h x = \<lparr>created_at = 0, updated_at = 0, row_id = i, pr_user_id = u,
     pr_token_hash = h, pr_expires_at = x, pr_used_at = None\<rparr>"

definition request_password_reset :: "string \<Rightarrow> unit tx" where
  "request_password_reset email =
     bind_tx (get_by_email email) (\<lambda>found.
     case found of
       None \<Rightarrow> return_tx ()
     | Some u \<Rightarrow>
         if u_status u \<noteq> UserStatus_ACTIVE then return_tx ()
         else
           bind_tx uuid4_tx (\<lambda>a.
           bind_tx uuid4_tx (\<lambda>b.
           bind_tx (hash_password (uuid_hex a @ uuid_hex b)) (\<lambda>h.
           bind_tx now_tx (\<lambda>now.
           bind_tx uuid4_tx (\<lambda>i.
           bind_tx (add_row password_reset_tokens_update password_reset_constraints
             (new_password_reset i (row_id u) h (now + 60 * minute))) (\<lambda>_.
           commit_tx)))))))"

definition reset_password :: "string \<Rightarrow> string \<Rightarrow> unit tx" where
  "reset_password token new_password =
     bind_tx (query_tx (\<lambda>d. filter (\<lambda>c. pr_used_at c = None) (password_reset_tokens d))) (\<lambda>candidates.
     bind_tx (env_tx (\<lambda>e. find (\<lambda>c. verify_password e token (pr_token_hash c)) candidates)) (\<lambda>found.
     bind_tx (some_tx found (UnauthorizedError ''Password reset token is invalid or has expired.'')) (\<lambda>matched.
     bind_tx now_tx (\<lambda>now.
     bind_tx (require_tx (now \<le> pr_expires_at matched)
       (UnauthorizedError ''Password reset token is invalid or has expired.'')) (\<lambda>_.
     bind_tx (get_user_by_id (pr_user_id matched)) (\<lambda>found_user.
     bind_tx (some_tx found_user (UnauthorizedError ''Password reset token is invalid or has expired.'')) (\<lambda>u.
     bind_tx (hash_password new_password) (\<lambda>h.
     bind_tx now_tx (\<lambda>used.
     bind_tx (save_row users_update u (u\<lparr>u_password_hash := h\<rparr>)) (\<lambda>_.
     bind_tx (save_row password_reset_tokens_update matched (matched\<lparr>pr_used_at := Some used\<rparr>)) (\<lambda>_.
     commit_tx)))))))))))"

section \<open>Request dependencies\<close>

text \<open>\<^verbatim>\<open>credentials\<close> is the bearer token of the request, if there is one.\<close>

definition get_current_user :: "string option \<Rightarrow> user tx" where
  "get_current_user credentials =
     bind_tx (require_tx (\<not> empty_string credentials)
       (UnauthorizedError ''Authentication credentials were not provided.'')) (\<lambda>_.
     bind_tx (decode_tx (the credentials) (Some TokenType_ACCESS)) (\<lambda>decoded.
     case decoded of
       Inl err \<Rightarrow> raise_tx (token_rejection err)
     | Inr dt \<Rightarrow>
         bind_tx (some_tx (uuid_of_str (dt_subject dt)) (UnauthorizedError ''Token subject is invalid.'')) (\<lambda>i.
         bind_tx (get_user_by_id i) (\<lambda>found.
         bind_tx (some_tx found (UnauthorizedError ''User no longer exists.'')) (\<lambda>u.
         bind_tx (require_tx (u_status u = UserStatus_ACTIVE)
           (UnauthorizedError ''User account is not active.'')) (\<lambda>_.
         return_tx u))))))"

definition require_authenticated_user :: "string option \<Rightarrow> security_context tx" where
  "require_authenticated_user credentials =
     bind_tx (get_current_user credentials) (\<lambda>u.
     bind_tx (query_tx (build_security_context u)) (\<lambda>c.
     case c of Inl e \<Rightarrow> raise_tx e | Inr cx \<Rightarrow> return_tx cx))"

definition require_permission :: "string \<Rightarrow> string option \<Rightarrow> security_context tx" where
  "require_permission p credentials =
     bind_tx (require_authenticated_user credentials) (\<lambda>cx.
     bind_tx (require_tx (has_permission cx p)
       (ForbiddenError ''You do not have permission to perform this action.'')) (\<lambda>_.
     return_tx cx))"

section \<open>Rules for the steps of this component\<close>

lemma reads_hash_password [reads_only]: "reads (hash_password pw)"
  by (simp add: reads_def hash_password_def)

lemma keeps_hash_password [atomic_rules]: "keeps (hash_password pw)"
  by (simp add: keeps_def hash_password_def)

lemma tx_pre_bind_hash_password [tx_rules]:
  "(\<And>h. tx_pre R P (f h)) \<Longrightarrow> tx_pre R P (bind_tx (hash_password pw) f)"
  by (rule tx_pre_bind_unknown) (simp_all add: hash_password_def)

lemma reads_decode_tx [reads_only]: "reads (decode_tx tok ty)"
  unfolding decode_tx_def by (intro reads_only)

lemma keeps_decode_tx [atomic_rules]: "keeps (decode_tx tok ty)"
  unfolding decode_tx_def by (intro atomic_rules)

lemma tx_pre_bind_decode_tx [tx_rules]:
  "(\<And>x. tx_pre R P (f x)) \<Longrightarrow> tx_pre R P (bind_tx (decode_tx tok ty) f)"
  unfolding decode_tx_def by (intro tx_rules)

lemma atomic_raise [atomic_rules]: "atomic (raise_tx e)" "atomic (return_tx x)"
  by (simp_all add: atomic_def tx_simps)

lemma keeps_parse_uuid [atomic_rules]: "keeps (parse_uuid x)"
  unfolding parse_uuid_def by (intro atomic_rules)

lemma tx_pre_bind_parse_uuid [tx_rules]:
  "(\<And>i. tx_pre R P (f i)) \<Longrightarrow> tx_pre R P (bind_tx (parse_uuid x) f)"
  unfolding parse_uuid_def by (intro tx_rules)

lemmas token_defs = issue_token_pair_def create_access_token_def create_refresh_token_def

lemma keeps_issue_token_pair [atomic_rules]: "keeps (issue_token_pair u rq)"
  unfolding token_defs by (intro atomic_rules)

lemmas auth_defs = login_def refresh_def logout_def request_password_reset_def reset_password_def
  get_by_email_def get_user_by_id_def get_by_jti_def

lemma refresh_atomic: "atomic (refresh tok rq)"
  unfolding refresh_def get_user_by_id_def get_by_jti_def by (intro atomic_rules)

lemma reset_password_atomic: "atomic (reset_password tok pw)"
  unfolding reset_password_def get_user_by_id_def by (intro atomic_rules)

section \<open>The operations within the store relations\<close>

lemma issue_token_pair_audit [tx_rules]: "tx_pre audit_grows P (issue_token_pair u rq)"
  unfolding token_defs by (intro tx_rules) (simp_all add: audit_grows_def)

lemma issue_token_pair_bind_audit [tx_rules]:
  "(\<And>x. tx_within audit_grows (f x)) \<Longrightarrow> tx_pre audit_grows P (bind_tx (issue_token_pair u rq) f)"
  by (rule tx_pre_bind [OF issue_token_pair_audit])

lemma login_audit: "tx_within audit_grows (login m pw rq)"
  unfolding login_def get_by_email_def
  by (intro tx_rules; (intro tx_rules | simp split: bool.split option.split add: audit_grows_def | safe)+)

lemma refresh_audit: "tx_within audit_grows (refresh tok rq)"
  unfolding refresh_def get_by_jti_def get_user_by_id_def
  by (intro tx_rules) (simp_all add: audit_grows_def)

lemma logout_audit: "tx_within audit_grows (logout tok i)"
  unfolding logout_def get_by_jti_def by (intro tx_rules) (simp_all add: audit_grows_def)

lemma request_password_reset_audit: "tx_within audit_grows (request_password_reset m)"
  unfolding request_password_reset_def get_by_email_def
  by (intro tx_rules) (simp_all add: audit_grows_def)

lemma reset_password_audit: "tx_within audit_grows (reset_password tok pw)"
  unfolding reset_password_def get_user_by_id_def by (intro tx_rules) (simp_all add: audit_grows_def)

section \<open>Refresh sessions\<close>

text \<open>The only step of a session is its revocation.\<close>

inductive session_step :: "refresh_session \<Rightarrow> refresh_session \<Rightarrow> bool" where
  revoke: "session_step r (touch n r (r\<lparr>rs_revoked := True\<rparr>))"

lemma touch_session [simp]:
  "rs_jti (touch n r r') = rs_jti r'" "rs_revoked (touch n r r') = rs_revoked r'"
  "rs_user_id (touch n r r') = rs_user_id r'"
  for r r' :: refresh_session
  by (simp_all add: touch_def)

lemma session_step_keeps:
  "session_step r r' \<Longrightarrow> row_id r' = row_id r \<and> rs_jti r' = rs_jti r \<and> rs_revoked r'"
  by (induction rule: session_step.induct) simp

interpretation session_lifecycle:
  document_lifecycle refresh_sessions refresh_sessions_update session_step
  by unfold_locales (simp_all add: session_step_keeps)

interpretation session_lifecycle: blind_to_audit "evolves refresh_sessions session_step"
  by unfold_locales (auto intro: session_lifecycle.evolves_same)

lemma issue_token_pair_session [tx_rules]:
  "tx_pre (evolves refresh_sessions session_step) P (issue_token_pair u rq)"
  unfolding token_defs
  by (intro tx_rules)
    (auto simp: refresh_session_constraints_def intro!: session_lifecycle.evolves_snoc)

lemma issue_token_pair_bind_session [tx_rules]:
  "(\<And>x. tx_within (evolves refresh_sessions session_step) (f x))
    \<Longrightarrow> tx_pre (evolves refresh_sessions session_step) P (bind_tx (issue_token_pair u rq) f)"
  by (rule tx_pre_bind [OF issue_token_pair_session])

lemma login_session: "tx_within (evolves refresh_sessions session_step) (login m pw rq)"
  unfolding login_def get_by_email_def
  by (intro tx_rules; (intro tx_rules | simp split: bool.split option.split add: session_lifecycle.evolves_same | safe)+)

lemma refresh_session: "tx_within (evolves refresh_sessions session_step) (refresh tok rq)"
  unfolding refresh_def get_by_jti_def get_user_by_id_def
  by (intro tx_rules)
    (auto dest!: filter_singletonD
      intro!: session_lifecycle.evolves_put_row r_into_rtranclp session_step.intros)

lemma logout_session: "tx_within (evolves refresh_sessions session_step) (logout tok i)"
  unfolding logout_def get_by_jti_def
  by (intro tx_rules)
    (auto dest!: filter_singletonD
      intro!: session_lifecycle.evolves_put_row r_into_rtranclp session_step.intros)

lemma request_password_reset_session:
  "tx_within (evolves refresh_sessions session_step) (request_password_reset m)"
  unfolding request_password_reset_def get_by_email_def
  by (intro tx_rules) (auto intro!: session_lifecycle.evolves_same)

lemma reset_password_session:
  "tx_within (evolves refresh_sessions session_step) (reset_password tok pw)"
  unfolding reset_password_def get_user_by_id_def
  by (intro tx_rules) (auto intro!: session_lifecycle.evolves_same)

section \<open>Password reset tokens\<close>

text \<open>The only step of a reset token is its one use.\<close>

inductive reset_step :: "password_reset_token \<Rightarrow> password_reset_token \<Rightarrow> bool" where
  use_token: "pr_used_at r = None \<Longrightarrow> reset_step r (touch n r (r\<lparr>pr_used_at := Some t\<rparr>))"

inductive_simps reset_step_simps: "reset_step r r'"

lemma used_token_final: "pr_used_at r \<noteq> None \<Longrightarrow> \<not> reset_step r r'"
  by (auto simp: reset_step_simps)

interpretation reset_lifecycle:
  document_lifecycle password_reset_tokens password_reset_tokens_update reset_step
  by unfold_locales (auto simp: reset_step_simps)

interpretation reset_lifecycle: blind_to_audit "evolves password_reset_tokens reset_step"
  by unfold_locales (auto intro: reset_lifecycle.evolves_same)

lemma request_password_reset_lifecycle:
  "tx_within (evolves password_reset_tokens reset_step) (request_password_reset m)"
  unfolding request_password_reset_def get_by_email_def
  by (intro tx_rules)
    (auto simp: password_reset_constraints_def intro!: reset_lifecycle.evolves_snoc)

lemma reset_password_lifecycle:
  "tx_within (evolves password_reset_tokens reset_step) (reset_password tok pw)"
  unfolding reset_password_def get_user_by_id_def
proof (rule tx_pre_bind_query, rule tx_pre_bind_env_known, rule tx_pre_bind_some,
    rule tx_pre_bind_now, rule tx_pre_bind_require, rule tx_pre_bind_scalar)
  fix cs e c now
  let ?R = "evolves password_reset_tokens reset_step"
  let ?P = "\<lambda>d. True \<and> cs = filter (\<lambda>c. pr_used_at c = None) (password_reset_tokens d)"
  assume c: "find (\<lambda>c. verify_password e tok (pr_token_hash c)) cs = Some c"
  let ?rest = "\<lambda>found_user. bind_tx (some_tx found_user (UnauthorizedError ''Password reset token is invalid or has expired.'')) (\<lambda>u.
     bind_tx (hash_password pw) (\<lambda>h. bind_tx now_tx (\<lambda>used.
     bind_tx (save_row users_update u (u\<lparr>u_password_hash := h\<rparr>)) (\<lambda>_.
     bind_tx (save_row password_reset_tokens_update c (c\<lparr>pr_used_at := Some used\<rparr>)) (\<lambda>_. commit_tx)))))"
  show "tx_pre ?R ?P (?rest None)" by (simp add: some_tx_def bind_raise tx_pre_raise)
  fix u
  show "tx_pre ?R (\<lambda>d. ?P d \<and> filter (\<lambda>u. row_id u = pr_user_id c) (users d) = [u]) (?rest (Some u))"
  proof (rule tx_pre_bind_some, rule tx_pre_bind_hash_password, rule tx_pre_bind_now,
      rule reset_lifecycle.lifecycle.within_bind_save_row_known
        [where Q = "\<lambda>d. c \<in> set (password_reset_tokens d) \<and> pr_used_at c = None"])
    fix u' h used d n x
    show "?R d (users_update (put_row (touch n u' (u'\<lparr>u_password_hash := h\<rparr>))) d)"
      by (rule reset_lifecycle.evolves_same) simp
    assume "?P d \<and> filter (\<lambda>u. row_id u = pr_user_id c) (users d) = [u]"
    then show "c \<in> set (password_reset_tokens (users_update (put_row (touch n u' (u'\<lparr>u_password_hash := h\<rparr>))) d))
        \<and> pr_used_at c = None"
      using find_SomeD [OF c] by simp
  next
    fix used
    show "tx_pre ?R (\<lambda>d. c \<in> set (password_reset_tokens d) \<and> pr_used_at c = None)
      (bind_tx (save_row password_reset_tokens_update c (c\<lparr>pr_used_at := Some used\<rparr>)) (\<lambda>_. commit_tx))"
      by (intro tx_rules)
        (auto intro!: reset_lifecycle.evolves_put_row r_into_rtranclp reset_step.intros)
  qed
qed

section \<open>What issuing a pair of tokens does\<close>

lemma decode_token_Inl:
  "decode_token e now tok ty = Inl err \<Longrightarrow> is_token_error err \<or> (\<exists>k. err = KeyError k)"
  by (auto simp: decode_token_def is_token_error_def split: sum.splits jwt_error.splits option.splits if_splits)

lemma issue_token_pair_run:
  "issue_token_pair u rq s =
    (let jti = uuid4 (env s) (drawn s);
         s1 = s\<lparr>drawn := Suc (Suc (drawn s)), ticks := Suc (Suc (Suc (ticks s)))\<rparr>;
         access = encode_token (env s) \<lparr>cl_sub = uuid_str (row_id u), cl_tenant_id = map_option uuid_str (u_tenant_id u),
           cl_type = ''access'', cl_jti = uuid_str (uuid4 (env s) (Suc (drawn s))), cl_iat = clock (env s) (ticks s),
           cl_exp = clock (env s) (ticks s) + minute * access_token_expire_minutes (config (env s))\<rparr>;
         refresh = encode_token (env s) \<lparr>cl_sub = uuid_str (row_id u), cl_tenant_id = map_option uuid_str (u_tenant_id u),
           cl_type = ''refresh'', cl_jti = uuid_str jti, cl_iat = clock (env s) (Suc (ticks s)),
           cl_exp = clock (env s) (Suc (ticks s)) + 24 * 60 * minute * refresh_token_expire_days (config (env s))\<rparr>
     in case decode_token (env s) (clock (env s) (Suc (Suc (ticks s)))) refresh (Some TokenType_REFRESH) of
          Inl err \<Rightarrow> (Inl err, s1)
        | Inr dt \<Rightarrow>
            let r = new_refresh_session (uuid4 (env s) (Suc (Suc (drawn s)))) (row_id u) jti (dt_expires_at dt) rq;
                x = stamp (server_clock (env s) (txn s)) r;
                s2 = s1\<lparr>drawn := Suc (Suc (Suc (drawn s)))\<rparr>
            in if \<not> (fits 64 (rs_ip_address r) \<and> fits 255 (rs_user_agent r))
               then (Inl (DataError ''value too long for type character varying''), s2)
               else case violated (refresh_session_constraints (current s) x) of
                 Some c \<Rightarrow> (Inl (IntegrityError c), s2)
               | None \<Rightarrow> (Inr \<lparr>tp_access_token = access, tp_refresh_token = refresh,
                     tp_expires_in = access_token_expire_minutes (config (env s)) * 60\<rparr>,
                   s2\<lparr>current := refresh_sessions_update (\<lambda>rs. rs @ [x]) (current s)\<rparr>))"
  unfolding token_defs decode_tx_def
  by (simp add: bind_assoc bind_first_step bind_add_row_step env_apply return_apply raise_apply Let_def
      split: sum.split option.split)

lemma issue_token_pair_Inl:
  assumes "issue_token_pair u rq s = (Inl err, s')"
  shows "err \<noteq> UnauthorizedError m"
  using assms unfolding issue_token_pair_run Let_def
  by (auto split: sum.splits option.splits if_splits dest!: decode_token_Inl simp: is_token_error_def)

lemma issue_token_pair_Inr:
  assumes "issue_token_pair u rq s = (Inr pair, s')"
  obtains x where "current s' = refresh_sessions_update (\<lambda>rs. rs @ [x]) (current s)"
    "committed s' = committed s" "\<not> rs_revoked x" "rs_user_id x = row_id u"
    "rs_jti x = uuid4 (env s) (drawn s)" "violated (refresh_session_constraints (current s) x) = None"
    "tp_expires_in pair = access_token_expire_minutes (config (env s)) * 60"
proof (rule that)
  let ?x = "last (refresh_sessions (current s'))"
  show "current s' = refresh_sessions_update (\<lambda>rs. rs @ [?x]) (current s)"
    "committed s' = committed s" "\<not> rs_revoked ?x" "rs_user_id ?x = row_id u"
    "rs_jti ?x = uuid4 (env s) (drawn s)" "violated (refresh_session_constraints (current s) ?x) = None"
    "tp_expires_in pair = access_token_expire_minutes (config (env s)) * 60"
    using assms unfolding issue_token_pair_run Let_def
    by (auto split: sum.splits option.splits if_splits simp: new_refresh_session_def stamp_def)
qed

section \<open>What login does\<close>

lemma count_failure_fields [simp]:
  "row_id (count_failure u) = row_id u" "u_email (count_failure u) = u_email u"
  "u_failed_login_attempts (count_failure u) = Suc (u_failed_login_attempts u)"
  "u_password_hash (count_failure u) = u_password_hash u" "u_tenant_id (count_failure u) = u_tenant_id u"
  "u_status (count_failure u) =
     (if max_failed_attempts \<le> Suc (u_failed_login_attempts u) then UserStatus_LOCKED else u_status u)"
  by (simp_all add: count_failure_def Let_def)

lemma touch_user [simp]:
  "u_email (touch n u u') = u_email u'" "u_failed_login_attempts (touch n u u') = u_failed_login_attempts u'"
  "u_status (touch n u u') = u_status u'" "u_password_hash (touch n u u') = u_password_hash u'"
  "u_tenant_id (touch n u u') = u_tenant_id u'"
  for u u' :: user
  by (simp_all add: touch_def)

text \<open>A failing attempt on an account: the counter goes up, and at ten the account is locked.\<close>

lemma login_wrong:
  assumes "filter (\<lambda>u. lower (u_email u) = lower m) (users (current s)) = [u]"
    and "login m pw rq s = (Inl (UnauthorizedError ''Invalid email or password.''), s')"
  obtains n where "users (committed s') = put_row (touch n u (count_failure u)) (users (current s))"
proof (cases "verify_password (env s) pw (u_password_hash u)")
  case False
  with assms have "bind_tx (save_row users_update u (count_failure u)) (\<lambda>u'.
       bind_tx (record_event (user_audit LOGIN_FAILED (Some u) None) rq) (\<lambda>_.
       bind_tx commit_tx (\<lambda>_. raise_tx (UnauthorizedError ''Invalid email or password.'')))) s
     = (Inl (UnauthorizedError ''Invalid email or password.'') :: error + (user \<times> token_pair), s')"
    by (simp add: login_def get_by_email_def bind_scalar_step bind_first_step(4))
  then obtain x s1 e s2 where a: "save_row users_update u (count_failure u) s = (Inr x, s1)"
    and e: "record_event (user_audit LOGIN_FAILED (Some u) None) rq s1 = (Inr e, s2)"
    and c: "s' = s2\<lparr>committed := current s2, txn := Suc (txn s2)\<rparr>"
    by (elim bind_InlE) (auto simp: save_row_apply Let_def bind_first_step tx_simps dest: record_InlE)
  from a e c show thesis
    by (elim save_row_InrE record_InrE) (auto intro!: that [of "server_clock (env s) (txn s)"])
next
  case True
  show thesis
  proof (cases "u_status u = UserStatus_ACTIVE")
    case False
    with True assms have "bind_tx (record_event (user_audit LOGIN_FAILED (Some u)
        (Some [(''reason'', VStr (''account status is '' @ UserStatus_value (u_status u)))])) rq) (\<lambda>_.
       bind_tx commit_tx (\<lambda>_. raise_tx (UnauthorizedError ''This account is not active.''))) s
     = (Inl (UnauthorizedError ''Invalid email or password.'') :: error + (user \<times> token_pair), s')"
      by (simp add: login_def get_by_email_def bind_scalar_step bind_first_step(4))
    then show thesis
      by (elim bind_InlE) (auto simp: bind_first_step tx_simps dest: record_InlE)
  next
    case active: True
    with True assms have "bind_tx now_tx (\<lambda>now.
           bind_tx (save_row users_update u
             (u\<lparr>u_failed_login_attempts := 0, u_last_login_at := Some now\<rparr>)) (\<lambda>u'.
           bind_tx (issue_token_pair u' rq) (\<lambda>pair.
           bind_tx (record_event (user_audit LOGIN (Some u') None) rq) (\<lambda>_.
           bind_tx commit_tx (\<lambda>_. return_tx (u', pair)))))) s
     = (Inl (UnauthorizedError ''Invalid email or password.'') :: error + (user \<times> token_pair), s')"
      by (simp add: login_def get_by_email_def bind_scalar_step bind_first_step(4))
    then show thesis
      by (elim bind_InlE) (auto simp: save_row_apply Let_def tx_simps
          dest: record_InlE issue_token_pair_Inl)
  qed
qed

end
