(* ===== verification/Auth_Effects.thy ===== *)
theory Auth_Effects
  imports Auth_Service
begin

text \<open>
  What the operations of \<^verbatim>\<open>app/services/auth_service.py\<close> achieve: the lockout of an account
  after failed attempts, the conditions of a successful login, the single use of refresh and
  reset tokens, and which tokens the request dependencies accept.
\<close>

section \<open>Lockout\<close>

definition account :: "db \<Rightarrow> string \<Rightarrow> user list" where
  "account d m = filter (\<lambda>u. lower (u_email u) = lower m) (users d)"

definition wrong_credentials :: error where
  "wrong_credentials = UnauthorizedError ''Invalid email or password.''"

text \<open>\<open>failures m n d d'\<close>: \<open>n\<close> login requests for the address \<open>m\<close>, each refused, one after the other.\<close>

inductive failures :: "string \<Rightarrow> nat \<Rightarrow> db \<Rightarrow> db \<Rightarrow> bool" where
  no_failure: "failures m 0 d d"
| one_more: "failures m n d d1 \<Longrightarrow> run_tx (login m pw rq) e d1 = (Inl wrong_credentials, d2)
    \<Longrightarrow> failures m (Suc n) d d2"

inductive_cases failures_SucE: "failures m (Suc n) d d'"

lemma run_tx_eqD:
  assumes "run_tx m e d = (r, d')"
  obtains s' where "m (new_session e d) = (r, s')" "d' = committed s'"
  using assms by (auto simp: run_tx_def split: prod.splits)

lemma account_put_row:
  assumes "distinct (map row_id us)" and "filter (\<lambda>u. lower (u_email u) = k) us = [u]"
    and "row_id u' = row_id u" and "u_email u' = u_email u"
  shows "filter (\<lambda>u. lower (u_email u) = k) (put_row u' us) = [u']"
proof -
  from assms(2) have u: "u \<in> set us" "lower (u_email u) = k" by (auto dest: filter_singletonD)
  have same: "x = u" if "x \<in> set us" "row_id x = row_id u" for x
    using distinct_map_same_key [OF assms(1) that(1) u(1) that(2)] .
  have "put_row u' us = map (\<lambda>x. if x = u then u' else x) us"
    unfolding put_row_def using same assms(3) by (intro map_cong refl if_cong) auto
  then have "filter (\<lambda>u. lower (u_email u) = k) (put_row u' us)
      = map (\<lambda>x. if x = u then u' else x) (filter (\<lambda>u. lower (u_email u) = k) us)"
    using u(2) assms(4) by (simp add: filter_map comp_def) (metis (mono_tags, lifting))
  then show ?thesis by (simp add: assms(2))
qed

lemma failures_count:
  assumes "failures m n d d'" and "distinct (map row_id (users d))" and "account d m = [u]"
  shows "distinct (map row_id (users d')) \<and> (\<exists>u'. account d' m = [u'] \<and> row_id u' = row_id u \<and>
    u_failed_login_attempts u' = u_failed_login_attempts u + n \<and>
    u_status u' = (if 0 < n \<and> max_failed_attempts \<le> u_failed_login_attempts u + n
      then UserStatus_LOCKED else u_status u))"
  using assms
proof (induction rule: failures.induct)
  case (no_failure m d)
  then show ?case by simp
next
  case (one_more m n d d1 pw rq e d2)
  then obtain v where v: "account d1 m = [v]" "row_id v = row_id u"
      "u_failed_login_attempts v = u_failed_login_attempts u + n"
      "u_status v = (if 0 < n \<and> max_failed_attempts \<le> u_failed_login_attempts u + n
        then UserStatus_LOCKED else u_status u)"
    and d1: "distinct (map row_id (users d1))" by blast
  from one_more.hyps(2) obtain s' where s': "login m pw rq (new_session e d1) = (Inl wrong_credentials, s')"
      "d2 = committed s'" by (rule run_tx_eqD)
  from v(1) have f: "filter (\<lambda>u. lower (u_email u) = lower m) (users (current (new_session e d1))) = [v]"
    by (simp add: account_def)
  from login_wrong [OF f s'(1) [unfolded wrong_credentials_def]] obtain k
    where k: "users d2 = put_row (touch k v (count_failure v)) (users d1)"
    unfolding s'(2) new_session_sel by blast
  have "account d2 m = [touch k v (count_failure v)]"
    unfolding account_def k by (rule account_put_row) (use d1 v(1) in \<open>simp_all add: account_def\<close>)
  with d1 k v show ?case by simp
qed

section \<open>A successful login\<close>

text \<open>The steps of a login that returned.\<close>

lemma login_steps:
  assumes "login m pw rq s = (Inr (u', pair), s')"
  obtains u s1 s2 e s3 where "account (current s) m = [u]"
    "verify_password (env s) pw (u_password_hash u)" "u_status u = UserStatus_ACTIVE"
    "save_row users_update u (u\<lparr>u_failed_login_attempts := 0, u_last_login_at := Some (clock (env s) (ticks s))\<rparr>)
        (s\<lparr>ticks := Suc (ticks s)\<rparr>) = (Inr u', s1)"
    "issue_token_pair u' rq s1 = (Inr pair, s2)"
    "record_event (user_audit LOGIN (Some u') None) rq s2 = (Inr e, s3)"
    "s' = s3\<lparr>committed := current s3, txn := Suc (txn s3)\<rparr>"
proof -
  let ?q = "\<lambda>d. filter (\<lambda>u. lower (u_email u) = lower m) (users d)"
  have "\<exists>u. ?q (current s) = [u] \<and> verify_password (env s) pw (u_password_hash u) \<and> u_status u = UserStatus_ACTIVE
    \<and> bind_tx now_tx (\<lambda>now. bind_tx (save_row users_update u
         (u\<lparr>u_failed_login_attempts := 0, u_last_login_at := Some now\<rparr>)) (\<lambda>u'.
       bind_tx (issue_token_pair u' rq) (\<lambda>pair.
       bind_tx (record_event (user_audit LOGIN (Some u') None) rq) (\<lambda>_.
       bind_tx commit_tx (\<lambda>_. return_tx (u', pair)))))) s = (Inr (u', pair), s')"
    using assms unfolding login_def get_by_email_def bind_scalar_step bind_first_step(4)
    by (auto simp: scalar_OneRow_iff raise_apply return_apply bind_first_step split: one_or_none.splits bool.splits if_splits elim!: bind_InrE)
  then obtain u where u: "?q (current s) = [u]" "verify_password (env s) pw (u_password_hash u)"
      "u_status u = UserStatus_ACTIVE"
    and run: "bind_tx (save_row users_update u
         (u\<lparr>u_failed_login_attempts := 0, u_last_login_at := Some (clock (env s) (ticks s))\<rparr>)) (\<lambda>u'.
       bind_tx (issue_token_pair u' rq) (\<lambda>pair.
       bind_tx (record_event (user_audit LOGIN (Some u') None) rq) (\<lambda>_.
       bind_tx commit_tx (\<lambda>_. return_tx (u', pair))))) (s\<lparr>ticks := Suc (ticks s)\<rparr>) = (Inr (u', pair), s')"
    unfolding bind_first_step(8) by blast
  from run show thesis
    by (elim bind_InrE commit_InrE return_InrE) (rule that; use u in \<open>simp add: account_def\<close>)
qed

lemma login_Inr:
  assumes "login m pw rq s = (Inr (u', pair), s')"
  obtains u x where "account (current s) m = [u]" "verify_password (env s) pw (u_password_hash u)"
    "u_status u = UserStatus_ACTIVE" "row_id u' = row_id u" "u_failed_login_attempts u' = 0"
    "users (committed s') = put_row u' (users (current s))"
    "refresh_sessions (committed s') = refresh_sessions (current s) @ [x]"
    "\<not> rs_revoked x" "rs_user_id x = row_id u" "rs_jti x \<notin> rs_jti ` set (refresh_sessions (current s))"
    "current s' = committed s'"
proof -
  from assms obtain u s1 s2 e s3 where u: "account (current s) m = [u]"
      "verify_password (env s) pw (u_password_hash u)" "u_status u = UserStatus_ACTIVE"
    and w: "save_row users_update u (u\<lparr>u_failed_login_attempts := 0, u_last_login_at := Some (clock (env s) (ticks s))\<rparr>)
        (s\<lparr>ticks := Suc (ticks s)\<rparr>) = (Inr u', s1)"
    and p: "issue_token_pair u' rq s1 = (Inr pair, s2)"
    and e: "record_event (user_audit LOGIN (Some u') None) rq s2 = (Inr e, s3)"
    and fin: "s' = s3\<lparr>committed := current s3, txn := Suc (txn s3)\<rparr>"
    by (rule login_steps)
  from p obtain x where x: "current s2 = refresh_sessions_update (\<lambda>rs. rs @ [x]) (current s1)"
      "\<not> rs_revoked x" "rs_user_id x = row_id u'"
      "violated (refresh_session_constraints (current s1) x) = None"
    by (rule issue_token_pair_Inr)
  show thesis
  proof (rule that)
    show "account (current s) m = [u]" by fact
    show "verify_password (env s) pw (u_password_hash u)" "u_status u = UserStatus_ACTIVE" by fact+
    show "\<not> rs_revoked x" by fact
    show "row_id u' = row_id u" "u_failed_login_attempts u' = 0" "rs_user_id x = row_id u"
      using w fin x(3) by (auto elim!: save_row_InrE)
    show "users (committed s') = put_row u' (users (current s))"
      "refresh_sessions (committed s') = refresh_sessions (current s) @ [x]"
      "rs_jti x \<notin> rs_jti ` set (refresh_sessions (current s))" "current s' = committed s'"
      using w e fin x by (auto elim!: save_row_InrE record_InrE simp: refresh_session_constraints_def)
  qed
qed

section \<open>Refresh tokens\<close>

text \<open>The session and the user a refresh token stands for, when \<^verbatim>\<open>refresh\<close> accepts it.\<close>

lemma refresh_Inr:
  assumes "refresh tok rq s = (Inr pair, s')"
  obtains dt j r u x where
    "decode_token (env s) (clock (env s) (ticks s)) tok (Some TokenType_REFRESH) = Inr dt"
    "uuid_of_str (dt_jti dt) = Some j" "filter (\<lambda>r. rs_jti r = j) (refresh_sessions (current s)) = [r]"
    "\<not> rs_revoked r" "clock (env s) (Suc (ticks s)) \<le> rs_expires_at r"
    "uuid_of_str (dt_subject dt) = Some (row_id u)" "u \<in> set (users (current s))"
    "u_status u = UserStatus_ACTIVE" "\<not> rs_revoked x" "rs_user_id x = row_id u"
    "refresh_sessions (committed s')
       = put_row (touch (server_clock (env s) (txn s)) r (r\<lparr>rs_revoked := True\<rparr>)) (refresh_sessions (current s)) @ [x]"
    "users (committed s') = users (current s)" "current s' = committed s'"
proof -
  let ?s = "s\<lparr>ticks := Suc (Suc (ticks s))\<rparr>"
  from assms [unfolded refresh_def] obtain dec s1
    where dec: "decode_tx tok (Some TokenType_REFRESH) s = (Inr dec, s1)"
      and run: "(case dec of Inl err \<Rightarrow> raise_tx (token_rejection err)
        | Inr dt \<Rightarrow> bind_tx (parse_uuid (dt_jti dt)) (\<lambda>jti.
         bind_tx (get_by_jti jti) (\<lambda>found.
         bind_tx (some_tx found (UnauthorizedError ''Refresh token has been revoked or does not exist.'')) (\<lambda>r.
         bind_tx (require_tx (\<not> rs_revoked r)
           (UnauthorizedError ''Refresh token has been revoked or does not exist.'')) (\<lambda>_.
         bind_tx now_tx (\<lambda>now.
         bind_tx (require_tx (now \<le> rs_expires_at r) (UnauthorizedError ''Refresh token has expired.'')) (\<lambda>_.
         bind_tx (parse_uuid (dt_subject dt)) (\<lambda>sub.
         bind_tx (get_user_by_id sub) (\<lambda>found_user.
         bind_tx (some_tx found_user (UnauthorizedError ''User no longer active.'')) (\<lambda>u.
         bind_tx (require_tx (u_status u = UserStatus_ACTIVE) (UnauthorizedError ''User no longer active.'')) (\<lambda>_.
         bind_tx (save_row refresh_sessions_update r (r\<lparr>rs_revoked := True\<rparr>)) (\<lambda>_.
         bind_tx (issue_token_pair u rq) (\<lambda>pair.
         bind_tx commit_tx (\<lambda>_. return_tx pair)))))))))))))) s1 = (Inr pair, s')"
    by (rule bind_InrE)
  from dec run obtain dt where dt: "decode_token (env s) (clock (env s) (ticks s)) tok (Some TokenType_REFRESH) = Inr dt"
      "dec = Inr dt" "s1 = s\<lparr>ticks := Suc (ticks s)\<rparr>"
    by (cases dec) (auto simp: decode_tx_def bind_tx_def tx_simps)
  from run obtain j r i u r' s2 p s3
    where j: "uuid_of_str (dt_jti dt) = Some j" and r: "filter (\<lambda>r. rs_jti r = j) (refresh_sessions (current s)) = [r]"
      "\<not> rs_revoked r" "clock (env s) (Suc (ticks s)) \<le> rs_expires_at r" and i: "uuid_of_str (dt_subject dt) = Some i"
      and u: "filter (\<lambda>u. row_id u = i) (users (current s)) = [u]" "u_status u = UserStatus_ACTIVE"
      and r': "save_row refresh_sessions_update r (r\<lparr>rs_revoked := True\<rparr>) ?s = (Inr r', s2)"
      and p: "issue_token_pair u rq s2 = (Inr p, s3)"
      and fin: "s' = s3\<lparr>committed := current s3, txn := Suc (txn s3)\<rparr>"
    unfolding dt(2,3) sum.case parse_uuid_def get_by_jti_def get_user_by_id_def
    by (elim bind_InrE require_InrE some_InrE scalar_InrE) (simp_all add: tx_simps)
  from p obtain x where x: "current s3 = refresh_sessions_update (\<lambda>rs. rs @ [x]) (current s2)"
      "\<not> rs_revoked x" "rs_user_id x = row_id u"
    by (rule issue_token_pair_Inr)
  from u(1) have ru: "u \<in> set (users (current s))" "row_id u = i" by (auto dest: filter_singletonD)
  show thesis
    by (rule that [OF dt(1) j r _ ru(1) u(2) x(2,3)]) (use r' x fin i ru in \<open>auto elim!: save_row_InrE\<close>)
qed

text \<open>
  PyJWT gives the same payload for a token at whatever time it accepts it.
\<close>

definition decodes_alike :: "env \<Rightarrow> env \<Rightarrow> bool" where
  "decodes_alike e e' \<longleftrightarrow> config e' = config e \<and>
     (\<forall>tok k a n n' p p'. jwt_decode e tok k a n = Inr p \<longrightarrow> jwt_decode e' tok k a n' = Inr p' \<longrightarrow> p' = p)"

lemma decode_token_InrE:
  assumes "decode_token e n tok ty = Inr dt"
  obtains p where "jwt_decode e tok (jwt_secret_key (config e)) [jwt_algorithm (config e)] n = Inr p"
    "TokenType_of (pl_type p) = Some (dt_token_type dt)" "ty = None \<or> ty = Some (dt_token_type dt)"
    "dt = \<lparr>dt_subject = the (pl_sub p), dt_tenant_id = pl_tenant_id p,
       dt_token_type = the (TokenType_of (pl_type p)), dt_jti = the (pl_jti p),
       dt_issued_at = 1000000 * the (pl_iat p), dt_expires_at = 1000000 * the (pl_exp p)\<rparr>"
proof (cases "jwt_decode e tok (jwt_secret_key (config e)) [jwt_algorithm (config e)] n")
  case (Inl err)
  with assms show ?thesis by (cases err) (simp_all add: decode_token_def)
next
  case (Inr p)
  then obtain t where t: "TokenType_of (pl_type p) = Some t"
    using assms by (cases "TokenType_of (pl_type p)") (simp_all add: decode_token_def)
  show ?thesis
    using assms Inr t by (intro that [OF Inr]) (auto simp: decode_token_def split: if_splits)
qed

lemma decode_token_alike:
  assumes "decodes_alike e e'" and "decode_token e n tok ty = Inr dt" and "decode_token e' n' tok ty' = Inr dt'"
  shows "dt' = dt"
proof -
  from assms(2) obtain p where p: "jwt_decode e tok (jwt_secret_key (config e)) [jwt_algorithm (config e)] n = Inr p"
    and dt: "dt = \<lparr>dt_subject = the (pl_sub p), dt_tenant_id = pl_tenant_id p,
       dt_token_type = the (TokenType_of (pl_type p)), dt_jti = the (pl_jti p),
       dt_issued_at = 1000000 * the (pl_iat p), dt_expires_at = 1000000 * the (pl_exp p)\<rparr>"
    by (rule decode_token_InrE)
  from assms(3) obtain p' where p': "jwt_decode e' tok (jwt_secret_key (config e')) [jwt_algorithm (config e')] n' = Inr p'"
    and dt': "dt' = \<lparr>dt_subject = the (pl_sub p'), dt_tenant_id = pl_tenant_id p',
       dt_token_type = the (TokenType_of (pl_type p')), dt_jti = the (pl_jti p'),
       dt_issued_at = 1000000 * the (pl_iat p'), dt_expires_at = 1000000 * the (pl_exp p')\<rparr>"
    by (rule decode_token_InrE)
  from assms(1) have c: "config e' = config e" by (simp add: decodes_alike_def)
  from assms(1) p p' [unfolded c] have "p' = p" unfolding decodes_alike_def by blast
  then show ?thesis by (simp add: dt dt')
qed

text \<open>The session of identifier \<open>j\<close> is revoked.\<close>

definition session_revoked :: "db \<Rightarrow> uuid \<Rightarrow> bool" where
  "session_revoked d j \<longleftrightarrow> (\<exists>r\<in>set (refresh_sessions d). rs_jti r = j \<and> rs_revoked r)"

lemma session_revoked_evolves:
  assumes "evolves refresh_sessions session_step d d'" and "distinct (map row_id (refresh_sessions d))"
    and "session_revoked d j"
  shows "session_revoked d' j"
proof -
  from assms(3) obtain r where r: "r \<in> set (refresh_sessions d)" "rs_jti r = j \<and> rs_revoked r"
    by (auto simp: session_revoked_def)
  have step: "rs_jti r' = j \<and> rs_revoked r'" if "rs_jti r = j \<and> rs_revoked r" "session_step r r'" for r r'
    using that session_step_keeps by simp
  have "\<exists>r'\<in>set (refresh_sessions d'). row_id r' = row_id r \<and> (rs_jti r' = j \<and> rs_revoked r')"
    by (rule session_lifecycle.preserved [OF assms(1,2) r(1)]) (rule r(2), rule step)
  then show ?thesis unfolding session_revoked_def by blast
qed

lemma refresh_revoked:
  assumes "decode_token (env s) n tok (Some TokenType_REFRESH) = Inr dt" and "decodes_alike (env s) (env s)"
    and "uuid_of_str (dt_jti dt) = Some j" and "session_revoked (current s) j"
  shows "fst (refresh tok rq s) \<noteq> Inr pair"
proof
  assume "fst (refresh tok rq s) = Inr pair"
  then obtain s' where "refresh tok rq s = (Inr pair, s')" by (cases "refresh tok rq s") auto
  then show False
  proof (rule refresh_Inr)
    fix dt' j' r
    assume d: "decode_token (env s) (clock (env s) (ticks s)) tok (Some TokenType_REFRESH) = Inr dt'"
      and j: "uuid_of_str (dt_jti dt') = Some j'"
      and r: "filter (\<lambda>r. rs_jti r = j') (refresh_sessions (current s)) = [r]" "\<not> rs_revoked r"
    from decode_token_alike [OF assms(2,1) d] j assms(3) have "j' = j" by simp
    from assms(4) obtain x where "x \<in> set (filter (\<lambda>r. rs_jti r = j) (refresh_sessions (current s)))" "rs_revoked x"
      by (auto simp: session_revoked_def)
    with r \<open>j' = j\<close> show False by simp
  qed
qed

lemma refresh_revokes:
  assumes "refresh tok rq s = (Inr pair, s')"
    and "decode_token (env s) n tok (Some TokenType_REFRESH) = Inr dt" and "decodes_alike (env s) (env s)"
    and "uuid_of_str (dt_jti dt) = Some j"
  shows "session_revoked (committed s') j"
  using assms(1)
proof (rule refresh_Inr)
  fix dt' j' r x
  assume d: "decode_token (env s) (clock (env s) (ticks s)) tok (Some TokenType_REFRESH) = Inr dt'"
    and j: "uuid_of_str (dt_jti dt') = Some j'"
    and r: "filter (\<lambda>r. rs_jti r = j') (refresh_sessions (current s)) = [r]"
    and post: "refresh_sessions (committed s')
       = put_row (touch (server_clock (env s) (txn s)) r (r\<lparr>rs_revoked := True\<rparr>)) (refresh_sessions (current s)) @ [x]"
  from decode_token_alike [OF assms(3,2) d] j assms(4) have "j' = j" by simp
  from r have rr: "r \<in> set (refresh_sessions (current s))" "rs_jti r = j'" by (auto dest: filter_singletonD)
  let ?r = "touch (server_clock (env s) (txn s)) r (r\<lparr>rs_revoked := True\<rparr>)"
  have "?r \<in> set (put_row ?r (refresh_sessions (current s)))" using rr(1) by (rule put_row_self) simp
  then show ?thesis using post rr(2) \<open>j' = j\<close> by (auto simp: session_revoked_def intro!: bexI [of _ ?r])
qed

lemma logout_revokes:
  assumes "logout tok i s = (Inr u, s')"
    and "decode_token (env s) n tok (Some TokenType_REFRESH) = Inr dt" and "decodes_alike (env s) (env s)"
    and "decode_token (env s) (clock (env s) (ticks s)) tok (Some TokenType_REFRESH) = Inr dt'"
    and "uuid_of_str (dt_jti dt) = Some j" and "r \<in> set (refresh_sessions (current s))" and "rs_jti r = j"
  shows "session_revoked (committed s') j"
proof -
  have "dt' = dt" by (rule decode_token_alike [OF assms(3,2,4)])
  let ?s = "s\<lparr>ticks := Suc (ticks s)\<rparr>"
  from assms(1) [unfolded logout_def] obtain dec s1
    where dec: "decode_tx tok (Some TokenType_REFRESH) s = (Inr dec, s1)"
      and run: "(case dec of Inl err \<Rightarrow> if is_token_error err then return_tx () else raise_tx err
       | Inr dt \<Rightarrow> bind_tx (parse_uuid (dt_jti dt)) (\<lambda>jti.
         bind_tx (get_by_jti jti) (\<lambda>found.
         case found of
           None \<Rightarrow> return_tx ()
         | Some r \<Rightarrow>
             bind_tx (save_row refresh_sessions_update r (r\<lparr>rs_revoked := True\<rparr>)) (\<lambda>_.
             bind_tx (record_event \<lparr>aa_action = AuditAction_value LOGOUT, aa_resource_type = ''user'',
               aa_resource_id = Some (uuid_str (rs_user_id r)), aa_tenant_id = None,
               aa_user_id = or_else i (Some (rs_user_id r)), aa_old_data = None,
               aa_new_data = None\<rparr> None) (\<lambda>_. commit_tx))))) s1 = (Inr u, s')"
    by (rule bind_InrE)
  from dec assms(4) \<open>dt' = dt\<close> have dt: "dec = Inr dt" "s1 = ?s"
    by (simp_all add: decode_tx_def bind_tx_def tx_simps)
  have ne: "r \<in> set (filter (\<lambda>r. rs_jti r = j) (refresh_sessions (current ?s)))"
    using assms(6,7) by simp
  from run obtain q s1 e s2 where q: "filter (\<lambda>r. rs_jti r = j) (refresh_sessions (current ?s)) = [q]"
      "save_row refresh_sessions_update q (q\<lparr>rs_revoked := True\<rparr>) ?s = (Inr (touch (server_clock (env s) (txn s)) q (q\<lparr>rs_revoked := True\<rparr>)), s1)"
    and e: "record_event \<lparr>aa_action = AuditAction_value LOGOUT, aa_resource_type = ''user'',
               aa_resource_id = Some (uuid_str (rs_user_id q)), aa_tenant_id = None,
               aa_user_id = or_else i (Some (rs_user_id q)), aa_old_data = None,
               aa_new_data = None\<rparr> None s1 = (Inr e, s2)"
    and fin: "s' = s2\<lparr>committed := current s2, txn := Suc (txn s2)\<rparr>"
    unfolding dt sum.case parse_uuid_def get_by_jti_def
    apply (elim bind_InrE some_InrE scalar_InrE)
     apply hypsubst
     apply (use ne assms(5) in simp)
    apply hypsubst
    apply (simp only: option.case)
    apply (elim bind_InrE commit_InrE)
    apply (rule that; use assms(5) in \<open>simp add: save_row_apply Let_def\<close>)
    done
  let ?q = "touch (server_clock (env s) (txn s)) q (q\<lparr>rs_revoked := True\<rparr>)"
  from q(1) have qq: "q \<in> set (refresh_sessions (current s))" "rs_jti q = j"
    by (auto dest: filter_singletonD)
  have "?q \<in> set (put_row ?q (refresh_sessions (current s)))" using qq(1) by (rule put_row_self) simp
  moreover have "refresh_sessions (committed s') = put_row ?q (refresh_sessions (current s))"
  proof -
    from q(2) have "refresh_sessions (current s1) = put_row ?q (refresh_sessions (current s))"
      by (auto simp: save_row_apply Let_def)
    moreover from e have "refresh_sessions (current s2) = refresh_sessions (current s1)"
      by (auto elim: record_InrE)
    ultimately show ?thesis by (simp add: fin)
  qed
  ultimately show ?thesis using qq(2) by (auto simp: session_revoked_def intro!: bexI [of _ ?q])
qed

section \<open>Password resets\<close>

lemma hash_password_InrE:
  assumes "hash_password pw s = (Inr h, s')"
  obtains "h = argon2_hash (env s) (salts s) pw" "s' = s\<lparr>salts := Suc (salts s)\<rparr>"
  using assms by (auto simp: hash_password_def)

lemma reset_password_Inr:
  assumes "reset_password tok pw s = (Inr x, s')"
  obtains c u n k where "c \<in> set (password_reset_tokens (current s))" "pr_used_at c = None"
    "verify_password (env s) tok (pr_token_hash c)" "clock (env s) (ticks s) \<le> pr_expires_at c"
    "u \<in> set (users (current s))" "row_id u = pr_user_id c"
    "users (committed s') = put_row (touch n u (u\<lparr>u_password_hash := argon2_hash (env s) (salts s) pw\<rparr>)) (users (current s))"
    "password_reset_tokens (committed s')
       = put_row (touch n c (c\<lparr>pr_used_at := Some k\<rparr>)) (password_reset_tokens (current s))"
    "refresh_sessions (committed s') = refresh_sessions (current s)"
proof -
  let ?find = "find (\<lambda>c. verify_password (env s) tok (pr_token_hash c))
    (filter (\<lambda>c. pr_used_at c = None) (password_reset_tokens (current s)))"
  from assms obtain c u s1 s2 u' c' where c: "?find = Some c" "clock (env s) (ticks s) \<le> pr_expires_at c"
    and u: "filter (\<lambda>u. row_id u = pr_user_id c) (users (current s)) = [u]"
    and w: "save_row users_update u (u\<lparr>u_password_hash := argon2_hash (env s) (salts s) pw\<rparr>)
        (s\<lparr>salts := Suc (salts s), ticks := Suc (Suc (ticks s))\<rparr>) = (Inr u', s1)"
      "save_row password_reset_tokens_update c (c\<lparr>pr_used_at := Some (clock (env s) (Suc (ticks s)))\<rparr>) s1 = (Inr c', s2)"
    and fin: "s' = s2\<lparr>committed := current s2, txn := Suc (txn s2)\<rparr>"
    unfolding reset_password_def get_user_by_id_def
    apply (elim tx_elims scalar_InrE hash_password_InrE)
     apply simp
    apply hypsubst
    apply (rule that; simp)
    done
  from find_SomeD [OF c(1)] have cc: "c \<in> set (password_reset_tokens (current s))" "pr_used_at c = None"
    "verify_password (env s) tok (pr_token_hash c)" by simp_all
  from u have uu: "u \<in> set (users (current s))" "row_id u = pr_user_id c" by (auto dest: filter_singletonD)
  show thesis
    by (rule that [OF cc c(2) uu]) (use w fin in \<open>auto elim!: save_row_InrE\<close>)
qed

section \<open>Which tokens are accepted\<close>

lemma get_current_user_Inr:
  assumes "get_current_user cred s = (Inr u, s')"
  obtains tok dt where "cred = Some tok" "tok \<noteq> ''''"
    "decode_token (env s) (clock (env s) (ticks s)) tok (Some TokenType_ACCESS) = Inr dt"
    "uuid_of_str (dt_subject dt) = Some (row_id u)" "u \<in> set (users (current s))"
    "u_status u = UserStatus_ACTIVE" "current s' = current s" "committed s' = committed s"
proof -
  from assms [unfolded get_current_user_def] obtain dec s1 where cred: "\<not> empty_string cred"
    and dec: "decode_tx (the cred) (Some TokenType_ACCESS) s = (Inr dec, s1)"
    and run: "(case dec of Inl err \<Rightarrow> raise_tx (token_rejection err)
     | Inr dt \<Rightarrow>
         bind_tx (some_tx (uuid_of_str (dt_subject dt)) (UnauthorizedError ''Token subject is invalid.'')) (\<lambda>i.
         bind_tx (get_user_by_id i) (\<lambda>found.
         bind_tx (some_tx found (UnauthorizedError ''User no longer exists.'')) (\<lambda>u.
         bind_tx (require_tx (u_status u = UserStatus_ACTIVE)
           (UnauthorizedError ''User account is not active.'')) (\<lambda>_.
         return_tx u))))) s1 = (Inr u, s')"
    by (elim bind_InrE require_InrE) simp
  from dec run obtain dt where dt: "decode_token (env s) (clock (env s) (ticks s)) (the cred) (Some TokenType_ACCESS) = Inr dt"
      "dec = Inr dt" "s1 = s\<lparr>ticks := Suc (ticks s)\<rparr>"
    by (cases dec) (auto simp: decode_tx_def bind_tx_def tx_simps)
  from run obtain i where i: "uuid_of_str (dt_subject dt) = Some i"
      "filter (\<lambda>u. row_id u = i) (users (current s)) = [u]" "u_status u = UserStatus_ACTIVE" "s' = s1"
    unfolding dt(2,3) sum.case get_user_by_id_def
    by (elim bind_InrE require_InrE some_InrE scalar_InrE) (simp_all add: tx_simps)
  from cred obtain tok where "cred = Some tok" "tok \<noteq> ''''" by (cases cred) (auto simp: empty_string_def)
  moreover from i(2) have "u \<in> set (users (current s))" "row_id u = i" by (auto dest: filter_singletonD)
  ultimately show thesis using that [of tok dt] dt i by simp
qed

text \<open>A refresh token is not accepted twice, whatever happens to the sessions in between.\<close>

lemma refresh_twice:
  assumes "refresh tok rq s = (Inr pair, s')" and "decodes_alike (env s) (env s)" and "decodes_alike (env s) (env t)"
    and "evolves refresh_sessions session_step (committed s') (current t)"
    and "distinct (map row_id (refresh_sessions (committed s')))"
  shows "fst (refresh tok rq' t) \<noteq> Inr pair'"
proof
  assume "fst (refresh tok rq' t) = Inr pair'"
  then obtain t' where again: "refresh tok rq' t = (Inr pair', t')" by (cases "refresh tok rq' t") auto
  from assms(1) obtain dt j
    where dt: "decode_token (env s) (clock (env s) (ticks s)) tok (Some TokenType_REFRESH) = Inr dt"
      and j: "uuid_of_str (dt_jti dt) = Some j" by (rule refresh_Inr)
  have "session_revoked (current t) j"
    by (rule session_revoked_evolves [OF assms(4,5) refresh_revokes [OF assms(1) dt assms(2) j]])
  then obtain x where x: "x \<in> set (refresh_sessions (current t))" "rs_jti x = j" "rs_revoked x"
    by (auto simp: session_revoked_def)
  from again obtain dt' j' r
    where dt': "decode_token (env t) (clock (env t) (ticks t)) tok (Some TokenType_REFRESH) = Inr dt'"
      and j': "uuid_of_str (dt_jti dt') = Some j'"
      and r: "filter (\<lambda>r. rs_jti r = j') (refresh_sessions (current t)) = [r]" "\<not> rs_revoked r"
    by (rule refresh_Inr)
  from decode_token_alike [OF assms(3) dt dt'] j j' have "j' = j" by simp
  with x(1,2) have "x \<in> set (filter (\<lambda>r. rs_jti r = j') (refresh_sessions (current t)))" by simp
  with x(3) r show False by simp
qed

lemma touch_used [simp]: "pr_used_at (touch n c (c\<lparr>pr_used_at := Some k\<rparr>)) = Some k"
  by (cases c) (simp add: touch_def)

end
