(* ===== verification/Auth_Tokens.thy ===== *)
theory Auth_Tokens
  imports Auth_Effects
begin

text \<open>
  The access token that login hands out, followed into the request dependencies of
  \<^verbatim>\<open>app/security/dependencies.py\<close>: it names the user that logged in. A refresh token, which is
  made of the same claims but for its type, is refused there.
\<close>

text \<open>
  What PyJWT documents: a token that has not expired decodes to the claims it was made of.
  Only what the code reads of the payload is asked for, and only for the claims the code makes.
\<close>

definition decodes_issued :: "env \<Rightarrow> env \<Rightarrow> int \<Rightarrow> bool" where
  "decodes_issued e e' now \<longleftrightarrow> config e' = config e \<and>
     (\<forall>c. length (cl_sub c) = 36 \<and> length (cl_jti c) = 36 \<and> cl_type c \<in> {''access'', ''refresh''} \<and> now < cl_exp c \<longrightarrow>
        (\<exists>p. jwt_decode e' (encode_token e c) (jwt_secret_key (config e)) [jwt_algorithm (config e)] now = Inr p \<and>
           pl_sub p = Some (cl_sub c) \<and> pl_type p = Some (cl_type c) \<and> pl_jti p = Some (cl_jti c) \<and>
           pl_iat p \<noteq> None \<and> pl_exp p \<noteq> None))"

definition access_claims :: "env \<Rightarrow> uuid \<Rightarrow> uuid option \<Rightarrow> uuid \<Rightarrow> int \<Rightarrow> claims" where
  "access_claims e u t j now = \<lparr>cl_sub = uuid_str u, cl_tenant_id = map_option uuid_str t, cl_type = ''access'',
     cl_jti = uuid_str j, cl_iat = now, cl_exp = now + minute * access_token_expire_minutes (config e)\<rparr>"

lemma issue_token_pair_access:
  assumes "issue_token_pair u rq s = (Inr p, s')"
  shows "tp_access_token p = encode_token (env s) (access_claims (env s) (row_id u) (u_tenant_id u)
    (uuid4 (env s) (Suc (drawn s))) (clock (env s) (ticks s)))"
  using assms unfolding issue_token_pair_run Let_def
  by (auto simp: access_claims_def split: sum.splits option.splits if_splits)

lemma login_access_token:
  assumes "login m pw rq s = (Inr (u, pair), s')"
  shows "tp_access_token pair = encode_token (env s) (access_claims (env s) (row_id u) (u_tenant_id u)
    (uuid4 (env s) (Suc (drawn s))) (clock (env s) (Suc (ticks s))))"
  using assms
proof (rule login_steps)
  fix v s1 s2 e s3
  assume w: "save_row users_update v (v\<lparr>u_failed_login_attempts := 0, u_last_login_at := Some (clock (env s) (ticks s))\<rparr>)
        (s\<lparr>ticks := Suc (ticks s)\<rparr>) = (Inr u, s1)"
    and p: "issue_token_pair u rq s1 = (Inr pair, s2)"
  from w have "env s1 = env s" "drawn s1 = drawn s" "ticks s1 = Suc (ticks s)"
    by (auto elim!: save_row_InrE)
  with issue_token_pair_access [OF p] show ?thesis by simp
qed

text \<open>A token of the claims of an access token is accepted for its user.\<close>

lemma decode_access_token:
  assumes "decodes_issued e e' now" and "now < n + minute * access_token_expire_minutes (config e)"
  shows "\<exists>dt. decode_token e' now (encode_token e (access_claims e u t j n)) (Some TokenType_ACCESS) = Inr dt \<and>
    dt_subject dt = uuid_str u"
proof -
  from assms obtain p where p: "jwt_decode e' (encode_token e (access_claims e u t j n)) (jwt_secret_key (config e))
      [jwt_algorithm (config e)] now = Inr p" "pl_sub p = Some (uuid_str u)" "pl_type p = Some ''access''"
      "pl_jti p = Some (uuid_str j)" "pl_iat p \<noteq> None" "pl_exp p \<noteq> None" and c: "config e' = config e"
    unfolding decodes_issued_def
    by (elim conjE allE [of _ "access_claims e u t j n"] impE) (auto simp: access_claims_def length_uuid_str)
  have "uuid_str i \<noteq> []" for i using length_uuid_str [of i] by force
  with p c show ?thesis
    by (simp add: decode_token_def TokenType_of_def empty_string_def)
qed

lemma get_current_user_access:
  assumes "decodes_issued e (env s) (clock (env s) (ticks s))"
    and "clock (env s) (ticks s) < n + minute * access_token_expire_minutes (config e)"
    and "encode_token e (access_claims e (row_id u) t j n) \<noteq> ''''"
    and "filter (\<lambda>x. row_id x = row_id u) (users (current s)) = [u]" and "u_status u = UserStatus_ACTIVE"
  shows "get_current_user (Some (encode_token e (access_claims e (row_id u) t j n))) s
    = (Inr u, s\<lparr>ticks := Suc (ticks s)\<rparr>)"
proof -
  from decode_access_token [OF assms(1,2)] obtain dt where
    "decode_token (env s) (clock (env s) (ticks s)) (encode_token e (access_claims e (row_id u) t j n))
       (Some TokenType_ACCESS) = Inr dt" "dt_subject dt = uuid_str (row_id u)" by blast
  with assms(3-5) show ?thesis
    by (simp add: get_current_user_def decode_tx_def bind_assoc bind_first_step empty_string_def env_apply
        uuid_of_str_uuid_str get_user_by_id_def bind_scalar_step return_apply)
qed

lemma login_then_current_user:
  assumes "login m pw rq s = (Inr (u, pair), s')" and "distinct (map row_id (users (current s)))"
    and "decodes_issued (env s) e (clock e 0)"
    and "clock e 0 < clock (env s) (Suc (ticks s)) + minute * access_token_expire_minutes (config (env s))"
    and "tp_access_token pair \<noteq> ''''"
  shows "\<exists>s2. get_current_user (Some (tp_access_token pair)) (new_session e (committed s')) = (Inr u, s2) \<and>
    committed s2 = committed s'"
  using assms(1)
proof (rule login_steps)
  fix v s1 s2 ev s3
  assume v: "account (current s) m = [v]" "u_status v = UserStatus_ACTIVE"
    and w: "save_row users_update v (v\<lparr>u_failed_login_attempts := 0, u_last_login_at := Some (clock (env s) (ticks s))\<rparr>)
        (s\<lparr>ticks := Suc (ticks s)\<rparr>) = (Inr u, s1)"
    and p: "issue_token_pair u rq s1 = (Inr pair, s2)"
    and r: "record_event (user_audit LOGIN (Some u) None) rq s2 = (Inr ev, s3)"
    and fin: "s' = s3\<lparr>committed := current s3, txn := Suc (txn s3)\<rparr>"
  from v(1) have vin: "v \<in> set (users (current s))" by (auto simp: account_def dest: filter_singletonD)
  from w have u: "row_id u = row_id v" "u_status u = u_status v" "users (current s1) = put_row u (users (current s))"
    by (auto elim!: save_row_InrE)
  from p have "users (current s2) = users (current s1)" by (rule issue_token_pair_Inr) simp
  with record_current [OF r] fin u(3) have us: "users (committed s') = put_row u (users (current s))" by simp
  have "filter (\<lambda>x. row_id x = row_id u) (users (committed s')) = [u]"
    unfolding us
  proof (rule filter_key_eq)
    show "distinct (map row_id (put_row u (users (current s))))" using assms(2) by simp
    show "u \<in> set (put_row u (users (current s)))" using vin u(1) by (intro put_row_self [of v]) simp_all
  qed
  with get_current_user_access [of "env s" "new_session e (committed s')" "clock (env s) (Suc (ticks s))" u
      "u_tenant_id u" "uuid4 (env s) (Suc (drawn s))"] login_access_token [OF assms(1)] assms(3-5) u(2) v(2)
  show ?thesis by simp
qed

end
