(* ===== verification/Sample_Data.thy ===== *)
theory Sample_Data
  imports Authorization Audit_Trail
begin

text \<open>
  A small company for the concrete instances of the theorems: one tenant with two plants under
  a business unit, a fiscal year, a unit of measure, an administrator with a role for the
  whole tenant and an operator of the first plant; a second tenant with a user of its own. The
  environment hands out the UUIDs \<open>1000, 1001, ...\<close> and clocks that start at given times.
\<close>

definition sample_config :: config where
  "sample_config = \<lparr>environment = ''production'', debug = False, jwt_secret_key = ''k'',
     jwt_algorithm = ''HS256'', access_token_expire_minutes = 15, refresh_token_expire_days = 7,
     cors_allowed_origins = '''', storage_provider = ''local'', local_storage_path = ''/data'',
     rate_limit_per_minute = 120, max_upload_size_mb = 25\<rparr>"

text \<open>
  Instances of the outside code: a hash that shows the salt and the password, and tokens that
  are looked up in a fixed list.
\<close>

definition sample_hash :: "nat \<Rightarrow> string \<Rightarrow> string" where
  "sample_hash n s = str_nat n @ ''$'' @ s"

definition sample_verify :: "string \<Rightarrow> string \<Rightarrow> argon2_error + bool" where
  "sample_verify h s =
     (if dropWhile (\<lambda>c. c \<noteq> CHR ''$'') h = ''$'' @ s then Inr True else Inl VerifyMismatchError)"

text \<open>A token is the text of its identifier, of its subject and of its type.\<close>

definition sample_encode :: "claims \<Rightarrow> string \<Rightarrow> string \<Rightarrow> string" where
  "sample_encode c key alg = cl_jti c @ cl_sub c @ cl_type c"

definition sample_decode :: "string \<Rightarrow> string \<Rightarrow> string list \<Rightarrow> int \<Rightarrow> jwt_error + payload" where
  "sample_decode s key algs now =
     (if length s < 72 then Inl InvalidTokenError
      else Inr \<lparr>pl_sub = Some (take 36 (drop 36 s)), pl_tenant_id = None, pl_type = Some (drop 72 s),
        pl_jti = Some (take 36 s), pl_iat = Some 0, pl_exp = Some 1000\<rparr>)"

definition sample_env :: env where
  "sample_env = \<lparr>config = sample_config, uuid4 = (\<lambda>n. of_nat (1000 + n)), clock = (\<lambda>n. int n),
     server_clock = (\<lambda>n. 100 + int n), argon2_hash = sample_hash, argon2_verify = sample_verify,
     jwt_encode = sample_encode, jwt_decode = sample_decode,
     sql_like = (\<lambda>s p. False), sql_ilike = (\<lambda>s p. False), collation = (\<lambda>s. of_nat (length s)), normalized_email = Some\<rparr>"

definition sample_tenant :: "uuid \<Rightarrow> string \<Rightarrow> tenant" where
  "sample_tenant i c = \<lparr>created_at = 0, updated_at = 0, row_id = i, tn_name = c, tn_code = c,
     tn_slug = lower c, tn_status = TenantStatus_ACTIVE, tn_timezone = ''UTC'', tn_currency = ''INR''\<rparr>"

definition sample_user :: "uuid \<Rightarrow> uuid option \<Rightarrow> string \<Rightarrow> user" where
  "sample_user i t m = \<lparr>created_at = 0, updated_at = 0, row_id = i, u_tenant_id = t, u_email = m,
     u_password_hash = ''0$secret'', u_first_name = ''A'', u_last_name = ''B'', u_phone = None,
     u_status = UserStatus_ACTIVE, u_is_verified = True, u_is_platform_user = (t = None),
     u_last_login_at = None, u_failed_login_attempts = 0\<rparr>"

definition sample_unit :: "uuid \<Rightarrow> OrganizationUnitType \<Rightarrow> uuid option \<Rightarrow> organization_unit" where
  "sample_unit i ty p = \<lparr>created_at = 0, updated_at = 0, row_id = i, tenant_id = 1, ou_name = ''U'',
     ou_code = ''U'', ou_unit_type = ty, ou_parent_id = p, ou_status = ''ACTIVE''\<rparr>"

definition sample_fiscal_year :: "uuid \<Rightarrow> string \<Rightarrow> bool \<Rightarrow> fiscal_year" where
  "sample_fiscal_year i c a = \<lparr>created_at = 0, updated_at = 0, row_id = i, tenant_id = 1, fy_code = c,
     fy_start_date = (2026, 4, 1), fy_end_date = (2027, 3, 31), fy_is_active = a, fy_is_closed = False\<rparr>"

definition sample_measure_unit :: measure_unit where
  "sample_measure_unit = \<lparr>created_at = 0, updated_at = 0, row_id = 30, mu_category_id = 31,
     mu_code = ''ton'', mu_name = ''Ton'', mu_symbol = ''t''\<rparr>"

definition sample_permission :: "uuid \<Rightarrow> string \<Rightarrow> permission" where
  "sample_permission i c = \<lparr>created_at = 0, updated_at = 0, row_id = i, p_code = c,
     p_description = None, p_module = ''m''\<rparr>"

definition sample_role :: "uuid \<Rightarrow> uuid option \<Rightarrow> string \<Rightarrow> bool \<Rightarrow> role" where
  "sample_role i t c sys = \<lparr>created_at = 0, updated_at = 0, row_id = i, r_tenant_id = t, r_code = c,
     r_name = c, r_description = None, r_is_system = sys\<rparr>"

definition sample_user_role :: "uuid \<Rightarrow> uuid \<Rightarrow> uuid \<Rightarrow> uuid option \<Rightarrow> user_role" where
  "sample_user_role i u r o' = \<lparr>created_at = 0, updated_at = 0, row_id = i, ur_user_id = u,
     ur_role_id = r, ur_organization_unit_id = o'\<rparr>"

definition sample_db :: db where
  "sample_db = empty_db\<lparr>
     tenants := [sample_tenant 1 ''ACME'', sample_tenant 2 ''OTHER''],
     users := [sample_user 10 (Some 1) ''admin@acme.io'', sample_user 11 (Some 1) ''op@acme.io'',
       sample_user 12 (Some 2) ''x@other.io'', sample_user 13 None ''root@crusherly.io''],
     organization_units := [sample_unit 20 OrganizationUnitType_BUSINESS_UNIT None,
       sample_unit 21 OrganizationUnitType_PLANT (Some 20),
       sample_unit 22 OrganizationUnitType_PLANT (Some 20)],
     fiscal_years := [sample_fiscal_year 40 ''2026-27'' True],
     measure_units := [sample_measure_unit],
     permissions := [sample_permission 50 ''weighbridge.create'', sample_permission 51 ''weighbridge.update'',
       sample_permission 52 ''production.create'', sample_permission 53 ''production.update''],
     roles := [sample_role 60 None ''SUPER_ADMIN'' True, sample_role 61 (Some 1) ''CLERK'' False],
     role_permissions := map (\<lambda>p. \<lparr>created_at = 0, updated_at = 0, rp_role_id = 61, rp_permission_id = p\<rparr>)
       [50, 51, 52, 53],
     user_roles := [sample_user_role 70 10 61 None, sample_user_role 71 11 61 (Some 21)]\<rparr>"

text \<open>The security contexts that the service builds for the administrator and the operator.\<close>

definition sample_context :: "user \<Rightarrow> security_context" where
  "sample_context u = (case build_security_context u sample_db of
     Inr cx \<Rightarrow> cx
   | Inl e \<Rightarrow> \<lparr>cx_user = u, cx_tenant_id = None, cx_is_platform_user = False,
       cx_role_codes = [], cx_grants = []\<rparr>)"

definition admin_context :: security_context where
  "admin_context = sample_context (sample_user 10 (Some 1) ''admin@acme.io'')"

definition operator_context :: security_context where
  "operator_context = sample_context (sample_user 11 (Some 1) ''op@acme.io'')"

end
