(* ===== verification/Sample_Runs.thy ===== *)
theory Sample_Runs
  imports Weighbridge Production Master_Data Settings_Service Auth_Tokens Sample_Data
begin

text \<open>
  Concrete requests on the sample company, for the instances of the theorems: payloads, and
  databases that earlier requests left.
\<close>

lemma run_returned: "\<not> isl (fst r) \<Longrightarrow> r = (Inr (projr (fst r)), snd r)"
  by (cases r; cases "fst r") auto

section \<open>Evaluation\<close>

text \<open>What the simplifier needs to run a request: the steps, the primitives, the sample data.\<close>

lemmas run_steps = run_tx_step tx_run tx_simps bind_assoc new_session_def save_row_apply
  add_row_apply delete_row_def is_authorized_def grants_for_def Let_def audit_columns_fit_def audit_event_of_def
  length_uuid_str violated_def stamp_def touch_def put_row_def

lemmas run_numbers = numeric_12_3_def three_decimals_def

lemmas sample_company = sample_env_def sample_config_def sample_db_def empty_db_def sample_tenant_def
  sample_user_def sample_unit_def sample_fiscal_year_def sample_measure_unit_def sample_permission_def
  sample_role_def sample_user_role_def

lemmas sample_contexts = admin_context_def operator_context_def sample_context_def
  build_security_context_def user_roles_of_def grants_of_user_role_def resolved_scopes_def
  role_permission_codes_def role_of_def permission_of_def

lemma admin_context_fields [simp]:
  "cx_tenant_id admin_context = Some 1" "row_id (cx_user admin_context) = 10"
  "cx_is_platform_user admin_context = False"
  by (simp_all add: sample_contexts sample_company Let_def)

lemma admin_grants:
  "cx_grants admin_context = map (\<lambda>p. \<lparr>permission_code = p, scope_level = ScopeLevel_TENANT, grant_unit = None\<rparr>)
     [''weighbridge.create'', ''weighbridge.update'', ''production.create'', ''production.update'']"
  by (simp add: sample_contexts sample_company Let_def)

lemma operator_context_fields [simp]:
  "cx_tenant_id operator_context = Some 1" "row_id (cx_user operator_context) = 11"
  "cx_is_platform_user operator_context = False"
  by (simp_all add: sample_contexts sample_company Let_def)

lemma operator_grants:
  "cx_grants operator_context = map (\<lambda>p. \<lparr>permission_code = p, scope_level = ScopeLevel_PLANT, grant_unit = Some 21\<rparr>)
     [''weighbridge.create'', ''weighbridge.update'', ''production.create'', ''production.update'']"
  by (simp add: sample_contexts sample_company Let_def)

lemmas sample_run = run_steps run_numbers sample_company admin_grants operator_grants

section \<open>Weighbridge\<close>

definition sample_ticket :: "uuid option \<Rightarrow> ticket_create" where
  "sample_ticket o' = \<lparr>tc_organization_unit_id = o', tc_unit_id = 30,
     tc_ticket_type = WeighbridgeTicketType_INBOUND, tc_vehicle_number = ''mh12'', tc_driver_name = None,
     tc_party_name = None, tc_material_description = ''Stone'', tc_first_weight = 20,
     tc_remarks = None\<rparr>"

text \<open>An open and a completed ticket of the first plant.\<close>

definition open_ticket :: weighbridge_ticket where
  "open_ticket = stamp 100 (new_ticket 1001 1 ''WBT-000001'' 10 0 (sample_ticket (Some 21)))"

definition open_ticket_db :: db where
  "open_ticket_db = sample_db\<lparr>weighbridge_tickets := [open_ticket]\<rparr>"

lemmas number_run = next_number_def sequence_row_def sequence_scope_def increment_sequence_def
  sequence_constraints_def new_sequence_def fresh_id_def refers_def max_int32_def

lemmas ticket_run = sample_run open_ticket_db_def open_ticket_def sample_ticket_def new_ticket_def
  get_ticket_def get_ticket_in_tenant_def ticket_audit_def

lemma sample_complete: "\<not> isl (fst (run_tx (complete_ticket admin_context 1001 8 None) sample_env open_ticket_db))"
  by (simp add: ticket_run complete_ticket_def completed_ticket_def cong: bind_step_cong)

lemma sample_cancel: "\<not> isl (fst (run_tx (cancel_ticket operator_context 1001 None) sample_env open_ticket_db))"
  by (simp add: ticket_run cancel_ticket_def cancelled_ticket_def cong: bind_step_cong)

lemma sample_create:
  "\<not> isl (fst (run_tx (create_ticket admin_context (sample_ticket (Some 21)) None) sample_env sample_db))"
  by (simp add: ticket_run number_run create_ticket_def get_active_for_tenant_def ticket_constraints_def
      weighbridge_document_type_def ticket_prefix_def cong: bind_step_cong)

definition later_env :: env where
  "later_env = sample_env\<lparr>uuid4 := (\<lambda>n. of_nat (2000 + n)), clock := (\<lambda>n. 50 + int n)\<rparr>"

lemma first_number: "format_number ''WBT'' (Suc 0) 6 = ''WBT-000001''"
  by code_simp

lemma sample_sequences: "unique_sequence_ids sample_db"
  by (simp add: unique_sequence_ids_def sample_db_def empty_db_def)

text \<open>The second plant: its first number is the one the first plant has used.\<close>

lemma sample_number:
  "fst (next_number 1 weighbridge_document_type ''2026-27'' ticket_prefix (Some 22) 6
     (new_session later_env open_ticket_db)) = Inr ''WBT-000001''"
  by (simp add: ticket_run number_run later_env_def weighbridge_document_type_def ticket_prefix_def first_number cong: bind_step_cong)

lemma sample_second_plant:
  "is_authorized admin_context ''weighbridge.create'' (Some 22) open_ticket_db"
  "filter (\<lambda>y. tenant_id y = 1 \<and> fy_is_active y) (fiscal_years open_ticket_db) = [sample_fiscal_year 40 ''2026-27'' True]"
  "fy_code (sample_fiscal_year 40 ''2026-27'' True) = ''2026-27''"
  "drawn (snd (next_number 1 weighbridge_document_type ''2026-27'' ticket_prefix (Some 22) 6
     (new_session later_env open_ticket_db))) = Suc 0"
  "uuid4 later_env (Suc 0) \<noteq> row_id open_ticket"
  "weighbridge_tickets open_ticket_db = [open_ticket]" "tenant_id open_ticket = 1"
  "wt_ticket_number open_ticket = ''WBT-000001''"
  by (simp_all add: ticket_run number_run later_env_def weighbridge_document_type_def ticket_prefix_def cong: bind_step_cong)

definition completed_ticket_db :: db where
  "completed_ticket_db = sample_db\<lparr>weighbridge_tickets := [completed_ticket 10 1 8 open_ticket]\<rparr>"

section \<open>Numbering\<close>

definition first_call :: "string tx" where
  "first_call = next_number 1 ''INVOICE'' ''2026-27'' ''INV'' (Some 21) 4"

lemma sample_history: "\<exists>n n' d d'. run_tx first_call sample_env sample_db = (Inr n, d) \<and>
    run_tx first_call later_env d = (Inr n', d')"
proof -
  have "\<not> isl (fst (run_tx first_call sample_env sample_db))"
    by (simp add: ticket_run number_run first_call_def cong: bind_step_cong)
  moreover have "\<not> isl (fst (run_tx first_call later_env (snd (run_tx first_call sample_env sample_db))))"
    by (simp add: ticket_run number_run first_call_def later_env_def cong: bind_step_cong)
  ultimately show ?thesis using run_returned by blast
qed

section \<open>Settings\<close>

definition sample_settings_db :: db where
  "sample_settings_db = sample_db\<lparr>settings := [new_setting 80 None None None ''unit'' (VStr ''kg''),
     new_setting 81 (Some 1) None None ''unit'' (VStr ''ton''),
     new_setting 82 (Some 1) (Some 21) None ''unit'' (VStr ''lb'')]\<rparr>"

lemma sample_upsert:
  "\<not> isl (fst (run_tx (upsert (Some 1) ''unit'' (VStr ''g'') (Some 21) (Some ''production'') 10) sample_env sample_settings_db))"
  by (simp add: sample_run upsert_def find_setting_def sample_settings_db_def setting_scope_def new_setting_def
      setting_audit_def setting_constraints_def fresh_id_def refers_def cong: bind_step_cong)

section \<open>Master data\<close>

definition sample_material :: md_create where
  "sample_material = \<lparr>mc_code = ''M1'', mc_name = ''Stone'', mc_description = None,
     mc_extra = [(''category_id'', VNone), (''default_unit_id'', VUuid 30)]\<rparr>"

lemmas md_run = sample_run md_constraints_def md_references_def reference_ok_def class_defs new_md_row_def
  sample_material_def fresh_id_def refers_def column_values_def md_audit_def md_update_table_def

lemma sample_md_create:
  "\<not> isl (fst (run_tx (md_create_item Material admin_context sample_material None) sample_env sample_db))"
  by (simp add: md_run md_create_item_def md_by_code_in_tenant_def cong: bind_step_cong)

definition material_db :: db where
  "material_db = md_update_table Material (\<lambda>_. [stamp 100 (new_md_row 1000 1 10 sample_material)]) sample_db"

definition sample_update :: json_dict where
  "sample_update = [(''name'', VStr ''Gravel''), (''default_unit_id'', VNone)]"

lemma sample_md_update:
  "\<not> isl (fst (run_tx (md_update_item Material admin_context 1000 sample_update None) sample_env material_db))"
  by (simp add: md_run md_update_item_def md_get_def md_by_id_in_tenant_def material_db_def sample_update_def
      not_null_ok_def md_updated_def cong: bind_step_cong)

section \<open>Accounts\<close>

definition nine_failures_db :: db where
  "nine_failures_db = sample_db\<lparr>users :=
     [(sample_user 10 (Some 1) ''admin@acme.io'')\<lparr>u_failed_login_attempts := 9\<rparr>]\<rparr>"

lemmas login_run = sample_run login_def get_by_email_def verify_password_def sample_verify_def
  user_audit_def count_failure_def max_failed_attempts_def

lemma sample_failure:
  "fst (run_tx (login ''Admin@acme.io'' ''wrong'' None) sample_env nine_failures_db) = Inl wrong_credentials"
  by (simp add: login_run nine_failures_db_def wrong_credentials_def lower_def cong: bind_step_cong)

lemma nine_failures_account:
  "\<exists>u. account nine_failures_db ''Admin@acme.io'' = [u] \<and> u_failed_login_attempts u = 9 \<and>
    distinct (map row_id (users nine_failures_db)) \<and> lower ''admin@acme.io'' = lower ''Admin@acme.io''"
proof -
  have "lower ''admin@acme.io'' = lower ''Admin@acme.io''" by code_simp
  then show ?thesis by (simp add: account_def nine_failures_db_def sample_user_def)
qed

lemma sample_update_valid: "valid_md_update Material sample_update"
  by (simp add: valid_md_update_def sample_update_def router_defs schema_defs)

lemma material_fields: "\<forall>r\<in>set (master_data material_db Material). map fst (extra r) = extra_fields Material"
  by (simp add: material_db_def md_update_table_def new_md_row_def sample_material_def column_values_def stamp_def)

section \<open>Contexts\<close>

lemma operator_built: "build_security_context (sample_user 11 (Some 1) ''op@acme.io'') sample_db = Inr operator_context"
  by (simp add: sample_contexts sample_company Let_def)

lemma operator_at_plant: "is_authorized operator_context ''weighbridge.update'' (Some 21) sample_db"
  by (simp add: is_authorized_def grants_for_def operator_grants)

section \<open>Logins\<close>

lemmas session_run = login_run issue_token_pair_def create_access_token_def create_refresh_token_def
  decode_tx_def decode_token_def encode_token_def sample_encode_def sample_decode_def TokenType_of_def
  empty_string_def new_refresh_session_def refresh_session_constraints_def fresh_id_def

lemma uuid_str_not_Nil [simp]: "uuid_str u \<noteq> []"
  using length_uuid_str [of u] by force

lemma bind_case_sum_step:
  "bind_tx (case x of Inl a \<Rightarrow> f a | Inr b \<Rightarrow> g b) h s =
     (case x of Inl a \<Rightarrow> bind_tx (f a) h s | Inr b \<Rightarrow> bind_tx (g b) h s)"
  by (simp split: sum.split)

lemma sample_addresses:
  "lower ''op@acme.io'' = ''op@acme.io''" "lower ''admin@acme.io'' = ''admin@acme.io''"
  "lower ''x@other.io'' = ''x@other.io''" "lower ''root@crusherly.io'' = ''root@crusherly.io''"
  by code_simp+

lemma sample_login: "\<not> isl (fst (run_tx (login ''op@acme.io'' ''secret'' None) sample_env sample_db))"
  by (simp add: session_run sample_addresses bind_case_sum_step cong: bind_step_cong)

lemma sample_decodes_issued: "decodes_issued sample_env sample_env now"
  by (simp add: decodes_issued_def encode_token_def sample_env_def sample_encode_def sample_decode_def)

lemma sample_session:
  "\<exists>u pair d'. run_tx (login ''op@acme.io'' ''secret'' None) sample_env sample_db = (Inr (u, pair), d') \<and>
    distinct (map row_id (users sample_db)) \<and> decodes_issued sample_env sample_env (clock sample_env 0) \<and>
    clock sample_env 0 < clock sample_env 1 + minute * access_token_expire_minutes (config sample_env) \<and>
    tp_access_token pair \<noteq> ''''"
proof -
  obtain u pair d' where r: "run_tx (login ''op@acme.io'' ''secret'' None) sample_env sample_db = (Inr (u, pair), d')"
    using run_returned [OF sample_login] by (metis prod.exhaust)
  then obtain s' where "login ''op@acme.io'' ''secret'' None (new_session sample_env sample_db) = (Inr (u, pair), s')"
    by (rule run_tx_eqD)
  then have "tp_access_token pair \<noteq> ''''"
    by (simp add: login_access_token sample_env_def encode_token_def sample_encode_def access_claims_def)
  with r sample_decodes_issued show ?thesis
    by (simp add: sample_db_def sample_user_def sample_env_def sample_config_def minute_def)
qed

end
