(* ===== verification/Users.thy ===== *)
theory Users
  imports Tenant_Isolation Auth_Service
begin

text \<open>
  User management: \<^verbatim>\<open>app/services/user_service.py\<close> over \<^verbatim>\<open>app/repositories/user_repository.py\<close>
  and \<^verbatim>\<open>role_repository.py\<close>, with the payloads of \<^verbatim>\<open>app/schemas/user.py\<close>. The invariant of the
  table of users is the one that login relies on: an address is stored in small letters and
  belongs to one account of the whole platform.
\<close>

section \<open>Payloads\<close>

record user_create =
  nu_email :: string
  nu_password :: string
  nu_first_name :: string
  nu_last_name :: string
  nu_phone :: "string option"
  nu_tenant_id :: "uuid option"

definition bounded :: "nat \<Rightarrow> nat \<Rightarrow> string \<Rightarrow> bool" where
  "bounded lo hi s \<longleftrightarrow> lo \<le> length s \<and> length s \<le> hi"

text \<open>\<open>is_email\<close> is the check of \<^verbatim>\<open>EmailStr\<close>.\<close>

definition valid_user_create :: "(string \<Rightarrow> bool) \<Rightarrow> user_create \<Rightarrow> bool" where
  "valid_user_create is_email p \<longleftrightarrow> is_email (nu_email p) \<and> bounded 8 128 (nu_password p) \<and>
     bounded 1 100 (nu_first_name p) \<and> bounded 1 100 (nu_last_name p) \<and> fits 30 (nu_phone p)"

record user_update =
  uu_first_name :: "string option"
  uu_last_name :: "string option"
  uu_phone :: "string option"
  uu_status :: "UserStatus option"

fun optional_bounded :: "nat \<Rightarrow> nat \<Rightarrow> string option \<Rightarrow> bool" where
  "optional_bounded lo hi None \<longleftrightarrow> True"
| "optional_bounded lo hi (Some s) \<longleftrightarrow> bounded lo hi s"

definition valid_user_update :: "user_update \<Rightarrow> bool" where
  "valid_user_update p \<longleftrightarrow> optional_bounded 1 100 (uu_first_name p) \<and>
     optional_bounded 1 100 (uu_last_name p) \<and> fits 30 (uu_phone p)"

section \<open>Repositories\<close>

definition get_user_in_tenant :: "uuid \<Rightarrow> uuid \<Rightarrow> user option tx" where
  "get_user_in_tenant i t =
     scalar_tx (\<lambda>d. filter (\<lambda>u. row_id u = i \<and> u_tenant_id u = Some t) (users d))"

definition list_users_in_tenant ::
  "env \<Rightarrow> uuid \<Rightarrow> nat \<Rightarrow> nat \<Rightarrow> string option \<Rightarrow> db \<Rightarrow> user list \<times> nat" where
  "list_users_in_tenant e t off cnt search d =
     newest_page (\<lambda>u. u_tenant_id u = Some t \<and>
       (case search of
          None \<Rightarrow> True
        | Some s \<Rightarrow> s = '''' \<or>
            (let like = ''%'' @ lower s @ ''%'' in
             sql_like e (lower (u_email u)) like \<or> sql_like e (lower (u_first_name u)) like \<or>
             sql_like e (lower (u_last_name u)) like))) off cnt (users d)"

text \<open>A global role, or one of the tenant itself.\<close>

definition visible_to :: "uuid option \<Rightarrow> role \<Rightarrow> bool" where
  "visible_to t r \<longleftrightarrow> r_tenant_id r = None \<or> r_tenant_id r = t"

definition get_visible_to_tenant :: "uuid \<Rightarrow> uuid option \<Rightarrow> role option tx" where
  "get_visible_to_tenant i t = scalar_tx (\<lambda>d. filter (\<lambda>r. row_id r = i \<and> visible_to t r) (roles d))"

definition user_constraints :: "db \<Rightarrow> user \<Rightarrow> (string \<times> bool) list" where
  "user_constraints d u =
     [(''users_pkey'', fresh_id (users d) u),
      (''users_email_key'', u_email u \<notin> u_email ` set (users d)),
      (''users_tenant_id_fkey'', refers (tenants d) (u_tenant_id u))]"

definition same_assignment :: "user_role \<Rightarrow> user_role \<Rightarrow> bool" where
  "same_assignment a b \<longleftrightarrow> ur_user_id a = ur_user_id b \<and> ur_role_id a = ur_role_id b \<and>
     ur_organization_unit_id a = ur_organization_unit_id b"

definition user_role_constraints :: "db \<Rightarrow> user_role \<Rightarrow> (string \<times> bool) list" where
  "user_role_constraints d r =
     [(''user_roles_pkey'', fresh_id (user_roles d) r),
      (''uq_user_role_scope'', ur_organization_unit_id r = None \<or>
         \<not> list_ex (same_assignment r) (user_roles d)),
      (''user_roles_user_id_fkey'', ur_user_id r \<in> row_id ` set (users d)),
      (''user_roles_role_id_fkey'', ur_role_id r \<in> row_id ` set (roles d)),
      (''user_roles_organization_unit_id_fkey'', refers (organization_units d) (ur_organization_unit_id r))]"

section \<open>The service\<close>

definition users_platform_error :: error where
  "users_platform_error = ForbiddenError ''Platform users must manage users through tenant administration.''"

definition list_users ::
  "security_context \<Rightarrow> nat \<Rightarrow> nat \<Rightarrow> string option \<Rightarrow> (user list \<times> nat) tx" where
  "list_users cx page page_size search =
     bind_tx (some_tx (cx_tenant_id cx) users_platform_error) (\<lambda>t.
     bind_tx (env_tx id) (\<lambda>e.
     query_tx (list_users_in_tenant e t ((page - 1) * page_size) page_size search)))"

definition get_user :: "security_context \<Rightarrow> uuid \<Rightarrow> user tx" where
  "get_user cx i =
     bind_tx (some_tx (cx_tenant_id cx) users_platform_error) (\<lambda>t.
     bind_tx (get_user_in_tenant i t) (\<lambda>u.
     some_tx u (NotFoundError ''User not found.'')))"

definition new_user :: "uuid \<Rightarrow> uuid \<Rightarrow> string \<Rightarrow> user_create \<Rightarrow> user" where
  "new_user i t h p = \<lparr>created_at = 0, updated_at = 0, row_id = i, u_tenant_id = Some t,
     u_email = lower (nu_email p), u_password_hash = h, u_first_name = nu_first_name p,
     u_last_name = nu_last_name p, u_phone = nu_phone p, u_status = UserStatus_ACTIVE,
     u_is_verified = False, u_is_platform_user = False, u_last_login_at = None,
     u_failed_login_attempts = 0\<rparr>"

definition admin_audit ::
  "AuditAction \<Rightarrow> string \<Rightarrow> uuid \<Rightarrow> uuid option \<Rightarrow> security_context \<Rightarrow> json_dict option \<Rightarrow> json_dict option \<Rightarrow> audit_args" where
  "admin_audit act ty i t cx old new = \<lparr>aa_action = AuditAction_value act, aa_resource_type = ty,
     aa_resource_id = Some (uuid_str i), aa_tenant_id = t, aa_user_id = Some (row_id (cx_user cx)),
     aa_old_data = old, aa_new_data = new\<rparr>"

definition create_user ::
  "security_context \<Rightarrow> user_create \<Rightarrow> web_request option \<Rightarrow> user tx" where
  "create_user cx p rq =
     bind_tx (some_tx (cx_tenant_id cx) users_platform_error) (\<lambda>t.
     bind_tx (get_by_email (nu_email p)) (\<lambda>existing.
     bind_tx (require_tx (existing = None) (ConflictError ''A user with this email already exists.'')) (\<lambda>_.
     bind_tx (hash_password (nu_password p)) (\<lambda>h.
     bind_tx uuid4_tx (\<lambda>i.
     bind_tx (add_row users_update user_constraints (new_user i t h p)) (\<lambda>u.
     bind_tx (record_event (admin_audit USER_CREATED ''user'' (row_id u) (cx_tenant_id cx) cx None
       (Some [(''email'', VStr (u_email u))])) rq) (\<lambda>_.
     bind_tx commit_tx (\<lambda>_.
     return_tx u))))))))"

text \<open>\<^verbatim>\<open>if payload.x is not None: user.x = payload.x\<close>.\<close>

definition set_if_given :: "'a option \<Rightarrow> 'a \<Rightarrow> 'a" where
  "set_if_given new old = (case new of None \<Rightarrow> old | Some v \<Rightarrow> v)"

definition updated_user :: "user_update \<Rightarrow> user \<Rightarrow> user" where
  "updated_user p u = u\<lparr>u_first_name := set_if_given (uu_first_name p) (u_first_name u),
     u_last_name := set_if_given (uu_last_name p) (u_last_name u),
     u_phone := or_else (uu_phone p) (u_phone u),
     u_status := set_if_given (uu_status p) (u_status u)\<rparr>"

definition user_json :: "user \<Rightarrow> json_dict" where
  "user_json u = [(''first_name'', VStr (u_first_name u)), (''last_name'', VStr (u_last_name u)),
     (''status'', VStr (UserStatus_value (u_status u)))]"

definition update_user ::
  "security_context \<Rightarrow> uuid \<Rightarrow> user_update \<Rightarrow> web_request option \<Rightarrow> user tx" where
  "update_user cx i p rq =
     bind_tx (get_user cx i) (\<lambda>u.
     bind_tx (save_row users_update u (updated_user p u)) (\<lambda>u'.
     bind_tx (record_event (admin_audit USER_UPDATED ''user'' (row_id u') (cx_tenant_id cx) cx
       (Some (user_json u)) (Some (user_json u'))) rq) (\<lambda>_.
     bind_tx commit_tx (\<lambda>_.
     return_tx u'))))"

definition deactivate_user :: "security_context \<Rightarrow> uuid \<Rightarrow> web_request option \<Rightarrow> user tx" where
  "deactivate_user cx i rq =
     bind_tx (get_user cx i) (\<lambda>u.
     bind_tx (save_row users_update u (u\<lparr>u_status := UserStatus_INACTIVE\<rparr>)) (\<lambda>u'.
     bind_tx (record_event (admin_audit USER_DISABLED ''user'' (row_id u') (cx_tenant_id cx) cx None None) rq) (\<lambda>_.
     bind_tx commit_tx (\<lambda>_.
     return_tx u'))))"

definition new_user_role :: "uuid \<Rightarrow> uuid \<Rightarrow> uuid \<Rightarrow> uuid option \<Rightarrow> user_role" where
  "new_user_role i u r o' = \<lparr>created_at = 0, updated_at = 0, row_id = i, ur_user_id = u,
     ur_role_id = r, ur_organization_unit_id = o'\<rparr>"

text \<open>The role is returned with the assignment: the route reads its code.\<close>

definition assign_role ::
  "security_context \<Rightarrow> uuid \<Rightarrow> uuid \<Rightarrow> uuid option \<Rightarrow> web_request option \<Rightarrow> (user_role \<times> role) tx" where
  "assign_role cx i role_id o' rq =
     bind_tx (get_user cx i) (\<lambda>u.
     bind_tx (get_visible_to_tenant role_id (cx_tenant_id cx)) (\<lambda>found.
     bind_tx (some_tx found (NotFoundError ''Role not found.'')) (\<lambda>r.
     bind_tx uuid4_tx (\<lambda>j.
     bind_tx (add_row user_roles_update user_role_constraints (new_user_role j (row_id u) (row_id r) o')) (\<lambda>ur.
     bind_tx (record_event (admin_audit PERMISSION_CHANGED ''user'' (row_id u) (cx_tenant_id cx) cx None
       (Some [(''assigned_role'', VStr (r_code r)),
              (''organization_unit_id'', case o' of None \<Rightarrow> VNone | Some k \<Rightarrow> VStr (uuid_str k))])) rq) (\<lambda>_.
     bind_tx commit_tx (\<lambda>_.
     return_tx (ur, r))))))))"

section \<open>The operations within the store relations\<close>

interpretation user_table: table users users_update
  by unfold_locales simp

lemma updated_user_fields [simp]:
  "row_id (updated_user p u) = row_id u" "u_tenant_id (updated_user p u) = u_tenant_id u"
  "u_email (updated_user p u) = u_email u" "u_password_hash (updated_user p u) = u_password_hash u"
  "u_failed_login_attempts (updated_user p u) = u_failed_login_attempts u"
  "u_is_platform_user (updated_user p u) = u_is_platform_user u"
  by (simp_all add: updated_user_def)

lemmas user_defs = create_user_def update_user_def deactivate_user_def assign_role_def get_user_def
  get_user_in_tenant_def get_by_email_def get_visible_to_tenant_def

lemma create_user_audit: "tx_within audit_grows (create_user cx p rq)"
  unfolding user_defs by (intro tx_rules) (simp_all add: audit_grows_def)

lemma update_user_audit: "tx_within audit_grows (update_user cx i p rq)"
  unfolding user_defs by (intro tx_rules) (simp_all add: audit_grows_def)

lemma deactivate_user_audit: "tx_within audit_grows (deactivate_user cx i rq)"
  unfolding user_defs by (intro tx_rules) (simp_all add: audit_grows_def)

lemma assign_role_audit: "tx_within audit_grows (assign_role cx i r o' rq)"
  unfolding user_defs by (intro tx_rules) (simp_all add: audit_grows_def)

lemma create_user_atomic: "atomic (create_user cx p rq)"
  unfolding user_defs by (intro atomic_rules)

lemma update_user_atomic: "atomic (update_user cx i p rq)"
  unfolding user_defs by (intro atomic_rules)

lemma deactivate_user_atomic: "atomic (deactivate_user cx i rq)"
  unfolding user_defs by (intro atomic_rules)

lemma assign_role_atomic: "atomic (assign_role cx i r o' rq)"
  unfolding user_defs by (intro atomic_rules)

lemma create_user_isolation:
  assumes "cx_tenant_id cx = Some t"
  shows "tx_within (tenant_frame t) (create_user cx p rq)"
  unfolding user_defs assms some_tx_def option.case bind_return
  by (intro tx_rules)
    (auto simp: user_constraints_def new_user_def stamp_def intro!: tenant_frame_write frame_snoc)

lemma update_user_isolation:
  assumes "cx_tenant_id cx = Some t"
  shows "tx_within (tenant_frame t) (update_user cx i p rq)"
  unfolding user_defs assms some_tx_def option.case bind_return
  by (intro tx_rules) (auto dest!: filter_singletonD intro!: tenant_frame_write frame_put_row)

lemma deactivate_user_isolation:
  assumes "cx_tenant_id cx = Some t"
  shows "tx_within (tenant_frame t) (deactivate_user cx i rq)"
  unfolding user_defs assms some_tx_def option.case bind_return
  by (intro tx_rules) (auto dest!: filter_singletonD intro!: tenant_frame_write frame_put_row)

lemma assign_role_isolation: "tx_within (tenant_frame t) (assign_role cx i r o' rq)"
  unfolding user_defs by (intro tx_rules) simp_all

section \<open>Addresses\<close>

text \<open>What login relies on.\<close>

definition users_ok :: "db \<Rightarrow> bool" where
  "users_ok d \<longleftrightarrow> distinct (map row_id (users d)) \<and> distinct (map u_email (users d)) \<and>
     (\<forall>u\<in>set (users d). lower (u_email u) = u_email u)"

interpretation user_invariant: blind_to_audit "preserves users_ok"
  by unfold_locales (simp add: preserves_def users_ok_def)

lemma users_ok_same: "users d' = users d \<Longrightarrow> preserves users_ok d d'"
  by (simp add: preserves_def users_ok_def)

lemma users_ok_snoc:
  assumes "violated (user_constraints d u) = None" and "lower (u_email u) = u_email u"
  shows "preserves users_ok d (users_update (\<lambda>us. us @ [u]) d)"
  using assms by (auto simp: preserves_def users_ok_def user_constraints_def fresh_id_def)

lemma users_ok_put_row:
  assumes "u \<in> set (users d)" and "row_id u' = row_id u" and "u_email u' = u_email u"
  shows "preserves users_ok d (users_update (put_row u') d)"
  unfolding preserves_def
proof
  assume ok: "users_ok d"
  then have ids: "distinct (map row_id (users d))" by (simp add: users_ok_def)
  from ok map_put_row [where f = u_email, OF ids assms] assms show "users_ok (users_update (put_row u') d)"
    by (auto simp: users_ok_def dest!: in_put_row)
qed

text \<open>An address has at most one account, so \<^verbatim>\<open>scalar_one_or_none\<close> never sees two.\<close>

lemma users_ok_email:
  assumes "users_ok d" and "u \<in> set (users d)" and "v \<in> set (users d)" and "lower (u_email u) = lower (u_email v)"
  shows "u = v"
proof -
  have "u_email u = u_email v" using assms by (simp add: users_ok_def)
  with assms(1-3) show ?thesis by (auto simp: users_ok_def intro: distinct_map_same_key)
qed

lemma users_ok_account:
  assumes "users_ok d"
  shows "length (filter (\<lambda>u. lower (u_email u) = lower m) (users d)) \<le> 1"
proof -
  have "filter (\<lambda>u. lower (u_email u) = lower m) (users d) = filter (\<lambda>u. u_email u = lower m) (users d)"
    using assms by (intro filter_cong) (auto simp: users_ok_def)
  with assms filter_key_at_most_one [of u_email "users d" "lower m"] show ?thesis
    by (simp add: users_ok_def)
qed

lemma create_user_invariant: "tx_within (preserves users_ok) (create_user cx p rq)"
  unfolding user_defs
  by (intro tx_rules) (auto intro!: users_ok_snoc simp: new_user_def stamp_def)

lemma update_user_invariant: "tx_within (preserves users_ok) (update_user cx i p rq)"
  unfolding user_defs by (intro tx_rules) (auto dest!: filter_singletonD intro!: users_ok_put_row)

lemma deactivate_user_invariant: "tx_within (preserves users_ok) (deactivate_user cx i rq)"
  unfolding user_defs by (intro tx_rules) (auto dest!: filter_singletonD intro!: users_ok_put_row)

lemma assign_role_invariant: "tx_within (preserves users_ok) (assign_role cx i r o' rq)"
  unfolding user_defs by (intro tx_rules) (auto intro!: users_ok_same)

text \<open>The operations of the authentication service keep the invariant, too.\<close>

lemma users_ok_elsewhere [simp]:
  "preserves users_ok d (refresh_sessions_update f d)" "preserves users_ok d (password_reset_tokens_update g d)"
  by (simp_all add: users_ok_same)

lemma issue_token_pair_users [tx_rules]: "tx_pre (preserves users_ok) P (issue_token_pair u rq)"
  unfolding token_defs by (intro tx_rules) simp_all

lemma issue_token_pair_bind_users [tx_rules]:
  "(\<And>x. tx_within (preserves users_ok) (f x))
    \<Longrightarrow> tx_pre (preserves users_ok) P (bind_tx (issue_token_pair u rq) f)"
  by (rule tx_pre_bind [OF issue_token_pair_users])

lemma login_invariant: "tx_within (preserves users_ok) (login m pw rq)"
  unfolding login_def get_by_email_def
  by (intro tx_rules; (intro tx_rules | simp split: bool.split option.split
      | (rule users_ok_put_row; auto dest!: filter_singletonD; fail) | safe)+)

lemma refresh_invariant: "tx_within (preserves users_ok) (refresh tok rq)"
  unfolding refresh_def get_by_jti_def get_user_by_id_def by (intro tx_rules) simp_all

lemma logout_invariant: "tx_within (preserves users_ok) (logout tok i)"
  unfolding logout_def get_by_jti_def by (intro tx_rules) simp_all

lemma request_password_reset_invariant: "tx_within (preserves users_ok) (request_password_reset m)"
  unfolding request_password_reset_def get_by_email_def by (intro tx_rules) simp_all

lemma reset_password_invariant: "tx_within (preserves users_ok) (reset_password tok pw)"
  unfolding reset_password_def get_user_by_id_def
  by (intro tx_rules) (auto dest!: filter_singletonD intro!: users_ok_put_row)

section \<open>What the operations do\<close>

lemma get_user_InrE:
  assumes "get_user cx i s = (Inr u, s')"
  obtains t where "cx_tenant_id cx = Some t" "s' = s" "u \<in> set (users (current s))"
    "row_id u = i" "u_tenant_id u = Some t"
  using assms unfolding get_user_def get_user_in_tenant_def
proof (elim bind_InrE some_InrE)
  fix t s1 x s2
  assume "scalar_tx (\<lambda>d. filter (\<lambda>u. row_id u = i \<and> u_tenant_id u = Some t) (users d)) s1 = (Inr x, s2)"
    and x: "cx_tenant_id cx = Some t" "s1 = s" "x = Some u" "s' = s2"
  then have f: "filter (\<lambda>u. row_id u = i \<and> u_tenant_id u = Some t) (users (current s)) = [u]" "s2 = s"
    by (auto elim: scalar_InrE)
  from filter_singletonD [OF f(1)] f x show thesis by (intro that [of t]) simp_all
qed

lemma create_user_Inr:
  assumes "create_user cx p rq s = (Inr u, s')"
  obtains t where "cx_tenant_id cx = Some t"
    "filter (\<lambda>x. lower (u_email x) = lower (nu_email p)) (users (current s)) = []"
    "u = stamp (server_clock (env s) (txn s))
       (new_user (uuid4 (env s) (drawn s)) t (argon2_hash (env s) (salts s) (nu_password p)) p)"
    "violated (user_constraints (current s) u) = None"
    "users (committed s') = users (current s) @ [u]"
proof -
  from assms obtain t where t: "cx_tenant_id cx = Some t"
    unfolding create_user_def by (elim bind_InrE [of "some_tx _ _"] some_InrE)
  let ?s = "s\<lparr>salts := Suc (salts s)\<rparr>" and ?h = "argon2_hash (env s) (salts s) (nu_password p)"
  have h: "bind_tx (hash_password pw) f s = f (argon2_hash (env s) (salts s) pw) (s\<lparr>salts := Suc (salts s)\<rparr>)"
    for pw and f :: "string \<Rightarrow> user tx"
    by (simp add: hash_password_def bind_tx_def)
  from assms have none: "filter (\<lambda>x. lower (u_email x) = lower (nu_email p)) (users (current s)) = []"
    and run: "bind_tx (add_row users_update user_constraints (new_user (uuid4 (env s) (drawn s)) t ?h p)) (\<lambda>u.
       bind_tx (record_event (admin_audit USER_CREATED ''user'' (row_id u) (cx_tenant_id cx) cx None
         (Some [(''email'', VStr (u_email u))])) rq) (\<lambda>_.
       bind_tx commit_tx (\<lambda>_. return_tx u))) (?s\<lparr>drawn := Suc (drawn s)\<rparr>) = (Inr u, s')"
    unfolding create_user_def t get_by_email_def bind_scalar_step guard_run option.case h
    by (auto simp: scalar_NoRow_iff split: one_or_none.splits if_splits)
  from run show thesis
    by (elim add_audit_commit_InrE) (auto intro!: that [OF t none])
qed

lemma update_user_Inr:
  assumes "update_user cx i p rq s = (Inr u', s')"
  obtains u where "get_user cx i s = (Inr u, s)"
    "u' = touch (server_clock (env s) (txn s)) u (updated_user p u)"
    "users (committed s') = put_row u' (users (current s))"
proof -
  from assms obtain u where g: "get_user cx i s = (Inr u, s)"
    unfolding update_user_def by (elim bind_InrE) (auto elim: get_user_InrE)
  from assms show thesis
    unfolding update_user_def bind_apply_Inr [where m = "get_user cx i" and s = s, OF g]
    by (elim save_audit_commit_InrE) (auto intro!: that [OF g])
qed

lemma assign_role_Inr:
  assumes "assign_role cx i k o' rq s = (Inr (ur, r), s')"
  obtains u where "get_user cx i s = (Inr u, s)" "r \<in> set (roles (current s))" "row_id r = k"
    "visible_to (cx_tenant_id cx) r"
    "ur = stamp (server_clock (env s) (txn s)) (new_user_role (uuid4 (env s) (drawn s)) i k o')"
    "violated (user_role_constraints (current s) ur) = None"
    "user_roles (committed s') = user_roles (current s) @ [ur]" "users (committed s') = users (current s)"
    "roles (committed s') = roles (current s)" "role_permissions (committed s') = role_permissions (current s)"
    "permissions (committed s') = permissions (current s)"
    "scope_assignments (committed s') = scope_assignments (current s)"
    "organization_units (committed s') = organization_units (current s)"
proof -
  from assms obtain u where g: "get_user cx i s = (Inr u, s)"
    unfolding assign_role_def by (elim bind_InrE) (auto elim: get_user_InrE)
  from g have i: "row_id u = i" by (auto elim: get_user_InrE)
  from assms obtain q where q: "filter (\<lambda>r. row_id r = k \<and> visible_to (cx_tenant_id cx) r) (roles (current s)) = [q]"
    and run: "bind_tx (add_row user_roles_update user_role_constraints
        (new_user_role (uuid4 (env s) (drawn s)) (row_id u) (row_id q) o')) (\<lambda>ur.
       bind_tx (record_event (admin_audit PERMISSION_CHANGED ''user'' (row_id u) (cx_tenant_id cx) cx None
         (Some [(''assigned_role'', VStr (r_code q)),
                (''organization_unit_id'', case o' of None \<Rightarrow> VNone | Some k \<Rightarrow> VStr (uuid_str k))])) rq) (\<lambda>_.
       bind_tx commit_tx (\<lambda>_. return_tx (ur, q)))) (s\<lparr>drawn := Suc (drawn s)\<rparr>) = (Inr (ur, r), s')"
    unfolding assign_role_def bind_apply_Inr [where m = "get_user cx i" and s = s, OF g]
      get_visible_to_tenant_def bind_scalar_step guard_run
    by (auto simp: scalar_OneRow_iff split: one_or_none.splits)
  from filter_singletonD [OF q] have qq: "q \<in> set (roles (current s))" "row_id q = k"
    "visible_to (cx_tenant_id cx) q" by simp_all
  from run show thesis
    by (elim add_audit_commit_InrE) (use qq i in \<open>auto intro!: that [OF g]\<close>)
qed

text \<open>Any visible role can be assigned, the platform's own roles included.\<close>

lemma assign_role_returns:
  assumes "cx_tenant_id cx = Some t"
    and "filter (\<lambda>u. row_id u = i \<and> u_tenant_id u = Some t) (users (current s)) = [u]"
    and "filter (\<lambda>r. row_id r = k \<and> visible_to (Some t) r) (roles (current s)) = [r]"
    and "uuid4 (env s) (drawn s) \<notin> row_id ` set (user_roles (current s))"
    and "uuid4 (env s) (Suc (drawn s)) \<notin> ae_id ` set (audit_events (current s))"
  shows "\<exists>ur s'. assign_role cx i k None None s = (Inr (ur, r), s')"
proof -
  from filter_singletonD [OF assms(2)] filter_singletonD [OF assms(3)]
  have m: "u \<in> set (users (current s))" "row_id u = i" "r \<in> set (roles (current s))" "row_id r = k" by simp_all
  have g: "get_user cx i s = (Inr u, s)"
    by (simp add: get_user_def get_user_in_tenant_def assms(1,2) tx_run tx_simps)
  show ?thesis
    unfolding assign_role_def bind_apply_Inr [where m = "get_user cx i" and s = s, OF g]
      get_visible_to_tenant_def
    using assms m
    by (auto simp: tx_run tx_simps Let_def user_role_constraints_def violated_def new_user_role_def stamp_def
        fresh_id_def refers_def audit_columns_fit_def audit_event_of_def admin_audit_def)
qed

end
