(* ===== verification/Roles.thy ===== *)
theory Roles
  imports Users
begin

text \<open>
  Roles and their permissions: \<^verbatim>\<open>app/services/role_service.py\<close> over
  \<^verbatim>\<open>app/repositories/role_repository.py\<close> and \<^verbatim>\<open>permission_repository.py\<close>, with the payloads of
  \<^verbatim>\<open>app/schemas/role.py\<close>. The relation \<open>role_step\<close> says what the service promises for
  the seeded roles: they and their permissions stay as they are.
\<close>

section \<open>Payloads\<close>

record role_create =
  rc_code :: string
  rc_name :: string
  rc_description :: "string option"
  rc_permission_codes :: "string list"

text \<open>The pattern \<^verbatim>\<open>^[A-Z0-9_]+$\<close>.\<close>

definition role_code_char :: "char \<Rightarrow> bool" where
  "role_code_char c = (let n = of_char c :: nat in (65 \<le> n \<and> n \<le> 90) \<or> (48 \<le> n \<and> n \<le> 57) \<or> n = 95)"

definition valid_role_create :: "role_create \<Rightarrow> bool" where
  "valid_role_create p \<longleftrightarrow> bounded 1 50 (rc_code p) \<and> list_all role_code_char (rc_code p) \<and>
     bounded 1 100 (rc_name p) \<and> fits 255 (rc_description p)"

record role_update =
  ru_name :: "string option"
  ru_description :: "string option"

definition valid_role_update :: "role_update \<Rightarrow> bool" where
  "valid_role_update p \<longleftrightarrow> optional_bounded 1 100 (ru_name p) \<and> fits 255 (ru_description p)"

section \<open>Repository\<close>

text \<open>\<^verbatim>\<open>ORDER BY is_system DESC, name\<close>.\<close>

definition list_visible_to_tenant :: "env \<Rightarrow> uuid option \<Rightarrow> db \<Rightarrow> role list" where
  "list_visible_to_tenant e t d =
     sort_key (\<lambda>r. if r_is_system r then 0 else (1 :: nat))
       (sort_key (\<lambda>r. collation e (r_name r)) (filter (visible_to t) (roles d)))"

definition get_role_by_code :: "string \<Rightarrow> uuid option \<Rightarrow> role option tx" where
  "get_role_by_code c t = scalar_tx (\<lambda>d. filter (\<lambda>r. r_code r = c \<and> r_tenant_id r = t) (roles d))"

definition get_permissions_by_codes :: "string list \<Rightarrow> db \<Rightarrow> permission list" where
  "get_permissions_by_codes cs d = (if cs = [] then [] else filter (\<lambda>p. p_code p \<in> set cs) (permissions d))"

definition list_all_permissions :: "env \<Rightarrow> db \<Rightarrow> permission list" where
  "list_all_permissions e d = sort_key (\<lambda>p. collation e (p_code p)) (permissions d)"

definition role_constraints :: "db \<Rightarrow> role \<Rightarrow> (string \<times> bool) list" where
  "role_constraints d r =
     [(''roles_pkey'', fresh_id (roles d) r),
      (''uq_role_tenant_code'', r_tenant_id r = None \<or>
         \<not> list_ex (\<lambda>x. r_tenant_id x = r_tenant_id r \<and> r_code x = r_code r) (roles d)),
      (''roles_tenant_id_fkey'', refers (tenants d) (r_tenant_id r))]"

definition role_permission_constraints :: "db \<Rightarrow> role_permission \<Rightarrow> (string \<times> bool) list" where
  "role_permission_constraints d x =
     [(''role_permissions_pkey'',
         \<not> list_ex (\<lambda>y. rp_role_id y = rp_role_id x \<and> rp_permission_id y = rp_permission_id x) (role_permissions d)),
      (''role_permissions_role_id_fkey'', rp_role_id x \<in> row_id ` set (roles d)),
      (''role_permissions_permission_id_fkey'', rp_permission_id x \<in> row_id ` set (permissions d))]"

section \<open>The service\<close>

definition list_roles :: "security_context \<Rightarrow> role list tx" where
  "list_roles cx = bind_tx (env_tx id) (\<lambda>e. query_tx (list_visible_to_tenant e (cx_tenant_id cx)))"

definition get_role :: "security_context \<Rightarrow> uuid \<Rightarrow> role tx" where
  "get_role cx i =
     bind_tx (get_visible_to_tenant i (cx_tenant_id cx)) (\<lambda>r.
     some_tx r (NotFoundError ''Role not found.''))"

definition new_role :: "uuid \<Rightarrow> uuid \<Rightarrow> role_create \<Rightarrow> role" where
  "new_role i t p = \<lparr>created_at = 0, updated_at = 0, row_id = i, r_tenant_id = Some t,
     r_code = rc_code p, r_name = rc_name p, r_description = rc_description p, r_is_system = False\<rparr>"

definition new_role_permission :: "uuid \<Rightarrow> uuid \<Rightarrow> role_permission" where
  "new_role_permission r p = \<lparr>created_at = 0, updated_at = 0, rp_role_id = r, rp_permission_id = p\<rparr>"

definition add_role_permission :: "uuid \<Rightarrow> permission \<Rightarrow> unit tx" where
  "add_role_permission r p =
     bind_tx (add_row role_permissions_update role_permission_constraints (new_role_permission r (row_id p)))
       (\<lambda>_. return_tx ())"

definition strings_json :: "string list \<Rightarrow> pyval" where
  "strings_json xs = VList (map VStr xs)"

text \<open>What \<^verbatim>\<open>create_role\<close> does before it commits, and the whole of it.\<close>

definition insert_role :: "security_context \<Rightarrow> role_create \<Rightarrow> web_request option \<Rightarrow> role tx" where
  "insert_role cx p rq =
     bind_tx (some_tx (cx_tenant_id cx)
       (ForbiddenError ''Platform-level custom roles are not supported in Phase 0.'')) (\<lambda>t.
     bind_tx (get_role_by_code (rc_code p) (Some t)) (\<lambda>existing.
     bind_tx (require_tx (existing = None)
       (ConflictError ''A role with this code already exists for this tenant.'')) (\<lambda>_.
     bind_tx uuid4_tx (\<lambda>i.
     bind_tx (add_row roles_update role_constraints (new_role i t p)) (\<lambda>role.
     bind_tx (query_tx (get_permissions_by_codes (rc_permission_codes p))) (\<lambda>ps.
     bind_tx (for_tx ps (add_role_permission (row_id role))) (\<lambda>_.
     bind_tx (record_event (admin_audit ROLE_CREATED ''role'' (row_id role) (cx_tenant_id cx) cx None
       (Some [(''code'', VStr (r_code role)), (''permission_codes'', strings_json (rc_permission_codes p))])) rq) (\<lambda>_.
     return_tx role))))))))"

definition create_role :: "security_context \<Rightarrow> role_create \<Rightarrow> web_request option \<Rightarrow> role tx" where
  "create_role cx p rq =
     bind_tx (insert_role cx p rq) (\<lambda>role. bind_tx commit_tx (\<lambda>_. get_role cx (row_id role)))"

definition updated_role :: "role_update \<Rightarrow> role \<Rightarrow> role" where
  "updated_role p r = r\<lparr>r_name := set_if_given (ru_name p) (r_name r),
     r_description := or_else (ru_description p) (r_description r)\<rparr>"

definition role_json :: "role \<Rightarrow> json_dict" where
  "role_json r = [(''name'', VStr (r_name r)),
     (''description'', case r_description r of None \<Rightarrow> VNone | Some s \<Rightarrow> VStr s)]"

definition update_role ::
  "security_context \<Rightarrow> uuid \<Rightarrow> role_update \<Rightarrow> web_request option \<Rightarrow> role tx" where
  "update_role cx i p rq =
     bind_tx (get_role cx i) (\<lambda>role.
     bind_tx (require_tx (\<not> r_is_system role) (ForbiddenError ''System roles cannot be modified.'')) (\<lambda>_.
     bind_tx (save_row roles_update role (updated_role p role)) (\<lambda>role'.
     bind_tx (record_event (admin_audit ROLE_UPDATED ''role'' (row_id role') (cx_tenant_id cx) cx
       (Some (role_json role)) (Some (role_json role'))) rq) (\<lambda>_.
     bind_tx commit_tx (\<lambda>_.
     return_tx role')))))"

text \<open>\<^verbatim>\<open>sorted(...)\<close> of strings: Python compares them character by character.\<close>

fun string_le :: "string \<Rightarrow> string \<Rightarrow> bool" where
  "string_le [] t \<longleftrightarrow> True"
| "string_le (c # s) [] \<longleftrightarrow> False"
| "string_le (c # s) (d # t) \<longleftrightarrow>
     (if c = d then string_le s t else (of_char c :: nat) < of_char d)"

fun insert_string :: "string \<Rightarrow> string list \<Rightarrow> string list" where
  "insert_string x [] = [x]"
| "insert_string x (y # ys) = (if string_le x y then x # y # ys else y # insert_string x ys)"

definition sorted_strings :: "string list \<Rightarrow> string list" where
  "sorted_strings xs = foldr insert_string xs []"

text \<open>The old rows of the role are deleted and flushed before the new ones are added.\<close>

definition replace_permissions ::
  "security_context \<Rightarrow> uuid \<Rightarrow> string list \<Rightarrow> web_request option \<Rightarrow> role tx" where
  "replace_permissions cx i codes rq =
     bind_tx (get_role cx i) (\<lambda>role.
     bind_tx (require_tx (\<not> r_is_system role)
       (ForbiddenError ''System role permissions cannot be modified.'')) (\<lambda>_.
     bind_tx (query_tx (\<lambda>d. sorted_strings (role_permission_codes d (row_id role)))) (\<lambda>old_codes.
     bind_tx (write_tx (role_permissions_update (filter (\<lambda>x. rp_role_id x \<noteq> row_id role)))) (\<lambda>_.
     bind_tx (query_tx (get_permissions_by_codes codes)) (\<lambda>ps.
     bind_tx (for_tx ps (add_role_permission (row_id role))) (\<lambda>_.
     bind_tx (record_event (admin_audit PERMISSION_CHANGED ''role'' (row_id role) (cx_tenant_id cx) cx
       (Some [(''permission_codes'', strings_json old_codes)])
       (Some [(''permission_codes'', strings_json (sorted_strings (map p_code ps)))])) rq) (\<lambda>_.
     return_tx role)))))))"

definition update_role_permissions ::
  "security_context \<Rightarrow> uuid \<Rightarrow> string list \<Rightarrow> web_request option \<Rightarrow> role tx" where
  "update_role_permissions cx i codes rq =
     bind_tx (replace_permissions cx i codes rq) (\<lambda>role. bind_tx commit_tx (\<lambda>_. get_role cx (row_id role)))"

text \<open>
  Deleting a role: the relationship deletes its \<^verbatim>\<open>role_permissions\<close>, the foreign keys delete the
  assignments of the role and their explicit scopes (\<^verbatim>\<open>ondelete="CASCADE"\<close>).
\<close>

definition delete_role_rows :: "role \<Rightarrow> db \<Rightarrow> db" where
  "delete_role_rows r d =
     (let gone = map row_id (filter (\<lambda>ur. ur_role_id ur = row_id r) (user_roles d)) in
      d\<lparr>role_permissions := filter (\<lambda>x. rp_role_id x \<noteq> row_id r) (role_permissions d),
        scope_assignments := filter (\<lambda>x. sa_user_role_id x \<notin> set gone) (scope_assignments d),
        user_roles := filter (\<lambda>ur. ur_role_id ur \<noteq> row_id r) (user_roles d),
        roles := filter (\<lambda>x. row_id x \<noteq> row_id r) (roles d)\<rparr>)"

definition delete_role :: "security_context \<Rightarrow> uuid \<Rightarrow> web_request option \<Rightarrow> unit tx" where
  "delete_role cx i rq =
     bind_tx (get_role cx i) (\<lambda>role.
     bind_tx (require_tx (\<not> r_is_system role) (ForbiddenError ''System roles cannot be deleted.'')) (\<lambda>_.
     bind_tx (record_event (admin_audit ROLE_DELETED ''role'' (row_id role) (cx_tenant_id cx) cx
       (Some [(''code'', VStr (r_code role))]) None) rq) (\<lambda>_.
     bind_tx (write_tx (delete_role_rows role)) (\<lambda>_.
     commit_tx))))"

section \<open>The operations within the store relations\<close>

lemma updated_role_fields [simp]:
  "row_id (updated_role p r) = row_id r" "r_tenant_id (updated_role p r) = r_tenant_id r"
  "r_code (updated_role p r) = r_code r" "r_is_system (updated_role p r) = r_is_system r"
  by (simp_all add: updated_role_def)

lemma touch_role [simp]:
  "r_tenant_id (touch n r r') = r_tenant_id r'" "r_code (touch n r r') = r_code r'"
  "r_is_system (touch n r r') = r_is_system r'"
  for r r' :: role
  by (simp_all add: touch_def)

lemmas role_defs = create_role_def insert_role_def update_role_def update_role_permissions_def
  replace_permissions_def delete_role_def get_role_def
  get_visible_to_tenant_def get_role_by_code_def add_role_permission_def

lemma atomic_get_role: "keeps (get_role cx i)"
  unfolding get_role_def get_visible_to_tenant_def by (intro atomic_rules)

lemma delete_role_rows_audit [simp]: "audit_events (delete_role_rows r d) = audit_events d"
  by (simp add: delete_role_rows_def Let_def)

lemma create_role_audit: "tx_within audit_grows (create_role cx p rq)"
  unfolding role_defs by (intro tx_rules) (simp_all add: audit_grows_def)

lemma update_role_audit: "tx_within audit_grows (update_role cx i p rq)"
  unfolding role_defs by (intro tx_rules) (simp_all add: audit_grows_def)

lemma update_role_permissions_audit: "tx_within audit_grows (update_role_permissions cx i cs rq)"
  unfolding role_defs by (intro tx_rules) (simp_all add: audit_grows_def)

lemma delete_role_audit: "tx_within audit_grows (delete_role cx i rq)"
  unfolding role_defs by (intro tx_rules) (simp_all add: audit_grows_def)

lemma update_role_atomic: "atomic (update_role cx i p rq)"
  unfolding update_role_def by (intro atomic_rules atomic_get_role)

lemma delete_role_atomic: "atomic (delete_role cx i rq)"
  unfolding delete_role_def by (intro atomic_rules atomic_get_role)

lemma keeps_for_permissions: "keeps (insert_role cx p rq)" "keeps (replace_permissions cx i cs rq)"
  unfolding role_defs by (intro atomic_rules)+

lemma create_role_isolation:
  assumes "cx_tenant_id cx = Some t"
  shows "tx_within (tenant_frame t) (create_role cx p rq)"
  unfolding role_defs assms some_tx_def option.case bind_return
  by (intro tx_rules)
    (auto simp: role_constraints_def new_role_def stamp_def intro!: tenant_frame_write frame_snoc)

section \<open>What the operations do\<close>

lemma get_role_InrE:
  assumes "get_role cx i s = (Inr r, s')"
  obtains "s' = s" "filter (\<lambda>r. row_id r = i \<and> visible_to (cx_tenant_id cx) r) (roles (current s)) = [r]"
    "r \<in> set (roles (current s))" "row_id r = i" "visible_to (cx_tenant_id cx) r"
  using assms unfolding get_role_def get_visible_to_tenant_def
proof (elim bind_InrE some_InrE)
  fix x s1
  assume "scalar_tx (\<lambda>d. filter (\<lambda>r. row_id r = i \<and> visible_to (cx_tenant_id cx) r) (roles d)) s = (Inr x, s1)"
    and x: "x = Some r" "s' = s1"
  then have f: "filter (\<lambda>r. row_id r = i \<and> visible_to (cx_tenant_id cx) r) (roles (current s)) = [r]" "s1 = s"
    by (auto elim: scalar_InrE)
  from filter_singletonD [OF f(1)] f x show thesis by (intro that) simp_all
qed

lemma get_role_found:
  assumes "filter (\<lambda>r. row_id r = i \<and> visible_to (cx_tenant_id cx) r) (roles (current s)) = [r]"
  shows "get_role cx i s = (Inr r, s)"
  using assms by (simp add: get_role_def get_visible_to_tenant_def tx_run tx_simps)

text \<open>The rows that the loops over the permissions add.\<close>

lemma for_add_role_permission:
  assumes "for_tx ps (add_role_permission r) s = (Inr u, s')"
  shows "\<exists>xs. s' = s\<lparr>current := role_permissions_update (\<lambda>x. x @ xs) (current s)\<rparr> \<and>
    map rp_permission_id xs = map row_id ps \<and> (\<forall>x\<in>set xs. rp_role_id x = r)"
  using assms
proof (induction ps arbitrary: s)
  case Nil
  then show ?case by (auto simp: tx_simps intro!: exI [of _ "[]"])
next
  case (Cons p ps)
  from Cons.prems obtain s1 v where a: "add_role_permission r p s = (Inr v, s1)"
    and b: "for_tx ps (add_role_permission r) s1 = (Inr u, s')" by (auto elim: bind_InrE)
  from a obtain x where add: "add_row role_permissions_update role_permission_constraints
      (new_role_permission r (row_id p)) s = (Inr x, s1)"
    unfolding add_role_permission_def by (elim bind_InrE return_InrE) simp
  then have x: "rp_permission_id x = row_id p" "rp_role_id x = r"
      "s1 = s\<lparr>current := role_permissions_update (\<lambda>xs. xs @ [x]) (current s)\<rparr>"
    by (elim add_row_InrE; simp add: stamp_def new_role_permission_def)+
  from Cons.IH [OF b] obtain xs where xs: "s' = s1\<lparr>current := role_permissions_update (\<lambda>x. x @ xs) (current s1)\<rparr>"
      "map rp_permission_id xs = map row_id ps" "\<forall>x\<in>set xs. rp_role_id x = r" by blast
  show ?case
    by (rule exI [of _ "x # xs"]) (use x xs in simp)
qed

lemma insert_role_Inr:
  assumes "insert_role cx p rq s = (Inr role, s')"
  obtains t xs ev where "cx_tenant_id cx = Some t"
    "role = stamp (server_clock (env s) (txn s)) (new_role (uuid4 (env s) (drawn s)) t p)"
    "violated (role_constraints (current s) role) = None"
    "current s' = audit_events_update (\<lambda>es. es @ [ev])
       (role_permissions_update (\<lambda>x. x @ xs) (roles_update (\<lambda>rs. rs @ [role]) (current s)))"
    "map rp_permission_id xs = map row_id (get_permissions_by_codes (rc_permission_codes p) (current s))"
    "\<forall>x\<in>set xs. rp_role_id x = row_id role"
proof -
  from assms obtain t where t: "cx_tenant_id cx = Some t"
    unfolding insert_role_def by (elim bind_InrE [of "some_tx _ _"] some_InrE)
  from assms obtain s0 where run: "bind_tx (add_row roles_update role_constraints (new_role (uuid4 (env s) (drawn s)) t p)) (\<lambda>role.
     bind_tx (query_tx (get_permissions_by_codes (rc_permission_codes p))) (\<lambda>ps.
     bind_tx (for_tx ps (add_role_permission (row_id role))) (\<lambda>_.
     bind_tx (record_event (admin_audit ROLE_CREATED ''role'' (row_id role) (cx_tenant_id cx) cx None
       (Some [(''code'', VStr (r_code role)), (''permission_codes'', strings_json (rc_permission_codes p))])) rq) (\<lambda>_.
     return_tx role)))) s0 = (Inr role, s')" and s0: "s0 = s\<lparr>drawn := Suc (drawn s)\<rparr>"
    unfolding insert_role_def t get_role_by_code_def bind_scalar_step guard_run option.case
    by (auto split: one_or_none.splits if_splits)
  from run obtain x s1 v s2 e where a: "add_row roles_update role_constraints (new_role (uuid4 (env s) (drawn s)) t p) s0 = (Inr x, s1)"
    and f: "for_tx (get_permissions_by_codes (rc_permission_codes p) (current s1)) (add_role_permission (row_id x)) s1 = (Inr v, s2)"
    and r: "record_event (admin_audit ROLE_CREATED ''role'' (row_id x) (cx_tenant_id cx) cx None
       (Some [(''code'', VStr (r_code x)), (''permission_codes'', strings_json (rc_permission_codes p))])) rq s2 = (Inr e, s')"
    and x: "role = x"
    by (elim bind_InrE query_InrE return_InrE) simp
  from for_add_role_permission [OF f] obtain xs where xs:
    "s2 = s1\<lparr>current := role_permissions_update (\<lambda>x. x @ xs) (current s1)\<rparr>"
    "map rp_permission_id xs = map row_id (get_permissions_by_codes (rc_permission_codes p) (current s1))"
    "\<forall>y\<in>set xs. rp_role_id y = row_id x" by blast
  have perms: "get_permissions_by_codes cs (roles_update f d) = get_permissions_by_codes cs d" for cs f d
    by (simp add: get_permissions_by_codes_def)
  from a show thesis
  proof (rule add_row_InrE)
    assume "x = stamp (server_clock (env s0) (txn s0)) (new_role (uuid4 (env s) (drawn s)) t p)"
      and v: "violated (role_constraints (current s0) x) = None"
      and s1: "s1 = s0\<lparr>current := roles_update (\<lambda>rs. rs @ [x]) (current s0)\<rparr>"
    then have st: "role = stamp (server_clock (env s) (txn s)) (new_role (uuid4 (env s) (drawn s)) t p)"
      "violated (role_constraints (current s) role) = None"
      using x s0 by simp_all
    from record_current [OF r] show thesis
      by (intro that [OF t st]) (use xs s1 s0 x in \<open>simp_all add: perms\<close>)
  qed
qed

lemma create_role_found:
  assumes "insert_role cx p rq s = (Inr role, s')"
  shows "filter (\<lambda>r. row_id r = row_id role \<and> visible_to (cx_tenant_id cx) r) (roles (current s')) = [role]"
  using assms
proof (rule insert_role_Inr)
  fix t xs ev
  assume t: "cx_tenant_id cx = Some t"
    and r: "role = stamp (server_clock (env s) (txn s)) (new_role (uuid4 (env s) (drawn s)) t p)"
    and v: "violated (role_constraints (current s) role) = None"
    and c: "current s' = audit_events_update (\<lambda>es. es @ [ev])
       (role_permissions_update (\<lambda>x. x @ xs) (roles_update (\<lambda>rs. rs @ [role]) (current s)))"
  have "visible_to (Some t) role" by (simp add: r visible_to_def new_role_def stamp_def)
  moreover have "filter (\<lambda>r. row_id r = row_id role \<and> visible_to (Some t) r) (roles (current s)) = []"
    using v by (auto simp: role_constraints_def fresh_id_def filter_empty_conv image_iff)
  ultimately show ?thesis by (simp add: c t)
qed

lemma create_role_Inr:
  assumes "create_role cx p rq s = (Inr role, s')"
  obtains s1 where "insert_role cx p rq s = (Inr role, s1)" "committed s' = current s1" "current s' = current s1"
proof -
  from assms obtain r s1 where i: "insert_role cx p rq s = (Inr r, s1)"
    and g: "get_role cx (row_id r) (s1\<lparr>committed := current s1, txn := Suc (txn s1)\<rparr>) = (Inr role, s')"
    unfolding create_role_def by (elim bind_InrE commit_InrE) simp
  from get_role_found [of "row_id r" cx "s1\<lparr>committed := current s1, txn := Suc (txn s1)\<rparr>" r]
    create_role_found [OF i] g have "role = r" "s' = s1\<lparr>committed := current s1, txn := Suc (txn s1)\<rparr>"
    by simp_all
  with i show thesis by (intro that [of s1]) simp_all
qed

lemma create_role_atomic: "atomic (create_role cx p rq)"
  unfolding atomic_def
proof (intro allI impI)
  fix s e s' assume "create_role cx p rq s = (Inl e, s')"
  then show "committed s' = committed s"
    unfolding create_role_def
  proof (cases rule: bind_InlE)
    case 1
    then show ?thesis by (rule keepsD [OF keeps_for_permissions(1)])
  next
    case (2 r s1)
    from get_role_found [of "row_id r" cx "s1\<lparr>committed := current s1, txn := Suc (txn s1)\<rparr>" r]
      create_role_found [OF 2(1)] 2(2) show ?thesis by (simp add: bind_first_step)
  qed
qed

lemma replace_permissions_Inr:
  assumes "replace_permissions cx i cs rq s = (Inr role, s')"
  obtains xs ev where "get_role cx i s = (Inr role, s)" "\<not> r_is_system role"
    "current s' = audit_events_update (\<lambda>es. es @ [ev]) (role_permissions_update (\<lambda>x. x @ xs)
       (role_permissions_update (filter (\<lambda>x. rp_role_id x \<noteq> i)) (current s)))"
    "map rp_permission_id xs = map row_id (get_permissions_by_codes cs (current s))"
    "\<forall>x\<in>set xs. rp_role_id x = i"
proof -
  from assms obtain r where g: "get_role cx i s = (Inr r, s)"
    unfolding replace_permissions_def by (elim bind_InrE) (auto elim: get_role_InrE)
  then have i: "row_id r = i" by (auto elim: get_role_InrE)
  let ?d = "role_permissions_update (filter (\<lambda>x. rp_role_id x \<noteq> i)) (current s)"
  from assms obtain v s2 e old where sys: "\<not> r_is_system r"
    and f: "for_tx (get_permissions_by_codes cs ?d) (add_role_permission i) (s\<lparr>current := ?d\<rparr>) = (Inr v, s2)"
    and e: "record_event (admin_audit PERMISSION_CHANGED ''role'' i (cx_tenant_id cx) cx old
       (Some [(''permission_codes'', strings_json (sorted_strings (map p_code (get_permissions_by_codes cs ?d))))])) rq s2 = (Inr e, s')"
    and role: "role = r"
    unfolding replace_permissions_def bind_apply_Inr [where m = "get_role cx i" and s = s, OF g] bind_first_step(3,5) guard_run
    by (auto simp: i split: if_splits elim!: bind_InrE return_InrE)
  have perms: "get_permissions_by_codes cs (role_permissions_update f d) = get_permissions_by_codes cs d" for f d
    by (simp add: get_permissions_by_codes_def)
  from for_add_role_permission [OF f] obtain xs where xs: "current s2 = role_permissions_update (\<lambda>x. x @ xs) ?d"
      "map rp_permission_id xs = map row_id (get_permissions_by_codes cs (current s))" "\<forall>x\<in>set xs. rp_role_id x = i"
    by (auto simp: perms)
  with xs g sys record_current [OF e] show thesis by (intro that) (simp_all add: role)
qed

lemma update_role_permissions_Inr:
  assumes "update_role_permissions cx i cs rq s = (Inr role, s')"
  obtains s1 where "replace_permissions cx i cs rq s = (Inr role, s1)" "committed s' = current s1"
    "current s' = current s1"
proof -
  from assms obtain r s1 where a: "replace_permissions cx i cs rq s = (Inr r, s1)"
    and g: "get_role cx (row_id r) (s1\<lparr>committed := current s1, txn := Suc (txn s1)\<rparr>) = (Inr role, s')"
    unfolding update_role_permissions_def by (elim bind_InrE commit_InrE) simp
  from a have "filter (\<lambda>x. row_id x = row_id r \<and> visible_to (cx_tenant_id cx) x) (roles (current s1)) = [r]"
    by (rule replace_permissions_Inr) (auto elim: get_role_InrE)
  with get_role_found [of "row_id r" cx "s1\<lparr>committed := current s1, txn := Suc (txn s1)\<rparr>" r] g
  have "role = r" "s' = s1\<lparr>committed := current s1, txn := Suc (txn s1)\<rparr>" by simp_all
  with a show thesis by (intro that [of s1]) simp_all
qed

lemma update_role_permissions_atomic: "atomic (update_role_permissions cx i cs rq)"
  unfolding atomic_def
proof (intro allI impI)
  fix s e s' assume "update_role_permissions cx i cs rq s = (Inl e, s')"
  then show "committed s' = committed s"
    unfolding update_role_permissions_def
  proof (cases rule: bind_InlE)
    case 1
    then show ?thesis by (rule keepsD [OF keeps_for_permissions(2)])
  next
    case (2 r s1)
    from 2(1) have "filter (\<lambda>x. row_id x = row_id r \<and> visible_to (cx_tenant_id cx) x) (roles (current s1)) = [r]"
      by (rule replace_permissions_Inr) (auto elim: get_role_InrE)
    with get_role_found [of "row_id r" cx "s1\<lparr>committed := current s1, txn := Suc (txn s1)\<rparr>" r] 2(2)
    show ?thesis by (simp add: bind_first_step)
  qed
qed

lemma update_role_Inr:
  assumes "update_role cx i p rq s = (Inr r', s')"
  obtains r ev where "get_role cx i s = (Inr r, s)" "\<not> r_is_system r"
    "r' = touch (server_clock (env s) (txn s)) r (updated_role p r)"
    "committed s' = audit_events_update (\<lambda>es. es @ [ev]) (roles_update (put_row r') (current s))"
proof -
  from assms obtain r where g: "get_role cx i s = (Inr r, s)"
    unfolding update_role_def by (elim bind_InrE) (auto elim: get_role_InrE)
  from assms have "(if \<not> r_is_system r then bind_tx (save_row roles_update r (updated_role p r))
       (\<lambda>x. bind_tx (record_event (admin_audit ROLE_UPDATED ''role'' (row_id x) (cx_tenant_id cx) cx
         (Some (role_json r)) (Some (role_json x))) rq) (\<lambda>_. bind_tx commit_tx (\<lambda>_. return_tx x))) s
     else (Inl (ForbiddenError ''System roles cannot be modified.''), s)) = (Inr r', s')"
    unfolding update_role_def bind_apply_Inr [where m = "get_role cx i" and s = s, OF g] guard_run .
  then obtain x s1 where sys: "\<not> r_is_system r"
    and x: "save_row roles_update r (updated_role p r) s = (Inr x, s1)"
    and rest: "bind_tx (record_event (admin_audit ROLE_UPDATED ''role'' (row_id x) (cx_tenant_id cx) cx
       (Some (role_json r)) (Some (role_json x))) rq) (\<lambda>_. bind_tx commit_tx (\<lambda>_. return_tx x)) s1
         = (Inr r', s')"
    by (cases "r_is_system r") (auto elim: bind_InrE)
  from rest obtain e s2 where e: "record_event (admin_audit ROLE_UPDATED ''role'' (row_id x)
       (cx_tenant_id cx) cx (Some (role_json r)) (Some (role_json x))) rq s1 = (Inr e, s2)"
    and fin: "r' = x" "s' = s2\<lparr>committed := current s2, txn := Suc (txn s2)\<rparr>"
    by (elim bind_InrE commit_InrE return_InrE) simp
  from x fin(1) have r': "r' = touch (server_clock (env s) (txn s)) r (updated_role p r)"
    and s1: "current s1 = roles_update (put_row r') (current s)"
    by (elim save_row_InrE; simp)+
  from record_current [OF e] fin(2) s1 show thesis
    by (intro that [OF g sys r']) simp
qed

lemma delete_role_Inr:
  assumes "delete_role cx i rq s = (Inr u, s')"
  obtains r ev where "get_role cx i s = (Inr r, s)" "\<not> r_is_system r"
    "committed s' = delete_role_rows r (audit_events_update (\<lambda>es. es @ [ev]) (current s))"
proof -
  from assms obtain r where g: "get_role cx i s = (Inr r, s)"
    unfolding delete_role_def by (elim bind_InrE) (auto elim: get_role_InrE)
  from assms have "(if \<not> r_is_system r then bind_tx (record_event (admin_audit ROLE_DELETED ''role'' (row_id r)
       (cx_tenant_id cx) cx (Some [(''code'', VStr (r_code r))]) None) rq)
       (\<lambda>_. bind_tx (write_tx (delete_role_rows r)) (\<lambda>_. commit_tx)) s
     else (Inl (ForbiddenError ''System roles cannot be deleted.''), s)) = (Inr u, s')"
    unfolding delete_role_def bind_apply_Inr [where m = "get_role cx i" and s = s, OF g] guard_run .
  then obtain e s1 where sys: "\<not> r_is_system r"
    and e: "record_event (admin_audit ROLE_DELETED ''role'' (row_id r)
       (cx_tenant_id cx) cx (Some [(''code'', VStr (r_code r))]) None) rq s = (Inr e, s1)"
    and w: "bind_tx (write_tx (delete_role_rows r)) (\<lambda>_. commit_tx) s1 = (Inr u, s')"
    by (cases "r_is_system r") (auto elim: bind_InrE)
  from w have "committed s' = delete_role_rows r (current s1)"
    unfolding bind_first_step by (elim commit_InrE) simp
  with record_current [OF e] show thesis by (intro that [OF g sys]) simp
qed

section \<open>The seeded roles\<close>

text \<open>
  Roles without a tenant are the platform's, and identifiers are unique. Under this invariant
  the operations leave the system roles and their permissions alone, and a user of tenant \<open>t\<close>
  leaves the roles of every other tenant alone.
\<close>

definition roles_ok :: "db \<Rightarrow> bool" where
  "roles_ok d \<longleftrightarrow> distinct (map row_id (roles d)) \<and>
     (\<forall>r\<in>set (roles d). r_tenant_id r = None \<longrightarrow> r_is_system r)"

definition permissions_of_role :: "db \<Rightarrow> uuid \<Rightarrow> role_permission list" where
  "permissions_of_role d i = filter (\<lambda>x. rp_role_id x = i) (role_permissions d)"

definition system_roles_same :: "db \<Rightarrow> db \<Rightarrow> bool" where
  "system_roles_same d d' \<longleftrightarrow> filter r_is_system (roles d') = filter r_is_system (roles d) \<and>
     (\<forall>r\<in>set (filter r_is_system (roles d)). permissions_of_role d' (row_id r) = permissions_of_role d (row_id r))"

interpretation system_roles: store_relation system_roles_same
  by unfold_locales (simp_all add: system_roles_same_def)

definition role_step :: "security_context \<Rightarrow> db \<Rightarrow> db \<Rightarrow> bool" where
  "role_step cx d d' \<longleftrightarrow> (roles_ok d \<longrightarrow> roles_ok d' \<and> system_roles_same d d' \<and>
     (\<forall>t. cx_tenant_id cx = Some t \<longrightarrow> tenant_frame t d d'))"

lemma role_step_refl: "role_step cx d d"
  by (simp add: role_step_def system_roles_same_def)

lemma owned_role:
  assumes "roles_ok d" and "r \<in> set (roles d)" and "visible_to t r" and "\<not> r_is_system r"
  shows "r_tenant_id r = t" "t \<noteq> None"
  using assms by (auto simp: roles_ok_def visible_to_def)

lemma permissions_of_role_other:
  "\<forall>x\<in>set xs. rp_role_id x = j \<Longrightarrow> i \<noteq> j \<Longrightarrow> filter (\<lambda>x. rp_role_id x = i) xs = []"
  by (auto simp: filter_empty_conv)

lemma create_role_step:
  assumes "create_role cx p rq s = (Inr role, s')"
  shows "role_step cx (current s) (committed s')"
proof -
  from assms obtain s1 where i: "insert_role cx p rq s = (Inr role, s1)" "committed s' = current s1"
    by (rule create_role_Inr)
  from i(1) obtain t xs ev where t: "cx_tenant_id cx = Some t"
    and role: "role = stamp (server_clock (env s) (txn s)) (new_role (uuid4 (env s) (drawn s)) t p)"
    and v: "violated (role_constraints (current s) role) = None"
    and c: "current s1 = audit_events_update (\<lambda>es. es @ [ev])
       (role_permissions_update (\<lambda>x. x @ xs) (roles_update (\<lambda>rs. rs @ [role]) (current s)))"
    and xs: "\<forall>x\<in>set xs. rp_role_id x = row_id role"
    by (rule insert_role_Inr)
  have r: "r_tenant_id role = Some t" "\<not> r_is_system role" by (simp_all add: role new_role_def stamp_def)
  from v have fresh: "row_id role \<notin> row_id ` set (roles (current s))"
    by (simp add: role_constraints_def fresh_id_def)
  have "permissions_of_role (current s1) (row_id x) = permissions_of_role (current s) (row_id x)"
    if "x \<in> set (roles (current s))" for x
    using permissions_of_role_other [OF xs, of "row_id x"] fresh that
    by (auto simp: permissions_of_role_def c image_iff)
  with r fresh t show ?thesis
    by (auto simp: role_step_def system_roles_same_def roles_ok_def i(2) c tenant_frame_def
        intro!: frame_snoc simp: fresh_id_def)
qed

lemma update_role_step:
  assumes "update_role cx i p rq s = (Inr r', s')"
  shows "role_step cx (current s) (committed s')"
proof -
  from assms obtain r ev where g: "get_role cx i s = (Inr r, s)" and sys: "\<not> r_is_system r"
    and r': "r' = touch (server_clock (env s) (txn s)) r (updated_role p r)"
    and c: "committed s' = audit_events_update (\<lambda>es. es @ [ev]) (roles_update (put_row r') (current s))"
    by (rule update_role_Inr)
  from g have r: "r \<in> set (roles (current s))" "visible_to (cx_tenant_id cx) r" by (auto elim: get_role_InrE)
  show ?thesis unfolding role_step_def
  proof (intro impI conjI allI)
    assume ok: "roles_ok (current s)"
    then have ids: "distinct (map row_id (roles (current s)))" by (simp add: roles_ok_def)
    note own = owned_role [OF ok r sys]
    show "roles_ok (committed s')"
      using ok own by (auto simp: roles_ok_def c r' dest!: in_put_row)
    show "system_roles_same (current s) (committed s')"
      using filter_put_row [OF ids r(1), of r' r_is_system] sys
      by (simp add: system_roles_same_def c r' permissions_of_role_def)
    fix t assume "cx_tenant_id cx = Some t"
    with own r show "tenant_frame t (current s) (committed s')"
      by (auto simp: c tenant_frame_def r' intro!: frame_put_row)
  qed
qed

lemma update_role_permissions_step:
  assumes "update_role_permissions cx i cs rq s = (Inr r', s')"
  shows "role_step cx (current s) (committed s')"
proof -
  from assms obtain s1 where a: "replace_permissions cx i cs rq s = (Inr r', s1)" "committed s' = current s1"
    by (rule update_role_permissions_Inr)
  from a(1) obtain xs ev where g: "get_role cx i s = (Inr r', s)" and sys: "\<not> r_is_system r'"
    and c: "current s1 = audit_events_update (\<lambda>es. es @ [ev]) (role_permissions_update (\<lambda>x. x @ xs)
       (role_permissions_update (filter (\<lambda>x. rp_role_id x \<noteq> i)) (current s)))"
    and xs: "\<forall>x\<in>set xs. rp_role_id x = i"
    by (rule replace_permissions_Inr)
  from g have r: "r' \<in> set (roles (current s))" "row_id r' = i" by (auto elim: get_role_InrE)
  have "permissions_of_role (current s1) j = permissions_of_role (current s) j" if "j \<noteq> i" for j
    using permissions_of_role_other [OF xs that] that
    by (auto simp: permissions_of_role_def c intro!: filter_cong)
  moreover have "row_id x \<noteq> i" if "roles_ok (current s)" "x \<in> set (roles (current s))" "r_is_system x" for x
    using that r sys by (metis distinct_map_same_key roles_ok_def)
  ultimately show ?thesis
    by (auto simp: role_step_def system_roles_same_def roles_ok_def a(2) c tenant_frame_def)
qed

lemma delete_role_step:
  assumes "delete_role cx i rq s = (Inr u, s')"
  shows "role_step cx (current s) (committed s')"
proof -
  from assms obtain r ev where g: "get_role cx i s = (Inr r, s)" and sys: "\<not> r_is_system r"
    and c: "committed s' = delete_role_rows r (audit_events_update (\<lambda>es. es @ [ev]) (current s))"
    by (rule delete_role_Inr)
  from g have r: "r \<in> set (roles (current s))" "visible_to (cx_tenant_id cx) r" by (auto elim: get_role_InrE)
  show ?thesis unfolding role_step_def
  proof (intro impI conjI allI)
    assume ok: "roles_ok (current s)"
    then have ids: "distinct (map row_id (roles (current s)))" by (simp add: roles_ok_def)
    have other: "row_id x \<noteq> row_id r" if "x \<in> set (roles (current s))" "r_is_system x" for x
      using that r(1) sys distinct_map_same_key [OF ids] by metis
    show "roles_ok (committed s')"
      using ok by (auto simp: roles_ok_def c delete_role_rows_def Let_def intro: distinct_map_filter)
    show "system_roles_same (current s) (committed s')"
      by (auto simp: system_roles_same_def c delete_role_rows_def Let_def permissions_of_role_def
          dest: other other [symmetric] intro!: filter_cong)
    fix t assume "cx_tenant_id cx = Some t"
    with owned_role [OF ok r sys] r show "tenant_frame t (current s) (committed s')"
      by (auto simp: c tenant_frame_def delete_role_rows_def Let_def intro!: frame_delete)
  qed
qed

text \<open>Once the permissions are replaced, the role is found again after the commit.\<close>

lemma update_role_permissions_returns:
  assumes "replace_permissions cx i cs rq s = (Inr r, s1)"
  shows "update_role_permissions cx i cs rq s = (Inr r, s1\<lparr>committed := current s1, txn := Suc (txn s1)\<rparr>)"
proof -
  from assms have "filter (\<lambda>x. row_id x = row_id r \<and> visible_to (cx_tenant_id cx) x) (roles (current s1)) = [r]"
    by (rule replace_permissions_Inr) (auto elim: get_role_InrE)
  with get_role_found [of "row_id r" cx "s1\<lparr>committed := current s1, txn := Suc (txn s1)\<rparr>" r] assms
  show ?thesis by (simp add: update_role_permissions_def bind_tx_def tx_simps)
qed

end
