(* ===== verification/Tenants.thy ===== *)
theory Tenants
  imports Roles
begin

text \<open>
  Tenants: \<^verbatim>\<open>app/services/tenant_service.py\<close> over \<^verbatim>\<open>app/repositories/tenant_repository.py\<close>,
  with the payloads of \<^verbatim>\<open>app/schemas/tenant.py\<close>. Creating a tenant creates its first user, with
  the platform's role \<^verbatim>\<open>TENANT_ADMIN\<close>, in the same transaction.
\<close>

section \<open>Payloads\<close>

record tenant_create =
  tc_name :: string
  tc_code :: string
  tc_slug :: string
  tc_timezone :: string
  tc_currency :: string
  tc_admin_email :: string
  tc_admin_password :: string
  tc_admin_first_name :: string
  tc_admin_last_name :: string

text \<open>The pattern \<^verbatim>\<open>^[a-z0-9-]+$\<close> of the slug.\<close>

definition slug_char :: "char \<Rightarrow> bool" where
  "slug_char c \<longleftrightarrow> c \<in> set ''abcdefghijklmnopqrstuvwxyz0123456789-''"

definition valid_tenant_create :: "tenant_create \<Rightarrow> bool" where
  "valid_tenant_create p \<longleftrightarrow> bounded 1 200 (tc_name p) \<and> bounded 1 50 (tc_code p) \<and>
     bounded 1 80 (tc_slug p) \<and> list_all slug_char (tc_slug p) \<and>
     bounded 8 128 (tc_admin_password p) \<and> bounded 1 100 (tc_admin_first_name p) \<and>
     bounded 1 100 (tc_admin_last_name p)"

record tenant_update =
  tu_name :: "string option"
  tu_timezone :: "string option"
  tu_currency :: "string option"

definition valid_tenant_update :: "tenant_update \<Rightarrow> bool" where
  "valid_tenant_update p \<longleftrightarrow> optional_bounded 1 200 (tu_name p)"

section \<open>The repository\<close>

definition get_tenant_by_id :: "uuid \<Rightarrow> tenant option tx" where
  "get_tenant_by_id i = scalar_tx (\<lambda>d. filter (\<lambda>x. row_id x = i) (tenants d))"

definition get_by_code_or_slug :: "string \<Rightarrow> string \<Rightarrow> tenant option tx" where
  "get_by_code_or_slug c sl = scalar_tx (\<lambda>d. filter (\<lambda>x. tn_code x = c \<or> tn_slug x = sl) (tenants d))"

definition list_tenant_rows :: "nat \<Rightarrow> nat \<Rightarrow> db \<Rightarrow> tenant list \<times> nat" where
  "list_tenant_rows off cnt d = newest_page (\<lambda>_. True) off cnt (tenants d)"

definition tenant_constraints :: "db \<Rightarrow> tenant \<Rightarrow> (string \<times> bool) list" where
  "tenant_constraints d x =
     [(''tenants_pkey'', fresh_id (tenants d) x),
      (''ix_tenants_code'', tn_code x \<notin> tn_code ` set (tenants d)),
      (''ix_tenants_slug'', tn_slug x \<notin> tn_slug ` set (tenants d))]"

section \<open>The service\<close>

definition too_long :: error where
  "too_long = DataError ''value too long for type character varying''"

definition list_tenants :: "nat \<Rightarrow> nat \<Rightarrow> (tenant list \<times> nat) tx" where
  "list_tenants page page_size = query_tx (list_tenant_rows ((page - 1) * page_size) page_size)"

definition get_tenant :: "uuid \<Rightarrow> tenant tx" where
  "get_tenant i = bind_tx (get_tenant_by_id i) (\<lambda>x. some_tx x (NotFoundError ''Tenant not found.''))"

definition new_tenant :: "uuid \<Rightarrow> tenant_create \<Rightarrow> tenant" where
  "new_tenant i p = \<lparr>created_at = 0, updated_at = 0, row_id = i, tn_name = tc_name p,
     tn_code = tc_code p, tn_slug = tc_slug p, tn_status = TenantStatus_ACTIVE,
     tn_timezone = tc_timezone p, tn_currency = tc_currency p\<rparr>"

definition new_admin :: "uuid \<Rightarrow> uuid \<Rightarrow> string \<Rightarrow> tenant_create \<Rightarrow> user" where
  "new_admin i t h p = \<lparr>created_at = 0, updated_at = 0, row_id = i, u_tenant_id = Some t,
     u_email = lower (tc_admin_email p), u_password_hash = h,
     u_first_name = tc_admin_first_name p, u_last_name = tc_admin_last_name p, u_phone = None,
     u_status = UserStatus_ACTIVE, u_is_verified = False, u_is_platform_user = False,
     u_last_login_at = None, u_failed_login_attempts = 0\<rparr>"

definition tenant_audit ::
  "AuditAction \<Rightarrow> tenant \<Rightarrow> security_context \<Rightarrow> json_dict option \<Rightarrow> json_dict option \<Rightarrow> audit_args" where
  "tenant_audit act x cx old new = admin_audit act ''tenant'' (row_id x) (Some (row_id x)) cx old new"

text \<open>
  \<^verbatim>\<open>timezone\<close>, \<^verbatim>\<open>currency\<close> and \<^verbatim>\<open>admin_email\<close> have no bound in the schema: the columns have
  (64, 8 and 320 characters).
\<close>

definition add_tenant :: "tenant \<Rightarrow> tenant tx" where
  "add_tenant x =
     bind_tx (require_tx (length (tn_timezone x) \<le> 64 \<and> length (tn_currency x) \<le> 8) too_long) (\<lambda>_.
     add_row tenants_update tenant_constraints x)"

text \<open>The first user of the tenant, with the role.\<close>

definition add_admin :: "uuid \<Rightarrow> tenant_create \<Rightarrow> role \<Rightarrow> user tx" where
  "add_admin t p r =
     bind_tx (hash_password (tc_admin_password p)) (\<lambda>h.
     bind_tx uuid4_tx (\<lambda>i.
     bind_tx (require_tx (length (tc_admin_email p) \<le> 320) too_long) (\<lambda>_.
     bind_tx (add_row users_update user_constraints (new_admin i t h p)) (\<lambda>u.
     bind_tx uuid4_tx (\<lambda>j.
     bind_tx (add_row user_roles_update user_role_constraints (new_user_role j (row_id u) (row_id r) None)) (\<lambda>_.
     return_tx u))))))"

definition create_tenant ::
  "security_context \<Rightarrow> tenant_create \<Rightarrow> web_request option \<Rightarrow> tenant tx" where
  "create_tenant cx p rq =
     bind_tx (get_by_code_or_slug (tc_code p) (tc_slug p)) (\<lambda>existing.
     bind_tx (require_tx (existing = None) (ConflictError ''A tenant with this code or slug already exists.'')) (\<lambda>_.
     bind_tx (get_by_email (tc_admin_email p)) (\<lambda>existing_user.
     bind_tx (require_tx (existing_user = None)
       (ConflictError ''A user with this admin email already exists.'')) (\<lambda>_.
     bind_tx uuid4_tx (\<lambda>i.
     bind_tx (add_tenant (new_tenant i p)) (\<lambda>x.
     bind_tx (get_role_by_code ''TENANT_ADMIN'' None) (\<lambda>found.
     bind_tx (some_tx found
       (NotFoundError ''TENANT_ADMIN role is not seeded. Run the platform seed script first.'')) (\<lambda>r.
     bind_tx (add_admin (row_id x) p r) (\<lambda>u.
     bind_tx (record_event (tenant_audit TENANT_CREATED x cx None
       (Some [(''code'', VStr (tn_code x)), (''name'', VStr (tn_name x)), (''admin_email'', VStr (u_email u))])) rq) (\<lambda>_.
     bind_tx commit_tx (\<lambda>_.
     return_tx x)))))))))))"

definition updated_tenant :: "tenant_update \<Rightarrow> tenant \<Rightarrow> tenant" where
  "updated_tenant p x = x\<lparr>tn_name := set_if_given (tu_name p) (tn_name x),
     tn_timezone := set_if_given (tu_timezone p) (tn_timezone x),
     tn_currency := set_if_given (tu_currency p) (tn_currency x)\<rparr>"

definition tenant_json :: "tenant \<Rightarrow> json_dict" where
  "tenant_json x = [(''name'', VStr (tn_name x)), (''timezone'', VStr (tn_timezone x)),
     (''currency'', VStr (tn_currency x))]"

definition update_tenant ::
  "security_context \<Rightarrow> uuid \<Rightarrow> tenant_update \<Rightarrow> web_request option \<Rightarrow> tenant tx" where
  "update_tenant cx i p rq =
     bind_tx (get_tenant i) (\<lambda>x.
     bind_tx (require_tx (length (tn_timezone (updated_tenant p x)) \<le> 64 \<and>
       length (tn_currency (updated_tenant p x)) \<le> 8) too_long) (\<lambda>_.
     bind_tx (save_row tenants_update x (updated_tenant p x)) (\<lambda>x'.
     bind_tx (record_event (tenant_audit TENANT_UPDATED x' cx (Some (tenant_json x)) (Some (tenant_json x'))) rq) (\<lambda>_.
     bind_tx commit_tx (\<lambda>_.
     return_tx x')))))"

definition suspend_tenant :: "security_context \<Rightarrow> uuid \<Rightarrow> web_request option \<Rightarrow> tenant tx" where
  "suspend_tenant cx i rq =
     bind_tx (get_tenant i) (\<lambda>x.
     bind_tx (save_row tenants_update x (x\<lparr>tn_status := TenantStatus_SUSPENDED\<rparr>)) (\<lambda>x'.
     bind_tx (record_event (tenant_audit TENANT_SUSPENDED x' cx None None) rq) (\<lambda>_.
     bind_tx commit_tx (\<lambda>_.
     return_tx x'))))"

section \<open>The operations within the store relations\<close>

interpretation tenant_table: table tenants tenants_update
  by unfold_locales simp

lemma updated_tenant_fields [simp]:
  "row_id (updated_tenant p x) = row_id x" "tn_code (updated_tenant p x) = tn_code x"
  "tn_slug (updated_tenant p x) = tn_slug x" "tn_status (updated_tenant p x) = tn_status x"
  by (simp_all add: updated_tenant_def)

lemma touch_tenant [simp]:
  "tn_code (touch n x x') = tn_code x'" "tn_slug (touch n x x') = tn_slug x'"
  for x x' :: tenant
  by (simp_all add: touch_def)

lemmas tenant_defs = create_tenant_def add_tenant_def add_admin_def update_tenant_def suspend_tenant_def
  get_tenant_def get_tenant_by_id_def get_by_code_or_slug_def get_by_email_def get_role_by_code_def

lemma create_tenant_audit: "tx_within audit_grows (create_tenant cx p rq)"
  unfolding tenant_defs by (intro tx_rules) (simp_all add: audit_grows_def)

lemma update_tenant_audit: "tx_within audit_grows (update_tenant cx i p rq)"
  unfolding tenant_defs by (intro tx_rules) (simp_all add: audit_grows_def)

lemma suspend_tenant_audit: "tx_within audit_grows (suspend_tenant cx i rq)"
  unfolding tenant_defs by (intro tx_rules) (simp_all add: audit_grows_def)

lemma create_tenant_atomic: "atomic (create_tenant cx p rq)"
  unfolding tenant_defs by (intro atomic_rules)

lemma update_tenant_atomic: "atomic (update_tenant cx i p rq)"
  unfolding tenant_defs by (intro atomic_rules)

lemma suspend_tenant_atomic: "atomic (suspend_tenant cx i rq)"
  unfolding tenant_defs by (intro atomic_rules)

text \<open>A code belongs to one tenant, and so does a slug.\<close>

definition tenants_ok :: "db \<Rightarrow> bool" where
  "tenants_ok d \<longleftrightarrow> distinct (map row_id (tenants d)) \<and> distinct (map tn_code (tenants d)) \<and>
     distinct (map tn_slug (tenants d))"

interpretation tenant_invariant: blind_to_audit "preserves tenants_ok"
  by unfold_locales (simp add: preserves_def tenants_ok_def)

lemma tenants_ok_same: "tenants d' = tenants d \<Longrightarrow> preserves tenants_ok d d'"
  by (simp add: preserves_def tenants_ok_def)

lemma tenants_ok_snoc:
  assumes "violated (tenant_constraints d x) = None"
  shows "preserves tenants_ok d (tenants_update (\<lambda>xs. xs @ [x]) d)"
  using assms by (auto simp: preserves_def tenants_ok_def tenant_constraints_def fresh_id_def)

lemma tenants_ok_put_row:
  assumes "x \<in> set (tenants d)" and "row_id x' = row_id x" and "tn_code x' = tn_code x" and "tn_slug x' = tn_slug x"
  shows "preserves tenants_ok d (tenants_update (put_row x') d)"
  unfolding preserves_def
proof
  assume ok: "tenants_ok d"
  then have ids: "distinct (map row_id (tenants d))" by (simp add: tenants_ok_def)
  from ok map_put_row [where f = tn_code, OF ids assms(1,2)] map_put_row [where f = tn_slug, OF ids assms(1,2)] assms
  show "tenants_ok (tenants_update (put_row x') d)" by (simp add: tenants_ok_def)
qed

lemma create_tenant_invariant: "tx_within (preserves tenants_ok) (create_tenant cx p rq)"
  unfolding tenant_defs by (intro tx_rules) (auto intro: tenants_ok_snoc tenants_ok_same)

lemma update_tenant_invariant: "tx_within (preserves tenants_ok) (update_tenant cx i p rq)"
  unfolding tenant_defs by (intro tx_rules) (auto dest!: filter_singletonD intro!: tenants_ok_put_row)

lemma suspend_tenant_invariant: "tx_within (preserves tenants_ok) (suspend_tenant cx i rq)"
  unfolding tenant_defs by (intro tx_rules) (auto dest!: filter_singletonD intro!: tenants_ok_put_row)

text \<open>The addresses of users stay unique, too.\<close>

lemma create_tenant_users: "tx_within (preserves users_ok) (create_tenant cx p rq)"
  unfolding tenant_defs
  by (intro tx_rules) (auto intro: users_ok_snoc users_ok_same simp: new_admin_def stamp_def)

section \<open>What the operations do\<close>

lemma hash_password_step:
  "bind_tx (hash_password pw) f s = f (argon2_hash (env s) (salts s) pw) (s\<lparr>salts := Suc (salts s)\<rparr>)"
  by (simp add: hash_password_def bind_tx_def)

lemma get_tenant_InrE:
  assumes "get_tenant i s = (Inr x, s')"
  obtains "s' = s" "x \<in> set (tenants (current s))" "row_id x = i"
proof -
  from assms have "scalar_one_or_none (filter (\<lambda>x. row_id x = i) (tenants (current s))) = OneRow x" "s' = s"
    unfolding get_tenant_def get_tenant_by_id_def bind_scalar_step
    by (auto simp: tx_simps split: one_or_none.splits)
  with filter_singletonD [of "\<lambda>x. row_id x = i" "tenants (current s)" x] show thesis
    by (intro that) (simp_all add: scalar_OneRow_iff)
qed

text \<open>The first user and its role.\<close>

lemma add_admin_Inr:
  assumes "add_admin t p r s = (Inr u, s')"
  obtains ur where
    "u = stamp (server_clock (env s) (txn s))
       (new_admin (uuid4 (env s) (drawn s)) t (argon2_hash (env s) (salts s) (tc_admin_password p)) p)"
    "violated (user_constraints (current s) u) = None"
    "ur = stamp (server_clock (env s) (txn s)) (new_user_role (uuid4 (env s) (Suc (drawn s))) (row_id u) (row_id r) None)"
    "current s' = user_roles_update (\<lambda>xs. xs @ [ur]) (users_update (\<lambda>us. us @ [u]) (current s))"
    "env s' = env s"
proof -
  let ?s = "s\<lparr>salts := Suc (salts s), drawn := Suc (drawn s)\<rparr>"
  from assms obtain u0 s1 where a: "add_row users_update user_constraints (new_admin (uuid4 (env s) (drawn s)) t
        (argon2_hash (env s) (salts s) (tc_admin_password p)) p) ?s = (Inr u0, s1)"
    and rest: "bind_tx uuid4_tx (\<lambda>j. bind_tx (add_row user_roles_update user_role_constraints
        (new_user_role j (row_id u0) (row_id r) None)) (\<lambda>_. return_tx u0)) s1 = (Inr u, s')"
    unfolding add_admin_def hash_password_step bind_first_step
    by (simp split: if_splits) (erule bind_InrE [of "add_row _ _ _"])
  from rest obtain ur s2 where b: "add_row user_roles_update user_role_constraints
        (new_user_role (uuid4 (env s1) (drawn s1)) (row_id u0) (row_id r) None) (s1\<lparr>drawn := Suc (drawn s1)\<rparr>) = (Inr ur, s2)"
    and u: "u = u0" "s' = s2"
    unfolding bind_first_step by (elim bind_InrE return_InrE) simp
  from a have 1: "u0 = stamp (server_clock (env s) (txn s)) (new_admin (uuid4 (env s) (drawn s)) t
        (argon2_hash (env s) (salts s) (tc_admin_password p)) p)"
      "violated (user_constraints (current s) u0) = None"
    and s1: "s1 = ?s\<lparr>current := users_update (\<lambda>us. us @ [u0]) (current s)\<rparr>"
    by (elim add_row_InrE; simp)+
  from b have "ur = stamp (server_clock (env s) (txn s)) (new_user_role (uuid4 (env s) (Suc (drawn s))) (row_id u0) (row_id r) None)"
    "s2 = s1\<lparr>drawn := Suc (drawn s1), current := user_roles_update (\<lambda>xs. xs @ [ur]) (current s1)\<rparr>"
    by (elim add_row_InrE; simp add: s1)+
  with 1 s1 u show thesis by (intro that [of ur]) simp_all
qed

text \<open>
  Everything a new tenant comes with: its row, its administrator, the role, one audit event;
  and no other table changes.
\<close>

lemma create_tenant_Inr:
  assumes "create_tenant cx p rq s = (Inr x, s')"
  obtains r u ur ev where
    "filter (\<lambda>y. tn_code y = tc_code p \<or> tn_slug y = tc_slug p) (tenants (current s)) = []"
    "filter (\<lambda>v. lower (u_email v) = lower (tc_admin_email p)) (users (current s)) = []"
    "filter (\<lambda>r. r_code r = ''TENANT_ADMIN'' \<and> r_tenant_id r = None) (roles (current s)) = [r]"
    "x = stamp (server_clock (env s) (txn s)) (new_tenant (uuid4 (env s) (drawn s)) p)"
    "u = stamp (server_clock (env s) (txn s)) (new_admin (uuid4 (env s) (Suc (drawn s))) (row_id x)
       (argon2_hash (env s) (salts s) (tc_admin_password p)) p)"
    "ur = stamp (server_clock (env s) (txn s))
       (new_user_role (uuid4 (env s) (Suc (Suc (drawn s)))) (row_id u) (row_id r) None)"
    "committed s' = audit_events_update (\<lambda>es. es @ [ev]) (user_roles_update (\<lambda>xs. xs @ [ur])
       (users_update (\<lambda>us. us @ [u]) (tenants_update (\<lambda>xs. xs @ [x]) (current s))))"
proof -
  let ?s = "s\<lparr>drawn := Suc (drawn s)\<rparr>" and ?x = "new_tenant (uuid4 (env s) (drawn s)) p"
  from assms have free: "filter (\<lambda>y. tn_code y = tc_code p \<or> tn_slug y = tc_slug p) (tenants (current s)) = []"
      "filter (\<lambda>v. lower (u_email v) = lower (tc_admin_email p)) (users (current s)) = []"
    and run: "bind_tx (add_tenant ?x) (\<lambda>x.
       bind_tx (get_role_by_code ''TENANT_ADMIN'' None) (\<lambda>found.
       bind_tx (some_tx found (NotFoundError ''TENANT_ADMIN role is not seeded. Run the platform seed script first.'')) (\<lambda>r.
       bind_tx (add_admin (row_id x) p r) (\<lambda>u.
       bind_tx (record_event (tenant_audit TENANT_CREATED x cx None
         (Some [(''code'', VStr (tn_code x)), (''name'', VStr (tn_name x)), (''admin_email'', VStr (u_email u))])) rq) (\<lambda>_.
       bind_tx commit_tx (\<lambda>_. return_tx x)))))) ?s = (Inr x, s')"
    unfolding create_tenant_def get_by_code_or_slug_def get_by_email_def bind_scalar_step bind_first_step
    by (auto simp: scalar_NoRow_iff split: one_or_none.splits if_splits)
  from run obtain x0 s1 where a: "add_tenant ?x ?s = (Inr x0, s1)"
    and rest: "bind_tx (get_role_by_code ''TENANT_ADMIN'' None) (\<lambda>found.
       bind_tx (some_tx found (NotFoundError ''TENANT_ADMIN role is not seeded. Run the platform seed script first.'')) (\<lambda>r.
       bind_tx (add_admin (row_id x0) p r) (\<lambda>u.
       bind_tx (record_event (tenant_audit TENANT_CREATED x0 cx None
         (Some [(''code'', VStr (tn_code x0)), (''name'', VStr (tn_name x0)), (''admin_email'', VStr (u_email u))])) rq) (\<lambda>_.
       bind_tx commit_tx (\<lambda>_. return_tx x0))))) s1 = (Inr x, s')"
    by (erule bind_InrE)
  from a have x0: "x0 = stamp (server_clock (env s) (txn s)) ?x"
    and s1: "s1 = ?s\<lparr>current := tenants_update (\<lambda>xs. xs @ [x0]) (current s)\<rparr>"
    unfolding add_tenant_def bind_first_step by (auto split: if_splits elim!: add_row_InrE)
  from rest obtain r u s2 where r: "filter (\<lambda>r. r_code r = ''TENANT_ADMIN'' \<and> r_tenant_id r = None) (roles (current s1)) = [r]"
    and u: "add_admin (row_id x0) p r s1 = (Inr u, s2)"
    and tail: "bind_tx (record_event (tenant_audit TENANT_CREATED x0 cx None
         (Some [(''code'', VStr (tn_code x0)), (''name'', VStr (tn_name x0)), (''admin_email'', VStr (u_email u))])) rq) (\<lambda>_.
       bind_tx commit_tx (\<lambda>_. return_tx x0)) s2 = (Inr x, s')"
    unfolding get_role_by_code_def bind_scalar_step bind_first_step
    by (auto simp: scalar_OneRow_iff split: one_or_none.splits elim!: bind_InrE [of "add_admin _ _ _"])
  from tail obtain e s3 where e: "record_event (tenant_audit TENANT_CREATED x0 cx None
      (Some [(''code'', VStr (tn_code x0)), (''name'', VStr (tn_name x0)), (''admin_email'', VStr (u_email u))])) rq s2 = (Inr e, s3)"
    and fin: "x = x0" "committed s' = current s3"
    by (elim bind_InrE commit_InrE return_InrE) simp
  from u obtain ur where ur: "u = stamp (server_clock (env s1) (txn s1)) (new_admin (uuid4 (env s1) (drawn s1)) (row_id x0)
         (argon2_hash (env s1) (salts s1) (tc_admin_password p)) p)"
      "ur = stamp (server_clock (env s1) (txn s1)) (new_user_role (uuid4 (env s1) (Suc (drawn s1))) (row_id u) (row_id r) None)"
      "current s2 = user_roles_update (\<lambda>xs. xs @ [ur]) (users_update (\<lambda>us. us @ [u]) (current s1))"
    by (rule add_admin_Inr)
  from record_current [OF e] fin ur(3) s1
  have "committed s' = audit_events_update (\<lambda>es. es @ [e]) (user_roles_update (\<lambda>xs. xs @ [ur])
       (users_update (\<lambda>us. us @ [u]) (tenants_update (\<lambda>xs. xs @ [x]) (current s))))" by simp
  with free r ur(1,2) x0 s1 fin show thesis by (intro that [of r u ur e]) simp_all
qed

end
