(* ===== verification/Storage.thy ===== *)
theory Storage
  imports Auth_Service
begin

text \<open>
  Blob storage, \<^verbatim>\<open>app/services/storage_service.py\<close>: the local provider over a file store, and
  the keys that the attachment service builds. Paths are those of \<^verbatim>\<open>pathlib\<close> on a POSIX system,
  as lists of segments; the file store maps absolute paths to contents. Symbolic links,
  directories and the file system's own errors (a name too long, a full disk) are not modelled,
  and neither is the Azure provider, which hands its arguments to a library.
\<close>

section \<open>Paths\<close>

type_synonym path = "string list"

fun split_slash :: "string \<Rightarrow> string list" where
  "split_slash [] = [[]]"
| "split_slash (c # s) =
     (if c = CHR ''/'' then [] # split_slash s
      else (case split_slash s of [] \<Rightarrow> [[c]] | w # ws \<Rightarrow> (c # w) # ws))"

text \<open>The parts of a relative path: \<^verbatim>\<open>pathlib\<close> drops empty parts and \<^verbatim>\<open>"."\<close>.\<close>

definition path_parts :: "string \<Rightarrow> path" where
  "path_parts s = filter (\<lambda>w. w \<noteq> [] \<and> w \<noteq> ''.'') (split_slash s)"

text \<open>\<^verbatim>\<open>resolve()\<close> of an absolute path.\<close>

definition normalize :: "path \<Rightarrow> path" where
  "normalize = foldl (\<lambda>acc w. if w = ''..'' then butlast acc else acc @ [w]) []"

text \<open>\<open>base\<close> is the resolved \<^verbatim>\<open>base_path\<close> of the provider.\<close>

definition safe_key :: "string \<Rightarrow> string" where
  "safe_key key = lstrip_chars [CHR ''/'', CHR 0x5C] (replace_all ''..'' [] key)"

definition resolve_key :: "path \<Rightarrow> string \<Rightarrow> error + path" where
  "resolve_key base key =
     (let p = normalize (base @ path_parts (safe_key key))
      in if \<not> strict_prefix base p \<and> p \<noteq> base then Inl (ValueError ''Invalid storage key.'') else Inr p)"

section \<open>The local provider\<close>

type_synonym files = "path \<Rightarrow> string option"

definition storage_upload :: "path \<Rightarrow> string \<Rightarrow> string \<Rightarrow> files \<Rightarrow> error + files" where
  "storage_upload base key content fs =
     (case resolve_key base key of Inl e \<Rightarrow> Inl e | Inr p \<Rightarrow> Inr (fs(p := Some content)))"

definition storage_download :: "path \<Rightarrow> string \<Rightarrow> files \<Rightarrow> error + string" where
  "storage_download base key fs =
     (case resolve_key base key of Inl e \<Rightarrow> Inl e
      | Inr p \<Rightarrow> (case fs p of None \<Rightarrow> Inl FileNotFoundError | Some c \<Rightarrow> Inr c))"

definition storage_delete :: "path \<Rightarrow> string \<Rightarrow> files \<Rightarrow> error + files" where
  "storage_delete base key fs =
     (case resolve_key base key of Inl e \<Rightarrow> Inl e | Inr p \<Rightarrow> Inr (fs(p := None)))"

definition generate_access_url :: "string \<Rightarrow> string" where
  "generate_access_url key = ''/api/v1/attachments/local/'' @ key"

text \<open>\<open>u\<close> is the UUID drawn for the suffix.\<close>

definition build_storage_key :: "uuid \<Rightarrow> uuid \<Rightarrow> string \<Rightarrow> string \<Rightarrow> string \<Rightarrow> string" where
  "build_storage_key u t entity_type entity_id file_name =
     (let safe_name = replace_all [CHR 0x5C] ''_'' (replace_all ''/'' ''_'' file_name)
      in uuid_str t @ ''/'' @ entity_type @ ''/'' @ entity_id @ ''/'' @ take 12 (uuid_hex u) @ ''_'' @ safe_name)"

section \<open>No key leaves the base directory\<close>

abbreviation no_dots :: "string \<Rightarrow> bool" where
  "no_dots \<equiv> successively (\<lambda>a b. \<not> (a = CHR ''.'' \<and> b = CHR ''.''))"

lemma replace_dots_head:
  "s = [] \<or> hd s \<noteq> CHR ''.'' \<Longrightarrow>
     replace_all ''..'' [] s = [] \<or> hd (replace_all ''..'' [] s) \<noteq> CHR ''.''"
  by (cases s) (simp_all add: replace_all.simps [of "''..''" "[]" "_ # _"])

lemma no_dots_replace: "no_dots (replace_all ''..'' [] s)"
proof (induction "''..''" "[] :: string" s rule: replace_all.induct)
  case (1 s)
  show ?case
  proof (cases "s = [] \<or> prefix ''..'' s")
    case True
    with 1(1) show ?thesis by (auto simp: replace_all.simps [of "''..''" "[]" s])
  next
    case False
    then obtain c t where s: "s = c # t" by (cases s) auto
    have r: "replace_all ''..'' [] s = c # replace_all ''..'' [] t"
      using False s by (subst replace_all.simps) (simp only: if_False simp_thms list.distinct list.sel)
    have IH: "no_dots (replace_all ''..'' [] t)" using 1(2) False s by simp
    show ?thesis
    proof (cases "c = CHR ''.''")
      case True
      with False s have "t = [] \<or> hd t \<noteq> CHR ''.''" by (cases t) auto
      from replace_dots_head [OF this] IH show ?thesis by (auto simp: r successively_Cons)
    qed (use IH in \<open>auto simp: r successively_Cons\<close>)
  qed
qed

lemma no_dots_dropWhile: "no_dots s \<Longrightarrow> no_dots (dropWhile P s)"
  by (metis successively_append_iff takeWhile_dropWhile_id)

lemma no_dots_safe_key: "no_dots (safe_key key)"
  unfolding safe_key_def lstrip_chars_def by (intro no_dots_dropWhile no_dots_replace)

lemma hd_split_slash: "hd (split_slash s) \<noteq> [] \<Longrightarrow> s \<noteq> [] \<and> hd (hd (split_slash s)) = hd s"
  by (cases s) (auto split: list.splits)

lemma split_slash_not_Nil [simp]: "split_slash s \<noteq> []"
  by (cases s) (auto split: list.splits)

lemma no_dots_split: "no_dots s \<Longrightarrow> w \<in> set (split_slash s) \<Longrightarrow> no_dots w"
proof (induction s arbitrary: w)
  case (Cons c s)
  then have s: "no_dots s" by (auto simp: successively_Cons)
  show ?case
  proof (cases "c = CHR ''/''")
    case True
    with Cons.prems(2) Cons.IH [OF s] show ?thesis by auto
  next
    case False
    obtain v vs where v: "split_slash s = v # vs" by (cases "split_slash s") auto
    with False Cons.prems(2) consider "w = c # v" | "w \<in> set vs" by auto
    then show ?thesis
    proof cases
      case 1
      have "no_dots v" using Cons.IH [OF s, of v] v by simp
      with 1 Cons.prems(1) hd_split_slash [of s] v show ?thesis
        by (cases "v = []") (auto simp: successively_Cons)
    qed (use Cons.IH [OF s] v in simp)
  qed
qed simp

lemma safe_parts: "''..'' \<notin> set (path_parts (safe_key key))"
  using no_dots_split [OF no_dots_safe_key, of "''..''" key] by (auto simp: path_parts_def)

lemma normalize_id: "''..'' \<notin> set p \<Longrightarrow> normalize p = p"
proof -
  have "''..'' \<notin> set p \<Longrightarrow> foldl (\<lambda>acc w. if w = ''..'' then butlast acc else acc @ [w]) a p = a @ p" for a
    by (induction p arbitrary: a) auto
  then show "''..'' \<notin> set p \<Longrightarrow> normalize p = p" by (simp add: normalize_def)
qed

text \<open>
  The removal of \<^verbatim>\<open>".."\<close> is enough: the check that follows never fails, and the path is the
  base directory followed by the parts of the key.
\<close>

lemma resolve_key_safe:
  assumes "''..'' \<notin> set base"
  shows "resolve_key base key = Inr (base @ path_parts (safe_key key))"
  using assms safe_parts [of key]
  by (simp add: resolve_key_def normalize_id Let_def strict_prefix_def)

section \<open>A key stays in the directory of its tenant\<close>

lemma replace_all_append_absent:
  assumes "c \<notin> set a"
  shows "replace_all (c # cs) r (a @ b) = a @ replace_all (c # cs) r b"
  using assms by (induction a) (simp_all add: replace_all.simps [of "c # cs" r "_ # _"])

lemma split_slash_append:
  "CHR ''/'' \<notin> set a \<Longrightarrow> split_slash (a @ CHR ''/'' # b) = a # split_slash b"
  by (induction a) auto

lemma safe_storage_key:
  "\<exists>rest. safe_key (build_storage_key u t ety eid nm) = uuid_str t @ CHR ''/'' # rest"
proof -
  have c: "CHR ''.'' \<notin> set (uuid_str t)" "CHR ''/'' \<notin> set (uuid_str t)" "CHR 0x5C \<notin> set (uuid_str t)"
    by (simp_all add: uuid_str_no_char)
  have n: "uuid_str t \<noteq> []" using length_uuid_str [of t] by force
  obtain x where x: "build_storage_key u t ety eid nm = uuid_str t @ CHR ''/'' # x"
    by (simp add: build_storage_key_def Let_def)
  have "replace_all ''..'' [] (build_storage_key u t ety eid nm)
      = uuid_str t @ CHR ''/'' # replace_all ''..'' [] x"
    unfolding x replace_all_append_absent [OF c(1)] by (simp add: replace_all.simps [of _ _ "_ # _"])
  moreover have "dropWhile (\<lambda>c. c \<in> set [CHR ''/'', CHR 0x5C]) (uuid_str t @ y) = uuid_str t @ y" for y
    using n c(2,3) by (cases "uuid_str t") auto
  ultimately show ?thesis by (auto simp: safe_key_def lstrip_chars_def)
qed

lemma storage_key_parts:
  "\<exists>parts. path_parts (safe_key (build_storage_key u t ety eid nm)) = uuid_str t # parts"
proof -
  obtain rest where r: "safe_key (build_storage_key u t ety eid nm) = uuid_str t @ CHR ''/'' # rest"
    using safe_storage_key by blast
  have "CHR ''/'' \<notin> set (uuid_str t)" by (simp add: uuid_str_no_char)
  moreover have "uuid_str t \<noteq> []" "uuid_str t \<noteq> ''.''" using length_uuid_str [of t] by force+
  ultimately show ?thesis by (simp add: r path_parts_def split_slash_append)
qed

lemma resolve_storage_key:
  assumes "''..'' \<notin> set base"
  obtains parts where "resolve_key base (build_storage_key u t ety eid nm) = Inr (base @ uuid_str t # parts)"
  using storage_key_parts [of u t ety eid nm] resolve_key_safe [OF assms] by fastforce

text \<open>The files of a tenant, and of the others.\<close>

definition in_tenant :: "path \<Rightarrow> uuid \<Rightarrow> path \<Rightarrow> bool" where
  "in_tenant base t p \<longleftrightarrow> prefix (base @ [uuid_str t]) p"

definition files_frame :: "path \<Rightarrow> uuid \<Rightarrow> files \<Rightarrow> files \<Rightarrow> bool" where
  "files_frame base t fs fs' \<longleftrightarrow> (\<forall>p. \<not> in_tenant base t p \<longrightarrow> fs' p = fs p)"

lemma tenant_key_in:
  assumes "''..'' \<notin> set base" and "resolve_key base (build_storage_key u t ety eid nm) = Inr p"
  shows "in_tenant base t p"
proof -
  from assms(1) obtain parts where "resolve_key base (build_storage_key u t ety eid nm) = Inr (base @ uuid_str t # parts)"
    by (rule resolve_storage_key)
  with assms(2) show ?thesis by (auto simp: in_tenant_def)
qed

lemma in_tenant_disjoint: "in_tenant base t p \<Longrightarrow> in_tenant base t' p \<Longrightarrow> t = t'"
  by (auto simp: in_tenant_def prefix_def)

section \<open>The interface of a provider\<close>

text \<open>
  \<^verbatim>\<open>StorageProvider\<close>, the protocol that the attachment service depends on: what is uploaded under a
  key is downloaded again, what is deleted is not, and a key that names another place is not touched.
\<close>

locale storage_provider =
  fixes put :: "string \<Rightarrow> string \<Rightarrow> 's \<Rightarrow> error + 's"
    and get :: "string \<Rightarrow> 's \<Rightarrow> error + string"
    and remove :: "string \<Rightarrow> 's \<Rightarrow> error + 's"
    and apart :: "string \<Rightarrow> string \<Rightarrow> bool"
  assumes upload_download: "put k c s = Inr s' \<Longrightarrow> get k s' = Inr c"
    and upload_elsewhere: "put k c s = Inr s' \<Longrightarrow> apart k j \<Longrightarrow> get j s' = get j s"
    and delete_download: "remove k s = Inr s' \<Longrightarrow> isl (get k s')"
    and delete_elsewhere: "remove k s = Inr s' \<Longrightarrow> apart k j \<Longrightarrow> get j s' = get j s"
begin

lemma uploads_coexist:
  "put k c s = Inr s1 \<Longrightarrow> put j c' s1 = Inr s2 \<Longrightarrow> apart j k \<Longrightarrow> get k s2 = Inr c \<and> get j s2 = Inr c'"
  using upload_download upload_elsewhere by metis

lemma delete_undoes_upload:
  "put k c s = Inr s1 \<Longrightarrow> remove k s1 = Inr s2 \<Longrightarrow> isl (get k s2) \<and> (\<forall>j. apart k j \<longrightarrow> get j s2 = get j s)"
  using delete_download upload_elsewhere delete_elsewhere by metis

end

interpretation local_storage: storage_provider "storage_upload base" "storage_download base" "storage_delete base"
  "\<lambda>k j. resolve_key base k \<noteq> resolve_key base j"
  by unfold_locales (auto simp: storage_upload_def storage_download_def storage_delete_def split: sum.splits option.splits)

text \<open>Keys of different tenants name different places, so that no tenant's upload or deletion reaches
  the file of another.\<close>

lemma tenant_keys_apart:
  assumes "''..'' \<notin> set base" and "t \<noteq> t'"
  shows "resolve_key base (build_storage_key u t ety eid nm) \<noteq> resolve_key base (build_storage_key u' t' ety' eid' nm')"
proof
  assume same: "resolve_key base (build_storage_key u t ety eid nm) = resolve_key base (build_storage_key u' t' ety' eid' nm')"
  obtain parts where "resolve_key base (build_storage_key u t ety eid nm) = Inr (base @ uuid_str t # parts)"
    using assms(1) by (rule resolve_storage_key)
  with tenant_key_in [OF assms(1)] same have "in_tenant base t (base @ uuid_str t # parts)"
    "in_tenant base t' (base @ uuid_str t # parts)" by metis+
  with assms(2) show False using in_tenant_disjoint by blast
qed

end
