(* ===== verification/Attachments.thy ===== *)
theory Attachments
  imports Storage Tenant_Isolation
begin

text \<open>
  Attachments: \<^verbatim>\<open>app/services/attachment_service.py\<close> over
  \<^verbatim>\<open>app/repositories/attachment_repository.py\<close> and the local storage provider. An operation runs
  on the file store and the session side by side: the file store is not transactional, so what
  was written to it stays when the request fails later.
\<close>

section \<open>Operations on files and rows\<close>

type_synonym 'a file_tx = "files \<Rightarrow> sess \<Rightarrow> (error + 'a) \<times> files \<times> sess"

definition on_session :: "'a tx \<Rightarrow> 'a file_tx" where
  "on_session m = (\<lambda>fs s. case m s of (r, s') \<Rightarrow> (r, fs, s'))"

definition storage_step :: "(files \<Rightarrow> error + files) \<Rightarrow> unit file_tx" where
  "storage_step g = (\<lambda>fs s. case g fs of Inl e \<Rightarrow> (Inl e, fs, s) | Inr fs' \<Rightarrow> (Inr (), fs', s))"

definition then_files :: "'a file_tx \<Rightarrow> ('a \<Rightarrow> 'b file_tx) \<Rightarrow> 'b file_tx" where
  "then_files m f = (\<lambda>fs s. case m fs s of (Inl e, fs', s') \<Rightarrow> (Inl e, fs', s') | (Inr x, fs', s') \<Rightarrow> f x fs' s')"

text \<open>A request: what it returns, the files and the database it leaves.\<close>

definition run_files :: "'a file_tx \<Rightarrow> env \<Rightarrow> files \<Rightarrow> db \<Rightarrow> (error + 'a) \<times> files \<times> db" where
  "run_files m e fs d = (case m fs (new_session e d) of (r, fs', s) \<Rightarrow> (r, fs', committed s))"

section \<open>The repository\<close>

definition get_attachment_in_tenant :: "uuid \<Rightarrow> uuid \<Rightarrow> attachment option tx" where
  "get_attachment_in_tenant i t =
     scalar_tx (\<lambda>d. filter (\<lambda>a. row_id a = i \<and> tenant_id a = t) (attachments d))"

definition list_attachment_rows :: "uuid \<Rightarrow> string \<Rightarrow> string \<Rightarrow> db \<Rightarrow> attachment list" where
  "list_attachment_rows t ety eid d =
     filter (\<lambda>a. tenant_id a = t \<and> at_entity_type a = ety \<and> at_entity_id a = eid) (attachments d)"

definition attachment_constraints :: "db \<Rightarrow> attachment \<Rightarrow> (string \<times> bool) list" where
  "attachment_constraints d a =
     [(''attachments_pkey'', fresh_id (attachments d) a),
      (''attachments_storage_key_key'', at_storage_key a \<notin> at_storage_key ` set (attachments d)),
      (''attachments_tenant_id_fkey'', tenant_id a \<in> row_id ` set (tenants d))]"

section \<open>The service\<close>

record upload_args =
  up_entity_type :: string
  up_entity_id :: string
  up_file_name :: string
  up_content_type :: string
  up_content :: string

definition no_tenant_error :: error where
  "no_tenant_error = ValidationAppError ''Attachments require a tenant context.''"

text \<open>\<^verbatim>\<open>upload\<close> up to the storage key, the write of the file, and the rest.\<close>

definition upload_key :: "security_context \<Rightarrow> upload_args \<Rightarrow> (uuid \<times> string) tx" where
  "upload_key cx a =
     bind_tx (some_tx (cx_tenant_id cx) no_tenant_error) (\<lambda>t.
     bind_tx (env_tx (\<lambda>e. max_upload_size_mb (config e))) (\<lambda>mb.
     bind_tx (require_tx (length (up_content a) \<le> mb * 1024 * 1024)
       (ValidationAppError (''File exceeds the maximum upload size of '' @ str_nat mb @ ''MB.''))) (\<lambda>_.
     bind_tx uuid4_tx (\<lambda>u.
     return_tx (t, build_storage_key u t (up_entity_type a) (up_entity_id a) (up_file_name a))))))"

definition new_attachment :: "uuid \<Rightarrow> uuid \<Rightarrow> uuid \<Rightarrow> string \<Rightarrow> upload_args \<Rightarrow> attachment" where
  "new_attachment i t u key a = \<lparr>created_at = 0, updated_at = 0, row_id = i, tenant_id = t,
     at_entity_type = up_entity_type a, at_entity_id = up_entity_id a, at_file_name = up_file_name a,
     at_content_type = up_content_type a, at_size = length (up_content a), at_storage_key = key,
     at_uploaded_by = u\<rparr>"

definition attachment_columns_fit :: "attachment \<Rightarrow> bool" where
  "attachment_columns_fit a \<longleftrightarrow> length (at_entity_type a) \<le> 100 \<and> length (at_entity_id a) \<le> 100 \<and>
     length (at_file_name a) \<le> 255 \<and> length (at_content_type a) \<le> 150 \<and> length (at_storage_key a) \<le> 500"

definition attachment_audit ::
  "string \<Rightarrow> security_context \<Rightarrow> attachment \<Rightarrow> json_dict option \<Rightarrow> json_dict option \<Rightarrow> audit_args" where
  "attachment_audit act cx a old new = \<lparr>aa_action = act, aa_resource_type = ''attachment'',
     aa_resource_id = Some (uuid_str (row_id a)), aa_tenant_id = cx_tenant_id cx,
     aa_user_id = Some (row_id (cx_user cx)), aa_old_data = old, aa_new_data = new\<rparr>"

definition record_upload ::
  "security_context \<Rightarrow> upload_args \<Rightarrow> uuid \<Rightarrow> string \<Rightarrow> web_request option \<Rightarrow> attachment tx" where
  "record_upload cx a t key rq =
     bind_tx uuid4_tx (\<lambda>i.
     bind_tx (require_tx (attachment_columns_fit (new_attachment i t (row_id (cx_user cx)) key a))
       (DataError ''value too long for type character varying'')) (\<lambda>_.
     bind_tx (add_row attachments_update attachment_constraints
       (new_attachment i t (row_id (cx_user cx)) key a)) (\<lambda>x.
     bind_tx (record_event (attachment_audit ''DOCUMENT_UPLOADED'' cx x None
       (Some [(''file_name'', VStr (up_file_name a)), (''entity_type'', VStr (up_entity_type a)),
              (''entity_id'', VStr (up_entity_id a))])) rq) (\<lambda>_.
     bind_tx commit_tx (\<lambda>_.
     return_tx x)))))"

definition upload ::
  "path \<Rightarrow> security_context \<Rightarrow> upload_args \<Rightarrow> web_request option \<Rightarrow> attachment file_tx" where
  "upload base cx a rq =
     then_files (on_session (upload_key cx a)) (\<lambda>(t, key).
     then_files (storage_step (storage_upload base key (up_content a))) (\<lambda>_.
     on_session (record_upload cx a t key rq)))"

definition list_for_entity :: "security_context \<Rightarrow> string \<Rightarrow> string \<Rightarrow> attachment list tx" where
  "list_for_entity cx ety eid =
     bind_tx (some_tx (cx_tenant_id cx) no_tenant_error) (\<lambda>t.
     query_tx (list_attachment_rows t ety eid))"

definition get_owned :: "security_context \<Rightarrow> uuid \<Rightarrow> attachment tx" where
  "get_owned cx i =
     bind_tx (some_tx (cx_tenant_id cx) no_tenant_error) (\<lambda>t.
     bind_tx (get_attachment_in_tenant i t) (\<lambda>a.
     some_tx a (NotFoundError ''Attachment not found.'')))"

definition get_download_url :: "security_context \<Rightarrow> uuid \<Rightarrow> (attachment \<times> string) tx" where
  "get_download_url cx i =
     bind_tx (get_owned cx i) (\<lambda>a. return_tx (a, generate_access_url (at_storage_key a)))"

text \<open>\<^verbatim>\<open>delete\<close>: the file goes first, then the event and the row.\<close>

definition delete_attachment_row :: "security_context \<Rightarrow> attachment \<Rightarrow> web_request option \<Rightarrow> unit tx" where
  "delete_attachment_row cx a rq =
     bind_tx (record_event (attachment_audit ''DOCUMENT_DELETED'' cx a
       (Some [(''file_name'', VStr (at_file_name a))]) None) rq) (\<lambda>_.
     bind_tx (delete_row attachments_update a) (\<lambda>_.
     commit_tx))"

definition delete_attachment ::
  "path \<Rightarrow> security_context \<Rightarrow> uuid \<Rightarrow> web_request option \<Rightarrow> unit file_tx" where
  "delete_attachment base cx i rq =
     then_files (on_session (get_owned cx i)) (\<lambda>a.
     then_files (storage_step (storage_delete base (at_storage_key a))) (\<lambda>_.
     on_session (delete_attachment_row cx a rq)))"

section \<open>Running the steps\<close>

interpretation attachment_table: table attachments attachments_update
  by unfold_locales simp

lemma then_files_InrE:
  assumes "then_files m f fs s = (Inr y, fs'', s'')"
  obtains x fs' s' where "m fs s = (Inr x, fs', s')" "f x fs' s' = (Inr y, fs'', s'')"
  using assms by (auto simp: then_files_def split: prod.splits sum.splits)

lemma on_session_InrE:
  assumes "on_session m fs s = (Inr x, fs', s')"
  obtains "m s = (Inr x, s')" "fs' = fs"
  using assms by (auto simp: on_session_def split: prod.splits)

lemma storage_step_InrE:
  assumes "storage_step g fs s = (Inr x, fs', s')"
  obtains "g fs = Inr fs'" "s' = s"
  using assms by (auto simp: storage_step_def split: sum.splits)

text \<open>
  What an operation does to the session alone: a write to the store succeeds or raises
  whatever the files are.
\<close>

definition resolve_tx :: "path \<Rightarrow> string \<Rightarrow> unit tx" where
  "resolve_tx base key = (case resolve_key base key of Inl e \<Rightarrow> raise_tx e | Inr p \<Rightarrow> return_tx ())"

definition upload_session ::
  "path \<Rightarrow> security_context \<Rightarrow> upload_args \<Rightarrow> web_request option \<Rightarrow> attachment tx" where
  "upload_session base cx a rq = bind_tx (upload_key cx a) (\<lambda>(t, key).
     bind_tx (resolve_tx base key) (\<lambda>_. record_upload cx a t key rq))"

definition delete_session :: "path \<Rightarrow> security_context \<Rightarrow> uuid \<Rightarrow> web_request option \<Rightarrow> unit tx" where
  "delete_session base cx i rq = bind_tx (get_owned cx i) (\<lambda>a.
     bind_tx (resolve_tx base (at_storage_key a)) (\<lambda>_. delete_attachment_row cx a rq))"

lemma session_of_upload:
  "upload base cx a rq fs s = (r, fs', s') \<Longrightarrow> upload_session base cx a rq s = (r, s')"
  unfolding upload_def upload_session_def then_files_def on_session_def storage_step_def bind_tx_def
    resolve_tx_def storage_upload_def
  by (auto simp: tx_simps split: prod.splits sum.splits)

lemma session_of_delete:
  "delete_attachment base cx i rq fs s = (r, fs', s') \<Longrightarrow> delete_session base cx i rq s = (r, s')"
  unfolding delete_attachment_def delete_session_def then_files_def on_session_def storage_step_def bind_tx_def
    resolve_tx_def storage_delete_def
  by (auto simp: tx_simps split: prod.splits sum.splits)

lemma resolve_tx_rules:
  "tx_pre R P (f ()) \<Longrightarrow> tx_pre R P (bind_tx (resolve_tx base key) f)" "keeps (resolve_tx base key)"
  by (auto simp: resolve_tx_def tx_simps tx_pre_raise keeps_primitives split: sum.split)

lemmas attachment_defs = upload_session_def upload_key_def record_upload_def delete_session_def get_owned_def
  get_attachment_in_tenant_def delete_attachment_row_def

section \<open>The operations within the store relations\<close>

lemma upload_audit: "tx_within audit_grows (upload_session base cx a rq)"
  unfolding attachment_defs by (intro tx_rules resolve_tx_rules) (simp_all add: audit_grows_def)

lemma delete_audit: "tx_within audit_grows (delete_session base cx i rq)"
  unfolding attachment_defs delete_row_def
  by (intro tx_rules resolve_tx_rules audit_trail.within_bind_write) (simp_all add: audit_grows_def)

lemma upload_isolation:
  assumes "cx_tenant_id cx = Some t"
  shows "tx_within (tenant_frame t) (upload_session base cx a rq)"
  unfolding attachment_defs assms some_tx_def option.case bind_return
  by (intro tx_rules resolve_tx_rules)
    (auto simp: attachment_constraints_def new_attachment_def intro!: tenant_frame_write frame_snoc)

lemma atomic_case_prod [atomic_rules]:
  "(\<And>a b. atomic (m a b)) \<Longrightarrow> atomic (case x of (a, b) \<Rightarrow> m a b)"
  by (simp split: prod.split)

lemma upload_atomic: "atomic (upload_session base cx a rq)"
  unfolding attachment_defs by (intro atomic_rules resolve_tx_rules)

lemma delete_atomic: "atomic (delete_session base cx i rq)"
  unfolding attachment_defs delete_row_def by (intro atomic_rules resolve_tx_rules)

section \<open>What the operations do\<close>

lemma get_owned_InrE:
  assumes "get_owned cx i s = (Inr a, s')"
  obtains t where "cx_tenant_id cx = Some t" "s' = s" "a \<in> set (attachments (current s))"
    "row_id a = i" "tenant_id a = t"
proof -
  from assms obtain t where "cx_tenant_id cx = Some t" "s' = s"
    "scalar_one_or_none (filter (\<lambda>a. row_id a = i \<and> tenant_id a = t) (attachments (current s))) = OneRow a"
    unfolding get_owned_def get_attachment_in_tenant_def
    by (auto simp: bind_first_step bind_scalar_step tx_simps split: option.splits one_or_none.splits)
  with filter_singletonD [of "\<lambda>a. row_id a = i \<and> tenant_id a = t" "attachments (current s)" a] show thesis
    by (intro that [of t]) (simp_all add: scalar_OneRow_iff)
qed

lemma upload_key_InrE:
  assumes "upload_key cx a s = (Inr (t, key), s')"
  obtains "cx_tenant_id cx = Some t" "length (up_content a) \<le> max_upload_size_mb (config (env s)) * 1024 * 1024"
    "key = build_storage_key (uuid4 (env s) (drawn s)) t (up_entity_type a) (up_entity_id a) (up_file_name a)"
    "s' = s\<lparr>drawn := Suc (drawn s)\<rparr>"
  using assms unfolding upload_key_def
  by (auto simp: bind_first_step tx_simps split: option.splits if_splits)

lemma upload_InrE:
  assumes "upload base cx a rq fs s = (Inr x, fs', s')"
  obtains t key s1 where "upload_key cx a s = (Inr (t, key), s1)"
    "storage_upload base key (up_content a) fs = Inr fs'" "record_upload cx a t key rq s1 = (Inr x, s')"
  using assms unfolding upload_def
  by (auto elim!: then_files_InrE on_session_InrE storage_step_InrE)

lemma record_upload_Inr:
  assumes "record_upload cx a t key rq s = (Inr x, s')"
  obtains ev where "x = stamp (server_clock (env s) (txn s))
      (new_attachment (uuid4 (env s) (drawn s)) t (row_id (cx_user cx)) key a)"
    "violated (attachment_constraints (current s) x) = None"
    "committed s' = audit_events_update (\<lambda>es. es @ [ev]) (attachments_update (\<lambda>xs. xs @ [x]) (current s))"
    "ae_action ev = ''DOCUMENT_UPLOADED''"
proof -
  from assms have "bind_tx (add_row attachments_update attachment_constraints
       (new_attachment (uuid4 (env s) (drawn s)) t (row_id (cx_user cx)) key a)) (\<lambda>x.
     bind_tx (record_event (attachment_audit ''DOCUMENT_UPLOADED'' cx x None
       (Some [(''file_name'', VStr (up_file_name a)), (''entity_type'', VStr (up_entity_type a)),
              (''entity_id'', VStr (up_entity_id a))])) rq) (\<lambda>_.
     bind_tx commit_tx (\<lambda>_. return_tx x))) (s\<lparr>drawn := Suc (drawn s)\<rparr>) = (Inr x, s')"
    unfolding record_upload_def bind_first_step by (simp split: if_splits)
  then show thesis
    by (rule add_audit_commit_InrE) (rule that [of "last (audit_events (committed s'))"];
        simp add: attachment_audit_def audit_event_of_def)
qed

text \<open>Whatever becomes of an upload, it writes no file outside the directory of the tenant.\<close>

lemma upload_files_frame:
  assumes "upload base cx a rq fs s = (r, fs', s')" and "''..'' \<notin> set base" and "cx_tenant_id cx = Some t"
  shows "files_frame base t fs fs'"
proof (cases "upload_key cx a s")
  case (Pair q s1)
  show ?thesis
  proof (cases q)
    case (Inl e)
    with assms(1) Pair show ?thesis by (simp add: upload_def then_files_def on_session_def files_frame_def)
  next
    case (Inr tk)
    obtain t' key where tk: "tk = (t', key)" by (cases tk)
    from Pair Inr tk have k: "t' = t" "key = build_storage_key (uuid4 (env s) (drawn s)) t
        (up_entity_type a) (up_entity_id a) (up_file_name a)"
      using assms(3) by (auto elim: upload_key_InrE)
    from assms(2) obtain p where p: "resolve_key base key = Inr p"
      using resolve_key_safe by blast
    with assms(2) k(2) have "in_tenant base t p" using tenant_key_in by blast
    moreover have "fs' = fs(p := Some (up_content a))"
      using assms(1) Pair Inr tk p
      by (auto simp: upload_def then_files_def on_session_def storage_step_def storage_upload_def split: prod.splits)
    ultimately show ?thesis by (auto simp: files_frame_def)
  qed
qed

text \<open>The keys in the table are the keys that \<open>upload\<close> builds.\<close>

definition keys_ok :: "db \<Rightarrow> bool" where
  "keys_ok d \<longleftrightarrow> distinct (map row_id (attachments d)) \<and> (\<forall>a\<in>set (attachments d). \<exists>u ety eid nm.
     at_storage_key a = build_storage_key u (tenant_id a) ety eid nm)"

interpretation attachment_invariant: blind_to_audit "preserves keys_ok"
  by unfold_locales (simp add: preserves_def keys_ok_def)

lemma keys_ok_snoc:
  assumes "fresh_id (attachments d) x" and "at_storage_key x = build_storage_key u (tenant_id x) ety eid nm"
  shows "preserves keys_ok d (attachments_update (\<lambda>xs. xs @ [x]) d)"
  using assms by (auto simp: preserves_def keys_ok_def fresh_id_def)

lemma upload_invariant: "tx_within (preserves keys_ok) (upload_session base cx a rq)"
  unfolding attachment_defs
  by (intro tx_rules resolve_tx_rules)
    (auto simp: attachment_constraints_def new_attachment_def stamp_def intro!: keys_ok_snoc)

lemma delete_invariant: "tx_within (preserves keys_ok) (delete_session base cx i rq)"
  unfolding attachment_defs delete_row_def
  by (intro tx_rules resolve_tx_rules preserves.within_bind_write)
    (auto simp: preserves_def keys_ok_def intro: distinct_map_filter)

lemma delete_files_frame:
  assumes "delete_attachment base cx i rq fs s = (r, fs', s')" and "''..'' \<notin> set base"
    and "cx_tenant_id cx = Some t" and "keys_ok (current s)"
  shows "files_frame base t fs fs'"
proof (cases "get_owned cx i s")
  case (Pair q s1)
  show ?thesis
  proof (cases q)
    case (Inl e)
    with assms(1) Pair show ?thesis
      by (simp add: delete_attachment_def then_files_def on_session_def files_frame_def)
  next
    case (Inr a)
    with Pair assms(3) have a: "a \<in> set (attachments (current s))" "tenant_id a = t"
      by (auto elim: get_owned_InrE)
    with assms(4) obtain u ety eid nm where k: "at_storage_key a = build_storage_key u t ety eid nm"
      unfolding keys_ok_def by metis
    from assms(2) obtain p where p: "resolve_key base (at_storage_key a) = Inr p"
      using resolve_key_safe by blast
    with assms(2) k have "in_tenant base t p" using tenant_key_in by metis
    moreover have "fs' = fs(p := None)"
      using assms(1) Pair Inr p
      by (auto simp: delete_attachment_def then_files_def on_session_def storage_step_def storage_delete_def
          split: prod.splits)
    ultimately show ?thesis by (auto simp: files_frame_def)
  qed
qed

lemma delete_isolation:
  assumes "cx_tenant_id cx = Some t"
  shows "tx_within (tenant_frame t) (delete_session base cx i rq)"
proof -
  have "tx_pre (tenant_frame t) (\<lambda>d. a \<in> set (attachments d)) (delete_attachment_row cx a rq)" if "tenant_id a = t" for a
    unfolding delete_attachment_row_def
    by (rule isolation.within_bind_record_known [where Q = "\<lambda>d. a \<in> set (attachments d)"])
      (use that in \<open>auto intro!: tx_rules isolation.within_bind_delete_row tenant_frame_write frame_delete\<close>)
  then have "tx_pre (tenant_frame t) (\<lambda>d. a \<in> set (attachments d) \<and> tenant_id a = t) (delete_attachment_row cx a rq)" for a
    by (cases "tenant_id a = t") (simp, simp, rule tx_preI, simp)
  note del = tx_pre_mono [OF this]
  show ?thesis
    unfolding delete_session_def get_owned_def get_attachment_in_tenant_def assms some_tx_def option.case bind_return
    by (intro tx_rules resolve_tx_rules del) (auto dest: filter_singletonD)
qed

end
