(* ===== verification/Notifications.thy ===== *)
theory Notifications
  imports Tenant_Isolation
begin

text \<open>
  Notifications: \<^verbatim>\<open>app/services/notification_service.py\<close> over
  \<^verbatim>\<open>app/repositories/notification_repository.py\<close>. A user reads and marks its own notifications
  only, and a notification that was read stays read.
\<close>

section \<open>The repository\<close>

definition list_user_notifications :: "uuid \<Rightarrow> nat \<Rightarrow> nat \<Rightarrow> bool \<Rightarrow> db \<Rightarrow> notification list \<times> nat" where
  "list_user_notifications u off cnt unread_only d =
     newest_page (\<lambda>n. nt_user_id n = u \<and> (unread_only \<longrightarrow> \<not> nt_is_read n)) off cnt (notifications d)"

definition get_notification_for_user :: "uuid \<Rightarrow> uuid \<Rightarrow> notification option tx" where
  "get_notification_for_user i u =
     scalar_tx (\<lambda>d. filter (\<lambda>n. row_id n = i \<and> nt_user_id n = u) (notifications d))"

definition notification_constraints :: "db \<Rightarrow> notification \<Rightarrow> (string \<times> bool) list" where
  "notification_constraints d n =
     [(''notifications_pkey'', fresh_id (notifications d) n),
      (''notifications_tenant_id_fkey'', refers (tenants d) (nt_tenant_id n)),
      (''notifications_user_id_fkey'', nt_user_id n \<in> row_id ` set (users d))]"

definition read_notification :: "int \<Rightarrow> notification \<Rightarrow> notification" where
  "read_notification now n = n\<lparr>nt_is_read := True, nt_read_at := Some now\<rparr>"

section \<open>The service\<close>

record send_args =
  sn_user_id :: uuid
  sn_title :: string
  sn_body :: string
  sn_tenant_id :: "uuid option"
  sn_channel :: NotificationChannel
  sn_entity_type :: "string option"
  sn_entity_id :: "string option"

definition new_notification :: "uuid \<Rightarrow> send_args \<Rightarrow> notification" where
  "new_notification i a = \<lparr>created_at = 0, updated_at = 0, row_id = i, nt_tenant_id = sn_tenant_id a,
     nt_user_id = sn_user_id a, nt_channel = sn_channel a, nt_title = sn_title a, nt_body = sn_body a,
     nt_entity_type = sn_entity_type a, nt_entity_id = sn_entity_id a, nt_is_read = False, nt_read_at = None\<rparr>"

definition send :: "send_args \<Rightarrow> notification tx" where
  "send a =
     bind_tx uuid4_tx (\<lambda>i.
     bind_tx (require_tx (length (sn_title a) \<le> 200 \<and> fits 100 (sn_entity_type a) \<and> fits 100 (sn_entity_id a))
       (DataError ''value too long for type character varying'')) (\<lambda>_.
     bind_tx (add_row notifications_update notification_constraints (new_notification i a)) (\<lambda>n.
     bind_tx commit_tx (\<lambda>_.
     return_tx n))))"

definition list_notifications :: "uuid \<Rightarrow> nat \<Rightarrow> nat \<Rightarrow> bool \<Rightarrow> (notification list \<times> nat) tx" where
  "list_notifications u page page_size unread_only =
     query_tx (list_user_notifications u ((page - 1) * page_size) page_size unread_only)"

definition mark_read :: "uuid \<Rightarrow> uuid \<Rightarrow> notification tx" where
  "mark_read u i =
     bind_tx (get_notification_for_user i u) (\<lambda>found.
     bind_tx (some_tx found (NotFoundError ''Notification not found.'')) (\<lambda>n.
     bind_tx now_tx (\<lambda>now.
     bind_tx (save_row notifications_update n (read_notification now n)) (\<lambda>n'.
     bind_tx commit_tx (\<lambda>_.
     return_tx n')))))"

section \<open>The life of a notification\<close>

interpretation notification_table: table notifications notifications_update
  by unfold_locales simp

inductive notification_step :: "notification \<Rightarrow> notification \<Rightarrow> bool" where
  read: "notification_step n (touch k n (read_notification now n))"

lemma read_notification_fields [simp]:
  "row_id (read_notification now n) = row_id n" "nt_user_id (read_notification now n) = nt_user_id n"
  "nt_tenant_id (read_notification now n) = nt_tenant_id n" "nt_is_read (read_notification now n)"
  by (simp_all add: read_notification_def)

lemma touch_notification [simp]:
  "nt_user_id (touch k n n') = nt_user_id n'" "nt_is_read (touch k n n') = nt_is_read n'"
  "nt_tenant_id (touch k n n') = nt_tenant_id n'" for n n' :: notification
  by (simp_all add: touch_def)

lemma notification_step_keeps:
  "notification_step n n' \<Longrightarrow> row_id n' = row_id n \<and> nt_user_id n' = nt_user_id n \<and> nt_is_read n'"
  by (induction rule: notification_step.induct) simp

interpretation notification_lifecycle:
  document_lifecycle notifications notifications_update notification_step
  by unfold_locales (simp add: notification_step_keeps)

lemmas notification_defs = send_def mark_read_def get_notification_for_user_def

lemma send_lifecycle: "tx_within (evolves notifications notification_step) (send a)"
  unfolding notification_defs
  by (intro tx_rules) (auto simp: notification_constraints_def intro!: notification_lifecycle.evolves_snoc)

lemma mark_read_lifecycle: "tx_within (evolves notifications notification_step) (mark_read u i)"
  unfolding notification_defs
  by (intro tx_rules)
    (auto dest!: filter_singletonD
      intro!: notification_lifecycle.evolves_put_row r_into_rtranclp notification_step.read)

lemma mark_read_audit: "tx_within audit_grows (mark_read u i)"
  unfolding notification_defs by (intro tx_rules) (simp_all add: audit_grows_def)

lemma mark_read_atomic: "atomic (mark_read u i)"
  unfolding notification_defs by (intro atomic_rules)

lemma mark_read_Inr:
  assumes "mark_read u i s = (Inr n', s')"
  obtains n where "n \<in> set (notifications (current s))" "row_id n = i" "nt_user_id n = u" "nt_is_read n'"
    "n' = touch (server_clock (env s) (txn s)) n (read_notification (clock (env s) (ticks s)) n)"
    "committed s' = notifications_update (put_row n') (current s)"
proof -
  from assms obtain n where f: "filter (\<lambda>n. row_id n = i \<and> nt_user_id n = u) (notifications (current s)) = [n]"
    and n': "n' = touch (server_clock (env s) (txn s)) n (read_notification (clock (env s) (ticks s)) n)"
    and c: "committed s' = notifications_update (put_row n') (current s)"
    unfolding notification_defs
    by (auto simp: bind_scalar_step bind_first_step bind_save_row_step tx_simps Let_def scalar_OneRow_iff
        split: one_or_none.splits)
  from filter_singletonD [OF f] n' c show thesis by (intro that) simp_all
qed

end
