(* ===== verification/Schemas.thy ===== *)
theory Schemas
  imports Tenants Settings_Service Production Master_Data Attachments Notifications Auth_Effects
begin

text \<open>
  The response models of \<^verbatim>\<open>app/schemas\<close>: what \<^verbatim>\<open>X.model_validate(row)\<close> keeps of a row, as the
  fields of the JSON object in the order of the class. Enumeration members are their values,
  the other values keep their Python type. The password hash, the token hashes and the storage
  keys are in none of them.
\<close>

section \<open>Values\<close>

fun TenantStatus_value :: "TenantStatus \<Rightarrow> string" where
  "TenantStatus_value TenantStatus_ACTIVE = ''ACTIVE''"
| "TenantStatus_value TenantStatus_SUSPENDED = ''SUSPENDED''"
| "TenantStatus_value TenantStatus_INACTIVE = ''INACTIVE''"

fun OrganizationUnitType_value :: "OrganizationUnitType \<Rightarrow> string" where
  "OrganizationUnitType_value OrganizationUnitType_BUSINESS_UNIT = ''BUSINESS_UNIT''"
| "OrganizationUnitType_value OrganizationUnitType_PLANT = ''PLANT''"
| "OrganizationUnitType_value OrganizationUnitType_SITE = ''SITE''"
| "OrganizationUnitType_value OrganizationUnitType_DEPARTMENT = ''DEPARTMENT''"

fun NotificationChannel_value :: "NotificationChannel \<Rightarrow> string" where
  "NotificationChannel_value NotificationChannel_IN_APP = ''IN_APP''"
| "NotificationChannel_value NotificationChannel_EMAIL = ''EMAIL''"
| "NotificationChannel_value NotificationChannel_SMS = ''SMS''"
| "NotificationChannel_value NotificationChannel_PUSH = ''PUSH''"
| "NotificationChannel_value NotificationChannel_WHATSAPP = ''WHATSAPP''"

fun ProductionShift_value :: "ProductionShift \<Rightarrow> string" where
  "ProductionShift_value ProductionShift_DAY = ''DAY''"
| "ProductionShift_value ProductionShift_NIGHT = ''NIGHT''"

definition or_none :: "('a \<Rightarrow> pyval) \<Rightarrow> 'a option \<Rightarrow> pyval" where
  "or_none f x = (case x of None \<Rightarrow> VNone | Some y \<Rightarrow> f y)"

lemma or_none_simps [simp]: "or_none f None = VNone" "or_none f (Some y) = f y"
  by (simp_all add: or_none_def)

definition timestamps :: "'a timestamped_scheme \<Rightarrow> json_dict" where
  "timestamps r = [(''created_at'', VTime (created_at r)), (''updated_at'', VTime (updated_at r))]"

section \<open>Envelopes: \<^verbatim>\<open>schemas/common.py\<close>\<close>

record page_meta =
  pm_page :: nat
  pm_page_size :: nat
  pm_total_items :: nat
  pm_total_pages :: nat

text \<open>\<^verbatim>\<open>max(1, math.ceil(items / page_size))\<close>.\<close>

definition total_pages :: "nat \<Rightarrow> nat \<Rightarrow> nat" where
  "total_pages items page_size = max 1 ((items + page_size - 1) div page_size)"

definition page_meta_of :: "nat \<Rightarrow> nat \<Rightarrow> nat \<Rightarrow> page_meta" where
  "page_meta_of page page_size items = \<lparr>pm_page = page, pm_page_size = page_size,
     pm_total_items = items, pm_total_pages = total_pages items page_size\<rparr>"

text \<open>\<^verbatim>\<open>SuccessResponse\<close> of an object or of a list, \<^verbatim>\<open>Page\<close> and \<^verbatim>\<open>MessageResponse\<close>.\<close>

datatype content =
    Item json_dict
  | Items "json_dict list"
  | Paged "json_dict list" page_meta
  | Message string

section \<open>Objects\<close>

definition user_response :: "user \<Rightarrow> json_dict" where
  "user_response u =
     [(''id'', VUuid (row_id u)), (''tenant_id'', or_none VUuid (u_tenant_id u)),
      (''email'', VStr (u_email u)), (''first_name'', VStr (u_first_name u)),
      (''last_name'', VStr (u_last_name u)), (''phone'', or_none VStr (u_phone u)),
      (''status'', VStr (UserStatus_value (u_status u))), (''is_verified'', VBool (u_is_verified u)),
      (''is_platform_user'', VBool (u_is_platform_user u)),
      (''last_login_at'', or_none VTime (u_last_login_at u))] @ timestamps u"

definition user_role_response :: "user_role \<Rightarrow> role \<Rightarrow> json_dict" where
  "user_role_response ur r =
     [(''id'', VUuid (row_id ur)), (''role_id'', VUuid (ur_role_id ur)), (''role_code'', VStr (r_code r)),
      (''organization_unit_id'', or_none VUuid (ur_organization_unit_id ur))]"

definition tenant_response :: "tenant \<Rightarrow> json_dict" where
  "tenant_response x =
     [(''id'', VUuid (row_id x)), (''name'', VStr (tn_name x)), (''code'', VStr (tn_code x)),
      (''slug'', VStr (tn_slug x)), (''status'', VStr (TenantStatus_value (tn_status x))),
      (''timezone'', VStr (tn_timezone x)), (''currency'', VStr (tn_currency x))] @ timestamps x"

text \<open>\<^verbatim>\<open>_to_response\<close> of \<^verbatim>\<open>api/v1/roles.py\<close>; \<open>codes\<close> are those of \<^verbatim>\<open>role.role_permissions\<close>.\<close>

definition role_response :: "string list \<Rightarrow> role \<Rightarrow> json_dict" where
  "role_response codes r =
     [(''id'', VUuid (row_id r)), (''tenant_id'', or_none VUuid (r_tenant_id r)),
      (''code'', VStr (r_code r)), (''name'', VStr (r_name r)),
      (''description'', or_none VStr (r_description r)), (''is_system'', VBool (r_is_system r)),
      (''permission_codes'', strings_json (sorted_strings codes))]"

definition permission_response :: "permission \<Rightarrow> json_dict" where
  "permission_response p =
     [(''id'', VUuid (row_id p)), (''code'', VStr (p_code p)),
      (''description'', or_none VStr (p_description p)), (''module'', VStr (p_module p))]"

definition audit_event_response :: "audit_event \<Rightarrow> json_dict" where
  "audit_event_response e =
     [(''id'', VUuid (ae_id e)), (''tenant_id'', or_none VUuid (ae_tenant_id e)),
      (''user_id'', or_none VUuid (ae_user_id e)), (''action'', VStr (ae_action e)),
      (''resource_type'', VStr (ae_resource_type e)), (''resource_id'', or_none VStr (ae_resource_id e)),
      (''old_data'', or_none VDict (ae_old_data e)), (''new_data'', or_none VDict (ae_new_data e)),
      (''ip_address'', or_none VStr (ae_ip_address e)), (''user_agent'', or_none VStr (ae_user_agent e)),
      (''request_id'', or_none VStr (ae_request_id e)), (''timestamp'', VTime (ae_timestamp e))]"

definition setting_response :: "setting \<Rightarrow> json_dict" where
  "setting_response r =
     [(''id'', VUuid (row_id r)), (''tenant_id'', or_none VUuid (st_tenant_id r)),
      (''organization_unit_id'', or_none VUuid (st_organization_unit_id r)),
      (''module'', or_none VStr (st_module r)), (''key'', VStr (st_key r)), (''value'', st_value r)]"

definition attachment_response :: "attachment \<Rightarrow> json_dict" where
  "attachment_response a =
     [(''id'', VUuid (row_id a)), (''entity_type'', VStr (at_entity_type a)),
      (''entity_id'', VStr (at_entity_id a)), (''file_name'', VStr (at_file_name a)),
      (''content_type'', VStr (at_content_type a)), (''size'', VInt (int (at_size a))),
      (''uploaded_by'', VUuid (at_uploaded_by a)), (''created_at'', VTime (created_at a))]"

definition attachment_download_response :: "attachment \<Rightarrow> string \<Rightarrow> json_dict" where
  "attachment_download_response a url =
     [(''id'', VUuid (row_id a)), (''file_name'', VStr (at_file_name a)),
      (''content_type'', VStr (at_content_type a)), (''access_url'', VStr url)]"

definition notification_response :: "notification \<Rightarrow> json_dict" where
  "notification_response n =
     [(''id'', VUuid (row_id n)), (''channel'', VStr (NotificationChannel_value (nt_channel n))),
      (''title'', VStr (nt_title n)), (''body'', VStr (nt_body n)),
      (''entity_type'', or_none VStr (nt_entity_type n)), (''entity_id'', or_none VStr (nt_entity_id n)),
      (''is_read'', VBool (nt_is_read n)), (''read_at'', or_none VTime (nt_read_at n)),
      (''created_at'', VTime (created_at n))]"

definition unit_response :: "measure_unit \<Rightarrow> json_dict" where
  "unit_response u =
     [(''id'', VUuid (row_id u)), (''category_id'', VUuid (mu_category_id u)), (''code'', VStr (mu_code u)),
      (''name'', VStr (mu_name u)), (''symbol'', VStr (mu_symbol u))]"

definition organization_unit_response :: "organization_unit \<Rightarrow> json_dict" where
  "organization_unit_response u =
     [(''id'', VUuid (row_id u)), (''name'', VStr (ou_name u)), (''code'', VStr (ou_code u)),
      (''unit_type'', VStr (OrganizationUnitType_value (ou_unit_type u))),
      (''parent_id'', or_none VUuid (ou_parent_id u))]"

definition ticket_response :: "weighbridge_ticket \<Rightarrow> json_dict" where
  "ticket_response w =
     [(''id'', VUuid (row_id w)), (''ticket_number'', VStr (wt_ticket_number w)),
      (''ticket_type'', VStr (WeighbridgeTicketType_value (wt_ticket_type w))),
      (''status'', VStr (WeighbridgeTicketStatus_value (wt_status w))),
      (''organization_unit_id'', or_none VUuid (wt_organization_unit_id w)),
      (''unit_id'', VUuid (wt_unit_id w)), (''vehicle_number'', VStr (wt_vehicle_number w)),
      (''driver_name'', or_none VStr (wt_driver_name w)), (''party_name'', or_none VStr (wt_party_name w)),
      (''material_description'', VStr (wt_material_description w)),
      (''first_weight'', VDecimal (wt_first_weight w)),
      (''first_weighed_at'', VTime (wt_first_weighed_at w)),
      (''second_weight'', or_none VDecimal (wt_second_weight w)),
      (''second_weighed_at'', or_none VTime (wt_second_weighed_at w)),
      (''net_weight'', or_none VDecimal (wt_net_weight w)),
      (''remarks'', or_none VStr (wt_remarks w))] @ timestamps w"

definition output_response :: "production_output \<Rightarrow> json_dict" where
  "output_response o' =
     [(''id'', VUuid (row_id o')), (''product_description'', VStr (po_product_description o')),
      (''quantity'', VDecimal (po_quantity o')), (''unit_id'', VUuid (po_unit_id o'))]"

definition entry_response :: "production_entry \<Rightarrow> json_dict" where
  "entry_response x =
     [(''id'', VUuid (row_id x)), (''entry_number'', VStr (pe_entry_number x)),
      (''status'', VStr (ProductionEntryStatus_value (pe_status x))),
      (''organization_unit_id'', or_none VUuid (pe_organization_unit_id x)),
      (''production_date'', VDate (pe_production_date x)),
      (''shift'', VStr (ProductionShift_value (pe_shift x))),
      (''raw_material_description'', VStr (pe_raw_material_description x)),
      (''raw_material_quantity'', VDecimal (pe_raw_material_quantity x)),
      (''raw_material_unit_id'', VUuid (pe_raw_material_unit_id x)),
      (''remarks'', or_none VStr (pe_remarks x)),
      (''outputs'', VList (map (VDict \<circ> output_response) (pe_outputs x)))] @ timestamps x"

text \<open>
  The ten response models of the master data: the common fields, those of the class by name,
  and the time stamps.
\<close>

definition md_field :: "string \<Rightarrow> md_row \<Rightarrow> pyval" where
  "md_field k r = (case map_of ([(''id'', VUuid (row_id r)), (''code'', VStr (code r)),
       (''status'', VStr (MasterDataStatus_value (status r)))] @ timestamps r) k of
     Some v \<Rightarrow> v
   | None \<Rightarrow> md_getattr k r)"

definition md_response :: "md_entity \<Rightarrow> md_row \<Rightarrow> json_dict" where
  "md_response e r = map (\<lambda>k. (k, md_field k r)) (rt_response_schema (router_of e))"

definition token_pair_response :: "token_pair \<Rightarrow> json_dict" where
  "token_pair_response p =
     [(''access_token'', VStr (tp_access_token p)), (''refresh_token'', VStr (tp_refresh_token p)),
      (''token_type'', VStr ''bearer''), (''expires_in'', VInt (tp_expires_in p))]"

text \<open>\<^verbatim>\<open>sorted\<close> of the two sets of the context.\<close>

definition current_user_response :: "security_context \<Rightarrow> json_dict" where
  "current_user_response cx =
     [(''id'', VUuid (row_id (cx_user cx))), (''tenant_id'', or_none VUuid (cx_tenant_id cx)),
      (''email'', VStr (u_email (cx_user cx))), (''first_name'', VStr (u_first_name (cx_user cx))),
      (''last_name'', VStr (u_last_name (cx_user cx))),
      (''is_platform_user'', VBool (cx_is_platform_user cx)),
      (''roles'', strings_json (sorted_strings (remdups (cx_role_codes cx)))),
      (''permissions'', strings_json (sorted_strings (remdups (map permission_code (cx_grants cx)))))]"

section \<open>Page numbers\<close>

text \<open>The pages announced are as many as there are non-empty pages, and at least one.\<close>

lemma page_exists_iff:
  fixes k page_size items :: nat
  assumes "0 < page_size"
  shows "k * page_size < items \<longleftrightarrow> k < (items + page_size - 1) div page_size"
proof -
  have "k < (items + page_size - 1) div page_size \<longleftrightarrow> Suc k * page_size \<le> items + page_size - 1"
    using assms by (metis Suc_le_eq less_eq_div_iff_mult_less_eq)
  also have "\<dots> \<longleftrightarrow> k * page_size < items" using assms by auto
  finally show ?thesis by simp
qed

lemma total_pages_iff:
  assumes "0 < page_size"
  shows "k < total_pages items page_size \<longleftrightarrow> k = 0 \<or> k * page_size < items"
  using page_exists_iff [OF assms] by (auto simp: total_pages_def less_max_iff_disj)

lemma total_pages_all: "0 < page_size \<Longrightarrow> items \<le> total_pages items page_size * page_size"
  using total_pages_iff [of page_size "total_pages items page_size" items] by auto

section \<open>Sorted strings\<close>

lemma set_insert_string [simp]: "set (insert_string x ys) = insert x (set ys)"
  by (induction ys) auto

lemma set_sorted_strings [simp]: "set (sorted_strings xs) = set xs"
  unfolding sorted_strings_def by (induction xs) auto

lemma me_permissions:
  "set (sorted_strings (remdups (map permission_code (cx_grants cx)))) = permission_codes cx"
  by (simp add: permission_codes_def)

end
