(* ===== verification/Footprint.thy ===== *)
theory Footprint
  imports Tenants Settings_Service Weighbridge Production Master_Data Auth_Tokens Attachments Notifications
begin

text \<open>
  Which tables an operation may write. \<open>same_except T\<close> relates two databases that differ at
  most in the tables of \<open>T\<close> and in the audit trail; it is a store relation, so the rules of the
  library show it of each operation. An invariant of one table then needs a proof for the
  operations that write this table only.
\<close>

section \<open>Tables by name\<close>

datatype table_name =
  T_tenants | T_users | T_permissions | T_roles | T_role_permissions | T_user_roles |
  T_scope_assignments | T_refresh_sessions | T_password_reset_tokens | T_organization_units |
  T_fiscal_years | T_document_sequences | T_settings | T_notifications | T_attachments |
  T_unit_categories | T_measure_units | T_unit_conversions | T_master_data |
  T_weighbridge_tickets | T_production_entries

definition unchanged :: "table_name set \<Rightarrow> table_name \<Rightarrow> (db \<Rightarrow> 'a) \<Rightarrow> db \<Rightarrow> db \<Rightarrow> bool" where
  "unchanged T n rows d d' \<longleftrightarrow> (n \<in> T \<or> rows d' = rows d)"

lemma unchanged_refl [simp]: "unchanged T n rows d d"
  by (simp add: unchanged_def)

lemma unchanged_trans: "unchanged T n rows a b \<Longrightarrow> unchanged T n rows b c \<Longrightarrow> unchanged T n rows a c"
  by (auto simp: unchanged_def)

lemma unchanged_mono: "unchanged T n rows d d' \<Longrightarrow> T \<subseteq> U \<Longrightarrow> unchanged U n rows d d'"
  by (auto simp: unchanged_def)

definition same_except :: "table_name set \<Rightarrow> db \<Rightarrow> db \<Rightarrow> bool" where
  "same_except T d d' \<longleftrightarrow>
     unchanged T T_tenants tenants d d' \<and>
     unchanged T T_users users d d' \<and>
     unchanged T T_permissions permissions d d' \<and>
     unchanged T T_roles roles d d' \<and>
     unchanged T T_role_permissions role_permissions d d' \<and>
     unchanged T T_user_roles user_roles d d' \<and>
     unchanged T T_scope_assignments scope_assignments d d' \<and>
     unchanged T T_refresh_sessions refresh_sessions d d' \<and>
     unchanged T T_password_reset_tokens password_reset_tokens d d' \<and>
     unchanged T T_organization_units organization_units d d' \<and>
     unchanged T T_fiscal_years fiscal_years d d' \<and>
     unchanged T T_document_sequences document_sequences d d' \<and>
     unchanged T T_settings settings d d' \<and>
     unchanged T T_notifications notifications d d' \<and>
     unchanged T T_attachments attachments d d' \<and>
     unchanged T T_unit_categories unit_categories d d' \<and>
     unchanged T T_measure_units measure_units d d' \<and>
     unchanged T T_unit_conversions unit_conversions d d' \<and>
     unchanged T T_master_data master_data d d' \<and>
     unchanged T T_weighbridge_tickets weighbridge_tickets d d' \<and>
     unchanged T T_production_entries production_entries d d'"

lemma same_except_refl [simp]: "same_except T d d"
  by (simp add: same_except_def)

lemma same_except_trans: "same_except T a b \<Longrightarrow> same_except T b c \<Longrightarrow> same_except T a c"
  unfolding same_except_def by (elim conjE, intro conjI; erule (1) unchanged_trans)

lemma same_except_mono: "same_except T d d' \<Longrightarrow> T \<subseteq> U \<Longrightarrow> same_except U d d'"
  unfolding same_except_def by (elim conjE, intro conjI; erule (1) unchanged_mono)

interpretation footprint: store_relation "same_except T"
  by unfold_locales (auto intro: same_except_trans)

text \<open>A write to one table of \<open>T\<close>, or to the audit trail.\<close>

lemma same_except_write [simp]:
  "T_tenants \<in> T \<Longrightarrow> same_except T d (tenants_update f1 d)"
  "T_users \<in> T \<Longrightarrow> same_except T d (users_update f2 d)"
  "T_permissions \<in> T \<Longrightarrow> same_except T d (permissions_update f3 d)"
  "T_roles \<in> T \<Longrightarrow> same_except T d (roles_update f4 d)"
  "T_role_permissions \<in> T \<Longrightarrow> same_except T d (role_permissions_update f5 d)"
  "T_user_roles \<in> T \<Longrightarrow> same_except T d (user_roles_update f6 d)"
  "T_scope_assignments \<in> T \<Longrightarrow> same_except T d (scope_assignments_update f7 d)"
  "T_refresh_sessions \<in> T \<Longrightarrow> same_except T d (refresh_sessions_update f8 d)"
  "T_password_reset_tokens \<in> T \<Longrightarrow> same_except T d (password_reset_tokens_update f9 d)"
  "T_organization_units \<in> T \<Longrightarrow> same_except T d (organization_units_update f10 d)"
  "T_fiscal_years \<in> T \<Longrightarrow> same_except T d (fiscal_years_update f11 d)"
  "T_document_sequences \<in> T \<Longrightarrow> same_except T d (document_sequences_update f12 d)"
  "T_settings \<in> T \<Longrightarrow> same_except T d (settings_update f13 d)"
  "T_notifications \<in> T \<Longrightarrow> same_except T d (notifications_update f14 d)"
  "T_attachments \<in> T \<Longrightarrow> same_except T d (attachments_update f15 d)"
  "T_unit_categories \<in> T \<Longrightarrow> same_except T d (unit_categories_update f16 d)"
  "T_measure_units \<in> T \<Longrightarrow> same_except T d (measure_units_update f17 d)"
  "T_unit_conversions \<in> T \<Longrightarrow> same_except T d (unit_conversions_update f18 d)"
  "T_master_data \<in> T \<Longrightarrow> same_except T d (master_data_update f19 d)"
  "T_weighbridge_tickets \<in> T \<Longrightarrow> same_except T d (weighbridge_tickets_update f20 d)"
  "T_production_entries \<in> T \<Longrightarrow> same_except T d (production_entries_update f21 d)"
  "same_except T d (audit_events_update f22 d)"
  by (simp_all add: same_except_def unchanged_def)

interpretation footprint: blind_to_audit "same_except T"
  by unfold_locales simp

lemma footprint_next_number [tx_rules]:
  assumes "T_document_sequences \<in> T"
  shows "tx_pre (same_except T) P (next_number t ty fy pre o' pad)"
  unfolding next_number_def sequence_row_def increment_sequence_def
  by (intro tx_rules) (simp_all add: assms)

lemma footprint_bind_next_number [tx_rules]:
  "T_document_sequences \<in> T \<Longrightarrow> (\<And>x. tx_within (same_except T) (f x))
    \<Longrightarrow> tx_pre (same_except T) P (bind_tx (next_number t ty fy pre o' pad) f)"
  by (rule tx_pre_bind [OF footprint_next_number])

lemma same_except_md [simp]: "T_master_data \<in> T \<Longrightarrow> same_except T d (md_update_table e f d)"
  by (simp add: md_update_table_def)

lemma same_except_delete_role [simp]:
  "{T_roles, T_role_permissions, T_user_roles, T_scope_assignments} \<subseteq> T \<Longrightarrow> same_except T d (delete_role_rows r d)"
  by (simp add: delete_role_rows_def same_except_def unchanged_def)

section \<open>The footprint of each operation\<close>

lemma issue_token_pair_footprint [tx_rules]:
  "T_refresh_sessions \<in> T \<Longrightarrow> tx_pre (same_except T) P (issue_token_pair u rq)"
  unfolding token_defs by (intro tx_rules) simp_all

lemma issue_token_pair_bind_footprint [tx_rules]:
  "T_refresh_sessions \<in> T \<Longrightarrow> (\<And>x. tx_within (same_except T) (f x))
    \<Longrightarrow> tx_pre (same_except T) P (bind_tx (issue_token_pair u rq) f)"
  by (rule tx_pre_bind [OF issue_token_pair_footprint])

lemma login_footprint: "tx_within (same_except {T_users, T_refresh_sessions}) (login m pw rq)"
  unfolding login_def get_by_email_def
  by (intro tx_rules; (intro tx_rules | simp split: bool.split option.split | safe)+)

lemma refresh_footprint: "tx_within (same_except {T_refresh_sessions}) (refresh tok rq)"
  unfolding refresh_def get_by_jti_def get_user_by_id_def by (intro tx_rules) simp_all

lemma logout_footprint: "tx_within (same_except {T_refresh_sessions}) (logout tok i)"
  unfolding logout_def get_by_jti_def by (intro tx_rules) simp_all

lemma request_password_reset_footprint:
  "tx_within (same_except {T_password_reset_tokens}) (request_password_reset m)"
  unfolding request_password_reset_def get_by_email_def by (intro tx_rules) simp_all

lemma reset_password_footprint:
  "tx_within (same_except {T_users, T_password_reset_tokens}) (reset_password tok pw)"
  unfolding reset_password_def get_user_by_id_def by (intro tx_rules) simp_all

lemma user_footprint:
  "tx_within (same_except {T_users}) (create_user cx p rq)"
  "tx_within (same_except {T_users}) (update_user cx i q rq)"
  "tx_within (same_except {T_users}) (deactivate_user cx i rq)"
  "tx_within (same_except {T_user_roles}) (assign_role cx i r o' rq)"
  unfolding user_defs by (intro tx_rules; simp)+

lemma role_footprint:
  "tx_within (same_except {T_roles, T_role_permissions}) (create_role cx p rq)"
  "tx_within (same_except {T_roles}) (update_role cx i q rq)"
  "tx_within (same_except {T_role_permissions}) (update_role_permissions cx i cs rq)"
  "tx_within (same_except {T_roles, T_role_permissions, T_user_roles, T_scope_assignments}) (delete_role cx i rq)"
  unfolding role_defs by (intro tx_rules; simp)+

lemma tenant_footprint:
  "tx_within (same_except {T_tenants, T_users, T_user_roles}) (create_tenant cx p rq)"
  "tx_within (same_except {T_tenants}) (update_tenant cx i q rq)"
  "tx_within (same_except {T_tenants}) (suspend_tenant cx i rq)"
  unfolding tenant_defs by (intro tx_rules; simp)+

lemma upsert_footprint: "tx_within (same_except {T_settings}) (upsert t k v o' m u)"
  unfolding upsert_def find_setting_def by (intro tx_rules) simp_all

lemma ticket_footprint:
  "tx_within (same_except {T_weighbridge_tickets, T_document_sequences}) (create_ticket cx p rq)"
  "tx_within (same_except {T_weighbridge_tickets}) (complete_ticket cx i x rq)"
  "tx_within (same_except {T_weighbridge_tickets}) (cancel_ticket cx i rq)"
  unfolding weighbridge_defs by (intro tx_rules; simp)+

lemma entry_footprint:
  "tx_within (same_except {T_production_entries, T_document_sequences}) (create_entry cx p rq)"
  "tx_within (same_except {T_production_entries}) (submit_entry cx i rq)"
  "tx_within (same_except {T_production_entries}) (cancel_entry cx i rq)"
  unfolding production_defs by (intro tx_rules; simp)+

lemma md_footprint:
  "tx_within (same_except {T_master_data}) (md_create_item e cx p rq)"
  "tx_within (same_except {T_master_data}) (md_update_item e cx i data rq)"
  "tx_within (same_except {T_master_data}) (md_deactivate e cx i rq)"
  unfolding md_defs by (intro tx_rules; simp)+

lemma attachment_footprint:
  "tx_within (same_except {T_attachments}) (upload_session base cx a rq)"
  "tx_within (same_except {T_attachments}) (delete_session base cx i rq)"
  unfolding attachment_defs by (intro tx_rules resolve_tx_rules; simp)+

lemma notification_footprint:
  "tx_within (same_except {T_notifications}) (send a)"
  "tx_within (same_except {T_notifications}) (mark_read u i)"
  unfolding notification_defs by (intro tx_rules; simp)+

end
