(* ===== verification/Routes.thy ===== *)
theory Routes
  imports Schemas Footprint
begin

text \<open>
  The routes of \<^verbatim>\<open>app/api/v1\<close>: which dependency guards each (\<open>access\<close>), and what its handler
  does with the caller's security context. \<open>serve\<close> runs the guard, the schema check and the
  handler in the order FastAPI does. Uploading and deleting files, which also change the file
  store, are in their own section.
\<close>

section \<open>Requests\<close>

text \<open>The routes of \<^verbatim>\<open>auth.py\<close> that need no token.\<close>

datatype public_request =
    Login string string
  | Refresh string
  | Logout string
  | Forgot_password string
  | Reset_password string string

text \<open>The other routes, by router; \<open>admin\<close> gathers those of \<^verbatim>\<open>audit.py\<close>, \<^verbatim>\<open>settings.py\<close>,
  \<^verbatim>\<open>attachments.py\<close> and \<^verbatim>\<open>dashboard.py\<close>, \<open>own\<close> those that any authenticated user may call.\<close>

datatype users_request =
    List_users nat nat "string option"
  | Create_user user_create
  | Get_user uuid
  | Update_user uuid user_update
  | Deactivate_user uuid
  | Assign_role uuid uuid "uuid option"

datatype tenants_request =
    List_tenants nat nat
  | Create_tenant tenant_create
  | Get_tenant uuid
  | Update_tenant uuid tenant_update
  | Suspend_tenant uuid

datatype roles_request =
    List_roles
  | Create_role role_create
  | Get_role uuid
  | Update_role uuid role_update
  | Update_role_permissions uuid "string list"
  | Delete_role uuid
  | List_permissions

datatype admin_request =
    List_audit_events nat nat audit_filter
  | Get_setting string "uuid option" "string option"
  | Upsert_setting string pyval "uuid option" "string option"
  | List_attachments string string
  | Download_attachment uuid
  | Platform_dashboard
  | Tenant_dashboard

datatype own_request =
    Me
  | List_my_notifications nat nat bool
  | Mark_notification_read uuid
  | List_units
  | List_organization_units

datatype tickets_request =
    List_tickets nat nat "WeighbridgeTicketStatus option"
  | Create_ticket ticket_create
  | Get_ticket uuid
  | Complete_ticket uuid rat
  | Cancel_ticket uuid

datatype entries_request =
    List_entries nat nat "ProductionEntryStatus option"
  | Create_entry entry_create
  | Get_entry uuid
  | Submit_entry uuid
  | Cancel_entry uuid

datatype items_request =
    List_items md_entity nat nat "string option"
  | Create_item md_entity md_create
  | Get_item md_entity uuid
  | Update_item md_entity uuid json_dict
  | Deactivate_item md_entity uuid

datatype private_request =
    On_users users_request
  | On_tenants tenants_request
  | On_roles roles_request
  | On_admin admin_request
  | On_own own_request
  | On_tickets tickets_request
  | On_entries entries_request
  | On_items items_request

text \<open>A status code and a body.\<close>

type_synonym response = "nat \<times> content"

abbreviation ok_tx :: "content \<Rightarrow> response tx" where
  "ok_tx c \<equiv> return_tx (200, c)"

abbreviation created_tx :: "content \<Rightarrow> response tx" where
  "created_tx c \<equiv> return_tx (201, c)"

text \<open>What FastAPI checks of the query and the body once the dependencies have run.\<close>

definition checked :: "bool \<Rightarrow> 'a tx \<Rightarrow> 'a tx" where
  "checked valid m = bind_tx (require_tx valid RequestValidationError) (\<lambda>_. m)"

definition valid_page :: "nat \<Rightarrow> nat \<Rightarrow> bool" where
  "valid_page page page_size \<longleftrightarrow> 1 \<le> page \<and> 1 \<le> page_size \<and> page_size \<le> 200"

definition paged :: "nat \<Rightarrow> nat \<Rightarrow> ('a \<Rightarrow> json_dict) \<Rightarrow> ('a list \<times> nat) tx \<Rightarrow> response tx" where
  "paged page page_size render m = checked (valid_page page page_size)
     (bind_tx m (\<lambda>q. ok_tx (Paged (map render (fst q)) (page_meta_of page page_size (snd q)))))"

section \<open>\<^verbatim>\<open>auth.py\<close>\<close>

text \<open>\<^verbatim>\<open>EmailStr\<close> normalizes the address, or rejects the request.\<close>

definition with_email :: "string \<Rightarrow> (string \<Rightarrow> 'a tx) \<Rightarrow> 'a tx" where
  "with_email m f = bind_tx (env_tx (\<lambda>e. normalized_email e m)) (\<lambda>n.
     bind_tx (some_tx n RequestValidationError) f)"

definition api_login :: "string \<Rightarrow> string \<Rightarrow> web_request \<Rightarrow> response tx" where
  "api_login m pw rq = with_email m (\<lambda>m'. checked (1 \<le> length pw)
     (bind_tx (login m' pw (Some rq)) (\<lambda>q. ok_tx (Item (token_pair_response (snd q))))))"

definition api_refresh :: "string \<Rightarrow> web_request \<Rightarrow> response tx" where
  "api_refresh tok rq = bind_tx (refresh tok (Some rq)) (\<lambda>p. ok_tx (Item (token_pair_response p)))"

definition api_logout :: "string \<Rightarrow> response tx" where
  "api_logout tok = bind_tx (logout tok None) (\<lambda>_. ok_tx (Message ''Logged out.''))"

definition api_forgot_password :: "string \<Rightarrow> response tx" where
  "api_forgot_password m = with_email m (\<lambda>m'. bind_tx (request_password_reset m') (\<lambda>_.
     ok_tx (Message ''If an account exists for this email, a reset link has been sent.'')))"

definition api_reset_password :: "string \<Rightarrow> string \<Rightarrow> response tx" where
  "api_reset_password tok pw = checked (bounded 8 128 pw)
     (bind_tx (reset_password tok pw) (\<lambda>_. ok_tx (Message ''Password has been reset.'')))"

definition api_me :: "security_context \<Rightarrow> response tx" where
  "api_me cx = ok_tx (Item (current_user_response cx))"

primrec serve_public :: "public_request \<Rightarrow> web_request \<Rightarrow> response tx" where
  "serve_public (Login m pw) rq = api_login m pw rq"
| "serve_public (Refresh tok) rq = api_refresh tok rq"
| "serve_public (Logout tok) rq = api_logout tok"
| "serve_public (Forgot_password m) rq = api_forgot_password m"
| "serve_public (Reset_password tok pw) rq = api_reset_password tok pw"

section \<open>\<^verbatim>\<open>users.py\<close>\<close>

definition api_list_users :: "security_context \<Rightarrow> nat \<Rightarrow> nat \<Rightarrow> string option \<Rightarrow> response tx" where
  "api_list_users cx page page_size search =
     paged page page_size user_response (list_users cx page page_size search)"

definition api_create_user :: "security_context \<Rightarrow> user_create \<Rightarrow> web_request \<Rightarrow> response tx" where
  "api_create_user cx p rq = with_email (nu_email p) (\<lambda>m. checked (valid_user_create (\<lambda>_. True) p)
     (bind_tx (create_user cx (p\<lparr>nu_email := m\<rparr>) (Some rq)) (\<lambda>u. created_tx (Item (user_response u)))))"

definition api_get_user :: "security_context \<Rightarrow> uuid \<Rightarrow> response tx" where
  "api_get_user cx i = bind_tx (get_user cx i) (\<lambda>u. ok_tx (Item (user_response u)))"

definition api_update_user :: "security_context \<Rightarrow> uuid \<Rightarrow> user_update \<Rightarrow> web_request \<Rightarrow> response tx" where
  "api_update_user cx i p rq = checked (valid_user_update p)
     (bind_tx (update_user cx i p (Some rq)) (\<lambda>u. ok_tx (Item (user_response u))))"

definition api_deactivate_user :: "security_context \<Rightarrow> uuid \<Rightarrow> web_request \<Rightarrow> response tx" where
  "api_deactivate_user cx i rq =
     bind_tx (deactivate_user cx i (Some rq)) (\<lambda>_. ok_tx (Message ''User deactivated.''))"

definition api_assign_role ::
  "security_context \<Rightarrow> uuid \<Rightarrow> uuid \<Rightarrow> uuid option \<Rightarrow> web_request \<Rightarrow> response tx" where
  "api_assign_role cx i k o' rq = bind_tx (assign_role cx i k o' (Some rq))
     (\<lambda>q. created_tx (Item (user_role_response (fst q) (snd q))))"

section \<open>\<^verbatim>\<open>tenants.py\<close>\<close>

definition api_list_tenants :: "nat \<Rightarrow> nat \<Rightarrow> response tx" where
  "api_list_tenants page page_size =
     paged page page_size tenant_response (list_tenants page page_size)"

definition api_create_tenant :: "security_context \<Rightarrow> tenant_create \<Rightarrow> web_request \<Rightarrow> response tx" where
  "api_create_tenant cx p rq = checked (valid_tenant_create p)
     (bind_tx (create_tenant cx p (Some rq)) (\<lambda>x. created_tx (Item (tenant_response x))))"

definition api_get_tenant :: "uuid \<Rightarrow> response tx" where
  "api_get_tenant i = bind_tx (get_tenant i) (\<lambda>x. ok_tx (Item (tenant_response x)))"

definition api_update_tenant ::
  "security_context \<Rightarrow> uuid \<Rightarrow> tenant_update \<Rightarrow> web_request \<Rightarrow> response tx" where
  "api_update_tenant cx i p rq = checked (valid_tenant_update p)
     (bind_tx (update_tenant cx i p (Some rq)) (\<lambda>x. ok_tx (Item (tenant_response x))))"

definition api_suspend_tenant :: "security_context \<Rightarrow> uuid \<Rightarrow> web_request \<Rightarrow> response tx" where
  "api_suspend_tenant cx i rq =
     bind_tx (suspend_tenant cx i (Some rq)) (\<lambda>x. ok_tx (Item (tenant_response x)))"

section \<open>\<^verbatim>\<open>roles.py\<close> and \<^verbatim>\<open>permissions.py\<close>\<close>

text \<open>The permission codes of a role whose \<^verbatim>\<open>role_permissions\<close> have just been loaded.\<close>

definition role_item :: "role \<Rightarrow> db \<Rightarrow> json_dict" where
  "role_item r d = role_response (role_permission_codes d (row_id r)) r"

definition api_list_roles :: "security_context \<Rightarrow> response tx" where
  "api_list_roles cx = bind_tx (list_roles cx) (\<lambda>rs.
     bind_tx (query_tx (\<lambda>d. map (\<lambda>r. role_item r d) rs)) (\<lambda>items. ok_tx (Items items)))"

definition api_create_role :: "security_context \<Rightarrow> role_create \<Rightarrow> web_request \<Rightarrow> response tx" where
  "api_create_role cx p rq = checked (valid_role_create p)
     (bind_tx (create_role cx p (Some rq)) (\<lambda>r.
      bind_tx (query_tx (role_item r)) (\<lambda>item. created_tx (Item item))))"

definition api_get_role :: "security_context \<Rightarrow> uuid \<Rightarrow> response tx" where
  "api_get_role cx i = bind_tx (get_role cx i) (\<lambda>r.
     bind_tx (query_tx (role_item r)) (\<lambda>item. ok_tx (Item item)))"

definition api_update_role :: "security_context \<Rightarrow> uuid \<Rightarrow> role_update \<Rightarrow> web_request \<Rightarrow> response tx" where
  "api_update_role cx i p rq = checked (valid_role_update p)
     (bind_tx (update_role cx i p (Some rq)) (\<lambda>r.
      bind_tx (query_tx (role_item r)) (\<lambda>item. ok_tx (Item item))))"

text \<open>
  \<^verbatim>\<open>update_role_permissions\<close> loads the role with its \<^verbatim>\<open>role_permissions\<close> before it replaces
  them. The second \<^verbatim>\<open>get_role\<close> finds the same object in the session, and \<^verbatim>\<open>selectinload\<close>
  leaves a collection alone that is loaded already: the response shows the codes from before.
\<close>

definition api_update_role_permissions ::
  "security_context \<Rightarrow> uuid \<Rightarrow> string list \<Rightarrow> web_request \<Rightarrow> response tx" where
  "api_update_role_permissions cx i cs rq =
     bind_tx (query_tx (\<lambda>d. role_permission_codes d i)) (\<lambda>loaded.
     bind_tx (update_role_permissions cx i cs (Some rq)) (\<lambda>r.
     ok_tx (Item (role_response loaded r))))"

definition api_delete_role :: "security_context \<Rightarrow> uuid \<Rightarrow> web_request \<Rightarrow> response tx" where
  "api_delete_role cx i rq = bind_tx (delete_role cx i (Some rq)) (\<lambda>_. ok_tx (Message ''Role deleted.''))"

definition list_permissions :: "permission list tx" where
  "list_permissions = bind_tx (env_tx id) (\<lambda>v. query_tx (list_all_permissions v))"

definition api_list_permissions :: "response tx" where
  "api_list_permissions =
     bind_tx list_permissions (\<lambda>ps. ok_tx (Items (map permission_response ps)))"

section \<open>\<^verbatim>\<open>audit.py\<close> and \<^verbatim>\<open>settings.py\<close>\<close>

text \<open>The tenant of the filter is always the caller's.\<close>

definition api_list_audit_events ::
  "security_context \<Rightarrow> nat \<Rightarrow> nat \<Rightarrow> audit_filter \<Rightarrow> response tx" where
  "api_list_audit_events cx page page_size f =
     paged page page_size audit_event_response
       (query_tx (list_events (f\<lparr>af_tenant_id := cx_tenant_id cx\<rparr>) ((page - 1) * page_size) page_size))"

definition api_get_setting ::
  "security_context \<Rightarrow> string \<Rightarrow> uuid option \<Rightarrow> string option \<Rightarrow> response tx" where
  "api_get_setting cx k o' m = bind_tx (query_tx (resolve (cx_tenant_id cx) k o' m VNone)) (\<lambda>v.
     ok_tx (Item [(''key'', VStr k), (''value'', v)]))"

definition api_upsert_setting ::
  "security_context \<Rightarrow> string \<Rightarrow> pyval \<Rightarrow> uuid option \<Rightarrow> string option \<Rightarrow> response tx" where
  "api_upsert_setting cx k v o' m =
     bind_tx (upsert (cx_tenant_id cx) k v o' m (row_id (cx_user cx))) (\<lambda>x. ok_tx (Item (setting_response x)))"

section \<open>\<^verbatim>\<open>notifications.py\<close>, \<^verbatim>\<open>units.py\<close>, \<^verbatim>\<open>organization_units.py\<close> and \<^verbatim>\<open>dashboard.py\<close>\<close>

definition api_list_my_notifications :: "security_context \<Rightarrow> nat \<Rightarrow> nat \<Rightarrow> bool \<Rightarrow> response tx" where
  "api_list_my_notifications cx page page_size unread_only = paged page page_size notification_response
     (list_notifications (row_id (cx_user cx)) page page_size unread_only)"

definition api_mark_notification_read :: "security_context \<Rightarrow> uuid \<Rightarrow> response tx" where
  "api_mark_notification_read cx i =
     bind_tx (mark_read (row_id (cx_user cx)) i) (\<lambda>n. ok_tx (Item (notification_response n)))"

definition list_all_units :: "env \<Rightarrow> db \<Rightarrow> measure_unit list" where
  "list_all_units v d = sort_key (\<lambda>u. collation v (mu_name u)) (measure_units d)"

definition api_list_units :: "response tx" where
  "api_list_units = bind_tx (env_tx id) (\<lambda>v. bind_tx (query_tx (list_all_units v)) (\<lambda>us.
     ok_tx (Items (map unit_response us))))"

definition api_list_organization_units :: "security_context \<Rightarrow> response tx" where
  "api_list_organization_units cx =
     bind_tx (some_tx (cx_tenant_id cx)
       (ForbiddenError ''Platform users must access organization data through a tenant.'')) (\<lambda>t.
     bind_tx (env_tx id) (\<lambda>v.
     bind_tx (query_tx (list_for_tenant v t)) (\<lambda>us. ok_tx (Items (map organization_unit_response us)))))"

text \<open>\<^verbatim>\<open>select(func.count())\<close> with its conditions.\<close>

definition count :: "('a \<Rightarrow> bool) \<Rightarrow> 'a list \<Rightarrow> pyval" where
  "count conditions rs = VInt (int (length (filter conditions rs)))"

definition platform_dashboard :: "db \<Rightarrow> json_dict" where
  "platform_dashboard d =
     [(''total_tenants'', count (\<lambda>_. True) (tenants d)),
      (''active_tenants'', count (\<lambda>x. tn_status x = TenantStatus_ACTIVE) (tenants d)),
      (''total_users'', count (\<lambda>_. True) (users d)), (''system_status'', VStr ''ok'')]"

definition api_platform_dashboard :: "security_context \<Rightarrow> response tx" where
  "api_platform_dashboard cx =
     bind_tx (require_tx (cx_is_platform_user cx)
       (ForbiddenError ''The platform dashboard is only available to platform-level users.'')) (\<lambda>_.
     bind_tx (query_tx platform_dashboard) (\<lambda>x. ok_tx (Item x)))"

definition tenant_dashboard :: "uuid \<Rightarrow> db \<Rightarrow> json_dict" where
  "tenant_dashboard t d =
     [(''total_plants'', count (\<lambda>u. tenant_id u = t \<and> ou_unit_type u = OrganizationUnitType_PLANT) (organization_units d)),
      (''total_users'', count (\<lambda>u. u_tenant_id u = Some t) (users d)),
      (''active_users'', count (\<lambda>u. u_tenant_id u = Some t \<and> u_status u = UserStatus_ACTIVE) (users d))]"

definition api_tenant_dashboard :: "security_context \<Rightarrow> response tx" where
  "api_tenant_dashboard cx =
     bind_tx (some_tx (cx_tenant_id cx)
       (ForbiddenError ''The tenant dashboard requires a tenant context.'')) (\<lambda>t.
     bind_tx (query_tx (tenant_dashboard t)) (\<lambda>x. ok_tx (Item x)))"

section \<open>\<^verbatim>\<open>attachments.py\<close>: reading\<close>

definition api_list_attachments :: "security_context \<Rightarrow> string \<Rightarrow> string \<Rightarrow> response tx" where
  "api_list_attachments cx ety eid =
     bind_tx (list_for_entity cx ety eid) (\<lambda>xs. ok_tx (Items (map attachment_response xs)))"

definition api_download_attachment :: "security_context \<Rightarrow> uuid \<Rightarrow> response tx" where
  "api_download_attachment cx i = bind_tx (get_download_url cx i) (\<lambda>q.
     ok_tx (Item (attachment_download_response (fst q) (snd q))))"

section \<open>\<^verbatim>\<open>weighbridge.py\<close>\<close>

definition api_list_tickets ::
  "security_context \<Rightarrow> nat \<Rightarrow> nat \<Rightarrow> WeighbridgeTicketStatus option \<Rightarrow> response tx" where
  "api_list_tickets cx page page_size st =
     paged page page_size ticket_response (list_tickets cx page page_size st)"

definition api_create_ticket :: "security_context \<Rightarrow> ticket_create \<Rightarrow> web_request \<Rightarrow> response tx" where
  "api_create_ticket cx p rq = checked (valid_ticket_create p)
     (bind_tx (create_ticket cx p (Some rq)) (\<lambda>w. created_tx (Item (ticket_response w))))"

definition api_get_ticket :: "security_context \<Rightarrow> uuid \<Rightarrow> response tx" where
  "api_get_ticket cx i = bind_tx (get_ticket cx i) (\<lambda>w. ok_tx (Item (ticket_response w)))"

definition api_complete_ticket :: "security_context \<Rightarrow> uuid \<Rightarrow> rat \<Rightarrow> web_request \<Rightarrow> response tx" where
  "api_complete_ticket cx i x rq = checked (valid_ticket_complete x)
     (bind_tx (complete_ticket cx i x (Some rq)) (\<lambda>w. ok_tx (Item (ticket_response w))))"

definition api_cancel_ticket :: "security_context \<Rightarrow> uuid \<Rightarrow> web_request \<Rightarrow> response tx" where
  "api_cancel_ticket cx i rq =
     bind_tx (cancel_ticket cx i (Some rq)) (\<lambda>w. ok_tx (Item (ticket_response w)))"

section \<open>\<^verbatim>\<open>production.py\<close>\<close>

definition api_list_entries ::
  "security_context \<Rightarrow> nat \<Rightarrow> nat \<Rightarrow> ProductionEntryStatus option \<Rightarrow> response tx" where
  "api_list_entries cx page page_size st =
     paged page page_size entry_response (list_entries cx page page_size st)"

definition api_create_entry :: "security_context \<Rightarrow> entry_create \<Rightarrow> web_request \<Rightarrow> response tx" where
  "api_create_entry cx p rq = checked (valid_entry_create p)
     (bind_tx (create_entry cx p (Some rq)) (\<lambda>x. created_tx (Item (entry_response x))))"

definition api_get_entry :: "security_context \<Rightarrow> uuid \<Rightarrow> response tx" where
  "api_get_entry cx i = bind_tx (get_entry cx i) (\<lambda>x. ok_tx (Item (entry_response x)))"

definition api_submit_entry :: "security_context \<Rightarrow> uuid \<Rightarrow> web_request \<Rightarrow> response tx" where
  "api_submit_entry cx i rq =
     bind_tx (submit_entry cx i (Some rq)) (\<lambda>x. ok_tx (Item (entry_response x)))"

definition api_cancel_entry :: "security_context \<Rightarrow> uuid \<Rightarrow> web_request \<Rightarrow> response tx" where
  "api_cancel_entry cx i rq =
     bind_tx (cancel_entry cx i (Some rq)) (\<lambda>x. ok_tx (Item (entry_response x)))"

section \<open>\<^verbatim>\<open>master_data_router.py\<close>, instantiated for the ten classes\<close>

definition api_list_items ::
  "md_entity \<Rightarrow> security_context \<Rightarrow> nat \<Rightarrow> nat \<Rightarrow> string option \<Rightarrow> response tx" where
  "api_list_items e cx page page_size search =
     paged page page_size (md_response e) (md_list e cx page page_size search)"

definition api_create_item :: "md_entity \<Rightarrow> security_context \<Rightarrow> md_create \<Rightarrow> web_request \<Rightarrow> response tx" where
  "api_create_item e cx p rq = checked (valid_md_create e p)
     (bind_tx (md_create_item e cx p (Some rq)) (\<lambda>r. created_tx (Item (md_response e r))))"

definition api_get_item :: "md_entity \<Rightarrow> security_context \<Rightarrow> uuid \<Rightarrow> response tx" where
  "api_get_item e cx i = bind_tx (md_get e cx i) (\<lambda>r. ok_tx (Item (md_response e r)))"

definition api_update_item ::
  "md_entity \<Rightarrow> security_context \<Rightarrow> uuid \<Rightarrow> json_dict \<Rightarrow> web_request \<Rightarrow> response tx" where
  "api_update_item e cx i data rq = checked (valid_md_update e data)
     (bind_tx (md_update_item e cx i data (Some rq)) (\<lambda>r. ok_tx (Item (md_response e r))))"

definition api_deactivate_item :: "md_entity \<Rightarrow> security_context \<Rightarrow> uuid \<Rightarrow> web_request \<Rightarrow> response tx" where
  "api_deactivate_item e cx i rq =
     bind_tx (md_deactivate e cx i (Some rq)) (\<lambda>r. ok_tx (Item (md_response e r)))"

section \<open>Guards\<close>

datatype access = Authenticated | Permission string

primrec users_access :: "users_request \<Rightarrow> access" where
  "users_access (List_users x1 x2 x3) = Permission ''users.view''"
| "users_access (Create_user x1) = Permission ''users.create''"
| "users_access (Get_user x1) = Permission ''users.view''"
| "users_access (Update_user x1 x2) = Permission ''users.update''"
| "users_access (Deactivate_user x1) = Permission ''users.delete''"
| "users_access (Assign_role x1 x2 x3) = Permission ''users.update''"

primrec tenants_access :: "tenants_request \<Rightarrow> access" where
  "tenants_access (List_tenants x1 x2) = Permission ''tenants.view''"
| "tenants_access (Create_tenant x1) = Permission ''tenants.create''"
| "tenants_access (Get_tenant x1) = Permission ''tenants.view''"
| "tenants_access (Update_tenant x1 x2) = Permission ''tenants.update''"
| "tenants_access (Suspend_tenant x1) = Permission ''tenants.update''"

primrec roles_access :: "roles_request \<Rightarrow> access" where
  "roles_access List_roles = Permission ''roles.view''"
| "roles_access (Create_role x1) = Permission ''roles.create''"
| "roles_access (Get_role x1) = Permission ''roles.view''"
| "roles_access (Update_role x1 x2) = Permission ''roles.update''"
| "roles_access (Update_role_permissions x1 x2) = Permission ''roles.update''"
| "roles_access (Delete_role x1) = Permission ''roles.delete''"
| "roles_access List_permissions = Permission ''permissions.view''"

primrec admin_access :: "admin_request \<Rightarrow> access" where
  "admin_access (List_audit_events x1 x2 x3) = Permission ''audit.view''"
| "admin_access (Get_setting x1 x2 x3) = Permission ''settings.view''"
| "admin_access (Upsert_setting x1 x2 x3 x4) = Permission ''settings.update''"
| "admin_access (List_attachments x1 x2) = Permission ''documents.view''"
| "admin_access (Download_attachment x1) = Permission ''documents.view''"
| "admin_access Platform_dashboard = Permission ''dashboard.view''"
| "admin_access Tenant_dashboard = Permission ''dashboard.view''"

primrec own_access :: "own_request \<Rightarrow> access" where
  "own_access Me = Authenticated"
| "own_access (List_my_notifications x1 x2 x3) = Authenticated"
| "own_access (Mark_notification_read x1) = Authenticated"
| "own_access List_units = Authenticated"
| "own_access List_organization_units = Authenticated"

primrec tickets_access :: "tickets_request \<Rightarrow> access" where
  "tickets_access (List_tickets x1 x2 x3) = Permission ''weighbridge.view''"
| "tickets_access (Create_ticket x1) = Permission ''weighbridge.create''"
| "tickets_access (Get_ticket x1) = Permission ''weighbridge.view''"
| "tickets_access (Complete_ticket x1 x2) = Permission ''weighbridge.update''"
| "tickets_access (Cancel_ticket x1) = Permission ''weighbridge.update''"

primrec entries_access :: "entries_request \<Rightarrow> access" where
  "entries_access (List_entries x1 x2 x3) = Permission ''production.view''"
| "entries_access (Create_entry x1) = Permission ''production.create''"
| "entries_access (Get_entry x1) = Permission ''production.view''"
| "entries_access (Submit_entry x1) = Permission ''production.update''"
| "entries_access (Cancel_entry x1) = Permission ''production.update''"

primrec items_access :: "items_request \<Rightarrow> access" where
  "items_access (List_items e x1 x2 x3) = Permission (permission_prefix e @ ''.view'')"
| "items_access (Create_item e x1) = Permission (permission_prefix e @ ''.create'')"
| "items_access (Get_item e x1) = Permission (permission_prefix e @ ''.view'')"
| "items_access (Update_item e x1 x2) = Permission (permission_prefix e @ ''.update'')"
| "items_access (Deactivate_item e x1) = Permission (permission_prefix e @ ''.update'')"

primrec route_access :: "private_request \<Rightarrow> access" where
  "route_access (On_users r) = users_access r"
| "route_access (On_tenants r) = tenants_access r"
| "route_access (On_roles r) = roles_access r"
| "route_access (On_admin r) = admin_access r"
| "route_access (On_own r) = own_access r"
| "route_access (On_tickets r) = tickets_access r"
| "route_access (On_entries r) = entries_access r"
| "route_access (On_items r) = items_access r"

text \<open>The dependency that a route declares, and what the handler does with its result.\<close>

definition guard :: "access \<Rightarrow> string option \<Rightarrow> security_context tx" where
  "guard a cred = (case a of Authenticated \<Rightarrow> require_authenticated_user cred
     | Permission p \<Rightarrow> require_permission p cred)"

primrec users_handle :: "users_request \<Rightarrow> security_context \<Rightarrow> web_request \<Rightarrow> response tx" where
  "users_handle (List_users n k q) cx rq = api_list_users cx n k q"
| "users_handle (Create_user p) cx rq = api_create_user cx p rq"
| "users_handle (Get_user i) cx rq = api_get_user cx i"
| "users_handle (Update_user i p) cx rq = api_update_user cx i p rq"
| "users_handle (Deactivate_user i) cx rq = api_deactivate_user cx i rq"
| "users_handle (Assign_role i k o') cx rq = api_assign_role cx i k o' rq"

primrec tenants_handle :: "tenants_request \<Rightarrow> security_context \<Rightarrow> web_request \<Rightarrow> response tx" where
  "tenants_handle (List_tenants n k) cx rq = api_list_tenants n k"
| "tenants_handle (Create_tenant p) cx rq = api_create_tenant cx p rq"
| "tenants_handle (Get_tenant i) cx rq = api_get_tenant i"
| "tenants_handle (Update_tenant i p) cx rq = api_update_tenant cx i p rq"
| "tenants_handle (Suspend_tenant i) cx rq = api_suspend_tenant cx i rq"

primrec roles_handle :: "roles_request \<Rightarrow> security_context \<Rightarrow> web_request \<Rightarrow> response tx" where
  "roles_handle List_roles cx rq = api_list_roles cx"
| "roles_handle (Create_role p) cx rq = api_create_role cx p rq"
| "roles_handle (Get_role i) cx rq = api_get_role cx i"
| "roles_handle (Update_role i p) cx rq = api_update_role cx i p rq"
| "roles_handle (Update_role_permissions i cs) cx rq = api_update_role_permissions cx i cs rq"
| "roles_handle (Delete_role i) cx rq = api_delete_role cx i rq"
| "roles_handle List_permissions cx rq = api_list_permissions"

primrec admin_handle :: "admin_request \<Rightarrow> security_context \<Rightarrow> web_request \<Rightarrow> response tx" where
  "admin_handle (List_audit_events n k f) cx rq = api_list_audit_events cx n k f"
| "admin_handle (Get_setting key o' m) cx rq = api_get_setting cx key o' m"
| "admin_handle (Upsert_setting key v o' m) cx rq = api_upsert_setting cx key v o' m"
| "admin_handle (List_attachments ety eid) cx rq = api_list_attachments cx ety eid"
| "admin_handle (Download_attachment i) cx rq = api_download_attachment cx i"
| "admin_handle Platform_dashboard cx rq = api_platform_dashboard cx"
| "admin_handle Tenant_dashboard cx rq = api_tenant_dashboard cx"

primrec own_handle :: "own_request \<Rightarrow> security_context \<Rightarrow> web_request \<Rightarrow> response tx" where
  "own_handle Me cx rq = api_me cx"
| "own_handle (List_my_notifications n k b) cx rq = api_list_my_notifications cx n k b"
| "own_handle (Mark_notification_read i) cx rq = api_mark_notification_read cx i"
| "own_handle List_units cx rq = api_list_units"
| "own_handle List_organization_units cx rq = api_list_organization_units cx"

primrec tickets_handle :: "tickets_request \<Rightarrow> security_context \<Rightarrow> web_request \<Rightarrow> response tx" where
  "tickets_handle (List_tickets n k st) cx rq = api_list_tickets cx n k st"
| "tickets_handle (Create_ticket p) cx rq = api_create_ticket cx p rq"
| "tickets_handle (Get_ticket i) cx rq = api_get_ticket cx i"
| "tickets_handle (Complete_ticket i x) cx rq = api_complete_ticket cx i x rq"
| "tickets_handle (Cancel_ticket i) cx rq = api_cancel_ticket cx i rq"

primrec entries_handle :: "entries_request \<Rightarrow> security_context \<Rightarrow> web_request \<Rightarrow> response tx" where
  "entries_handle (List_entries n k st) cx rq = api_list_entries cx n k st"
| "entries_handle (Create_entry p) cx rq = api_create_entry cx p rq"
| "entries_handle (Get_entry i) cx rq = api_get_entry cx i"
| "entries_handle (Submit_entry i) cx rq = api_submit_entry cx i rq"
| "entries_handle (Cancel_entry i) cx rq = api_cancel_entry cx i rq"

primrec items_handle :: "items_request \<Rightarrow> security_context \<Rightarrow> web_request \<Rightarrow> response tx" where
  "items_handle (List_items e n k q) cx rq = api_list_items e cx n k q"
| "items_handle (Create_item e p) cx rq = api_create_item e cx p rq"
| "items_handle (Get_item e i) cx rq = api_get_item e cx i"
| "items_handle (Update_item e i data) cx rq = api_update_item e cx i data rq"
| "items_handle (Deactivate_item e i) cx rq = api_deactivate_item e cx i rq"

primrec handle :: "private_request \<Rightarrow> security_context \<Rightarrow> web_request \<Rightarrow> response tx" where
  "handle (On_users r) cx rq = users_handle r cx rq"
| "handle (On_tenants r) cx rq = tenants_handle r cx rq"
| "handle (On_roles r) cx rq = roles_handle r cx rq"
| "handle (On_admin r) cx rq = admin_handle r cx rq"
| "handle (On_own r) cx rq = own_handle r cx rq"
| "handle (On_tickets r) cx rq = tickets_handle r cx rq"
| "handle (On_entries r) cx rq = entries_handle r cx rq"
| "handle (On_items r) cx rq = items_handle r cx rq"

text \<open>A request with its bearer token, and the whole of \<^verbatim>\<open>api_router\<close> but for the two file routes.\<close>

datatype api_request = Public public_request | Private private_request

primrec serve :: "api_request \<Rightarrow> string option \<Rightarrow> web_request \<Rightarrow> response tx" where
  "serve (Public r) cred rq = serve_public r rq"
| "serve (Private r) cred rq = bind_tx (guard (route_access r) cred) (\<lambda>cx. handle r cx rq)"

section \<open>The two routes that write files\<close>

definition upload_attachment ::
  "path \<Rightarrow> string option \<Rightarrow> upload_args \<Rightarrow> web_request \<Rightarrow> response file_tx" where
  "upload_attachment base cred a rq =
     then_files (on_session (guard (Permission ''documents.upload'') cred)) (\<lambda>cx.
     then_files (upload base cx a (Some rq)) (\<lambda>x.
     on_session (created_tx (Item (attachment_response x)))))"

definition delete_attachment_route ::
  "path \<Rightarrow> string option \<Rightarrow> uuid \<Rightarrow> web_request \<Rightarrow> response file_tx" where
  "delete_attachment_route base cred i rq =
     then_files (on_session (guard (Permission ''documents.delete'') cred)) (\<lambda>cx.
     then_files (delete_attachment base cx i (Some rq)) (\<lambda>_.
     on_session (ok_tx (Message ''Attachment deleted.''))))"

text \<open>The form's file name and content type, with the defaults of the route.\<close>

definition upload_form :: "string \<Rightarrow> string \<Rightarrow> string option \<Rightarrow> string option \<Rightarrow> string \<Rightarrow> upload_args" where
  "upload_form ety eid file_name content_type content =
     \<lparr>up_entity_type = ety, up_entity_id = eid,
      up_file_name = (if given file_name then the file_name else ''unnamed''),
      up_content_type = (if given content_type then the content_type else ''application/octet-stream''),
      up_content = content\<rparr>"

end
