(* ===== verification/Api.thy ===== *)
theory Api
  imports Routes
begin

text \<open>
  Every request as a step of the whole system, and the interface through which a law of the
  services becomes a law of all histories. A relation between databases that every operation
  of the services respects (locale \<open>api_law\<close>) holds between any two databases of a history of
  requests: the component theories and the footprints discharge the assumptions once for each
  law. \<open>tenant_law\<close> is the part of the interface that speaks of requests on behalf of a given
  caller, for laws that depend on who calls.
\<close>

section \<open>What a request leaves behind\<close>

definition leads :: "(db \<Rightarrow> db \<Rightarrow> bool) \<Rightarrow> 'a tx \<Rightarrow> bool" where
  "leads R m \<longleftrightarrow> (\<forall>s r s'. current s = committed s \<longrightarrow> m s = (r, s') \<longrightarrow> R (committed s) (committed s'))"

lemma leadsD: "leads R m \<Longrightarrow> m s = (r, s') \<Longrightarrow> current s = committed s \<Longrightarrow> R (committed s) (committed s')"
  unfolding leads_def by blast

lemma leadsI:
  assumes "\<And>s r s'. current s = committed s \<Longrightarrow> m s = (r, s') \<Longrightarrow> R (committed s) (committed s')"
  shows "leads R m"
  using assms unfolding leads_def by blast

lemma leads_mono: "leads R m \<Longrightarrow> (\<And>d d'. R d d' \<Longrightarrow> S d d') \<Longrightarrow> leads S m"
  unfolding leads_def by blast

lemma leads_within: "(\<And>d. R d d) \<Longrightarrow> tx_within R m \<Longrightarrow> leads R m"
  by (rule leadsI) (metis tx_preD)

text \<open>An operation that commits nothing when it raises needs a look at its successes only.\<close>

lemma leads_atomic:
  assumes "atomic m" and "\<And>d. R d d" and "\<And>s x s'. m s = (Inr x, s') \<Longrightarrow> R (current s) (committed s')"
  shows "leads R m"
proof (rule leadsI)
  fix s r s' assume s: "current s = committed s" and m: "m s = (r, s')"
  show "R (committed s) (committed s')"
  proof (cases r)
    case (Inl e)
    with assms(1) m have "committed s' = committed s" unfolding atomic_def by blast
    with assms(2) show ?thesis by simp
  next
    case (Inr x)
    with assms(3) m s show ?thesis by metis
  qed
qed

lemma leads_reads: "(\<And>d. R d d) \<Longrightarrow> reads m \<Longrightarrow> leads R m"
  unfolding leads_def reads_def by metis

lemma leads_bind_after:
  assumes "leads R m" and "\<And>x. reads (f x)"
  shows "leads R (bind_tx m f)"
proof (rule leadsI)
  fix s r s'' assume s: "current s = committed s" and b: "bind_tx m f s = (r, s'')"
  obtain q s' where m: "m s = (q, s')" by (cases "m s") auto
  have "committed s'' = committed s'"
    using b m assms(2) by (cases q) (auto simp: bind_tx_def reads_def)
  with leadsD [OF assms(1) m s] show "R (committed s) (committed s'')" by simp
qed

lemma leads_bind_before:
  assumes "\<And>d. R d d" and "reads m" and "\<And>x s s'. m s = (Inr x, s') \<Longrightarrow> leads R (f x)"
  shows "leads R (bind_tx m f)"
proof (rule leadsI)
  fix s r s'' assume s: "current s = committed s" and b: "bind_tx m f s = (r, s'')"
  obtain q s' where m: "m s = (q, s')" by (cases "m s") auto
  with assms(2) s have s': "committed s' = committed s" "current s' = committed s'"
    unfolding reads_def by metis+
  show "R (committed s) (committed s'')"
  proof (cases q)
    case (Inl e)
    with b m s' assms(1) show ?thesis by (simp add: bind_tx_def)
  next
    case (Inr x)
    with b m have "f x s' = (r, s'')" by (simp add: bind_tx_def)
    from leadsD [OF assms(3) this s'(2)] m Inr s' show ?thesis by simp
  qed
qed

lemma run_leads: "leads R m \<Longrightarrow> run_tx m e d = (x, d') \<Longrightarrow> R d d'"
  by (auto simp: run_tx_def dest: leadsD split: prod.splits)

section \<open>The handlers that only read\<close>

lemma reads_if [reads_only]: "reads m \<Longrightarrow> reads n \<Longrightarrow> reads (if b then m else n)"
  by simp

lemma reads_case_sum [reads_only]:
  "(\<And>y. reads (m y)) \<Longrightarrow> (\<And>y. reads (n y)) \<Longrightarrow> reads (case x of Inl y \<Rightarrow> m y | Inr y \<Rightarrow> n y)"
  by (simp split: sum.split)

lemma reads_checked [reads_only]: "reads m \<Longrightarrow> reads (checked b m)"
  unfolding checked_def by (intro reads_only)

lemma reads_paged [reads_only]: "reads m \<Longrightarrow> reads (paged n k f m)"
  unfolding paged_def by (intro reads_only)

lemma reads_guard [reads_only]: "reads (guard a cred)"
  unfolding guard_def require_permission_def require_authenticated_user_def get_current_user_def
    get_user_by_id_def
  by (cases a) (simp_all, (intro reads_only)+)

lemmas read_defs = list_users_def get_user_def get_user_in_tenant_def list_tenants_def get_tenant_def
  get_tenant_by_id_def list_roles_def get_role_def get_visible_to_tenant_def list_permissions_def
  list_for_entity_def get_download_url_def get_owned_def get_attachment_in_tenant_def
  list_notifications_def list_tickets_def get_ticket_def get_ticket_in_tenant_def list_entries_def
  get_entry_def get_entry_in_tenant_def md_list_def md_get_def md_by_id_in_tenant_def

lemmas read_routes = api_me_def api_list_users_def api_get_user_def api_list_tenants_def api_get_tenant_def
  api_list_roles_def api_get_role_def api_list_permissions_def api_list_audit_events_def api_get_setting_def
  api_list_attachments_def api_download_attachment_def api_list_my_notifications_def api_platform_dashboard_def
  api_tenant_dashboard_def api_list_units_def api_list_organization_units_def api_list_tickets_def
  api_get_ticket_def api_list_entries_def api_get_entry_def api_list_items_def api_get_item_def

lemma reads_services [reads_only]:
  "reads (list_users cx n k q)" "reads (get_user cx i)" "reads (list_tenants n k)" "reads (get_tenant i)"
  "reads (list_roles cx)" "reads (get_role cx i)" "reads list_permissions" "reads (list_for_entity cx ety eid)"
  "reads (get_download_url cx i)" "reads (list_notifications u n k b)" "reads (list_tickets cx n k st)"
  "reads (get_ticket cx i)" "reads (list_entries cx n k st')" "reads (get_entry cx i)"
  "reads (md_list e cx n k q)" "reads (md_get e cx i)"
  unfolding read_defs by (intro reads_only)+

lemma reads_routes [reads_only]:
  "reads (api_me cx)" "reads (api_list_users cx n k q)" "reads (api_get_user cx i)"
  "reads (api_list_tenants n k)" "reads (api_get_tenant i)" "reads (api_list_roles cx)"
  "reads (api_get_role cx i)" "reads api_list_permissions" "reads (api_list_audit_events cx n k f)"
  "reads (api_get_setting cx key o' m)" "reads (api_list_attachments cx ety eid)"
  "reads (api_download_attachment cx i)" "reads (api_list_my_notifications cx n k b)"
  "reads (api_platform_dashboard cx)" "reads (api_tenant_dashboard cx)" "reads api_list_units"
  "reads (api_list_organization_units cx)" "reads (api_list_tickets cx n k st)" "reads (api_get_ticket cx i)"
  "reads (api_list_entries cx n k st')" "reads (api_get_entry cx i)" "reads (api_list_items e cx n k q)"
  "reads (api_get_item e cx i)"
  unfolding read_routes by (intro reads_only)+

section \<open>Laws of the services\<close>

text \<open>
  The requests that are about the caller's tenant: not the administration of tenants, and not
  the notifications of the caller, whose rows belong to the user and not to the tenant.
\<close>

primrec own_within_tenant :: "own_request \<Rightarrow> bool" where
  "own_within_tenant Me = True"
| "own_within_tenant (List_my_notifications n k b) = True"
| "own_within_tenant (Mark_notification_read i) = False"
| "own_within_tenant List_units = True"
| "own_within_tenant List_organization_units = True"

definition within_tenant :: "private_request \<Rightarrow> bool" where
  "within_tenant r \<longleftrightarrow> (case r of On_tenants _ \<Rightarrow> False | On_own q \<Rightarrow> own_within_tenant q | _ \<Rightarrow> True)"

lemma within_tenant_simps [simp]:
  "within_tenant (On_tenants q) = False" "within_tenant (On_own o') = own_within_tenant o'"
  by (simp_all add: within_tenant_def)

locale tenant_law =
  fixes R :: "db \<Rightarrow> db \<Rightarrow> bool" and C :: "security_context \<Rightarrow> bool"
  assumes refl: "R d d"
    and create_user: "C cx \<Longrightarrow> leads R (create_user cx nu rq)"
    and update_user: "C cx \<Longrightarrow> leads R (update_user cx i uu rq)"
    and deactivate_user: "C cx \<Longrightarrow> leads R (deactivate_user cx i rq)"
    and assign_role: "C cx \<Longrightarrow> leads R (assign_role cx i k o' rq)"
    and create_role: "C cx \<Longrightarrow> leads R (create_role cx rc rq)"
    and update_role: "C cx \<Longrightarrow> leads R (update_role cx i ru rq)"
    and update_role_permissions: "C cx \<Longrightarrow> leads R (update_role_permissions cx i cs rq)"
    and delete_role: "C cx \<Longrightarrow> leads R (delete_role cx i rq)"
    and upsert: "C cx \<Longrightarrow> leads R (upsert (cx_tenant_id cx) key v o' md (row_id (cx_user cx)))"
    and create_ticket: "C cx \<Longrightarrow> valid_ticket_create tc \<Longrightarrow> leads R (create_ticket cx tc rq)"
    and complete_ticket: "C cx \<Longrightarrow> leads R (complete_ticket cx i x rq)"
    and cancel_ticket: "C cx \<Longrightarrow> leads R (cancel_ticket cx i rq)"
    and create_entry: "C cx \<Longrightarrow> valid_entry_create ec \<Longrightarrow> leads R (create_entry cx ec rq)"
    and submit_entry: "C cx \<Longrightarrow> leads R (submit_entry cx i rq)"
    and cancel_entry: "C cx \<Longrightarrow> leads R (cancel_entry cx i rq)"
    and md_create_item: "C cx \<Longrightarrow> leads R (md_create_item e cx mc rq)"
    and md_update_item: "C cx \<Longrightarrow> leads R (md_update_item e cx i data rq)"
    and md_deactivate: "C cx \<Longrightarrow> leads R (md_deactivate e cx i rq)"
    and upload_file: "C cx \<Longrightarrow> leads R (upload_session base cx a rq)"
    and delete_file: "C cx \<Longrightarrow> leads R (delete_session base cx i rq)"
begin

lemma reading: "reads m \<Longrightarrow> leads R m"
  by (rule leads_reads [OF refl])

lemma when_valid: "(b \<Longrightarrow> leads R m) \<Longrightarrow> leads R (checked b m)"
  unfolding checked_def
  by (rule leads_bind_before [OF refl]) (auto intro: reads_only simp: tx_simps split: if_splits)

lemma with_address: "(\<And>n. leads R (f n)) \<Longrightarrow> leads R (with_email m f)"
  unfolding with_email_def
  by (intro leads_bind_before [OF refl] reads_only)

lemma then_reading: "leads R m \<Longrightarrow> (\<And>x. reads (f x)) \<Longrightarrow> leads R (bind_tx m f)"
  by (rule leads_bind_after)

lemma after_reading: "reads m \<Longrightarrow> (\<And>x. leads R (f x)) \<Longrightarrow> leads R (bind_tx m f)"
  by (rule leads_bind_before [OF refl])

lemmas services = create_user update_user deactivate_user assign_role create_role update_role
  update_role_permissions delete_role upsert create_ticket complete_ticket cancel_ticket
  create_entry submit_entry cancel_entry md_create_item md_update_item md_deactivate

lemma handled_users: "C cx \<Longrightarrow> leads R (users_handle r cx rq)"
  by (cases r) (simp_all add: reading reads_only api_create_user_def api_update_user_def
    api_deactivate_user_def api_assign_role_def services when_valid with_address then_reading)

lemma handled_roles: "C cx \<Longrightarrow> leads R (roles_handle r cx rq)"
  by (cases r) (simp_all add: reading reads_only api_create_role_def api_update_role_def
    api_update_role_permissions_def api_delete_role_def services when_valid after_reading then_reading)

lemma handled_admin: "C cx \<Longrightarrow> leads R (admin_handle r cx rq)"
  by (cases r) (simp_all add: reading reads_only api_upsert_setting_def services then_reading)

lemma handled_tickets: "C cx \<Longrightarrow> leads R (tickets_handle r cx rq)"
  by (cases r) (simp_all add: reading reads_only api_create_ticket_def api_complete_ticket_def
    api_cancel_ticket_def services when_valid then_reading)

lemma handled_entries: "C cx \<Longrightarrow> leads R (entries_handle r cx rq)"
  by (cases r) (simp_all add: reading reads_only api_create_entry_def api_submit_entry_def
    api_cancel_entry_def services when_valid then_reading)

lemma handled_items: "C cx \<Longrightarrow> leads R (items_handle r cx rq)"
  by (cases r) (simp_all add: reading reads_only api_create_item_def api_update_item_def
    api_deactivate_item_def services when_valid then_reading)

lemmas handled = handled_users handled_roles handled_admin handled_tickets handled_entries
  handled_items

lemma handled_for:
  assumes "C cx" and "within_tenant r"
  shows "leads R (handle r cx rq)"
proof (cases r)
  case (On_own q)
  with assms(2) show ?thesis by (cases q) (simp_all add: reading reads_only)
qed (use assms in \<open>simp_all add: handled\<close>)

text \<open>A request of a caller of whom \<open>C\<close> holds.\<close>

lemma served_for:
  assumes "run_tx (serve (Private r) cred rq) e d = (x, d')" and "within_tenant r"
    and "\<And>cx. fst (guard (route_access r) cred (new_session e d)) = Inr cx \<Longrightarrow> C cx"
  shows "R d d'"
proof (cases "guard (route_access r) cred (new_session e d)")
  case (Pair q s')
  have s': "committed s' = d" "current s' = d"
    using reads_guard [of "route_access r" cred] Pair unfolding reads_def by fastforce+
  show ?thesis
  proof (cases q)
    case (Inl err)
    with Pair assms(1) s' have "d' = d" by (simp add: run_tx_def bind_tx_def)
    with refl show ?thesis by simp
  next
    case (Inr cx)
    with Pair assms(1) obtain s'' where "handle r cx rq s' = (x, s'')" "d' = committed s''"
      by (auto simp: run_tx_def bind_tx_def split: prod.splits)
    moreover from Inr Pair assms(3) have "C cx" by simp
    ultimately show ?thesis using leadsD [OF handled_for [OF _ assms(2)]] s' by metis
  qed
qed

end

text \<open>A law of all services, whoever calls them.\<close>

locale api_law = tenant_law R "\<lambda>_. True" for R +
  assumes trans: "R d1 d2 \<Longrightarrow> R d2 d3 \<Longrightarrow> R d1 d3"
    and mark_read: "leads R (mark_read w i)"
    and create_tenant: "leads R (create_tenant cx tn rq)"
    and update_tenant: "leads R (update_tenant cx i tu rq)"
    and suspend_tenant: "leads R (suspend_tenant cx i rq)"
    and login: "leads R (login m pw rq)"
    and refresh: "leads R (refresh tok rq)"
    and logout: "leads R (logout tok u)"
    and request_password_reset: "leads R (request_password_reset m)"
    and reset_password: "leads R (reset_password tok pw)"
    and send: "leads R (send sn)"
begin

lemma handled_tenants: "leads R (tenants_handle r cx rq)"
  by (cases r) (simp_all add: reading reads_only api_create_tenant_def api_update_tenant_def
    api_suspend_tenant_def create_tenant update_tenant suspend_tenant when_valid then_reading)

lemma handled_own: "leads R (own_handle r cx rq)"
  by (cases r) (simp_all add: reading reads_only api_mark_notification_read_def mark_read then_reading)

lemma handled_all: "leads R (handle r cx rq)"
  by (cases r) (simp_all add: handled handled_tenants handled_own)

lemma served_public: "leads R (serve_public r rq)"
  by (cases r) (simp_all add: reads_only api_login_def api_refresh_def api_logout_def
    api_forgot_password_def api_reset_password_def login refresh logout request_password_reset
    reset_password when_valid with_address then_reading)

lemma served: "leads R (serve r cred rq)"
  by (cases r) (simp_all add: served_public after_reading reads_only handled_all)

end

section \<open>Steps of the system\<close>

text \<open>
  The state is the file store with the database. A step is a request to any route, or a
  notification that another module sends; the environment (clocks, fresh identifiers,
  configuration) may be another one in every step.
\<close>

inductive api_step :: "path \<Rightarrow> files \<times> db \<Rightarrow> files \<times> db \<Rightarrow> bool" for base where
  request: "run_tx (serve r cred rq) e d = (x, d') \<Longrightarrow> api_step base (fs, d) (fs, d')"
| upload: "run_files (upload_attachment base cred a rq) e fs d = (x, fs', d') \<Longrightarrow> api_step base (fs, d) (fs', d')"
| delete: "run_files (delete_attachment_route base cred i rq) e fs d = (x, fs', d')
    \<Longrightarrow> api_step base (fs, d) (fs', d')"
| notify: "run_tx (send a) e d = (x, d') \<Longrightarrow> api_step base (fs, d) (fs, d')"

text \<open>What the two file routes do to the session.\<close>

lemma upload_attachment_session:
  assumes "run_files (upload_attachment base cred a rq) e fs d = (x, fs', d')"
  obtains "d' = d" "fs' = fs" | cx s1 y s' where "guard (Permission ''documents.upload'') cred (new_session e d) = (Inr cx, s1)"
    "upload base cx a (Some rq) fs s1 = (y, fs', s')" "d' = committed s'" "committed s1 = d" "current s1 = d"
proof -
  obtain q s1 where g: "guard (Permission ''documents.upload'') cred (new_session e d) = (q, s1)"
    by (cases "guard (Permission ''documents.upload'') cred (new_session e d)") auto
  have s1: "committed s1 = d" "current s1 = d"
    using reads_guard [of "Permission ''documents.upload''" cred] g unfolding reads_def by fastforce+
  show thesis
  proof (cases q)
    case (Inl err)
    with assms g s1 show thesis
      by (intro that(1)) (simp_all add: run_files_def upload_attachment_def then_files_def on_session_def)
  next
    case (Inr cx)
    obtain y fs2 s' where u: "upload base cx a (Some rq) fs s1 = (y, fs2, s')"
      by (cases "upload base cx a (Some rq) fs s1") auto
    with assms g Inr have "fs' = fs2 \<and> d' = committed s'"
      by (cases y) (auto simp: run_files_def upload_attachment_def then_files_def on_session_def tx_simps)
    with that(2) g Inr u s1 show thesis by simp
  qed
qed

lemma delete_attachment_session:
  assumes "run_files (delete_attachment_route base cred i rq) e fs d = (x, fs', d')"
  obtains "d' = d" "fs' = fs" | cx s1 y s' where "guard (Permission ''documents.delete'') cred (new_session e d) = (Inr cx, s1)"
    "delete_attachment base cx i (Some rq) fs s1 = (y, fs', s')" "d' = committed s'" "committed s1 = d" "current s1 = d"
proof -
  obtain q s1 where g: "guard (Permission ''documents.delete'') cred (new_session e d) = (q, s1)"
    by (cases "guard (Permission ''documents.delete'') cred (new_session e d)") auto
  have s1: "committed s1 = d" "current s1 = d"
    using reads_guard [of "Permission ''documents.delete''" cred] g unfolding reads_def by fastforce+
  show thesis
  proof (cases q)
    case (Inl err)
    with assms g s1 show thesis
      by (intro that(1)) (simp_all add: run_files_def delete_attachment_route_def then_files_def on_session_def)
  next
    case (Inr cx)
    obtain y fs2 s' where u: "delete_attachment base cx i (Some rq) fs s1 = (y, fs2, s')"
      by (cases "delete_attachment base cx i (Some rq) fs s1") auto
    with assms g Inr have "fs' = fs2 \<and> d' = committed s'"
      by (cases y) (auto simp: run_files_def delete_attachment_route_def then_files_def on_session_def tx_simps)
    with that(2) g Inr u s1 show thesis by simp
  qed
qed

context api_law begin

lemma step_law:
  assumes "api_step base w w'"
  shows "R (snd w) (snd w')"
  using assms
proof cases
  case (request r cred rq e d x d' fs)
  with run_leads [OF served] show ?thesis by simp
next
  case (upload cred a rq e fs d x fs' d')
  then show ?thesis
    by (auto elim!: upload_attachment_session intro: refl
        dest!: session_of_upload leadsD [OF upload_file [OF TrueI]])
next
  case (delete cred i rq e fs d x fs' d')
  then show ?thesis
    by (auto elim!: delete_attachment_session intro: refl
        dest!: session_of_delete leadsD [OF delete_file [OF TrueI]])
next
  case (notify a e d x d' fs)
  with run_leads [OF send] show ?thesis by simp
qed

text \<open>Any two databases of a history are related.\<close>

lemma history_law:
  assumes "(api_step base)\<^sup>*\<^sup>* w w'"
  shows "R (snd w) (snd w')"
  using assms by induction (auto intro: refl trans step_law)

end

end
