(* ===== verification/Api_Laws.thy ===== *)
theory Api_Laws
  imports Api
begin

text \<open>
  The laws that hold of every history of requests: the interface \<open>api_law\<close> is discharged for
  the growth of the audit trail, the footprints, the life cycles of tickets, entries, refresh
  sessions, reset tokens and notifications, the invariants of the tables and the constancy of
  the system roles; and \<open>tenant_law\<close> for the isolation of tenants.
\<close>

section \<open>Operations that leave a table alone\<close>

lemma leads_footprint:
  assumes "tx_within (same_except T) m" and "\<And>d d'. same_except T d d' \<Longrightarrow> R d d'"
  shows "leads R m"
  by (rule leads_mono [OF leads_within [OF _ assms(1)]]) (simp_all add: assms(2))

lemmas login_elsewhere = leads_footprint [OF login_footprint]
lemmas refresh_elsewhere = leads_footprint [OF refresh_footprint] leads_footprint [OF logout_footprint]
lemmas reset_elsewhere = leads_footprint [OF request_password_reset_footprint] leads_footprint [OF reset_password_footprint]
lemmas users_elsewhere = user_footprint [THEN leads_footprint]
lemmas roles_elsewhere = role_footprint [THEN leads_footprint]
lemmas tenants_elsewhere = tenant_footprint [THEN leads_footprint]
lemmas settings_elsewhere = leads_footprint [OF upsert_footprint]
lemmas tickets_elsewhere = ticket_footprint [THEN leads_footprint]
lemmas entries_elsewhere = entry_footprint [THEN leads_footprint]
lemmas items_elsewhere = md_footprint [THEN leads_footprint]
lemmas attachments_elsewhere = attachment_footprint [THEN leads_footprint]
lemmas notifications_elsewhere = notification_footprint [THEN leads_footprint]

lemmas elsewhere = login_elsewhere refresh_elsewhere reset_elsewhere users_elsewhere roles_elsewhere
  tenants_elsewhere settings_elsewhere tickets_elsewhere entries_elsewhere items_elsewhere
  attachments_elsewhere notifications_elsewhere

lemma same_exceptD:
  assumes "same_except T d d'"
  shows "T_tenants \<notin> T \<Longrightarrow> tenants d' = tenants d" "T_users \<notin> T \<Longrightarrow> users d' = users d"
    "T_roles \<notin> T \<Longrightarrow> roles d' = roles d" "T_role_permissions \<notin> T \<Longrightarrow> role_permissions d' = role_permissions d"
    "T_refresh_sessions \<notin> T \<Longrightarrow> refresh_sessions d' = refresh_sessions d"
    "T_password_reset_tokens \<notin> T \<Longrightarrow> password_reset_tokens d' = password_reset_tokens d"
    "T_notifications \<notin> T \<Longrightarrow> notifications d' = notifications d"
    "T_attachments \<notin> T \<Longrightarrow> attachments d' = attachments d"
    "T_master_data \<notin> T \<Longrightarrow> master_data d' = master_data d"
    "T_weighbridge_tickets \<notin> T \<Longrightarrow> weighbridge_tickets d' = weighbridge_tickets d"
    "T_production_entries \<notin> T \<Longrightarrow> production_entries d' = production_entries d"
  using assms by (simp_all add: same_except_def unchanged_def)

section \<open>The audit trail\<close>

lemmas audit_laws = create_user_audit update_user_audit deactivate_user_audit assign_role_audit
  create_role_audit update_role_audit update_role_permissions_audit delete_role_audit upsert_audit
  mark_read_audit create_ticket_audit complete_ticket_audit cancel_ticket_audit create_entry_audit
  submit_entry_audit cancel_entry_audit md_create_audit md_update_audit md_deactivate_audit upload_audit
  delete_audit create_tenant_audit update_tenant_audit suspend_tenant_audit login_audit refresh_audit
  logout_audit request_password_reset_audit reset_password_audit

lemma send_audit: "tx_within audit_grows (send a)"
  unfolding notification_defs by (intro tx_rules) (simp_all add: audit_grows_def)

interpretation audit_law: api_law audit_grows
  by unfold_locales
    (rule leads_within audit_trail.R_refl audit_laws send_audit | erule (1) audit_trail.R_trans)+

section \<open>The invariants of the tables\<close>

lemma preserves_unchanged:
  "users d' = users d \<Longrightarrow> preserves users_ok d d'"
  "tenants d' = tenants d \<Longrightarrow> preserves tenants_ok d d'"
  "attachments d' = attachments d \<Longrightarrow> preserves keys_ok d d'"
  "master_data d' = master_data d \<Longrightarrow> preserves md_tables_ok d d'"
  "weighbridge_tickets d' = weighbridge_tickets d \<Longrightarrow> preserves ticket_table_ok d d'"
  "production_entries d' = production_entries d \<Longrightarrow> preserves entry_table_ok d d'"
  by (simp_all add: preserves_def users_ok_def tenants_ok_def keys_ok_def md_tables_ok_def md_table_ok_def
    ticket_table_ok_def entry_table_ok_def)

lemma preserves_trans: "preserves I a b \<Longrightarrow> preserves I b c \<Longrightarrow> preserves I a c"
  by (simp add: preserves_def)

lemma preserves_leads: "tx_within (preserves I) m \<Longrightarrow> leads (preserves I) m"
  by (rule leads_within) (simp add: preserves_def)

text \<open>An operation whose footprint has not the table keeps its invariant.\<close>

lemmas preserves_elsewhere =
  preserves_unchanged(1) [OF same_exceptD(2)] preserves_unchanged(2) [OF same_exceptD(1)]
  preserves_unchanged(3) [OF same_exceptD(8)] preserves_unchanged(4) [OF same_exceptD(9)]
  preserves_unchanged(5) [OF same_exceptD(10)] preserves_unchanged(6) [OF same_exceptD(11)]

interpretation users_law: api_law "preserves users_ok"
  by unfold_locales
    (rule preserves.R_refl
      create_user_invariant [THEN preserves_leads] update_user_invariant [THEN preserves_leads]
      deactivate_user_invariant [THEN preserves_leads] create_tenant_users [THEN preserves_leads]
      login_invariant [THEN preserves_leads] reset_password_invariant [THEN preserves_leads]
     | (rule elsewhere, erule preserves_elsewhere, simp; fail)
     | erule (1) preserves_trans)+

interpretation tenants_law: api_law "preserves tenants_ok"
  by unfold_locales
    (rule preserves.R_refl create_tenant_invariant [THEN preserves_leads]
      update_tenant_invariant [THEN preserves_leads] suspend_tenant_invariant [THEN preserves_leads]
     | (rule elsewhere, erule preserves_elsewhere, simp; fail)
     | erule (1) preserves_trans)+

interpretation keys_law: api_law "preserves keys_ok"
  by unfold_locales
    (rule preserves.R_refl upload_invariant [THEN preserves_leads] delete_invariant [THEN preserves_leads]
     | (rule elsewhere, erule preserves_elsewhere, simp; fail)
     | erule (1) preserves_trans)+

interpretation items_law: api_law "preserves md_tables_ok"
  by unfold_locales
    (rule preserves.R_refl md_create_invariant [THEN preserves_leads]
      md_update_invariant [THEN preserves_leads] md_deactivate_invariant [THEN preserves_leads]
     | (rule elsewhere, erule preserves_elsewhere, simp; fail)
     | erule (1) preserves_trans)+

interpretation tickets_law: api_law "preserves ticket_table_ok"
  by unfold_locales
    (rule preserves.R_refl complete_ticket_invariant [THEN preserves_leads]
      cancel_ticket_invariant [THEN preserves_leads]
     | erule create_ticket_invariant [THEN preserves_leads]
     | (rule elsewhere, erule preserves_elsewhere, simp; fail)
     | erule (1) preserves_trans)+

interpretation entries_law: api_law "preserves entry_table_ok"
  by unfold_locales
    (rule preserves.R_refl submit_entry_invariant [THEN preserves_leads]
      cancel_entry_invariant [THEN preserves_leads]
     | erule create_entry_invariant [THEN preserves_leads]
     | (rule elsewhere, erule preserves_elsewhere, simp; fail)
     | erule (1) preserves_trans)+

section \<open>Life cycles\<close>

text \<open>What is known of each life cycle: its operations, and every operation elsewhere.\<close>

lemma evolves_unchanged:
  "rows d' = rows d \<Longrightarrow> evolves rows stp d d'"
  by (auto simp: evolves_def)

lemma evolves_refl: "evolves rows stp d d"
  by (simp add: evolves_unchanged)

lemma evolves_leads: "tx_within (evolves rows stp) m \<Longrightarrow> leads (evolves rows stp) m"
  by (rule leads_within) (rule evolves_refl)

lemma evolves_chain: "evolves rows stp a b \<Longrightarrow> evolves rows stp b c \<Longrightarrow> evolves rows stp a c"
  unfolding evolves_def by (meson rtranclp_trans)

lemmas evolves_elsewhere =
  evolves_unchanged [of weighbridge_tickets, OF same_exceptD(10)]
  evolves_unchanged [of production_entries, OF same_exceptD(11)]
  evolves_unchanged [of refresh_sessions, OF same_exceptD(5)]
  evolves_unchanged [of password_reset_tokens, OF same_exceptD(6)]
  evolves_unchanged [of notifications, OF same_exceptD(7)]

interpretation ticket_history: api_law "evolves weighbridge_tickets ticket_step"
  by unfold_locales
    (rule evolves_refl create_ticket_lifecycle [THEN evolves_leads]
      complete_ticket_lifecycle [THEN evolves_leads] cancel_ticket_lifecycle [THEN evolves_leads]
     | (rule elsewhere, erule evolves_elsewhere, simp; fail)
     | erule (1) evolves_chain)+

interpretation entry_history: api_law "evolves production_entries entry_step"
  by unfold_locales
    (rule evolves_refl create_entry_lifecycle [THEN evolves_leads]
      submit_entry_lifecycle [THEN evolves_leads] cancel_entry_lifecycle [THEN evolves_leads]
     | (rule elsewhere, erule evolves_elsewhere, simp; fail)
     | erule (1) evolves_chain)+

interpretation session_history: api_law "evolves refresh_sessions session_step"
  by unfold_locales
    (rule evolves_refl login_session [THEN evolves_leads]
      refresh_session [THEN evolves_leads] logout_session [THEN evolves_leads]
     | (rule elsewhere, erule evolves_elsewhere, simp; fail)
     | erule (1) evolves_chain)+

interpretation reset_history: api_law "evolves password_reset_tokens reset_step"
  by unfold_locales
    (rule evolves_refl request_password_reset_lifecycle [THEN evolves_leads]
      reset_password_lifecycle [THEN evolves_leads]
     | (rule elsewhere, erule evolves_elsewhere, simp; fail)
     | erule (1) evolves_chain)+

interpretation notification_history: api_law "evolves notifications notification_step"
  by unfold_locales
    (rule evolves_refl send_lifecycle [THEN evolves_leads] mark_read_lifecycle [THEN evolves_leads]
     | (rule elsewhere, erule evolves_elsewhere, simp; fail)
     | erule (1) evolves_chain)+

section \<open>Roles\<close>

text \<open>The system roles and their permissions stay as they are.\<close>

definition roles_frame :: "db \<Rightarrow> db \<Rightarrow> bool" where
  "roles_frame d d' \<longleftrightarrow> (roles_ok d \<longrightarrow> roles_ok d' \<and> system_roles_same d d')"

lemma roles_frame_refl: "roles_frame d d"
  by (simp add: roles_frame_def system_roles_same_def)

lemma roles_frame_trans: "roles_frame a b \<Longrightarrow> roles_frame b c \<Longrightarrow> roles_frame a c"
  using system_roles.R_trans unfolding roles_frame_def by blast

lemma roles_frame_unchanged:
  assumes "same_except T d d'" and "T_roles \<notin> T" and "T_role_permissions \<notin> T"
  shows "roles_frame d d'"
  using same_exceptD(3,4) [OF assms(1)] assms(2,3)
  by (simp add: roles_frame_def system_roles_same_def roles_ok_def permissions_of_role_def)

lemma role_step_leads:
  "leads (role_step cx) (create_role cx rc rq)" "leads (role_step cx) (update_role cx i ru rq)"
  "leads (role_step cx) (update_role_permissions cx i cs rq)" "leads (role_step cx) (delete_role cx i rq)"
  by (rule leads_atomic; rule create_role_atomic update_role_atomic update_role_permissions_atomic
      delete_role_atomic role_step_refl create_role_step update_role_step update_role_permissions_step
      delete_role_step; assumption?)+

lemma role_step_frame: "role_step cx d d' \<Longrightarrow> roles_frame d d'"
  by (simp add: role_step_def roles_frame_def)

lemmas role_leads_frame = role_step_leads [THEN leads_mono, OF role_step_frame]

interpretation roles_history: api_law roles_frame
  by unfold_locales
    (rule roles_frame_refl role_leads_frame | (rule elsewhere, erule roles_frame_unchanged, simp, simp; fail)
     | assumption | erule (1) roles_frame_trans)+

section \<open>Tenants\<close>

text \<open>
  What a user of tenant \<open>t\<close> may change, whatever his permissions, as long as he does not
  administer tenants: the rows of the other tenants stay. The roles count only under their
  invariant, so that it is part of the relation.
\<close>

definition isolated :: "uuid \<Rightarrow> db \<Rightarrow> db \<Rightarrow> bool" where
  "isolated t d d' \<longleftrightarrow> (roles_ok d \<longrightarrow> tenant_frame t d d')"

lemma isolated_refl: "isolated t d d"
  by (simp add: isolated_def)

lemma isolated_leads: "tx_within (tenant_frame t) m \<Longrightarrow> leads (isolated t) m"
  by (rule leads_mono [OF leads_within [where R = "tenant_frame t"]]) (simp_all add: isolated_def)

lemma role_step_isolated: "cx_tenant_id cx = Some t \<Longrightarrow> role_step cx d d' \<Longrightarrow> isolated t d d'"
  by (simp add: role_step_def isolated_def)


interpretation isolation_law: tenant_law "isolated t" "\<lambda>cx. cx_tenant_id cx = Some t"
  by unfold_locales
    (rule isolated_refl
     | rule isolated_leads, rule create_user_isolation update_user_isolation deactivate_user_isolation
         assign_role_isolation create_ticket_isolation complete_ticket_isolation cancel_ticket_isolation
         create_entry_isolation submit_entry_isolation cancel_entry_isolation md_create_isolation
         md_update_isolation md_deactivate_isolation upload_isolation delete_isolation, assumption?
     | rule role_step_leads [THEN leads_mono], erule (1) role_step_isolated
     | simp, rule isolated_leads, rule upsert_isolation)+

end
