(* ===== verification/Api_Guards.thy ===== *)
theory Api_Guards
  imports Api_Laws
begin

text \<open>
  Authentication and authorization of requests, and what a request that is answered with an
  error leaves behind: nothing, but for the failed-login counter and the consumed numbers.
\<close>

section \<open>The guard\<close>

text \<open>Who the caller is: the active user whom the token names, with the context built for him.\<close>

definition caller :: "string option \<Rightarrow> env \<Rightarrow> db \<Rightarrow> security_context \<Rightarrow> bool" where
  "caller cred e d cx \<longleftrightarrow> (\<exists>tok dt u. cred = Some tok \<and> tok \<noteq> '''' \<and>
     decode_token e (clock e 0) tok (Some TokenType_ACCESS) = Inr dt \<and>
     uuid_of_str (dt_subject dt) = Some (row_id u) \<and> u \<in> set (users d) \<and> u_status u = UserStatus_ACTIVE \<and>
     build_security_context u d = Inr cx)"

lemma require_authenticated_caller:
  assumes "require_authenticated_user cred (new_session e d) = (Inr cx, s')"
  shows "caller cred e d cx"
proof -
  from assms obtain u s1 where u: "get_current_user cred (new_session e d) = (Inr u, s1)"
    and b: "build_security_context u (current s1) = Inr cx"
    unfolding require_authenticated_user_def
    by (auto elim!: bind_InrE simp: tx_simps split: sum.splits)
  from u show ?thesis
  proof (rule get_current_user_Inr)
    fix tok dt
    assume "cred = Some tok" "tok \<noteq> ''''"
      "decode_token (env (new_session e d)) (clock (env (new_session e d)) (ticks (new_session e d))) tok (Some TokenType_ACCESS) = Inr dt"
      "uuid_of_str (dt_subject dt) = Some (row_id u)" "u \<in> set (users (current (new_session e d)))"
      "u_status u = UserStatus_ACTIVE" "current s1 = current (new_session e d)"
    with b show ?thesis unfolding caller_def by (intro exI [of _ tok] exI [of _ dt] exI [of _ u]) simp
  qed
qed

text \<open>What the guard of a route lets through.\<close>

primrec allowed :: "access \<Rightarrow> security_context \<Rightarrow> bool" where
  "allowed Authenticated cx = True"
| "allowed (Permission p) cx = has_permission cx p"

lemma guard_Inr:
  assumes "guard a cred (new_session e d) = (Inr cx, s')"
  shows "caller cred e d cx \<and> allowed a cx"
  using assms
  by (cases a) (auto simp: guard_def require_permission_def tx_simps split: if_splits
      elim!: bind_InrE dest!: require_authenticated_caller)

text \<open>A request that the guard refuses is answered with its error and leaves no trace.\<close>

lemma serve_refused:
  assumes "fst (guard (route_access r) cred (new_session e d)) = Inl err"
  shows "run_tx (serve (Private r) cred rq) e d = (Inl err, d)"
proof -
  obtain s' where g: "guard (route_access r) cred (new_session e d) = (Inl err, s')"
    using assms by (cases "guard (route_access r) cred (new_session e d)") auto
  then have "committed s' = d" using reads_guard unfolding reads_def by fastforce
  with g show ?thesis by (simp add: run_tx_def bind_tx_def)
qed

lemma serve_caller:
  assumes "run_tx (serve (Private r) cred rq) e d = (x, d')" and "\<not> isl x \<or> d' \<noteq> d"
  obtains cx where "fst (guard (route_access r) cred (new_session e d)) = Inr cx" "caller cred e d cx"
    "allowed (route_access r) cx"
proof (cases "fst (guard (route_access r) cred (new_session e d))")
  case (Inl err)
  with serve_refused [OF Inl] assms show thesis by auto
next
  case (Inr cx)
  then obtain s' where "guard (route_access r) cred (new_session e d) = (Inr cx, s')"
    by (cases "guard (route_access r) cred (new_session e d)") auto
  from guard_Inr [OF this] Inr that show thesis by blast
qed

section \<open>Failing requests\<close>

definition returns :: "'a tx \<Rightarrow> bool" where
  "returns m \<longleftrightarrow> (\<forall>s. \<exists>x s'. m s = (Inr x, s'))"

lemma returns_rules [atomic_rules]: "returns (return_tx x)" "returns (query_tx q)"
  by (simp_all add: returns_def tx_simps)

lemma returns_bind [atomic_rules]: "returns m \<Longrightarrow> (\<And>x. returns (f x)) \<Longrightarrow> returns (bind_tx m f)"
  unfolding returns_def bind_tx_def by (metis (mono_tags, lifting) prod.case sum.simps(6))

lemma atomic_then_return:
  assumes "atomic m" and "\<And>x. returns (f x)"
  shows "atomic (bind_tx m f)"
  unfolding atomic_def
proof (intro allI impI)
  fix s e s'' assume "bind_tx m f s = (Inl e, s'')"
  then show "committed s'' = committed s"
  proof (cases rule: bind_InlE)
    case 1
    with assms(1) show ?thesis unfolding atomic_def by blast
  next
    case (2 x s')
    with assms(2) show ?thesis unfolding returns_def by (metis Inl_Inr_False prod.inject)
  qed
qed

lemma only_numbers_then_return:
  assumes "only_numbers m" and "\<And>x. returns (f x)"
  shows "only_numbers (bind_tx m f)"
  unfolding only_numbers_def
proof (intro allI impI)
  fix s e s'' assume "bind_tx m f s = (Inl e, s'')" and eq: "current s = committed s"
  then show "sequences_differ (committed s) (committed s'')"
  proof (cases rule: bind_InlE)
    case 1
    with assms(1) eq show ?thesis unfolding only_numbers_def by blast
  next
    case (2 x s')
    with assms(2) show ?thesis unfolding returns_def by (metis Inl_Inr_False prod.inject)
  qed
qed

lemma reads_keeps: "reads m \<Longrightarrow> keeps m"
  unfolding reads_def keeps_def by blast

lemma atomic_checked: "(b \<Longrightarrow> atomic m) \<Longrightarrow> atomic (checked b m)"
  unfolding checked_def
  by (cases b) (auto simp: require_tx_def tx_simps atomic_def)

lemma atomic_with_email: "(\<And>n. atomic (f n)) \<Longrightarrow> atomic (with_email m f)"
  unfolding with_email_def by (intro atomic_bind atomic_rules)

lemma logout_atomic: "atomic (logout tok u)"
  unfolding logout_def get_by_jti_def by (intro atomic_rules)

lemma request_password_reset_atomic: "atomic (request_password_reset m)"
  unfolding request_password_reset_def get_by_email_def by (intro atomic_rules)

lemma send_atomic: "atomic (send a)"
  unfolding notification_defs by (intro atomic_rules)

lemmas service_atomic = create_user_atomic update_user_atomic deactivate_user_atomic assign_role_atomic
  create_tenant_atomic update_tenant_atomic suspend_tenant_atomic
  create_role_atomic update_role_atomic update_role_permissions_atomic delete_role_atomic
  upsert_atomic mark_read_atomic complete_ticket_atomic cancel_ticket_atomic submit_entry_atomic
  cancel_entry_atomic md_create_atomic md_update_atomic md_deactivate_atomic
  refresh_atomic logout_atomic request_password_reset_atomic reset_password_atomic

text \<open>The requests that leave nothing behind when they fail.\<close>

fun leaves_nothing :: "api_request \<Rightarrow> bool" where
  "leaves_nothing (Public (Login m pw)) = False"
| "leaves_nothing (Private (On_tickets (Create_ticket p))) = False"
| "leaves_nothing (Private (On_entries (Create_entry p))) = False"
| "leaves_nothing _ = True"

lemmas write_routes = api_create_user_def api_update_user_def api_deactivate_user_def api_assign_role_def
  api_create_tenant_def api_update_tenant_def api_suspend_tenant_def api_create_role_def api_update_role_def
  api_update_role_permissions_def api_delete_role_def api_upsert_setting_def api_mark_notification_read_def
  api_complete_ticket_def api_cancel_ticket_def api_submit_entry_def api_cancel_entry_def
  api_create_item_def api_update_item_def api_deactivate_item_def
  api_refresh_def api_logout_def api_forgot_password_def api_reset_password_def

lemma write_routes_atomic:
  "atomic (api_create_user cx nu rq)" "atomic (api_update_user cx i uu rq)" "atomic (api_deactivate_user cx i rq)"
  "atomic (api_assign_role cx i k o' rq)" "atomic (api_create_tenant cx tn rq)"
  "atomic (api_update_tenant cx i tu rq)" "atomic (api_suspend_tenant cx i rq)" "atomic (api_create_role cx rc rq)"
  "atomic (api_update_role cx i ru rq)" "atomic (api_update_role_permissions cx i cs rq)"
  "atomic (api_delete_role cx i rq)" "atomic (api_upsert_setting cx key v o' md)"
  "atomic (api_mark_notification_read cx i)" "atomic (api_complete_ticket cx i y rq)"
  "atomic (api_cancel_ticket cx i rq)" "atomic (api_submit_entry cx i rq)" "atomic (api_cancel_entry cx i rq)"
  "atomic (api_create_item e cx mc rq)" "atomic (api_update_item e cx i data rq)"
  "atomic (api_deactivate_item e cx i rq)" "atomic (api_refresh tok rq)" "atomic (api_logout tok)"
  "atomic (api_forgot_password m)" "atomic (api_reset_password tok pw)"
  unfolding write_routes
  by (intro atomic_checked atomic_with_email atomic_then_return service_atomic atomic_rules
      atomic_bind [OF keeps_primitives(3)])+

lemma reads_atomic: "reads m \<Longrightarrow> atomic m"
  by (rule keeps_atomic) (rule reads_keeps)

lemma handle_atomic:
  assumes "leaves_nothing (Private r)"
  shows "atomic (handle r cx rq)"
proof (cases r)
  case (On_users q)
  then show ?thesis by (cases q) (simp_all add: write_routes_atomic reads_atomic reads_only)
next
  case (On_tenants q)
  then show ?thesis by (cases q) (simp_all add: write_routes_atomic reads_atomic reads_only)
next
  case (On_roles q)
  then show ?thesis by (cases q) (simp_all add: write_routes_atomic reads_atomic reads_only)
next
  case (On_admin q)
  then show ?thesis by (cases q) (simp_all add: write_routes_atomic reads_atomic reads_only)
next
  case (On_own q)
  then show ?thesis by (cases q) (simp_all add: write_routes_atomic reads_atomic reads_only)
next
  case (On_tickets q)
  with assms show ?thesis by (cases q) (simp_all add: write_routes_atomic reads_atomic reads_only)
next
  case (On_entries q)
  with assms show ?thesis by (cases q) (simp_all add: write_routes_atomic reads_atomic reads_only)
next
  case (On_items q)
  then show ?thesis by (cases q) (simp_all add: write_routes_atomic reads_atomic reads_only)
qed

lemma serve_atomic:
  assumes "leaves_nothing r"
  shows "atomic (serve r cred rq)"
proof (cases r)
  case (Public q)
  with assms show ?thesis by (cases q) (simp_all add: write_routes_atomic)
next
  case (Private q)
  with assms show ?thesis
    by (simp add: atomic_bind [OF reads_keeps [OF reads_guard]] handle_atomic)
qed

text \<open>Creating a document may consume a number, and nothing else.\<close>

lemma serve_create_only_numbers:
  assumes "run_tx (serve (Private r) cred rq) e d = (Inl err, d')"
    and "r = On_tickets (Create_ticket p) \<or> r = On_entries (Create_entry q)"
  shows "d' = d\<lparr>document_sequences := document_sequences d'\<rparr>"
  using assms(2)
proof (elim disjE)
  assume r: "r = On_tickets (Create_ticket p)"
  have "only_numbers (serve (Private r) cred rq)"
    unfolding r serve.simps handle.simps route_access.simps tickets_handle.simps api_create_ticket_def checked_def
    by (rule only_numbers_read, rule reads_guard, rule only_numbers_read, rule reads_primitives,
      rule only_numbers_then_return, rule create_ticket_only_numbers, rule returns_rules)
  then show ?thesis using assms(1) by (rule run_only_numbers)
next
  assume r: "r = On_entries (Create_entry q)"
  have "only_numbers (serve (Private r) cred rq)"
    unfolding r serve.simps handle.simps route_access.simps entries_handle.simps api_create_entry_def checked_def
    by (rule only_numbers_read, rule reads_guard, rule only_numbers_read, rule reads_primitives,
      rule only_numbers_then_return, rule create_entry_only_numbers, rule returns_rules)
  then show ?thesis using assms(1) by (rule run_only_numbers)
qed

section \<open>The tables a request may write\<close>

fun users_writes :: "users_request \<Rightarrow> table_name set" where
  "users_writes (Create_user p) = {T_users}"
| "users_writes (Update_user i p) = {T_users}"
| "users_writes (Deactivate_user i) = {T_users}"
| "users_writes (Assign_role i k o') = {T_user_roles}"
| "users_writes _ = {}"

fun tenants_writes :: "tenants_request \<Rightarrow> table_name set" where
  "tenants_writes (Create_tenant p) = {T_tenants, T_users, T_user_roles}"
| "tenants_writes (Update_tenant i p) = {T_tenants}"
| "tenants_writes (Suspend_tenant i) = {T_tenants}"
| "tenants_writes _ = {}"

fun roles_writes :: "roles_request \<Rightarrow> table_name set" where
  "roles_writes (Create_role p) = {T_roles, T_role_permissions}"
| "roles_writes (Update_role i p) = {T_roles}"
| "roles_writes (Update_role_permissions i cs) = {T_role_permissions}"
| "roles_writes (Delete_role i) = {T_roles, T_role_permissions, T_user_roles, T_scope_assignments}"
| "roles_writes _ = {}"

fun admin_writes :: "admin_request \<Rightarrow> table_name set" where
  "admin_writes (Upsert_setting k v o' m) = {T_settings}"
| "admin_writes _ = {}"

fun own_writes :: "own_request \<Rightarrow> table_name set" where
  "own_writes (Mark_notification_read i) = {T_notifications}"
| "own_writes _ = {}"

fun tickets_writes :: "tickets_request \<Rightarrow> table_name set" where
  "tickets_writes (Create_ticket p) = {T_weighbridge_tickets, T_document_sequences}"
| "tickets_writes (Complete_ticket i x) = {T_weighbridge_tickets}"
| "tickets_writes (Cancel_ticket i) = {T_weighbridge_tickets}"
| "tickets_writes _ = {}"

fun entries_writes :: "entries_request \<Rightarrow> table_name set" where
  "entries_writes (Create_entry p) = {T_production_entries, T_document_sequences}"
| "entries_writes (Submit_entry i) = {T_production_entries}"
| "entries_writes (Cancel_entry i) = {T_production_entries}"
| "entries_writes _ = {}"

fun items_writes :: "items_request \<Rightarrow> table_name set" where
  "items_writes (List_items e n k q) = {}"
| "items_writes (Get_item e i) = {}"
| "items_writes _ = {T_master_data}"

primrec private_writes :: "private_request \<Rightarrow> table_name set" where
  "private_writes (On_users q) = users_writes q"
| "private_writes (On_tenants q) = tenants_writes q"
| "private_writes (On_roles q) = roles_writes q"
| "private_writes (On_admin q) = admin_writes q"
| "private_writes (On_own q) = own_writes q"
| "private_writes (On_tickets q) = tickets_writes q"
| "private_writes (On_entries q) = entries_writes q"
| "private_writes (On_items q) = items_writes q"

primrec public_writes :: "public_request \<Rightarrow> table_name set" where
  "public_writes (Login m pw) = {T_users, T_refresh_sessions}"
| "public_writes (Refresh tok) = {T_refresh_sessions}"
| "public_writes (Logout tok) = {T_refresh_sessions}"
| "public_writes (Forgot_password m) = {T_password_reset_tokens}"
| "public_writes (Reset_password tok pw) = {T_users, T_password_reset_tokens}"

lemma footprint_checked: "leads (same_except T) m \<Longrightarrow> leads (same_except T) (checked b m)"
  unfolding checked_def by (rule leads_bind_before) (simp_all add: reads_only)

lemma footprint_with_email: "(\<And>n. leads (same_except T) (f n)) \<Longrightarrow> leads (same_except T) (with_email m f)"
  unfolding with_email_def by (intro leads_bind_before reads_only) simp_all

lemma footprint_query: "(\<And>x. leads (same_except T) (f x)) \<Longrightarrow> leads (same_except T) (bind_tx (query_tx g) f)"
  by (intro leads_bind_before reads_only) simp_all

lemma reads_footprint: "reads m \<Longrightarrow> leads (same_except T) m"
  by (rule leads_reads) simp_all

lemma service_footprint: "tx_within (same_except T) m \<Longrightarrow> leads (same_except T) m"
  by (rule leads_within) simp_all

lemmas service_footprints = user_footprint tenant_footprint role_footprint upsert_footprint
  ticket_footprint entry_footprint md_footprint notification_footprint login_footprint refresh_footprint
  logout_footprint request_password_reset_footprint reset_password_footprint

lemmas footprint_rules = footprint_checked footprint_with_email leads_bind_after
  service_footprints [THEN service_footprint] reads_footprint reads_only

lemma handle_footprint: "leads (same_except (private_writes r)) (handle r cx rq)"
proof (cases r)
  case (On_users q)
  then show ?thesis by (cases q) (simp_all add: write_routes footprint_rules)
next
  case (On_tenants q)
  then show ?thesis by (cases q) (simp_all add: write_routes footprint_rules)
next
  case (On_roles q)
  then show ?thesis by (cases q) (simp_all add: write_routes footprint_rules footprint_query)
next
  case (On_admin q)
  then show ?thesis by (cases q) (simp_all add: write_routes footprint_rules)
next
  case (On_own q)
  then show ?thesis by (cases q) (simp_all add: write_routes footprint_rules)
next
  case (On_tickets q)
  then show ?thesis by (cases q) (simp_all add: write_routes api_create_ticket_def footprint_rules)
next
  case (On_entries q)
  then show ?thesis by (cases q) (simp_all add: write_routes api_create_entry_def footprint_rules)
next
  case (On_items q)
  then show ?thesis by (cases q) (simp_all add: write_routes footprint_rules)
qed

primrec writes :: "api_request \<Rightarrow> table_name set" where
  "writes (Public r) = public_writes r"
| "writes (Private r) = private_writes r"

lemma serve_footprint: "leads (same_except (writes r)) (serve r cred rq)"
proof (cases r)
  case (Public q)
  then show ?thesis by (cases q) (simp_all add: write_routes api_login_def footprint_rules)
next
  case (Private q)
  then show ?thesis by (simp add: leads_bind_before reads_only handle_footprint)
qed

text \<open>A request that writes no table does not write the audit trail either.\<close>

lemma handle_reads: "private_writes r = {} \<Longrightarrow> reads (handle r cx rq)"
proof (induction r)
  case (On_users q)
  then show ?case by (cases q) (simp_all add: reads_only)
next
  case (On_tenants q)
  then show ?case by (cases q) (simp_all add: reads_only)
next
  case (On_roles q)
  then show ?case by (cases q) (simp_all add: reads_only)
next
  case (On_admin q)
  then show ?case by (cases q) (simp_all add: reads_only)
next
  case (On_own q)
  then show ?case by (cases q) (simp_all add: reads_only)
next
  case (On_tickets q)
  then show ?case by (cases q) (simp_all add: reads_only)
next
  case (On_entries q)
  then show ?case by (cases q) (simp_all add: reads_only)
next
  case (On_items q)
  then show ?case by (cases q) (simp_all add: reads_only)
qed

lemma public_writes_nonempty: "public_writes r \<noteq> {}"
  by (cases r) simp_all

end
