(* ===== verification/Errors.thy ===== *)
theory Errors
  imports Store
begin

text \<open>
  What the client sees of an exception: \<^verbatim>\<open>app/core/exceptions.py\<close> and the handlers of
  \<^verbatim>\<open>app/core/error_handlers.py\<close>. An exception of the application carries its status and code;
  every other one is answered with 500 and a fixed message, unless \<^verbatim>\<open>debug\<close> is set.
\<close>

section \<open>The classes of \<^verbatim>\<open>app/core/exceptions.py\<close>\<close>

record app_error =
  er_status :: nat
  er_code :: string
  er_message :: string

text \<open>\<^term>\<open>None\<close> for an exception that is not an \<^verbatim>\<open>AppError\<close>.\<close>

fun app_error_of :: "error \<Rightarrow> app_error option" where
  "app_error_of (UnauthorizedError m) = Some \<lparr>er_status = 401, er_code = ''UNAUTHORIZED'', er_message = m\<rparr>"
| "app_error_of (ForbiddenError m) = Some \<lparr>er_status = 403, er_code = ''FORBIDDEN'', er_message = m\<rparr>"
| "app_error_of (NotFoundError m) = Some \<lparr>er_status = 404, er_code = ''NOT_FOUND'', er_message = m\<rparr>"
| "app_error_of (ConflictError m) = Some \<lparr>er_status = 409, er_code = ''CONFLICT'', er_message = m\<rparr>"
| "app_error_of (ValidationAppError m) = Some \<lparr>er_status = 422, er_code = ''VALIDATION_ERROR'', er_message = m\<rparr>"
| "app_error_of _ = None"

section \<open>The handlers\<close>

record error_response =
  resp_status :: nat
  resp_code :: string
  resp_message :: string
  resp_request_id :: "string option"

text \<open>\<open>shown e\<close> is \<^verbatim>\<open>str(exc)\<close>: for the exceptions of the libraries, their own text.\<close>

definition handle_app_error :: "app_error \<Rightarrow> string option \<Rightarrow> error_response" where
  "handle_app_error x i =
     \<lparr>resp_status = er_status x, resp_code = er_code x, resp_message = er_message x, resp_request_id = i\<rparr>"

definition handle_unexpected_error ::
  "config \<Rightarrow> (error \<Rightarrow> string) \<Rightarrow> error \<Rightarrow> string option \<Rightarrow> error_response" where
  "handle_unexpected_error c shown e i =
     \<lparr>resp_status = 500, resp_code = ''INTERNAL_ERROR'',
      resp_message = (if debug c then shown e else ''An unexpected error occurred.''), resp_request_id = i\<rparr>"

text \<open>The handlers of \<^verbatim>\<open>HTTPException\<close> and of a request that its schema rejects.\<close>

definition http_code :: "nat \<Rightarrow> string" where
  "http_code st = (case map_of [(401, ''UNAUTHORIZED''), (403, ''FORBIDDEN''), (404, ''NOT_FOUND''),
     (405, ''METHOD_NOT_ALLOWED''), (429, ''RATE_LIMITED'')] st of Some c \<Rightarrow> c | None \<Rightarrow> ''ERROR'')"

definition handle_http_exception :: "nat \<Rightarrow> string \<Rightarrow> string option \<Rightarrow> error_response" where
  "handle_http_exception st detail i =
     \<lparr>resp_status = st, resp_code = http_code st, resp_message = detail, resp_request_id = i\<rparr>"

definition handle_validation_error :: "string option \<Rightarrow> error_response" where
  "handle_validation_error i = \<lparr>resp_status = 422, resp_code = ''VALIDATION_ERROR'',
     resp_message = ''Request validation failed.'', resp_request_id = i\<rparr>"

text \<open>The handler that answers an exception of a request.\<close>

definition respond_to_error ::
  "config \<Rightarrow> (error \<Rightarrow> string) \<Rightarrow> error \<Rightarrow> string option \<Rightarrow> error_response" where
  "respond_to_error c shown e i =
     (if e = RequestValidationError then handle_validation_error i
      else case app_error_of e of
        Some x \<Rightarrow> handle_app_error x i
      | None \<Rightarrow> handle_unexpected_error c shown e i)"

section \<open>What a client can learn\<close>

lemma respond_unexpected:
  assumes "\<not> debug c" and "app_error_of e = None" and "e \<noteq> RequestValidationError"
  shows "respond_to_error c shown e i = \<lparr>resp_status = 500, resp_code = ''INTERNAL_ERROR'',
     resp_message = ''An unexpected error occurred.'', resp_request_id = i\<rparr>"
  using assms by (simp add: respond_to_error_def handle_unexpected_error_def)

text \<open>Without \<^verbatim>\<open>debug\<close> the answer does not depend on the text of a library's exception.\<close>

lemma respond_same:
  assumes "\<not> debug c"
  shows "respond_to_error c shown e i = respond_to_error c shown' e i"
  using assms by (simp add: respond_to_error_def handle_unexpected_error_def split: option.split)

lemma respond_status:
  "resp_status (respond_to_error c shown e i) = 500 \<longleftrightarrow> app_error_of e = None \<and> e \<noteq> RequestValidationError"
  by (cases e) (simp_all add: respond_to_error_def handle_app_error_def handle_unexpected_error_def
    handle_validation_error_def)

end
