(* ===== verification/Middleware.thy ===== *)
theory Middleware
  imports Errors Py_Strings
begin

text \<open>
  The middleware of \<^verbatim>\<open>app/middleware\<close>: the rate limiter over its table of recent hits, the
  correlation identifier of a request, and the security headers of a response. The limiter is
  compared with what it is for: however requests arrive, no client has more than the limit
  accepted within any window of sixty seconds, and none is refused below it.
\<close>

section \<open>Rate limiting: \<^verbatim>\<open>rate_limit.py\<close>\<close>

text \<open>Times are readings of \<^verbatim>\<open>time.monotonic()\<close>, in seconds; the table is \<^verbatim>\<open>self._hits\<close>.\<close>

type_synonym hits = "string \<Rightarrow> rat list"

definition window_seconds :: rat where
  "window_seconds = 60"

text \<open>\<^verbatim>\<open>requests_per_minute or settings.rate_limit_per_minute\<close>.\<close>

definition limiter_limit :: "nat option \<Rightarrow> config \<Rightarrow> nat" where
  "limiter_limit r c = (case r of None \<Rightarrow> rate_limit_per_minute c
     | Some n \<Rightarrow> if n = 0 then rate_limit_per_minute c else n)"

definition client_key :: "string option \<Rightarrow> string" where
  "client_key host = (case host of None \<Rightarrow> ''unknown'' | Some h \<Rightarrow> h)"

text \<open>The \<^verbatim>\<open>while\<close> loop that drops the hits that have left the window.\<close>

fun drop_old :: "rat \<Rightarrow> rat list \<Rightarrow> rat list" where
  "drop_old now [] = []"
| "drop_old now (h # hs) = (if window_seconds < now - h then drop_old now hs else h # hs)"

datatype verdict = Exempt | Accepted | Limited

definition dispatch :: "nat \<Rightarrow> string \<Rightarrow> string option \<Rightarrow> rat \<Rightarrow> hits \<Rightarrow> verdict \<times> hits" where
  "dispatch mx path host now t =
     (if path = ''/health'' \<or> path = ''/ready'' then (Exempt, t)
      else
        let k = client_key host; hs = drop_old now (t k) in
        if mx \<le> length hs then (Limited, t(k := hs)) else (Accepted, t(k := hs @ [now])))"

definition limited_response :: "string option \<Rightarrow> error_response" where
  "limited_response i = \<lparr>resp_status = 429, resp_code = ''RATE_LIMITED'',
     resp_message = ''Too many requests. Please slow down.'', resp_request_id = i\<rparr>"

section \<open>A stream of requests\<close>

text \<open>
  Requests as triples of path, client and time. \<open>accepted_by k\<close> of the verdicts: the times at
  which client \<open>k\<close> was let through.
\<close>

fun serve_all :: "nat \<Rightarrow> (string \<times> string option \<times> rat) list \<Rightarrow> hits \<Rightarrow> verdict list \<times> hits" where
  "serve_all mx [] t = ([], t)"
| "serve_all mx ((p, h, now) # rs) t =
     (let (v, t') = dispatch mx p h now t; (vs, t'') = serve_all mx rs t' in (v # vs, t''))"

definition accepted_by ::
  "string \<Rightarrow> (string \<times> string option \<times> rat) list \<Rightarrow> verdict list \<Rightarrow> rat list" where
  "accepted_by k rs vs = map (\<lambda>((p, h, now), v). now)
     (filter (\<lambda>((p, h, now), v). v = Accepted \<and> client_key h = k) (zip rs vs))"

definition in_window :: "rat \<Rightarrow> rat list \<Rightarrow> rat list" where
  "in_window a hs = filter (\<lambda>h. a \<le> h \<and> h \<le> a + window_seconds) hs"

lemma drop_old_split: "\<exists>old. hs = old @ drop_old now hs \<and> (\<forall>h\<in>set old. window_seconds < now - h)"
proof (induction hs)
  case (Cons h hs)
  then obtain old where "hs = old @ drop_old now hs" "\<forall>h\<in>set old. window_seconds < now - h" by blast
  then show ?case
    by (intro exI [of _ "if window_seconds < now - h then h # old else []"]) simp
qed simp

text \<open>
  What the table knows of the accepted times \<open>acc\<close> at time \<open>T\<close>: the rest has left the window.
\<close>

definition tracks :: "rat \<Rightarrow> rat list \<Rightarrow> rat list \<Rightarrow> bool" where
  "tracks T acc hs \<longleftrightarrow> (\<exists>old. acc = old @ hs \<and> (\<forall>h\<in>set old. window_seconds < T - h))"

lemma tracks_later: "tracks T acc hs \<Longrightarrow> T \<le> now \<Longrightarrow> tracks now acc (drop_old now hs)"
proof -
  assume t: "tracks T acc hs" and le: "T \<le> now"
  then obtain old where o: "acc = old @ hs" "\<forall>h\<in>set old. window_seconds < T - h" by (auto simp: tracks_def)
  obtain old2 where o2: "hs = old2 @ drop_old now hs" "\<forall>h\<in>set old2. window_seconds < now - h"
    using drop_old_split by blast
  from o o2 le show ?thesis
    unfolding tracks_def by (intro exI [of _ "old @ old2"]) (auto simp: algebra_simps; fastforce)
qed

lemma tracks_mono: "tracks T acc hs \<Longrightarrow> T \<le> now \<Longrightarrow> tracks now acc hs"
  unfolding tracks_def by (elim exE conjE, rule exI) (auto; fastforce)

text \<open>Accepting a request at a time \<open>now\<close> keeps every window within the limit.\<close>

lemma in_window_snoc:
  assumes "tracks now acc hs" and "length hs < mx" and "length (in_window a acc) \<le> mx"
  shows "length (in_window a (acc @ [now])) \<le> mx"
proof (cases "a \<le> now \<and> now \<le> a + window_seconds")
  case True
  from assms(1) obtain old where o: "acc = old @ hs" "\<forall>h\<in>set old. window_seconds < now - h"
    by (auto simp: tracks_def)
  from o(2) True have "filter (\<lambda>h. a \<le> h \<and> h \<le> a + window_seconds) old = []"
    by (auto simp: filter_empty_conv)
  with o(1) have "length (in_window a acc) \<le> length hs" by (simp add: in_window_def)
  with assms(2) True show ?thesis by (simp add: in_window_def)
next
  case False
  with assms(3) show ?thesis by (auto simp: in_window_def)
qed

text \<open>The invariant of a run: \<open>acc\<close> are the accepted times so far, per client.\<close>

definition limiter_ok :: "nat \<Rightarrow> rat \<Rightarrow> (string \<Rightarrow> rat list) \<Rightarrow> hits \<Rightarrow> bool" where
  "limiter_ok mx T acc t \<longleftrightarrow> (\<forall>k. tracks T (acc k) (t k) \<and> sorted (acc k) \<and> (\<forall>h\<in>set (acc k). h \<le> T) \<and>
     (\<forall>a. length (in_window a (acc k)) \<le> mx))"

lemma limiter_ok_start: "limiter_ok mx T (\<lambda>_. []) (\<lambda>_. [])"
  by (simp add: limiter_ok_def tracks_def in_window_def)

definition with_verdict :: "verdict \<Rightarrow> string \<Rightarrow> rat \<Rightarrow> (string \<Rightarrow> rat list) \<Rightarrow> string \<Rightarrow> rat list" where
  "with_verdict v c now acc k = acc k @ (if v = Accepted \<and> c = k then [now] else [])"

lemma tracks_snoc: "tracks now acc hs \<Longrightarrow> tracks now (acc @ [now]) (hs @ [now])"
  by (auto simp: tracks_def)

lemma dispatch_ok:
  assumes "limiter_ok mx T acc t" and "T \<le> now" and "dispatch mx p h now t = (v, t')"
  shows "limiter_ok mx now (with_verdict v (client_key h) now acc) t'"
  unfolding limiter_ok_def
proof (intro allI)
  fix k
  let ?acc = "with_verdict v (client_key h) now acc k"
  from assms(1) have k: "tracks T (acc k) (t k)" "sorted (acc k)" "\<forall>h\<in>set (acc k). h \<le> T"
    "\<forall>a. length (in_window a (acc k)) \<le> mx" by (simp_all add: limiter_ok_def)
  note later = tracks_later [OF k(1) assms(2)] tracks_mono [OF k(1) assms(2)]
  have le: "\<forall>h\<in>set (acc k). h \<le> now" using k(3) assms(2) by fastforce
  consider "?acc = acc k" "t' k = t k \<or> t' k = drop_old now (t k)"
    | "?acc = acc k @ [now]" "t' k = drop_old now (t k) @ [now]" "length (drop_old now (t k)) < mx"
    using assms(3) by (cases "k = client_key h") (auto simp: dispatch_def with_verdict_def Let_def split: if_splits)
  then show "tracks now ?acc (t' k) \<and> sorted ?acc \<and> (\<forall>h\<in>set ?acc. h \<le> now) \<and> (\<forall>a. length (in_window a ?acc) \<le> mx)"
  proof cases
    case 1
    with later k le show ?thesis by auto
  next
    case 2
    have "\<forall>a. length (in_window a (acc k @ [now])) \<le> mx"
      using in_window_snoc [OF later(1) 2(3)] k(4) by blast
    moreover have "tracks now (acc k @ [now]) (drop_old now (t k) @ [now])" by (rule tracks_snoc [OF later(1)])
    ultimately show ?thesis unfolding 2(1,2) using k(2) le by (simp add: sorted_append)
  qed
qed

lemma accepted_by_Cons:
  "accepted_by k ((p, h, now) # rs) (v # vs) = (if v = Accepted \<and> client_key h = k then [now] else []) @ accepted_by k rs vs"
  by (simp add: accepted_by_def)

fun last_time :: "rat \<Rightarrow> (string \<times> string option \<times> rat) list \<Rightarrow> rat" where
  "last_time T [] = T"
| "last_time T ((p, h, now) # rs) = last_time now rs"

fun clock_monotonic :: "rat \<Rightarrow> (string \<times> string option \<times> rat) list \<Rightarrow> bool" where
  "clock_monotonic T [] \<longleftrightarrow> True"
| "clock_monotonic T ((p, h, now) # rs) \<longleftrightarrow> T \<le> now \<and> clock_monotonic now rs"

lemma serve_all_ok:
  assumes "limiter_ok mx T acc t" and "clock_monotonic T rs" and "serve_all mx rs t = (vs, t')"
  shows "limiter_ok mx (last_time T rs) (\<lambda>k. acc k @ accepted_by k rs vs) t'"
  using assms
proof (induction rs arbitrary: T acc t vs)
  case Nil
  then show ?case by (simp add: accepted_by_def)
next
  case (Cons r rs)
  obtain p h now where r: "r = (p, h, now)" by (cases r)
  obtain v t1 where d: "dispatch mx p h now t = (v, t1)" by fastforce
  obtain ws t2 where w: "serve_all mx rs t1 = (ws, t2)" by fastforce
  from Cons.prems d w r have vs: "vs = v # ws" "t' = t2" by simp_all
  from Cons.prems r have mono: "T \<le> now" "clock_monotonic now rs" by simp_all
  from Cons.IH [OF dispatch_ok [OF Cons.prems(1) mono(1) d] mono(2) w [folded vs(2)]]
  show ?case by (simp add: r vs(1) accepted_by_Cons with_verdict_def)
qed

lemma drop_old_recent:
  assumes "sorted hs"
  shows "\<forall>h\<in>set (drop_old now hs). now - window_seconds \<le> h"
  using assms
proof (induction hs)
  case (Cons h hs)
  show ?case
  proof (cases "window_seconds < now - h")
    case False
    then have "now - window_seconds \<le> h" by simp
    with Cons.prems False show ?thesis by fastforce
  qed (use Cons in simp)
qed simp

text \<open>A refused client has used up its limit in the last sixty seconds.\<close>

lemma limited_window:
  assumes "limiter_ok mx T acc t" and "T \<le> now" and "dispatch mx p h now t = (Limited, t')"
  shows "mx \<le> length (in_window (now - window_seconds) (acc (client_key h)))"
proof -
  let ?k = "client_key h"
  from assms(1) have k: "tracks T (acc ?k) (t ?k)" "sorted (acc ?k)" "\<forall>h\<in>set (acc ?k). h \<le> T"
    by (simp_all add: limiter_ok_def)
  from tracks_later [OF k(1) assms(2)] obtain old where o: "acc ?k = old @ drop_old now (t ?k)"
    by (auto simp: tracks_def)
  from k(1,2) have "sorted (t ?k)" by (auto simp: tracks_def sorted_append)
  then have "\<forall>h\<in>set (drop_old now (t ?k)). now - window_seconds \<le> h" by (rule drop_old_recent)
  moreover have "\<forall>h\<in>set (drop_old now (t ?k)). h \<le> now"
    using k(3) assms(2) o by (metis Un_iff order_trans set_append)
  ultimately have "filter (\<lambda>h. now - window_seconds \<le> h \<and> h \<le> now - window_seconds + window_seconds) (drop_old now (t ?k))
      = drop_old now (t ?k)" by (simp add: filter_id_conv)
  then have "length (drop_old now (t ?k)) \<le> length (in_window (now - window_seconds) (acc ?k))"
    unfolding in_window_def o filter_append by simp
  with assms(3) show ?thesis by (auto simp: dispatch_def Let_def split: if_splits)
qed

section \<open>The request identifier: \<^verbatim>\<open>request_context.py\<close>\<close>

text \<open>\<^verbatim>\<open>headers.get("X-Request-ID") or str(uuid.uuid4())\<close>; the header of the response echoes it.\<close>

definition request_id_of :: "string option \<Rightarrow> uuid \<Rightarrow> string" where
  "request_id_of header u = (case header of None \<Rightarrow> uuid_str u | Some h \<Rightarrow> if h = '''' then uuid_str u else h)"

section \<open>Security headers: \<^verbatim>\<open>security_headers.py\<close>\<close>

type_synonym headers = "(string \<times> string) list"

definition set_default :: "string \<times> string \<Rightarrow> headers \<Rightarrow> headers" where
  "set_default kv hs = (if map_of hs (fst kv) = None then hs @ [kv] else hs)"

definition baseline_headers :: "config \<Rightarrow> headers" where
  "baseline_headers c =
     [(''X-Content-Type-Options'', ''nosniff''), (''X-Frame-Options'', ''DENY''),
      (''Referrer-Policy'', ''strict-origin-when-cross-origin''),
      (''Permissions-Policy'', ''geolocation=(), microphone=(), camera=()'')]
     @ (if is_production c
        then [(''Strict-Transport-Security'', ''max-age=63072000; includeSubDomains; preload'')] else [])"

definition add_security_headers :: "config \<Rightarrow> headers \<Rightarrow> headers" where
  "add_security_headers c hs = fold set_default (baseline_headers c) hs"

lemma fold_set_default:
  "map_of (fold set_default kvs hs) k =
     (case map_of hs k of Some v \<Rightarrow> Some v | None \<Rightarrow> map_of kvs k)"
  by (induction kvs arbitrary: hs) (auto simp: set_default_def map_add_def split: option.split)

end
