(* ===== verification/Http.thy ===== *)
theory Http
  imports Api_Guards Middleware
begin

text \<open>
  The whole application, \<^verbatim>\<open>create_app\<close> of \<^verbatim>\<open>app/main.py\<close>: the middleware around the router.
  \<^verbatim>\<open>app.add_middleware\<close> puts each new middleware outside the ones before it, so a request passes
  the request context, the rate limiter, the security headers and CORS, in this order, before it
  reaches the exception handlers and the router; a response takes the way back. An exception
  that no handler of the router answers passes all of them and is answered by Starlette's
  outermost \<^verbatim>\<open>ServerErrorMiddleware\<close>. CORS, which is Starlette's, is a parameter: a function on
  the headers of a response.
\<close>

section \<open>Requests and responses\<close>

record http_request =
  hq_path :: string
  hq_host :: "string option"
  hq_time :: rat
  hq_user_agent :: "string option"
  hq_request_id :: "string option"
  hq_fresh_id :: uuid
  hq_token :: "string option"
  hq_api :: api_request

datatype http_body = Success content | Failure error_response

record http_response =
  hr_status :: nat
  hr_body :: http_body
  hr_headers :: headers

definition failure :: "error_response \<Rightarrow> headers \<Rightarrow> http_response" where
  "failure x hs = \<lparr>hr_status = resp_status x, hr_body = Failure x, hr_headers = hs\<rparr>"

text \<open>The correlation identifier, and what the services see of the request.\<close>

definition correlation_id :: "http_request \<Rightarrow> string" where
  "correlation_id q = request_id_of (hq_request_id q) (hq_fresh_id q)"

definition web_request_of :: "http_request \<Rightarrow> web_request" where
  "web_request_of q = \<lparr>rq_client_host = hq_host q, rq_user_agent = hq_user_agent q,
     rq_request_id = Some (correlation_id q)\<rparr>"

section \<open>The layers\<close>

text \<open>The router with the handlers of its exceptions; \<^term>\<open>Inl\<close> is an exception that passes.\<close>

definition exception_layer ::
  "config \<Rightarrow> (error \<Rightarrow> string) \<Rightarrow> string \<Rightarrow> error + response \<Rightarrow> error + http_response" where
  "exception_layer c shown i x =
     (case x of
        Inr (st, body) \<Rightarrow> Inr \<lparr>hr_status = st, hr_body = Success body, hr_headers = []\<rparr>
      | Inl e \<Rightarrow> if e = RequestValidationError \<or> app_error_of e \<noteq> None
                 then Inr (failure (respond_to_error c shown e (Some i)) []) else Inl e)"

definition header_layer :: "(headers \<Rightarrow> headers) \<Rightarrow> error + http_response \<Rightarrow> error + http_response" where
  "header_layer f x = map_sum id (hr_headers_update f) x"

text \<open>\<^verbatim>\<open>response.headers["X-Request-ID"] = request_id\<close>.\<close>

definition echo_request_id :: "string \<Rightarrow> headers \<Rightarrow> headers" where
  "echo_request_id i hs = filter (\<lambda>kv. fst kv \<noteq> ''X-Request-ID'') hs @ [(''X-Request-ID'', i)]"

definition server_error_layer ::
  "config \<Rightarrow> (error \<Rightarrow> string) \<Rightarrow> string \<Rightarrow> error + http_response \<Rightarrow> http_response" where
  "server_error_layer c shown i x =
     (case x of Inr r \<Rightarrow> r | Inl e \<Rightarrow> failure (handle_unexpected_error c shown e (Some i)) [])"

text \<open>A request to a route: the response, the limiter's table and the database it leaves.\<close>

definition application ::
  "(headers \<Rightarrow> headers) \<Rightarrow> (error \<Rightarrow> string) \<Rightarrow> http_request \<Rightarrow> env \<Rightarrow> hits \<Rightarrow> db \<Rightarrow>
   http_response \<times> hits \<times> db" where
  "application cors shown q e t d =
     (let c = config e; i = correlation_id q;
          (v, t') = dispatch (limiter_limit None c) (hq_path q) (hq_host q) (hq_time q) t;
          (x, d') = (if v = Limited then (Inr (failure (limited_response (Some i)) []), d)
                     else case run_tx (serve (hq_api q) (hq_token q) (web_request_of q)) e d of
                       (y, d1) \<Rightarrow> (header_layer (add_security_headers c) (header_layer cors (exception_layer c shown i y)), d1))
      in (server_error_layer c shown i (header_layer (echo_request_id i) x), t', d'))"

text \<open>The two probes, which need no token. \<open>connecting\<close> is \<^verbatim>\<open>str(exc)\<close> of the exception that connecting
  to the database and \<^verbatim>\<open>SELECT 1\<close> raised, if any.\<close>

definition health_probe :: "nat \<times> (string \<times> string) list" where
  "health_probe = (200, [(''status'', ''ok'')])"

definition ready_probe :: "string option \<Rightarrow> nat \<times> (string \<times> string) list" where
  "ready_probe connecting = (200,
     case connecting of
       Some exc \<Rightarrow> [(''status'', ''not_ready''), (''detail'', exc)]
     | None \<Rightarrow> [(''status'', ''ready'')])"

section \<open>What the layers give\<close>

text \<open>The three ways a request can go.\<close>

definition is_limited :: "http_request \<Rightarrow> env \<Rightarrow> hits \<Rightarrow> bool" where
  "is_limited q e t \<longleftrightarrow> fst (dispatch (limiter_limit None (config e)) (hq_path q) (hq_host q) (hq_time q) t) = Limited"

definition outcome :: "http_request \<Rightarrow> env \<Rightarrow> db \<Rightarrow> (error + response) \<times> db" where
  "outcome q e d = run_tx (serve (hq_api q) (hq_token q) (web_request_of q)) e d"

definition unexpected :: "error \<Rightarrow> bool" where
  "unexpected x \<longleftrightarrow> x \<noteq> RequestValidationError \<and> app_error_of x = None"

lemma map_of_echo: "map_of (echo_request_id i hs) k = (if k = ''X-Request-ID'' then Some i else map_of hs k)"
  by (induction hs) (auto simp: echo_request_id_def map_add_def split: option.split)

lemma application_limited:
  assumes "is_limited q e t"
  shows "\<exists>t'. application cors shown q e t d =
    (failure (limited_response (Some (correlation_id q))) [(''X-Request-ID'', correlation_id q)], t', d)"
  using assms
  by (auto simp: application_def is_limited_def Let_def header_layer_def server_error_layer_def failure_def
      echo_request_id_def split: prod.split)

lemma application_unexpected:
  assumes "\<not> is_limited q e t" and "outcome q e d = (Inl x, d')" and "unexpected x"
  shows "\<exists>t'. application cors shown q e t d =
    (failure (handle_unexpected_error (config e) shown x (Some (correlation_id q))) [], t', d')"
  using assms
  by (auto simp: application_def is_limited_def outcome_def Let_def header_layer_def server_error_layer_def
      exception_layer_def unexpected_def split: prod.split)

lemma application_answered:
  assumes "\<not> is_limited q e t" and "outcome q e d = (x, d')" and "\<And>err. x = Inl err \<Longrightarrow> \<not> unexpected err"
  shows "\<exists>t' body. application cors shown q e t d =
    (\<lparr>hr_status = (case x of Inl err \<Rightarrow> resp_status (respond_to_error (config e) shown err (Some (correlation_id q))) | Inr r \<Rightarrow> fst r),
      hr_body = body, hr_headers = echo_request_id (correlation_id q) (add_security_headers (config e) (cors []))\<rparr>, t', d')
    \<and> (body = (case x of Inl err \<Rightarrow> Failure (respond_to_error (config e) shown err (Some (correlation_id q))) | Inr r \<Rightarrow> Success (snd r)))"
  using assms
  by (auto simp: application_def is_limited_def outcome_def Let_def header_layer_def server_error_layer_def
      exception_layer_def unexpected_def failure_def split: prod.split sum.split)

lemma application_db:
  "snd (snd (application cors shown q e t d)) = (if is_limited q e t then d else snd (outcome q e d))"
  by (auto simp: application_def is_limited_def outcome_def Let_def split: prod.split)

end
