(* ===== verification/Events.thy ===== *)
theory Events
  imports Store
begin

text \<open>
  The in-process event bus (\<^verbatim>\<open>app/events/bus.py\<close>, \<^verbatim>\<open>app/events/definitions.py\<close>) and the registry
  of background jobs (\<^verbatim>\<open>app/jobs/base.py\<close>). A handler is any coroutine: a function on a state
  that may raise and keeps what it did before.
\<close>

section \<open>Events\<close>

datatype domain_event =
    UserCreated uuid "uuid option" string
  | TenantCreated uuid string
  | RoleChanged uuid "uuid option" string
  | DocumentUploaded uuid uuid string string
  | ApprovalCompleted uuid uuid string

datatype event_type =
    UserCreated_type | TenantCreated_type | RoleChanged_type | DocumentUploaded_type | ApprovalCompleted_type

fun type_of :: "domain_event \<Rightarrow> event_type" where
  "type_of (UserCreated _ _ _) = UserCreated_type"
| "type_of (TenantCreated _ _) = TenantCreated_type"
| "type_of (RoleChanged _ _ _) = RoleChanged_type"
| "type_of (DocumentUploaded _ _ _ _) = DocumentUploaded_type"
| "type_of (ApprovalCompleted _ _ _) = ApprovalCompleted_type"

type_synonym 's handler = "domain_event \<Rightarrow> 's \<Rightarrow> error option \<times> 's"
type_synonym 's bus = "event_type \<Rightarrow> 's handler list"

definition subscribe :: "event_type \<Rightarrow> 's handler \<Rightarrow> 's bus \<Rightarrow> 's bus" where
  "subscribe ty h bus = bus(ty := bus ty @ [h])"

fun run_handlers :: "'s handler list \<Rightarrow> domain_event \<Rightarrow> 's \<Rightarrow> error option \<times> 's" where
  "run_handlers [] e s = (None, s)"
| "run_handlers (h # hs) e s =
     (case h e s of (Some err, s') \<Rightarrow> (Some err, s') | (None, s') \<Rightarrow> run_handlers hs e s')"

definition publish :: "'s bus \<Rightarrow> domain_event \<Rightarrow> 's \<Rightarrow> error option \<times> 's" where
  "publish bus e s = run_handlers (bus (type_of e)) e s"

lemma run_handlers_append:
  "run_handlers (hs @ hs') e s =
     (case run_handlers hs e s of (Some err, s') \<Rightarrow> (Some err, s') | (None, s') \<Rightarrow> run_handlers hs' e s')"
  by (induction hs arbitrary: s) (auto split: prod.split option.split)

text \<open>A new handler runs after the older ones, for its type of event only.\<close>

lemma publish_subscribe:
  "publish (subscribe ty h bus) e s =
     (if type_of e = ty
      then (case publish bus e s of (Some err, s') \<Rightarrow> (Some err, s') | (None, s') \<Rightarrow> h e s')
      else publish bus e s)"
  by (auto simp: publish_def subscribe_def run_handlers_append split: prod.split option.split)

section \<open>Jobs\<close>

type_synonym 's job_func = "'s \<Rightarrow> error option \<times> 's"

record 's job =
  job_name :: string
  job_func :: "'s job_func"

type_synonym 's registry = "string \<Rightarrow> 's job option"

definition register_job :: "string \<Rightarrow> 's job_func \<Rightarrow> 's registry \<Rightarrow> 's registry" where
  "register_job nm f reg = reg(nm := Some \<lparr>job_name = nm, job_func = f\<rparr>)"

definition get_job :: "'s registry \<Rightarrow> string \<Rightarrow> 's job option" where
  "get_job reg nm = reg nm"

definition run_job :: "'s registry \<Rightarrow> string \<Rightarrow> 's \<Rightarrow> error option \<times> 's" where
  "run_job reg nm s =
     (case get_job reg nm of
        None \<Rightarrow> (Some (ValueError (''No job registered with name '' @ [CHR 0x27] @ nm @ [CHR 0x27] @ ''.'')), s)
      | Some j \<Rightarrow> job_func j s)"

lemma run_registered_job:
  "run_job (register_job nm f reg) nm' s = (if nm' = nm then f s else run_job reg nm' s)"
  by (simp add: run_job_def get_job_def register_job_def)

end
