(* ===== verification/Seed.thy ===== *)
theory Seed
  imports Api_Guards
begin

text \<open>
  The seed script, \<^verbatim>\<open>app/core/seed.py\<close>: the permission table, the seven system roles, the demo
  tenant and the units, and the functions that insert what is missing. The tables are constants,
  so what they say of the routes can be computed: every permission that a route asks for is
  seeded, and which roles can change anything, or administer tenants.
\<close>

section \<open>The tables\<close>

definition master_data_entities :: "(string \<times> string) list" where
  "master_data_entities =
     [(''material_categories'', ''material categories''), (''materials'', ''materials''),
      (''product_categories'', ''product categories''), (''products'', ''products''),
      (''tax_codes'', ''tax codes''), (''payment_terms'', ''payment terms''),
      (''customers'', ''customers''), (''suppliers'', ''suppliers''),
      (''vehicles'', ''vehicles''), (''drivers'', ''drivers'')]"

definition master_data_permission_codes :: "string list" where
  "master_data_permission_codes = concat (map (\<lambda>(prefix, label).
     [prefix @ ''.view'', prefix @ ''.create'', prefix @ ''.update'']) master_data_entities)"

definition master_data_view_only_codes :: "string list" where
  "master_data_view_only_codes = map (\<lambda>(prefix, label). prefix @ ''.view'') master_data_entities"

definition permission_table :: "(string \<times> string \<times> string) list" where
  "permission_table =
     [(''dashboard.view'', ''View dashboard'', ''platform''),
      (''users.view'', ''View users'', ''identity''),
      (''users.create'', ''Create users'', ''identity''),
      (''users.update'', ''Update users'', ''identity''),
      (''users.delete'', ''Deactivate users'', ''identity''),
      (''roles.view'', ''View roles'', ''authz''),
      (''roles.create'', ''Create roles'', ''authz''),
      (''roles.update'', ''Update roles'', ''authz''),
      (''roles.delete'', ''Delete roles'', ''authz''),
      (''permissions.view'', ''View permissions'', ''authz''),
      (''tenants.view'', ''View tenants'', ''tenancy''),
      (''tenants.create'', ''Create tenants'', ''tenancy''),
      (''tenants.update'', ''Update tenants'', ''tenancy''),
      (''tenants.delete'', ''Delete tenants'', ''tenancy''),
      (''settings.view'', ''View settings'', ''platform''),
      (''settings.update'', ''Update settings'', ''platform''),
      (''audit.view'', ''View audit log'', ''platform''),
      (''documents.view'', ''View documents'', ''documents''),
      (''documents.upload'', ''Upload documents'', ''documents''),
      (''documents.delete'', ''Delete documents'', ''documents''),
      (''weighbridge.view'', ''View weighbridge tickets'', ''weighbridge''),
      (''weighbridge.create'', ''Create weighbridge tickets'', ''weighbridge''),
      (''weighbridge.update'', ''Complete or cancel weighbridge tickets'', ''weighbridge''),
      (''production.view'', ''View production entries'', ''production''),
      (''production.create'', ''Create production entries'', ''production''),
      (''production.update'', ''Submit or cancel production entries'', ''production'')]
     @ concat (map (\<lambda>(prefix, label).
         [(prefix @ ''.view'', ''View '' @ label, ''master_data''),
          (prefix @ ''.create'', ''Create '' @ label, ''master_data''),
          (prefix @ ''.update'', ''Update or deactivate '' @ label, ''master_data'')]) master_data_entities)"

text \<open>Code, name, description and permission codes.\<close>

type_synonym system_role = "string \<times> string \<times> string \<times> string list"

definition tenant_admin_codes :: "string list" where
  "tenant_admin_codes =
     [''dashboard.view'', ''users.view'', ''users.create'', ''users.update'', ''users.delete'',
      ''roles.view'', ''roles.create'', ''roles.update'', ''roles.delete'', ''permissions.view'',
      ''settings.view'', ''settings.update'', ''audit.view'', ''documents.view'', ''documents.upload'',
      ''documents.delete'', ''weighbridge.view'', ''weighbridge.create'', ''weighbridge.update'',
      ''production.view'', ''production.create'', ''production.update''] @ master_data_permission_codes"

definition manager_codes :: "string list" where
  "manager_codes =
     [''dashboard.view'', ''users.view'', ''settings.view'', ''audit.view'', ''documents.view'',
      ''documents.upload'', ''weighbridge.view'', ''weighbridge.create'', ''weighbridge.update'',
      ''production.view'', ''production.create'', ''production.update''] @ master_data_permission_codes"

definition operator_codes :: "string list" where
  "operator_codes =
     [''dashboard.view'', ''documents.view'', ''documents.upload'', ''weighbridge.view'',
      ''weighbridge.create'', ''weighbridge.update'', ''production.view'', ''production.create'',
      ''production.update''] @ master_data_view_only_codes"

definition accountant_codes :: "string list" where
  "accountant_codes = [''dashboard.view'', ''documents.view'', ''documents.upload'',
     ''weighbridge.view'', ''production.view''] @ master_data_view_only_codes"

definition storekeeper_codes :: "string list" where
  "storekeeper_codes = [''dashboard.view'', ''documents.view'', ''documents.upload'',
     ''weighbridge.view'', ''production.view''] @ master_data_view_only_codes"

definition viewer_codes :: "string list" where
  "viewer_codes = [''dashboard.view'', ''documents.view'', ''weighbridge.view'', ''production.view'']
     @ master_data_view_only_codes"

definition system_roles :: "system_role list" where
  "system_roles =
     [(''SUPER_ADMIN'', ''Super Admin'', ''Full platform access.'', map fst permission_table),
      (''TENANT_ADMIN'', ''Tenant Admin'', ''Full administrative access within a tenant.'', tenant_admin_codes),
      (''MANAGER'', ''Manager'', ''Operational management within assigned scope.'', manager_codes),
      (''OPERATOR'', ''Operator'', ''Day-to-day operational access within assigned scope.'', operator_codes),
      (''ACCOUNTANT'', ''Accountant'', ''Financial data access within assigned scope.'', accountant_codes),
      (''STOREKEEPER'', ''Storekeeper'', ''Inventory/store access within assigned scope.'', storekeeper_codes),
      (''VIEWER'', ''Viewer'', ''Read-only access within assigned scope.'', viewer_codes)]"

definition demo_users :: "(string \<times> string \<times> string \<times> string) list" where
  "demo_users =
     [(''TENANT_ADMIN'', ''admin'', ''Demo'', ''Admin''), (''MANAGER'', ''manager'', ''Demo'', ''Manager''),
      (''OPERATOR'', ''operator'', ''Demo'', ''Operator''),
      (''ACCOUNTANT'', ''accountant'', ''Demo'', ''Accountant''),
      (''STOREKEEPER'', ''storekeeper'', ''Demo'', ''Storekeeper''), (''VIEWER'', ''viewer'', ''Demo'', ''Viewer'')]"

definition unit_table ::
  "(string \<times> string \<times> (string \<times> string \<times> string) list \<times> (string \<times> string \<times> rat) list) list" where
  "unit_table =
     [(''MASS'', ''Mass'', [(''kg'', ''Kilogram'', ''kg''), (''ton'', ''Metric Ton'', ''t'')],
         [(''kg'', ''ton'', 1 / 1000), (''ton'', ''kg'', 1000)]),
      (''VOLUME'', ''Volume'', [(''litre'', ''Litre'', ''L'')], []),
      (''DISTANCE'', ''Distance'', [(''km'', ''Kilometre'', ''km'')], []),
      (''TIME'', ''Time'', [(''hour'', ''Hour'', ''hr'')], []),
      (''COUNT'', ''Count'', [(''piece'', ''Piece'', ''pc''), (''set'', ''Set'', ''set'')], [])]"

section \<open>Inserting what is missing\<close>

text \<open>The pattern of the whole script: a row by its natural key, inserted if it is absent.\<close>

definition get_or_add :: "(db \<Rightarrow> 'a list) \<Rightarrow> 'a tx \<Rightarrow> 'a tx" where
  "get_or_add q insertion = bind_tx (scalar_tx q) (\<lambda>found.
     case found of Some r \<Rightarrow> return_tx r | None \<Rightarrow> insertion)"

definition permission_constraints :: "db \<Rightarrow> permission \<Rightarrow> (string \<times> bool) list" where
  "permission_constraints d p =
     [(''permissions_pkey'', fresh_id (permissions d) p),
      (''permissions_code_key'', p_code p \<notin> p_code ` set (permissions d))]"

definition get_permission_by_code :: "string \<Rightarrow> db \<Rightarrow> permission list" where
  "get_permission_by_code c d = filter (\<lambda>p. p_code p = c) (permissions d)"

definition add_permission :: "string \<times> string \<times> string \<Rightarrow> permission tx" where
  "add_permission row = (case row of (c, desc, md) \<Rightarrow>
     bind_tx uuid4_tx (\<lambda>i. add_row permissions_update permission_constraints
       \<lparr>created_at = 0, updated_at = 0, row_id = i, p_code = c, p_description = Some desc, p_module = md\<rparr>))"

text \<open>\<^verbatim>\<open>by_code\<close> is the dictionary that \<^verbatim>\<open>seed_roles\<close> gets.\<close>

fun seed_permissions :: "(string \<times> string \<times> string) list \<Rightarrow> (string \<times> permission) list tx" where
  "seed_permissions [] = return_tx []"
| "seed_permissions (row # rows) =
     bind_tx (get_or_add (get_permission_by_code (fst row)) (add_permission row)) (\<lambda>p.
     bind_tx (seed_permissions rows) (\<lambda>by_code. return_tx ((fst row, p) # by_code)))"

definition system_role_row :: "uuid \<Rightarrow> system_role \<Rightarrow> role" where
  "system_role_row i r = (case r of (c, n, desc, codes) \<Rightarrow>
     \<lparr>created_at = 0, updated_at = 0, row_id = i, r_tenant_id = None, r_code = c, r_name = n,
      r_description = Some desc, r_is_system = True\<rparr>)"

definition system_role_rows :: "string \<Rightarrow> db \<Rightarrow> role list" where
  "system_role_rows c d = filter (\<lambda>r. r_code r = c \<and> r_tenant_id r = None) (roles d)"

definition add_missing_permission :: "(string \<times> permission) list \<Rightarrow> role \<Rightarrow> uuid list \<Rightarrow> string \<Rightarrow> unit tx" where
  "add_missing_permission by_code r existing c =
     bind_tx (some_tx (map_of by_code c) (KeyError c)) (\<lambda>p.
     if row_id p \<in> set existing then return_tx () else add_role_permission (row_id r) p)"

definition seed_role :: "(string \<times> permission) list \<Rightarrow> system_role \<Rightarrow> unit tx" where
  "seed_role by_code sr = (case sr of (c, n, desc, codes) \<Rightarrow>
     bind_tx (get_or_add (system_role_rows c)
       (bind_tx uuid4_tx (\<lambda>i. add_row roles_update role_constraints (system_role_row i sr)))) (\<lambda>r.
     bind_tx (query_tx (\<lambda>d. map rp_permission_id (permissions_of_role d (row_id r)))) (\<lambda>existing.
     for_tx codes (add_missing_permission by_code r existing))))"

definition seed_roles :: "(string \<times> permission) list \<Rightarrow> unit tx" where
  "seed_roles by_code = for_tx system_roles (seed_role by_code)"

text \<open>\<^verbatim>\<open>session.add(UserRole(user_id=user.id, role_id=role.id))\<close>, \<^verbatim>\<open>role\<close> being None if it is not seeded.\<close>

definition assign_system_role :: "user \<Rightarrow> string \<Rightarrow> unit tx" where
  "assign_system_role u c =
     bind_tx (get_role_by_code c None) (\<lambda>found.
     bind_tx (some_tx found (AttributeError ([CHR 0x27] @ ''NoneType'' @ [CHR 0x27] @ '' object has no attribute '' @ [CHR 0x27] @ ''id'' @ [CHR 0x27]))) (\<lambda>r.
     bind_tx uuid4_tx (\<lambda>j.
     bind_tx (add_row user_roles_update user_role_constraints (new_user_role j (row_id u) (row_id r) None)) (\<lambda>_.
     return_tx ()))))"

definition seeded_user ::
  "uuid \<Rightarrow> uuid option \<Rightarrow> string \<Rightarrow> string \<Rightarrow> string \<Rightarrow> string \<Rightarrow> bool \<Rightarrow> user" where
  "seeded_user i t email h first_name last_name platform = \<lparr>created_at = 0, updated_at = 0, row_id = i,
     u_tenant_id = t, u_email = email, u_password_hash = h, u_first_name = first_name, u_last_name = last_name,
     u_phone = None, u_status = UserStatus_ACTIVE, u_is_verified = True, u_is_platform_user = platform,
     u_last_login_at = None, u_failed_login_attempts = 0\<rparr>"

text \<open>\<open>email\<close> and \<open>password\<close> are what \<^verbatim>\<open>os.getenv\<close> gives, or its defaults.\<close>

definition seed_super_admin :: "string \<Rightarrow> string \<Rightarrow> unit tx" where
  "seed_super_admin email password =
     bind_tx (get_by_email email) (\<lambda>existing.
     case existing of
       Some u \<Rightarrow> return_tx ()
     | None \<Rightarrow>
         bind_tx (hash_password password) (\<lambda>h.
         bind_tx uuid4_tx (\<lambda>i.
         bind_tx (require_tx (length email \<le> 320) too_long) (\<lambda>_.
         bind_tx (add_row users_update user_constraints
           (seeded_user i None (lower email) h ''Super'' ''Admin'' True)) (\<lambda>u.
         assign_system_role u ''SUPER_ADMIN'')))))"

definition fiscal_year_constraints :: "db \<Rightarrow> fiscal_year \<Rightarrow> (string \<times> bool) list" where
  "fiscal_year_constraints d y =
     [(''fiscal_years_pkey'', fresh_id (fiscal_years d) y),
      (''uq_fiscal_year_tenant_code'',
         \<not> list_ex (\<lambda>x. tenant_id x = tenant_id y \<and> fy_code x = fy_code y) (fiscal_years d)),
      (''fiscal_years_tenant_id_fkey'', tenant_id y \<in> row_id ` set (tenants d))]"

text \<open>April to March: the year of a date, and the code \<^verbatim>\<open>2026-27\<close> (years have four digits).\<close>

definition fiscal_start_year :: "date \<Rightarrow> int" where
  "fiscal_start_year today = (case today of (y, m, day) \<Rightarrow> if 4 \<le> m then y else y - 1)"

definition fiscal_code :: "int \<Rightarrow> string" where
  "fiscal_code y = str_nat (nat y) @ ''-'' @ (let s = str_nat (nat (y + 1)) in drop (length s - 2) s)"

definition fiscal_year_row :: "uuid \<Rightarrow> uuid \<Rightarrow> int \<Rightarrow> fiscal_year" where
  "fiscal_year_row i t y = \<lparr>created_at = 0, updated_at = 0, row_id = i, tenant_id = t,
     fy_code = fiscal_code y, fy_start_date = (y, 4, 1), fy_end_date = (y + 1, 3, 31),
     fy_is_active = True, fy_is_closed = False\<rparr>"

definition seed_fiscal_year :: "date \<Rightarrow> uuid \<Rightarrow> unit tx" where
  "seed_fiscal_year today t =
     bind_tx (get_active_for_tenant t) (\<lambda>existing.
     case existing of
       Some y \<Rightarrow> return_tx ()
     | None \<Rightarrow>
         bind_tx uuid4_tx (\<lambda>i.
         bind_tx (add_row fiscal_years_update fiscal_year_constraints
           (fiscal_year_row i t (fiscal_start_year today))) (\<lambda>_.
         return_tx ())))"

definition demo_tenant :: "uuid \<Rightarrow> tenant" where
  "demo_tenant i = \<lparr>created_at = 0, updated_at = 0, row_id = i, tn_name = ''Demo Stone Crushers'',
     tn_code = ''DEMO'', tn_slug = ''demo'', tn_status = TenantStatus_ACTIVE,
     tn_timezone = ''Asia/Kolkata'', tn_currency = ''INR''\<rparr>"

definition seed_demo_user :: "uuid \<Rightarrow> string \<times> string \<times> string \<times> string \<Rightarrow> unit tx" where
  "seed_demo_user t row = (case row of (role_code, local_part, first_name, last_name) \<Rightarrow>
     let email = local_part @ ''@demo.stonecrusher.example.com'' in
     bind_tx (get_by_email email) (\<lambda>existing.
     case existing of
       Some u \<Rightarrow> return_tx ()
     | None \<Rightarrow>
         bind_tx (hash_password ''Demo!12345'') (\<lambda>h.
         bind_tx uuid4_tx (\<lambda>i.
         bind_tx (add_row users_update user_constraints (seeded_user i (Some t) email h first_name last_name False)) (\<lambda>u.
         assign_system_role u role_code)))))"

definition seed_demo_tenant_and_users :: "date \<Rightarrow> unit tx" where
  "seed_demo_tenant_and_users today =
     bind_tx (get_or_add (\<lambda>d. filter (\<lambda>x. tn_code x = ''DEMO'' \<or> tn_slug x = ''demo'') (tenants d))
       (bind_tx uuid4_tx (\<lambda>i. add_row tenants_update tenant_constraints (demo_tenant i)))) (\<lambda>t.
     bind_tx (seed_fiscal_year today (row_id t)) (\<lambda>_.
     for_tx demo_users (seed_demo_user (row_id t))))"

section \<open>Units\<close>

definition category_constraints :: "db \<Rightarrow> unit_category \<Rightarrow> (string \<times> bool) list" where
  "category_constraints d c =
     [(''unit_categories_pkey'', fresh_id (unit_categories d) c),
      (''unit_categories_code_key'', uc_code c \<notin> uc_code ` set (unit_categories d))]"

definition unit_constraints :: "db \<Rightarrow> measure_unit \<Rightarrow> (string \<times> bool) list" where
  "unit_constraints d u =
     [(''units_pkey'', fresh_id (measure_units d) u),
      (''units_code_key'', mu_code u \<notin> mu_code ` set (measure_units d)),
      (''units_category_id_fkey'', mu_category_id u \<in> row_id ` set (unit_categories d))]"

definition conversion_constraints :: "db \<Rightarrow> unit_conversion \<Rightarrow> (string \<times> bool) list" where
  "conversion_constraints d c =
     [(''unit_conversions_pkey'', fresh_id (unit_conversions d) c),
      (''uq_unit_conversion_pair'', \<not> list_ex (\<lambda>x. cv_from_unit_id x = cv_from_unit_id c \<and>
         cv_to_unit_id x = cv_to_unit_id c) (unit_conversions d)),
      (''unit_conversions_from_unit_id_fkey'', cv_from_unit_id c \<in> row_id ` set (measure_units d)),
      (''unit_conversions_to_unit_id_fkey'', cv_to_unit_id c \<in> row_id ` set (measure_units d))]"

fun seed_category_units :: "uuid \<Rightarrow> (string \<times> string \<times> string) list \<Rightarrow> (string \<times> uuid) list tx" where
  "seed_category_units category [] = return_tx []"
| "seed_category_units category ((c, n, sy) # us) =
     bind_tx (get_or_add (\<lambda>d. filter (\<lambda>u. mu_code u = c) (measure_units d))
       (bind_tx uuid4_tx (\<lambda>i. add_row measure_units_update unit_constraints
          \<lparr>created_at = 0, updated_at = 0, row_id = i, mu_category_id = category, mu_code = c, mu_name = n,
           mu_symbol = sy\<rparr>))) (\<lambda>u.
     bind_tx (seed_category_units category us) (\<lambda>ids. return_tx ((c, row_id u) # ids)))"

definition seed_conversion :: "(string \<times> uuid) list \<Rightarrow> string \<times> string \<times> rat \<Rightarrow> unit tx" where
  "seed_conversion ids cv = (case cv of (from_code, to_code, factor) \<Rightarrow>
     bind_tx (some_tx (map_of ids from_code) (KeyError from_code)) (\<lambda>f.
     bind_tx (some_tx (map_of ids to_code) (KeyError to_code)) (\<lambda>t.
     bind_tx (get_or_add (\<lambda>d. filter (\<lambda>x. cv_from_unit_id x = f \<and> cv_to_unit_id x = t) (unit_conversions d))
       (bind_tx uuid4_tx (\<lambda>i. add_row unit_conversions_update conversion_constraints
          \<lparr>created_at = 0, updated_at = 0, row_id = i, cv_from_unit_id = f, cv_to_unit_id = t, cv_factor = factor\<rparr>)))
       (\<lambda>_. return_tx ()))))"

definition seed_category ::
  "string \<times> string \<times> (string \<times> string \<times> string) list \<times> (string \<times> string \<times> rat) list \<Rightarrow> unit tx" where
  "seed_category row = (case row of (c, n, us, conversions) \<Rightarrow>
     bind_tx (get_or_add (\<lambda>d. filter (\<lambda>x. uc_code x = c) (unit_categories d))
       (bind_tx uuid4_tx (\<lambda>i. add_row unit_categories_update category_constraints
          \<lparr>created_at = 0, updated_at = 0, row_id = i, uc_code = c, uc_name = n\<rparr>))) (\<lambda>category.
     bind_tx (seed_category_units (row_id category) us) (\<lambda>ids.
     for_tx conversions (seed_conversion ids))))"

definition seed_units :: "unit tx" where
  "seed_units = for_tx unit_table seed_category"

definition seed_run :: "string \<Rightarrow> string \<Rightarrow> date \<Rightarrow> unit tx" where
  "seed_run email password today =
     bind_tx (seed_permissions permission_table) (\<lambda>by_code.
     bind_tx (seed_roles by_code) (\<lambda>_.
     bind_tx (seed_super_admin email password) (\<lambda>_.
     bind_tx (seed_demo_tenant_and_users today) (\<lambda>_.
     bind_tx seed_units (\<lambda>_.
     commit_tx)))))"

section \<open>What the tables say\<close>

definition seeded_codes :: "string list" where
  "seeded_codes = map fst permission_table"

lemma seeded_common:
  "list_all (\<lambda>p. p \<in> set seeded_codes) [''dashboard.view'', ''users.view'', ''users.create'', ''users.update'',
     ''users.delete'', ''roles.view'', ''roles.create'', ''roles.update'', ''roles.delete'', ''permissions.view'',
     ''tenants.view'', ''tenants.create'', ''tenants.update'', ''settings.view'', ''settings.update'', ''audit.view'',
     ''documents.view'', ''documents.upload'', ''documents.delete'', ''weighbridge.view'', ''weighbridge.create'',
     ''weighbridge.update'', ''production.view'', ''production.create'', ''production.update'']"
  by code_simp

lemma seeded_items:
  "permission_prefix e @ ''.view'' \<in> set seeded_codes" "permission_prefix e @ ''.create'' \<in> set seeded_codes"
  "permission_prefix e @ ''.update'' \<in> set seeded_codes"
  by (induct e; code_simp)+

lemma access_seeded: "route_access r = Permission p \<Longrightarrow> p \<in> set seeded_codes"
proof (cases r)
  case (On_users q)
  with seeded_common show "route_access r = Permission p \<Longrightarrow> ?thesis" by (cases q) auto
next
  case (On_tenants q)
  with seeded_common show "route_access r = Permission p \<Longrightarrow> ?thesis" by (cases q) auto
next
  case (On_roles q)
  with seeded_common show "route_access r = Permission p \<Longrightarrow> ?thesis" by (cases q) auto
next
  case (On_admin q)
  with seeded_common show "route_access r = Permission p \<Longrightarrow> ?thesis" by (cases q) auto
next
  case (On_own q)
  then show "route_access r = Permission p \<Longrightarrow> ?thesis" by (cases q) auto
next
  case (On_tickets q)
  with seeded_common show "route_access r = Permission p \<Longrightarrow> ?thesis" by (cases q) auto
next
  case (On_entries q)
  with seeded_common show "route_access r = Permission p \<Longrightarrow> ?thesis" by (cases q) auto
next
  case (On_items q)
  with seeded_items show "route_access r = Permission p \<Longrightarrow> ?thesis" by (cases q) auto
qed

text \<open>No permission of the viewer opens a route that writes.\<close>

lemma viewer_common:
  "list_all (\<lambda>p. p \<notin> set viewer_codes) [''users.create'', ''users.update'', ''users.delete'', ''roles.create'',
     ''roles.update'', ''roles.delete'', ''tenants.create'', ''tenants.update'', ''settings.update'',
     ''weighbridge.create'', ''weighbridge.update'', ''production.create'', ''production.update'',
     ''documents.upload'', ''documents.delete'']"
  by code_simp

lemma viewer_items:
  "permission_prefix e @ ''.create'' \<notin> set viewer_codes" "permission_prefix e @ ''.update'' \<notin> set viewer_codes"
  by (induct e; code_simp)+

lemma viewer_reads: "route_access r = Permission p \<Longrightarrow> p \<in> set viewer_codes \<Longrightarrow> private_writes r = {}"
proof (induction r)
  case (On_users q)
  with viewer_common show ?case by (cases q) auto
next
  case (On_tenants q)
  with viewer_common show ?case by (cases q) auto
next
  case (On_roles q)
  with viewer_common show ?case by (cases q) auto
next
  case (On_admin q)
  with viewer_common show ?case by (cases q) auto
next
  case (On_own q)
  then show ?case by (cases q) auto
next
  case (On_tickets q)
  with viewer_common show ?case by (cases q) auto
next
  case (On_entries q)
  with viewer_common show ?case by (cases q) auto
next
  case (On_items q)
  with viewer_items show ?case by (cases q) auto
qed

text \<open>The codes of every role are seeded, and only one role administers tenants.\<close>

lemma role_codes_seeded: "list_all (\<lambda>(c, n, desc, codes). list_all (\<lambda>p. p \<in> set seeded_codes) codes) system_roles"
  by code_simp

lemma tenant_administration:
  "list_all (\<lambda>(c, n, desc, codes). c = ''SUPER_ADMIN'' \<or>
     list_all (\<lambda>p. p \<notin> set codes) [''tenants.view'', ''tenants.create'', ''tenants.update'']) system_roles"
  by code_simp

end
