(* ===== verification/Seed_Again.thy ===== *)
theory Seed_Again
  imports Seed
begin

text \<open>
  The seed script run twice. Its header promises that every insert first looks for the row by its
  natural key, so that another run finds all that the first one left. \<open>settled m d x\<close> says that \<open>m\<close>
  returns \<open>x\<close> on the database \<open>d\<close> and leaves it alone; \<open>covers m m'\<close>, that after \<open>m\<close> has returned
  \<open>m'\<close> is settled, and stays so whatever else the script inserts. The second run may have another
  password and another date than the first.
\<close>

section \<open>Settled steps\<close>

definition settled :: "'a tx \<Rightarrow> db \<Rightarrow> 'a \<Rightarrow> bool" where
  "settled m d x \<longleftrightarrow> (\<forall>s. current s = d \<longrightarrow> m s = (Inr x, s))"

lemma settled_bind: "settled m d x \<Longrightarrow> settled (f x) d y \<Longrightarrow> settled (bind_tx m f) d y"
  by (simp add: settled_def bind_tx_def)

lemma settled_return: "settled (return_tx x) d x"
  by (simp add: settled_def tx_simps)

lemma settled_scalar: "q d = [x] \<Longrightarrow> settled (scalar_tx q) d (Some x)"
  by (simp add: settled_def scalar_tx_def bind_tx_def tx_simps)

text \<open>What the script's insertions keep: a lookup by natural key that finds one row.\<close>

definition unit_key :: "string \<Rightarrow> db \<Rightarrow> measure_unit list" where
  "unit_key c d = filter (\<lambda>u. mu_code u = c) (measure_units d)"

definition category_key :: "string \<Rightarrow> db \<Rightarrow> unit_category list" where
  "category_key c d = filter (\<lambda>x. uc_code x = c) (unit_categories d)"

definition conversion_key :: "uuid \<Rightarrow> uuid \<Rightarrow> db \<Rightarrow> unit_conversion list" where
  "conversion_key f t d = filter (\<lambda>x. cv_from_unit_id x = f \<and> cv_to_unit_id x = t) (unit_conversions d)"

definition email_key :: "string \<Rightarrow> db \<Rightarrow> user list" where
  "email_key m d = filter (\<lambda>u. lower (u_email u) = lower m) (users d)"

definition demo_key :: "db \<Rightarrow> tenant list" where
  "demo_key d = filter (\<lambda>x. tn_code x = ''DEMO'' \<or> tn_slug x = ''demo'') (tenants d)"

definition year_key :: "uuid \<Rightarrow> db \<Rightarrow> fiscal_year list" where
  "year_key t d = filter (\<lambda>y. tenant_id y = t \<and> fy_is_active y) (fiscal_years d)"

lemmas key_defs = unit_key_def category_key_def conversion_key_def email_key_def demo_key_def year_key_def
  get_permission_by_code_def system_role_rows_def

text \<open>\<open>stays q d d'\<close>: what \<open>q\<close> finds in \<open>d\<close>, it finds in \<open>d'\<close>.\<close>

definition stays :: "(db \<Rightarrow> 'a list) \<Rightarrow> db \<Rightarrow> db \<Rightarrow> bool" where
  "stays q d d' \<longleftrightarrow> (\<forall>x. q d = [x] \<longrightarrow> q d' = [x])"

definition found_again :: "db \<Rightarrow> db \<Rightarrow> bool" where
  "found_again d d' \<longleftrightarrow>
     (\<forall>c. stays (get_permission_by_code c) d d') \<and> (\<forall>c. stays (system_role_rows c) d d') \<and>
     set (role_permissions d) \<subseteq> set (role_permissions d') \<and> (\<forall>m. stays (email_key m) d d') \<and>
     stays demo_key d d' \<and> (\<forall>t. stays (year_key t) d d') \<and> (\<forall>c. stays (category_key c) d d') \<and>
     (\<forall>c. stays (unit_key c) d d') \<and> (\<forall>f t. stays (conversion_key f t) d d')"

lemma stays_same: "q d' = q d \<Longrightarrow> stays q d d'"
  by (simp add: stays_def)

lemma found_again_refl: "found_again d d"
  by (simp add: found_again_def stays_same)

lemma stays_trans: "stays q a b \<Longrightarrow> stays q b c \<Longrightarrow> stays q a c"
  by (simp add: stays_def)

lemma found_again_trans: "found_again a b \<Longrightarrow> found_again b c \<Longrightarrow> found_again a c"
  unfolding found_again_def by (elim conjE, intro conjI allI) (blast intro: stays_trans)+

lemma found_again_stays:
  assumes "found_again d d'"
  shows "stays (get_permission_by_code c) d d'" "stays (system_role_rows c) d d'" "stays (email_key m) d d'"
    "stays demo_key d d'" "stays (year_key t) d d'" "stays (category_key c) d d'" "stays (unit_key c) d d'"
    "stays (conversion_key f t) d d'"
  using assms unfolding found_again_def by blast+

section \<open>Steps that ensure what they find\<close>

definition covers :: "'a tx \<Rightarrow> 'a tx \<Rightarrow> bool" where
  "covers m m' \<longleftrightarrow> (\<forall>s x s'. m s = (Inr x, s') \<longrightarrow> found_again (current s) (current s') \<and>
     (\<forall>d. found_again (current s') d \<longrightarrow> settled m' d x))"

abbreviation ensures :: "'a tx \<Rightarrow> bool" where
  "ensures m \<equiv> covers m m"

named_theorems ensures_rules

lemma coversI:
  assumes "\<And>s x s'. m s = (Inr x, s') \<Longrightarrow> found_again (current s) (current s')"
    and "\<And>s x s' d. m s = (Inr x, s') \<Longrightarrow> found_again (current s') d \<Longrightarrow> settled m' d x"
  shows "covers m m'"
  using assms unfolding covers_def by blast

lemma ensures_return [ensures_rules]: "ensures (return_tx x)"
  by (rule coversI) (auto simp: tx_simps found_again_refl settled_def)

lemma covers_bind [ensures_rules]:
  assumes "covers m m'" and "\<And>x. covers (f x) (f' x)"
  shows "covers (bind_tx m f) (bind_tx m' f')"
proof (rule coversI)
  fix s y s2 assume "bind_tx m f s = (Inr y, s2)"
  then obtain x s1 where 1: "m s = (Inr x, s1)" "f x s1 = (Inr y, s2)" by (rule bind_InrE)
  with assms show "found_again (current s) (current s2)" unfolding covers_def by (blast intro: found_again_trans)
next
  fix s y s2 d assume "bind_tx m f s = (Inr y, s2)" and d: "found_again (current s2) d"
  then obtain x s1 where 1: "m s = (Inr x, s1)" "f x s1 = (Inr y, s2)" by (blast elim: bind_InrE)
  from assms(2) 1(2) have "found_again (current s1) (current s2)" unfolding covers_def by blast
  with d have "found_again (current s1) d" by (blast intro: found_again_trans)
  with assms(1) 1(1) have "settled m' d x" unfolding covers_def by blast
  moreover from assms(2) 1(2) d have "settled (f' x) d y" unfolding covers_def by blast
  ultimately show "settled (bind_tx m' f') d y" by (rule settled_bind)
qed

lemma ensures_for [ensures_rules]: "(\<And>x. ensures (f x)) \<Longrightarrow> ensures (for_tx xs f)"
  by (induction xs) (simp_all add: ensures_return covers_bind)

lemma ensures_some [ensures_rules]: "ensures (some_tx x e)"
  by (rule coversI) (auto simp: some_tx_def tx_simps found_again_refl settled_def split: option.splits)

text \<open>The two shapes of the script: the row of a key is returned, or only looked for.\<close>

definition inserts :: "(db \<Rightarrow> 'a list) \<Rightarrow> 'b tx \<Rightarrow> bool" where
  "inserts q m \<longleftrightarrow> (\<forall>s y s'. m s = (Inr y, s') \<longrightarrow> q (current s) = [] \<longrightarrow>
     found_again (current s) (current s') \<and> (\<exists>x. q (current s') = [x]))"

lemma ensures_get_or_add:
  assumes "\<And>d d'. found_again d d' \<Longrightarrow> stays q d d'"
    and "\<And>s y s'. m s = (Inr y, s') \<Longrightarrow> q (current s) = [] \<Longrightarrow>
      found_again (current s) (current s') \<and> q (current s') = [y]"
  shows "ensures (get_or_add q m)"
proof -
  have run: "found_again (current s) (current s') \<and> q (current s') = [x]" if "get_or_add q m s = (Inr x, s')" for s x s'
  proof -
    from that obtain found s1 where f: "scalar_tx q s = (Inr found, s1)"
      and rest: "(case found of Some r \<Rightarrow> return_tx r | None \<Rightarrow> m) s1 = (Inr x, s')"
      unfolding get_or_add_def by (rule bind_InrE)
    from f show ?thesis
    proof (cases rule: scalar_InrE)
      case 1
      with rest assms(2) [of s x s'] show ?thesis by simp
    next
      case (2 y)
      with rest show ?thesis by (auto simp: tx_simps found_again_refl)
    qed
  qed
  show ?thesis
  proof (rule coversI)
    fix s x s' d assume "get_or_add q m s = (Inr x, s')" "found_again (current s') d"
    with run assms(1) have "q d = [x]" unfolding stays_def by blast
    then show "settled (get_or_add q m) d x"
      unfolding get_or_add_def by (rule settled_bind [OF settled_scalar]) (simp only: option.case, rule settled_return)
  qed (use run in blast)
qed

lemma covers_unless:
  assumes "\<And>d d'. found_again d d' \<Longrightarrow> stays q d d'" and "inserts q m"
  shows "covers (bind_tx (scalar_tx q) (\<lambda>found. case found of Some x \<Rightarrow> return_tx () | None \<Rightarrow> m))
    (bind_tx (scalar_tx q) (\<lambda>found. case found of Some x \<Rightarrow> return_tx () | None \<Rightarrow> m'))" (is "covers ?m ?m'")
proof -
  have run: "found_again (current s) (current s') \<and> (\<exists>y. q (current s') = [y])" if "?m s = (Inr x, s')" for s x s'
  proof -
    from that obtain found s1 where f: "scalar_tx q s = (Inr found, s1)"
      and rest: "(case found of Some x \<Rightarrow> return_tx () | None \<Rightarrow> m) s1 = (Inr x, s')" by (rule bind_InrE)
    from f show ?thesis
    proof (cases rule: scalar_InrE)
      case 1
      with rest assms(2) show ?thesis unfolding inserts_def by auto
    next
      case (2 y)
      with rest show ?thesis by (auto simp: tx_simps found_again_refl)
    qed
  qed
  show ?thesis
  proof (rule coversI)
    fix s x s' d assume "?m s = (Inr x, s')" "found_again (current s') d"
    with run assms(1) obtain y where "q d = [y]" unfolding stays_def by blast
    then show "settled ?m' d x"
      by (rule settled_bind [OF settled_scalar]) (simp only: option.case, cases x, simp only: settled_return)
  qed (use run in blast)
qed

section \<open>The insertions of the script\<close>

lemma inserted_InrE:
  assumes "bind_tx uuid4_tx (\<lambda>i. add_row upd cs (r i)) s = (Inr y, s')"
  obtains n i where "y = stamp n (r i)" "current s' = upd (\<lambda>rs. rs @ [y]) (current s)"
  using assms by (elim bind_InrE add_row_InrE) (auto simp: tx_simps)

lemma found_append:
  "get_permission_by_code (p_code p) d = [] \<Longrightarrow> found_again d (permissions_update (\<lambda>rs. rs @ [p]) d)"
  "r_tenant_id r = None \<Longrightarrow> system_role_rows (r_code r) d = [] \<Longrightarrow> found_again d (roles_update (\<lambda>rs. rs @ [r]) d)"
  "found_again d (role_permissions_update (\<lambda>rs. rs @ [rp]) d)"
  "found_again d (user_roles_update (\<lambda>rs. rs @ [ur]) d)"
  "email_key (u_email u) d = [] \<Longrightarrow> found_again d (users_update (\<lambda>rs. rs @ [u]) d)"
  "demo_key d = [] \<Longrightarrow> found_again d (tenants_update (\<lambda>rs. rs @ [t]) d)"
  "year_key (tenant_id y) d = [] \<Longrightarrow> found_again d (fiscal_years_update (\<lambda>rs. rs @ [y]) d)"
  "category_key (uc_code k) d = [] \<Longrightarrow> found_again d (unit_categories_update (\<lambda>rs. rs @ [k]) d)"
  "unit_key (mu_code x) d = [] \<Longrightarrow> found_again d (measure_units_update (\<lambda>rs. rs @ [x]) d)"
  "conversion_key (cv_from_unit_id v) (cv_to_unit_id v) d = [] \<Longrightarrow>
     found_again d (unit_conversions_update (\<lambda>rs. rs @ [v]) d)"
  by (auto simp: found_again_def stays_def key_defs)

lemma permission_inserted:
  assumes "add_permission row s = (Inr y, s')" and "get_permission_by_code (fst row) (current s) = []"
  shows "found_again (current s) (current s') \<and> get_permission_by_code (fst row) (current s') = [y]"
proof -
  have y: "p_code y = fst row \<and> current s' = permissions_update (\<lambda>rs. rs @ [y]) (current s)"
    using assms(1) unfolding add_permission_def by (cases row) (auto elim!: inserted_InrE simp: stamp_def)
  with assms(2) show ?thesis using found_append(1) [of y "current s"] by (simp add: get_permission_by_code_def)
qed

lemma ensures_permission: "ensures (get_or_add (get_permission_by_code (fst row)) (add_permission row))"
  by (rule ensures_get_or_add [OF found_again_stays(1) permission_inserted])

lemma ensures_seed_permissions [ensures_rules]: "ensures (seed_permissions rows)"
  by (induction rows) (simp_all add: ensures_return covers_bind ensures_permission)

lemma role_inserted:
  assumes "bind_tx uuid4_tx (\<lambda>i. add_row roles_update role_constraints (system_role_row i (c, n, desc, codes))) s = (Inr y, s')"
    and "system_role_rows c (current s) = []"
  shows "found_again (current s) (current s') \<and> system_role_rows c (current s') = [y]"
proof -
  from assms(1) have "r_tenant_id y = None \<and> r_code y = c \<and> current s' = roles_update (\<lambda>rs. rs @ [y]) (current s)"
    by (auto elim!: inserted_InrE simp: stamp_def system_role_row_def)
  with assms(2) show ?thesis using found_append(2) [of y "current s"] by (simp add: system_role_rows_def)
qed

lemma ensures_role:
  "ensures (get_or_add (system_role_rows c)
     (bind_tx uuid4_tx (\<lambda>i. add_row roles_update role_constraints (system_role_row i (c, n, desc, codes)))))"
  by (rule ensures_get_or_add [OF found_again_stays(2) role_inserted])

text \<open>A permission that the role has is skipped; after the loop it has them all.\<close>

definition has_code :: "(string \<times> permission) list \<Rightarrow> role \<Rightarrow> db \<Rightarrow> string \<Rightarrow> bool" where
  "has_code by_code r d c \<longleftrightarrow> (\<exists>p. map_of by_code c = Some p \<and>
     row_id p \<in> rp_permission_id ` set (permissions_of_role d (row_id r)))"

lemma role_permissions_again:
  assumes "found_again d d'"
  shows "rp_permission_id ` set (permissions_of_role d i) \<subseteq> rp_permission_id ` set (permissions_of_role d' i)"
proof (rule image_mono)
  show "set (permissions_of_role d i) \<subseteq> set (permissions_of_role d' i)"
    using assms unfolding found_again_def permissions_of_role_def by auto
qed

lemma has_code_again: "has_code by_code r d c \<Longrightarrow> found_again d d' \<Longrightarrow> has_code by_code r d' c"
  unfolding has_code_def using role_permissions_again by blast

lemma add_missing_Inr:
  assumes "add_missing_permission by_code r existing c s = (Inr x, s')"
    and "set existing \<subseteq> rp_permission_id ` set (permissions_of_role (current s) (row_id r))"
  shows "found_again (current s) (current s') \<and> has_code by_code r (current s') c"
proof -
  from assms(1) obtain p where p: "map_of by_code c = Some p"
    and run: "(if row_id p \<in> set existing then return_tx () else add_role_permission (row_id r) p) s = (Inr x, s')"
    unfolding add_missing_permission_def by (auto simp: some_tx_def tx_simps elim!: bind_InrE split: option.splits)
  show ?thesis
  proof (cases "row_id p \<in> set existing")
    case True
    with run assms(2) p show ?thesis by (auto simp: tx_simps found_again_refl has_code_def)
  next
    case False
    with run have "\<exists>n. current s' = role_permissions_update (\<lambda>rs. rs @ [stamp n (new_role_permission (row_id r) (row_id p))]) (current s)"
      unfolding add_role_permission_def
      by (auto simp: tx_simps elim!: bind_InrE add_row_InrE intro!: exI [of _ "server_clock (env s) (txn s)"])
    with p found_append(3) [of "current s"] show ?thesis
      by (force simp: has_code_def permissions_of_role_def stamp_def new_role_permission_def image_iff)
  qed
qed

lemma add_all_missing_Inr:
  assumes "for_tx codes (add_missing_permission by_code r existing) s = (Inr x, s')"
    and "set existing \<subseteq> rp_permission_id ` set (permissions_of_role (current s) (row_id r))"
  shows "found_again (current s) (current s') \<and> (\<forall>c\<in>set codes. has_code by_code r (current s') c)"
  using assms
proof (induction codes arbitrary: s)
  case (Cons c codes)
  then obtain u s1 where 1: "add_missing_permission by_code r existing c s = (Inr u, s1)"
    "for_tx codes (add_missing_permission by_code r existing) s1 = (Inr x, s')" by (auto elim: bind_InrE)
  note a = add_missing_Inr [OF 1(1) Cons.prems(2)]
  then have "set existing \<subseteq> rp_permission_id ` set (permissions_of_role (current s1) (row_id r))"
    using Cons.prems(2) role_permissions_again by blast
  from Cons.IH [OF 1(2) this] a show ?case by (auto intro: found_again_trans has_code_again)
qed (simp add: tx_simps found_again_refl)

lemma settled_add_missing:
  assumes "\<forall>c\<in>set codes. has_code by_code r d c"
  shows "settled (for_tx codes (add_missing_permission by_code r
    (map rp_permission_id (permissions_of_role d (row_id r))))) d ()"
  using assms
proof (induction codes)
  case (Cons c codes)
  then obtain p where "map_of by_code c = Some p" "row_id p \<in> rp_permission_id ` set (permissions_of_role d (row_id r))"
    by (auto simp: has_code_def)
  then have "settled (add_missing_permission by_code r (map rp_permission_id (permissions_of_role d (row_id r))) c) d ()"
    by (simp add: settled_def add_missing_permission_def some_tx_def bind_tx_def tx_simps)
  with Cons show ?case by (auto intro: settled_bind)
qed (simp add: settled_return)

lemma ensures_codes:
  "ensures (bind_tx (query_tx (\<lambda>d. map rp_permission_id (permissions_of_role d (row_id r)))) (\<lambda>existing.
     for_tx codes (add_missing_permission by_code r existing)))" (is "ensures ?m")
proof -
  have run: "found_again (current s) (current s') \<and> (\<forall>c\<in>set codes. has_code by_code r (current s') c)"
    if "?m s = (Inr x, s')" for s x s'
    using that add_all_missing_Inr [of codes by_code r "map rp_permission_id (permissions_of_role (current s) (row_id r))" s x s']
    by (auto simp: tx_simps elim!: bind_InrE)
  show ?thesis
  proof (rule coversI)
    fix s x s' d assume m: "?m s = (Inr x, s')" and d: "found_again (current s') d"
    from run [OF m] d have "\<forall>c\<in>set codes. has_code by_code r d c" by (blast intro: has_code_again)
    from settled_add_missing [OF this] show "settled ?m d x"
      by (simp add: settled_def bind_tx_def tx_simps)
  qed (use run in blast)
qed

lemma ensures_seed_role: "ensures (seed_role by_code sr)"
  by (cases sr) (simp add: seed_role_def covers_bind ensures_role ensures_codes)

lemma ensures_seed_roles [ensures_rules]: "ensures (seed_roles by_code)"
  unfolding seed_roles_def by (intro ensures_for ensures_seed_role)

section \<open>Users, the demo tenant and its year\<close>

lemma assigned_InrE:
  assumes "assign_system_role u c s = (Inr x, s')"
  obtains ur where "current s' = user_roles_update (\<lambda>rs. rs @ [ur]) (current s)"
  using assms unfolding assign_system_role_def get_role_by_code_def some_tx_def
  by (auto simp: tx_simps elim!: bind_InrE scalar_InrE add_row_InrE split: option.splits)

text \<open>The steps before an insertion leave the database alone.\<close>

lemma inserts_after:
  assumes "\<And>s x s'. n s = (Inr x, s') \<Longrightarrow> current s' = current s" and "\<And>x. inserts q (f x)"
  shows "inserts q (bind_tx n f)"
  unfolding inserts_def
proof (intro allI impI)
  fix s y s' assume "bind_tx n f s = (Inr y, s')" and e: "q (current s) = []"
  then obtain x s1 where x: "n s = (Inr x, s1)" "f x s1 = (Inr y, s')" by (blast elim: bind_InrE)
  from assms(1) [OF x(1)] assms(2) x(2) e
  show "found_again (current s) (current s') \<and> (\<exists>x. q (current s') = [x])" unfolding inserts_def by metis
qed

lemma inserts_steps:
  "(\<And>h. inserts q (f h)) \<Longrightarrow> inserts q (bind_tx (hash_password pw) f)"
  "(\<And>i. inserts q (g i)) \<Longrightarrow> inserts q (bind_tx uuid4_tx g)"
  "(\<And>u. inserts q (k u)) \<Longrightarrow> inserts q (bind_tx (require_tx b e) k)"
  by (rule inserts_after; auto simp: hash_password_def tx_simps require_tx_def split: if_splits)+

text \<open>A user with the address of the key, then his role.\<close>

lemma inserts_user:
  assumes "lower (u_email u) = lower m"
  shows "inserts (email_key m) (bind_tx (add_row users_update user_constraints u) (\<lambda>u. assign_system_role u c))"
  unfolding inserts_def
proof (intro allI impI)
  fix s x s' assume run: "bind_tx (add_row users_update user_constraints u) (\<lambda>u. assign_system_role u c) s = (Inr x, s')"
    and e: "email_key m (current s) = []"
  from run obtain y s1 where s1: "add_row users_update user_constraints u s = (Inr y, s1)"
    "assign_system_role y c s1 = (Inr x, s')" by (rule bind_InrE)
  from s1(1) have y: "u_email y = u_email u" "current s1 = users_update (\<lambda>rs. rs @ [y]) (current s)"
    by (auto elim: add_row_InrE simp: stamp_def)
  obtain ur where ur: "current s' = user_roles_update (\<lambda>rs. rs @ [ur]) (current s1)"
    using s1(2) by (rule assigned_InrE)
  have "email_key (u_email y) (current s) = []" using e assms by (simp add: email_key_def y(1))
  from found_append(5) [OF this] found_append(4) [of "current s1" ur]
  have "found_again (current s) (current s')" unfolding ur y(2) by (rule found_again_trans)
  moreover have "email_key m (current s') = [y]" using e assms by (simp add: ur y email_key_def)
  ultimately show "found_again (current s) (current s') \<and> (\<exists>x. email_key m (current s') = [x])" by blast
qed

lemma get_by_email_key: "get_by_email m = scalar_tx (email_key m)"
  by (simp add: get_by_email_def email_key_def [abs_def])

lemma covers_super_admin [ensures_rules]:
  "covers (seed_super_admin email password) (seed_super_admin email password')"
  unfolding seed_super_admin_def get_by_email_key
  by (intro covers_unless found_again_stays inserts_steps inserts_user) (auto simp: seeded_user_def lower_idem)

lemma ensures_demo_user: "ensures (seed_demo_user t row)"
  unfolding seed_demo_user_def get_by_email_key
  by (cases row) (auto simp: Let_def seeded_user_def intro!: covers_unless found_again_stays inserts_steps inserts_user)

lemma covers_fiscal_year: "covers (seed_fiscal_year today t) (seed_fiscal_year today' t)"
proof -
  have "inserts (year_key t) (bind_tx uuid4_tx (\<lambda>i. bind_tx (add_row fiscal_years_update fiscal_year_constraints
      (fiscal_year_row i t (fiscal_start_year today))) (\<lambda>_. return_tx ())))"
  proof (rule inserts_steps(2))
    fix i show "inserts (year_key t) (bind_tx (add_row fiscal_years_update fiscal_year_constraints
      (fiscal_year_row i t (fiscal_start_year today))) (\<lambda>_. return_tx ()))"
      unfolding inserts_def
    proof (intro allI impI)
      fix s x s' assume "bind_tx (add_row fiscal_years_update fiscal_year_constraints
        (fiscal_year_row i t (fiscal_start_year today))) (\<lambda>_. return_tx ()) s = (Inr x, s')" and e: "year_key t (current s) = []"
      then obtain y where "add_row fiscal_years_update fiscal_year_constraints
          (fiscal_year_row i t (fiscal_start_year today)) s = (Inr y, s')" by (auto simp: tx_simps elim: bind_InrE)
      then have "tenant_id y = t" "fy_is_active y" "current s' = fiscal_years_update (\<lambda>rs. rs @ [y]) (current s)"
        by (auto simp: fiscal_year_row_def stamp_def elim: add_row_InrE)
      with e found_append(7) [of y "current s"]
      show "found_again (current s) (current s') \<and> (\<exists>x. year_key t (current s') = [x])" by (simp add: year_key_def)
    qed
  qed
  from covers_unless [OF found_again_stays(5) this] show ?thesis
    by (simp add: seed_fiscal_year_def get_active_for_tenant_def year_key_def [abs_def])
qed

lemma demo_inserted:
  assumes "bind_tx uuid4_tx (\<lambda>i. add_row tenants_update tenant_constraints (demo_tenant i)) s = (Inr y, s')"
    and e: "demo_key (current s) = []"
  shows "found_again (current s) (current s') \<and> demo_key (current s') = [y]"
proof -
  from assms(1) have "tn_code y = ''DEMO'' \<and> current s' = tenants_update (\<lambda>rs. rs @ [y]) (current s)"
    by (auto elim!: inserted_InrE simp: stamp_def demo_tenant_def)
  with found_append(6) [OF e] e show ?thesis by (simp add: demo_key_def)
qed

lemma ensures_demo_tenant: "ensures (get_or_add demo_key (bind_tx uuid4_tx (\<lambda>i. add_row tenants_update tenant_constraints (demo_tenant i))))"
  by (rule ensures_get_or_add [OF found_again_stays(4) demo_inserted])

lemma covers_demo [ensures_rules]:
  "covers (seed_demo_tenant_and_users today) (seed_demo_tenant_and_users today')"
  unfolding seed_demo_tenant_and_users_def demo_key_def [abs_def, symmetric]
  by (intro covers_bind ensures_for ensures_demo_tenant covers_fiscal_year ensures_demo_user)

section \<open>Units\<close>

lemma unit_inserted:
  assumes "bind_tx uuid4_tx (\<lambda>i. add_row measure_units_update unit_constraints
      \<lparr>created_at = 0, updated_at = 0, row_id = i, mu_category_id = category, mu_code = c, mu_name = n, mu_symbol = sy\<rparr>) s = (Inr y, s')"
    and "unit_key c (current s) = []"
  shows "found_again (current s) (current s') \<and> unit_key c (current s') = [y]"
proof -
  from assms(1) have "mu_code y = c \<and> current s' = measure_units_update (\<lambda>rs. rs @ [y]) (current s)"
    by (auto elim!: inserted_InrE simp: stamp_def)
  with assms(2) found_append(9) [of y "current s"] show ?thesis by (simp add: unit_key_def)
qed

lemma ensures_unit:
  "ensures (get_or_add (unit_key c) (bind_tx uuid4_tx (\<lambda>i. add_row measure_units_update unit_constraints
      \<lparr>created_at = 0, updated_at = 0, row_id = i, mu_category_id = category, mu_code = c, mu_name = n, mu_symbol = sy\<rparr>)))"
  by (rule ensures_get_or_add [OF found_again_stays(7) unit_inserted])

lemma category_inserted:
  assumes "bind_tx uuid4_tx (\<lambda>i. add_row unit_categories_update category_constraints
      \<lparr>created_at = 0, updated_at = 0, row_id = i, uc_code = c, uc_name = n\<rparr>) s = (Inr y, s')"
    and "category_key c (current s) = []"
  shows "found_again (current s) (current s') \<and> category_key c (current s') = [y]"
proof -
  from assms(1) have "uc_code y = c \<and> current s' = unit_categories_update (\<lambda>rs. rs @ [y]) (current s)"
    by (auto elim!: inserted_InrE simp: stamp_def)
  with assms(2) found_append(8) [of y "current s"] show ?thesis by (simp add: category_key_def)
qed

lemma ensures_category:
  "ensures (get_or_add (category_key c) (bind_tx uuid4_tx (\<lambda>i. add_row unit_categories_update category_constraints
      \<lparr>created_at = 0, updated_at = 0, row_id = i, uc_code = c, uc_name = n\<rparr>)))"
  by (rule ensures_get_or_add [OF found_again_stays(6) category_inserted])

lemma conversion_row_inserted:
  assumes "bind_tx uuid4_tx (\<lambda>i. add_row unit_conversions_update conversion_constraints
      \<lparr>created_at = 0, updated_at = 0, row_id = i, cv_from_unit_id = f, cv_to_unit_id = t, cv_factor = factor\<rparr>) s = (Inr y, s')"
    and "conversion_key f t (current s) = []"
  shows "found_again (current s) (current s') \<and> conversion_key f t (current s') = [y]"
proof -
  from assms(1) have "cv_from_unit_id y = f \<and> cv_to_unit_id y = t \<and> current s' = unit_conversions_update (\<lambda>rs. rs @ [y]) (current s)"
    by (auto elim!: inserted_InrE simp: stamp_def)
  with assms(2) found_append(10) [of y "current s"] show ?thesis by (simp add: conversion_key_def)
qed

lemma ensures_conversion_row:
  "ensures (get_or_add (conversion_key f t) (bind_tx uuid4_tx (\<lambda>i. add_row unit_conversions_update conversion_constraints
      \<lparr>created_at = 0, updated_at = 0, row_id = i, cv_from_unit_id = f, cv_to_unit_id = t, cv_factor = factor\<rparr>)))"
  by (rule ensures_get_or_add [OF found_again_stays(8) conversion_row_inserted])

lemma ensures_category_units: "ensures (seed_category_units category us)"
proof (induction us)
  case (Cons u us)
  obtain c n sy where u: "u = (c, n, sy)" by (cases u)
  show ?case unfolding u seed_category_units.simps
    by (intro covers_bind ensures_unit [unfolded unit_key_def [abs_def]] Cons.IH ensures_return)
qed (simp add: ensures_return)

lemma ensures_conversion: "ensures (seed_conversion ids cv)"
proof (cases cv)
  case (fields f t factor)
  show ?thesis unfolding fields seed_conversion_def prod.case
    by (intro covers_bind ensures_some ensures_conversion_row [unfolded conversion_key_def [abs_def]] ensures_return)
qed

lemma ensures_seed_category: "ensures (seed_category row)"
proof (cases row)
  case (fields c n us conversions)
  show ?thesis unfolding fields seed_category_def prod.case
    by (intro covers_bind ensures_for ensures_category [unfolded category_key_def [abs_def]]
      ensures_category_units ensures_conversion)
qed

lemma ensures_seed_units [ensures_rules]: "ensures seed_units"
  unfolding seed_units_def by (intro ensures_for ensures_seed_category)

section \<open>The whole script\<close>

definition seed_body :: "string \<Rightarrow> string \<Rightarrow> date \<Rightarrow> unit tx" where
  "seed_body email password today =
     bind_tx (seed_permissions permission_table) (\<lambda>by_code.
     bind_tx (seed_roles by_code) (\<lambda>_.
     bind_tx (seed_super_admin email password) (\<lambda>_.
     bind_tx (seed_demo_tenant_and_users today) (\<lambda>_.
     seed_units))))"

lemma seed_run_body: "seed_run email password today = bind_tx (seed_body email password today) (\<lambda>_. commit_tx)"
  by (simp add: seed_run_def seed_body_def bind_assoc)

lemma covers_seed_body:
  "covers (seed_body email password today) (seed_body email password' today')"
  unfolding seed_body_def by (intro ensures_rules)

lemma seed_twice:
  assumes "run_tx (seed_run email password today) e d = (Inr (), d')"
  shows "run_tx (seed_run email password' today') e' d' = (Inr (), d')"
proof -
  from assms obtain s s1 where "seed_body email password today (new_session e d) = (Inr (), s)"
    and c: "commit_tx s = (Inr (), s1)" "d' = committed s1"
    by (auto simp: run_tx_def seed_run_body Let_def elim!: bind_InrE split: prod.splits)
  with covers_seed_body have "settled (seed_body email password' today') (current s) ()"
    unfolding covers_def by (blast intro: found_again_refl)
  moreover from c have "current s = d'" by (auto simp: tx_simps)
  ultimately have "seed_body email password' today' (new_session e' d') = (Inr (), new_session e' d')"
    by (simp add: settled_def)
  then show ?thesis by (simp add: run_tx_def seed_run_body bind_tx_def tx_simps)
qed

end
