(* ===== verification/Seed_Returns.thy ===== *)
theory Seed_Returns
  imports Seed_Again
begin

text \<open>
  The seed script returns. On an empty database, if the identifiers that it draws are distinct, none of
  its insertions violates a constraint, no lookup finds several rows, and every role and permission that
  it looks up by code has been inserted before. \<open>room k\<close> is the invariant of the run, with \<open>k\<close> more fresh
  identifiers to draw; \<open>leaves n P m Q\<close> says that \<open>m\<close>, with \<open>n\<close> of them to spare, returns wherever the
  invariant and \<open>P\<close> hold, with the invariant and \<open>Q\<close> afterwards.
\<close>

section \<open>The invariant of the run\<close>

definition used_ids :: "db \<Rightarrow> uuid set" where
  "used_ids d = row_id ` set (permissions d) \<union> row_id ` set (roles d) \<union> row_id ` set (users d) \<union>
     row_id ` set (user_roles d) \<union> row_id ` set (tenants d) \<union> row_id ` set (fiscal_years d) \<union>
     row_id ` set (unit_categories d) \<union> row_id ` set (measure_units d) \<union> row_id ` set (unit_conversions d)"

definition single :: "'a list \<Rightarrow> bool" where
  "single xs \<longleftrightarrow> xs = [] \<or> (\<exists>x. xs = [x])"

definition keys_single :: "db \<Rightarrow> bool" where
  "keys_single d \<longleftrightarrow> (\<forall>c. single (get_permission_by_code c d)) \<and> (\<forall>c. single (system_role_rows c d)) \<and>
     (\<forall>m. single (email_key m d)) \<and> single (demo_key d) \<and> (\<forall>t. single (year_key t d)) \<and>
     (\<forall>c. single (category_key c d)) \<and> (\<forall>c. single (unit_key c d)) \<and> (\<forall>f t. single (conversion_key f t d)) \<and>
     (\<forall>y\<in>set (fiscal_years d). fy_is_active y) \<and> distinct (map row_id (permissions d))"

definition room :: "nat \<Rightarrow> sess \<Rightarrow> bool" where
  "room k s \<longleftrightarrow> inj_on (uuid4 (env s)) {..<drawn s + k} \<and> used_ids (current s) \<subseteq> uuid4 (env s) ` {..<drawn s} \<and> keys_single (current s)"

lemma single_simps [simp]: "single []" "single [x]" "single (x # y # zs) = False"
  by (simp_all add: single_def)

lemma keys_singleD:
  assumes "keys_single d"
  shows "single (get_permission_by_code c d)" "single (system_role_rows c d)" "single (email_key m d)"
    "single (demo_key d)" "single (year_key t d)" "single (category_key c d)" "single (unit_key c d)"
    "single (conversion_key f t d)"
  using assms unfolding keys_single_def by blast+

lemma fresh_draw:
  assumes "room (Suc k) s"
  shows "uuid4 (env s) (drawn s) \<notin> used_ids (current s)"
proof
  assume "uuid4 (env s) (drawn s) \<in> used_ids (current s)"
  with assms obtain j where j: "j < drawn s" "uuid4 (env s) (drawn s) = uuid4 (env s) j" unfolding room_def by blast
  from assms have "inj_on (uuid4 (env s)) {..<drawn s + Suc k}" unfolding room_def by blast
  from inj_onD [OF this j(2)] j(1) show False by simp
qed

lemma room_less: "room k s \<Longrightarrow> j \<le> k \<Longrightarrow> room j s"
  by (auto simp: room_def intro: inj_on_subset)

lemma keys_single_append:
  "keys_single d \<Longrightarrow> get_permission_by_code (p_code p) d = [] \<Longrightarrow> row_id p \<notin> row_id ` set (permissions d) \<Longrightarrow>
     keys_single (permissions_update (\<lambda>rs. rs @ [p]) d)"
  "keys_single d \<Longrightarrow> r_tenant_id r = None \<Longrightarrow> system_role_rows (r_code r) d = [] \<Longrightarrow> keys_single (roles_update (\<lambda>rs. rs @ [r]) d)"
  "keys_single d \<Longrightarrow> keys_single (role_permissions_update (\<lambda>rs. rs @ [rp]) d)"
  "keys_single d \<Longrightarrow> keys_single (user_roles_update (\<lambda>rs. rs @ [ur]) d)"
  "keys_single d \<Longrightarrow> email_key (u_email u) d = [] \<Longrightarrow> keys_single (users_update (\<lambda>rs. rs @ [u]) d)"
  "keys_single d \<Longrightarrow> demo_key d = [] \<Longrightarrow> keys_single (tenants_update (\<lambda>rs. rs @ [t]) d)"
  "keys_single d \<Longrightarrow> year_key (tenant_id y) d = [] \<Longrightarrow> fy_is_active y \<Longrightarrow> keys_single (fiscal_years_update (\<lambda>rs. rs @ [y]) d)"
  "keys_single d \<Longrightarrow> category_key (uc_code k) d = [] \<Longrightarrow> keys_single (unit_categories_update (\<lambda>rs. rs @ [k]) d)"
  "keys_single d \<Longrightarrow> unit_key (mu_code x) d = [] \<Longrightarrow> keys_single (measure_units_update (\<lambda>rs. rs @ [x]) d)"
  "keys_single d \<Longrightarrow> conversion_key (cv_from_unit_id v) (cv_to_unit_id v) d = [] \<Longrightarrow>
     keys_single (unit_conversions_update (\<lambda>rs. rs @ [v]) d)"
  by (auto simp: keys_single_def key_defs)

lemma used_ids_append:
  "used_ids (permissions_update (\<lambda>rs. rs @ [p]) d) = insert (row_id p) (used_ids d)"
  "used_ids (roles_update (\<lambda>rs. rs @ [r]) d) = insert (row_id r) (used_ids d)"
  "used_ids (role_permissions_update g d) = used_ids d"
  "used_ids (user_roles_update (\<lambda>rs. rs @ [ur]) d) = insert (row_id ur) (used_ids d)"
  "used_ids (users_update (\<lambda>rs. rs @ [u]) d) = insert (row_id u) (used_ids d)"
  "used_ids (tenants_update (\<lambda>rs. rs @ [t]) d) = insert (row_id t) (used_ids d)"
  "used_ids (fiscal_years_update (\<lambda>rs. rs @ [y]) d) = insert (row_id y) (used_ids d)"
  "used_ids (unit_categories_update (\<lambda>rs. rs @ [k]) d) = insert (row_id k) (used_ids d)"
  "used_ids (measure_units_update (\<lambda>rs. rs @ [x]) d) = insert (row_id x) (used_ids d)"
  "used_ids (unit_conversions_update (\<lambda>rs. rs @ [v]) d) = insert (row_id v) (used_ids d)"
  by (auto simp: used_ids_def)

section \<open>Steps that return\<close>

definition leaves :: "nat \<Rightarrow> (db \<Rightarrow> bool) \<Rightarrow> 'a tx \<Rightarrow> ('a \<Rightarrow> db \<Rightarrow> bool) \<Rightarrow> bool" where
  "leaves n P m Q \<longleftrightarrow> (\<forall>k s. room (n + k) s \<longrightarrow> P (current s) \<longrightarrow> (\<exists>x s'. m s = (Inr x, s') \<and> room k s' \<and>
     found_again (current s) (current s') \<and> Q x (current s')))"

text \<open>A condition that the script's later insertions keep.\<close>

definition lasting :: "(db \<Rightarrow> bool) \<Rightarrow> bool" where
  "lasting P \<longleftrightarrow> (\<forall>d d'. found_again d d' \<longrightarrow> P d \<longrightarrow> P d')"

lemma leaves_bind:
  assumes "leaves a P m Q" and "\<And>x. leaves b (\<lambda>d. P d \<and> Q x d) (f x) R" and "lasting P" and "a + b = n"
  shows "leaves n P (bind_tx m f) R"
  unfolding leaves_def
proof (intro allI impI)
  fix k s assume "room (n + k) s" and s: "P (current s)"
  then have "room (a + (b + k)) s" using assms(4) by (simp add: add.assoc [symmetric])
  with s assms(1) obtain x s1 where 1: "m s = (Inr x, s1)" "room (b + k) s1" "found_again (current s) (current s1)" "Q x (current s1)"
    unfolding leaves_def by blast
  with s assms(3) have "P (current s1)" unfolding lasting_def by blast
  with 1 assms(2) obtain y s2 where 2: "f x s1 = (Inr y, s2)" "room k s2" "found_again (current s1) (current s2)" "R y (current s2)"
    unfolding leaves_def by blast
  from 1(1) 2(1) have "bind_tx m f s = (Inr y, s2)" by (simp add: bind_tx_def)
  with 1(3) 2(2-4) show "\<exists>y s2. bind_tx m f s = (Inr y, s2) \<and> room k s2 \<and> found_again (current s) (current s2) \<and> R y (current s2)"
    using found_again_trans by blast
qed

lemma leaves_return: "(\<And>d. P d \<Longrightarrow> Q x d) \<Longrightarrow> leaves 0 P (return_tx x) Q"
  by (auto simp: leaves_def tx_simps found_again_refl)

lemma leaves_weaken:
  assumes "leaves n P m Q" and "\<And>d. P' d \<Longrightarrow> P d" and "\<And>x d. Q x d \<Longrightarrow> Q' x d"
  shows "leaves n P' m Q'"
  using assms unfolding leaves_def by meson

lemma leaves_get_or_add:
  assumes "\<And>d. keys_single d \<Longrightarrow> single (q d)"
    and "\<And>s k. room (Suc k) s \<Longrightarrow> P (current s) \<Longrightarrow> q (current s) = [] \<Longrightarrow> \<exists>x s'. m s = (Inr x, s') \<and> room k s'"
    and "\<And>s x s'. m s = (Inr x, s') \<Longrightarrow> q (current s) = [] \<Longrightarrow>
      found_again (current s) (current s') \<and> q (current s') = [x]"
  shows "leaves 1 P (get_or_add q m) (\<lambda>x d. q d = [x])"
  unfolding leaves_def plus_1_eq_Suc
proof (intro allI impI)
  fix k s assume s: "room (Suc k) s" "P (current s)"
  then have "single (q (current s))" using assms(1) by (simp add: room_def)
  then consider "q (current s) = []" | y where "q (current s) = [y]" by (auto simp: single_def)
  then show "\<exists>x s'. get_or_add q m s = (Inr x, s') \<and> room k s' \<and> found_again (current s) (current s') \<and> q (current s') = [x]"
  proof cases
    case 1
    then have "get_or_add q m s = m s" by (simp add: get_or_add_def bind_tx_def scalar_tx_def tx_simps)
    with assms(2) [OF s 1] assms(3) [of s] 1 show ?thesis by metis
  next
    case (2 y)
    then have "get_or_add q m s = (Inr y, s)" by (simp add: get_or_add_def bind_tx_def scalar_tx_def tx_simps)
    with 2 room_less [OF s(1), of k] show ?thesis by (simp add: found_again_refl)
  qed
qed

text \<open>An insertion whose constraints hold for a fresh identifier.\<close>

lemma insertion_returns:
  assumes "room (Suc k) s"
    and "\<And>n. violated (cs (current s) (stamp n (r (uuid4 (env s) (drawn s))))) = None"
    and "\<And>n. keys_single (upd (\<lambda>rs. rs @ [stamp n (r (uuid4 (env s) (drawn s)))]) (current s))"
    and "\<And>n. used_ids (upd (\<lambda>rs. rs @ [stamp n (r (uuid4 (env s) (drawn s)))]) (current s)) =
      insert (uuid4 (env s) (drawn s)) (used_ids (current s))"
  shows "\<exists>x s'. bind_tx uuid4_tx (\<lambda>i. add_row upd cs (r i)) s = (Inr x, s') \<and> room k s'"
proof -
  let ?x = "stamp (server_clock (env s) (txn s)) (r (uuid4 (env s) (drawn s)))"
  let ?s = "s\<lparr>drawn := Suc (drawn s), current := upd (\<lambda>rs. rs @ [?x]) (current s)\<rparr>"
  have "bind_tx uuid4_tx (\<lambda>i. add_row upd cs (r i)) s = (Inr ?x, ?s)"
    using assms(2) by (simp add: add_row_def bind_tx_def tx_simps)
  moreover have "used_ids (current s) \<subseteq> uuid4 (env s) ` {..<Suc (drawn s)}"
    using assms(1) unfolding room_def by (force simp: less_Suc_eq)
  then have "room k ?s" using assms(1,3,4) by (simp add: room_def)
  ultimately show ?thesis by blast
qed

lemma used_ids_fresh:
  "i \<notin> used_ids d \<Longrightarrow> i \<notin> row_id ` set (permissions d)" "i \<notin> used_ids d \<Longrightarrow> i \<notin> row_id ` set (roles d)"
  "i \<notin> used_ids d \<Longrightarrow> i \<notin> row_id ` set (users d)" "i \<notin> used_ids d \<Longrightarrow> i \<notin> row_id ` set (user_roles d)"
  "i \<notin> used_ids d \<Longrightarrow> i \<notin> row_id ` set (tenants d)" "i \<notin> used_ids d \<Longrightarrow> i \<notin> row_id ` set (fiscal_years d)"
  "i \<notin> used_ids d \<Longrightarrow> i \<notin> row_id ` set (unit_categories d)" "i \<notin> used_ids d \<Longrightarrow> i \<notin> row_id ` set (measure_units d)"
  "i \<notin> used_ids d \<Longrightarrow> i \<notin> row_id ` set (unit_conversions d)"
  by (auto simp: used_ids_def)

section \<open>Permissions and roles\<close>

lemma permission_returns:
  assumes "room (Suc k) s" and "get_permission_by_code (fst row) (current s) = []"
  shows "\<exists>x s'. add_permission row s = (Inr x, s') \<and> room k s'"
proof (cases row)
  case (fields c desc md)
  note fresh = used_ids_fresh [OF fresh_draw [OF assms(1)]]
  have c: "get_permission_by_code c (current s) = []" using assms(2) fields by simp
  then have absent: "c \<notin> p_code ` set (permissions (current s))" by (auto simp: get_permission_by_code_def filter_empty_conv)
  have ks: "keys_single (current s)" using assms(1) by (simp add: room_def)
  show ?thesis unfolding fields add_permission_def prod.case
  proof (rule insertion_returns [OF assms(1)])
    fix n
    let ?p = "stamp n \<lparr>created_at = 0, updated_at = 0, row_id = uuid4 (env s) (drawn s), p_code = c,
      p_description = Some desc, p_module = md\<rparr>"
    have p: "p_code ?p = c" "row_id ?p = uuid4 (env s) (drawn s)" by (simp_all add: stamp_def)
    show "violated (permission_constraints (current s) ?p) = None"
      using fresh(1) absent by (simp add: permission_constraints_def fresh_id_def p)
    show "keys_single (permissions_update (\<lambda>rs. rs @ [?p]) (current s))"
      by (rule keys_single_append(1) [OF ks]) (simp_all add: p c fresh(1))
    show "used_ids (permissions_update (\<lambda>rs. rs @ [?p]) (current s)) = insert (uuid4 (env s) (drawn s)) (used_ids (current s))"
      by (simp only: used_ids_append(1) p(2))
  qed
qed

lemma lasting_stays: "(\<And>d d'. found_again d d' \<Longrightarrow> stays q d d') \<Longrightarrow> lasting (\<lambda>d. q d = [x])"
  by (simp add: lasting_def stays_def)

lemma lasting_key:
  "lasting (\<lambda>d. get_permission_by_code c d = [p])" "lasting (\<lambda>d. system_role_rows c d = [r])"
  "lasting (\<lambda>d. demo_key d = [t])" "lasting (\<lambda>d. category_key c d = [k])" "lasting (\<lambda>d. unit_key c d = [x])"
  by (rule lasting_stays, erule found_again_stays)+

lemma lasting_conj: "lasting P \<Longrightarrow> lasting Q \<Longrightarrow> lasting (\<lambda>d. P d \<and> Q d)"
  unfolding lasting_def by blast

lemma lasting_const: "lasting (\<lambda>d. b)"
  by (simp add: lasting_def)

lemma lasting_ball: "(\<And>x. x \<in> A \<Longrightarrow> lasting (P x)) \<Longrightarrow> lasting (\<lambda>d. \<forall>x\<in>A. P x d)"
  unfolding lasting_def by blast

lemma lasting_ex: "(\<And>x. lasting (P x)) \<Longrightarrow> lasting (\<lambda>d. \<exists>x. P x d)"
  unfolding lasting_def by blast

lemma leaves_keep:
  assumes "leaves n P m Q" and "lasting K" and "\<And>d. P d \<Longrightarrow> K d"
  shows "leaves n P m (\<lambda>x d. Q x d \<and> K d)"
  unfolding leaves_def
proof (intro allI impI)
  fix k s assume "room (n + k) s" "P (current s)"
  with assms(1) obtain x s' where x: "m s = (Inr x, s')" "room k s'" "found_again (current s) (current s')" "Q x (current s')"
    unfolding leaves_def by blast
  with assms(2) assms(3) [OF \<open>P (current s)\<close>] have "K (current s')" unfolding lasting_def by blast
  with x show "\<exists>x s'. m s = (Inr x, s') \<and> room k s' \<and> found_again (current s) (current s') \<and> Q x (current s') \<and> K (current s')"
    by blast
qed

lemma leaves_for:
  assumes "\<And>x. x \<in> set xs \<Longrightarrow> leaves (n x) P (f x) (\<lambda>_. Q x)" and "lasting P" and "\<And>x. lasting (Q x)"
  shows "leaves (sum_list (map n xs)) P (for_tx xs f) (\<lambda>_ d. \<forall>x\<in>set xs. Q x d)"
  using assms(1)
proof (induction xs)
  case (Cons x xs)
  have rest: "leaves (sum_list (map n xs)) P (for_tx xs f) (\<lambda>_ d. \<forall>y\<in>set xs. Q y d)" using Cons by simp
  have "leaves (sum_list (map n xs)) (\<lambda>d. P d \<and> Q x d) (for_tx xs f) (\<lambda>_ d. (\<forall>y\<in>set xs. Q y d) \<and> Q x d)"
    by (rule leaves_keep [OF leaves_weaken [OF rest] assms(3)]) simp_all
  then have "leaves (sum_list (map n xs)) (\<lambda>d. P d \<and> Q x d) (for_tx xs f) (\<lambda>_ d. \<forall>y\<in>set (x # xs). Q y d)"
    by (rule leaves_weaken) simp_all
  from leaves_bind [OF Cons.prems [OF list.set_intros(1)] this assms(2) refl] show ?case by simp
qed (simp add: leaves_return)

text \<open>The dictionary that \<^verbatim>\<open>seed_permissions\<close> returns.\<close>

definition dictionary :: "(string \<times> permission) list \<Rightarrow> db \<Rightarrow> bool" where
  "dictionary by_code d \<longleftrightarrow> (\<forall>(c, p)\<in>set by_code. get_permission_by_code c d = [p])"

lemma lasting_dictionary: "lasting (dictionary by_code)"
  unfolding dictionary_def [abs_def] by (rule lasting_ball) (auto intro: lasting_key)

lemma leaves_seed_permissions:
  "leaves (length rows) (\<lambda>_. True) (seed_permissions rows) (\<lambda>by_code d. map fst by_code = map fst rows \<and> dictionary by_code d)"
proof (induction rows)
  case (Cons row rows)
  show ?case unfolding seed_permissions.simps
  proof (rule leaves_bind)
    show "leaves 1 (\<lambda>_. True) (get_or_add (get_permission_by_code (fst row)) (add_permission row))
        (\<lambda>p d. get_permission_by_code (fst row) d = [p])"
      by (rule leaves_get_or_add [OF keys_singleD(1) permission_returns permission_inserted])
    fix p
    show "leaves (length rows) (\<lambda>d. True \<and> get_permission_by_code (fst row) d = [p])
        (bind_tx (seed_permissions rows) (\<lambda>by_code. return_tx ((fst row, p) # by_code)))
        (\<lambda>by_code d. map fst by_code = map fst (row # rows) \<and> dictionary by_code d)"
    proof (rule leaves_bind)
      show "leaves (length rows) (\<lambda>d. True \<and> get_permission_by_code (fst row) d = [p]) (seed_permissions rows)
          (\<lambda>by_code d. map fst by_code = map fst rows \<and> dictionary by_code d)"
        by (rule leaves_weaken [OF Cons.IH]) auto
      show "lasting (\<lambda>d. True \<and> get_permission_by_code (fst row) d = [p])"
        by (intro lasting_conj lasting_const lasting_key)
    qed (auto intro!: leaves_return simp: dictionary_def)
  qed (simp_all add: lasting_const)
qed (simp add: leaves_return dictionary_def)

lemma leaves_role:
  "leaves 1 P (get_or_add (system_role_rows c)
     (bind_tx uuid4_tx (\<lambda>i. add_row roles_update role_constraints (system_role_row i (c, n, desc, codes)))))
   (\<lambda>r d. system_role_rows c d = [r])"
proof (rule leaves_get_or_add [OF keys_singleD(2) _ role_inserted])
  fix s l assume s: "room (Suc l) s" and e: "system_role_rows c (current s) = []"
  note fresh = used_ids_fresh [OF fresh_draw [OF s]]
  have ks: "keys_single (current s)" using s by (simp add: room_def)
  show "\<exists>x s'. bind_tx uuid4_tx (\<lambda>i. add_row roles_update role_constraints (system_role_row i (c, n, desc, codes))) s
      = (Inr x, s') \<and> room l s'"
  proof (rule insertion_returns [OF s])
    fix k
    let ?r = "stamp k (system_role_row (uuid4 (env s) (drawn s)) (c, n, desc, codes))"
    have r: "r_code ?r = c" "r_tenant_id ?r = None" "row_id ?r = uuid4 (env s) (drawn s)"
      by (simp_all add: stamp_def system_role_row_def)
    show "violated (role_constraints (current s) ?r) = None"
      using fresh(2) by (simp add: role_constraints_def fresh_id_def refers_def stamp_def system_role_row_def)
    show "keys_single (roles_update (\<lambda>rs. rs @ [?r]) (current s))"
      by (rule keys_single_append(2) [OF ks]) (simp_all add: r e)
    show "used_ids (roles_update (\<lambda>rs. rs @ [?r]) (current s)) = insert (uuid4 (env s) (drawn s)) (used_ids (current s))"
      by (simp only: used_ids_append(2) r(3))
  qed
qed

text \<open>The codes of a role are in the dictionary and distinct, so that no pair is inserted twice.\<close>

definition known_codes :: "(string \<times> permission) list \<Rightarrow> string list \<Rightarrow> db \<Rightarrow> bool" where
  "known_codes by_code codes d \<longleftrightarrow> (\<forall>c\<in>set codes. \<exists>p. map_of by_code c = Some p \<and> get_permission_by_code c d = [p])"

lemma lasting_known: "lasting (known_codes by_code codes)"
  unfolding known_codes_def [abs_def] by (intro lasting_ball lasting_ex lasting_conj lasting_const lasting_key)

lemma known_permission:
  "get_permission_by_code c d = [p] \<Longrightarrow> p \<in> set (permissions d) \<and> p_code p = c"
  unfolding get_permission_by_code_def by (drule filter_singletonD) simp

lemma add_codes_return:
  assumes "room k s" and "row_id r \<in> row_id ` set (roles (current s))" and "known_codes by_code codes (current s)"
    and "distinct codes"
    and "\<And>c p. c \<in> set codes \<Longrightarrow> map_of by_code c = Some p \<Longrightarrow> row_id p \<in> set existing \<or>
      row_id p \<notin> rp_permission_id ` set (permissions_of_role (current s) (row_id r))"
  shows "\<exists>s'. for_tx codes (add_missing_permission by_code r existing) s = (Inr (), s') \<and> room k s'"
  using assms
proof (induction codes arbitrary: s)
  case Nil
  then show ?case by (simp add: tx_simps)
next
  case (Cons c codes)
  then obtain p where p: "map_of by_code c = Some p" "get_permission_by_code c (current s) = [p]"
    by (auto simp: known_codes_def)
  note pk = known_permission [OF p(2)]
  have rest: "known_codes by_code codes (current s)" "distinct codes" using Cons.prems(3,4) by (simp_all add: known_codes_def)
  show ?case
  proof (cases "row_id p \<in> set existing")
    case True
    then have "add_missing_permission by_code r existing c s = (Inr (), s)"
      using p(1) by (simp add: add_missing_permission_def bind_tx_def tx_simps some_tx_def)
    moreover have "\<exists>s'. for_tx codes (add_missing_permission by_code r existing) s = (Inr (), s') \<and> room k s'"
      by (rule Cons.IH [OF Cons.prems(1,2) rest]) (use Cons.prems(5) in auto)
    ultimately show ?thesis by (simp add: bind_tx_def)
  next
    case False
    let ?x = "stamp (server_clock (env s) (txn s)) (new_role_permission (row_id r) (row_id p))"
    let ?s = "s\<lparr>current := role_permissions_update (\<lambda>rs. rs @ [?x]) (current s)\<rparr>"
    have x: "rp_role_id ?x = row_id r" "rp_permission_id ?x = row_id p" by (simp_all add: stamp_def new_role_permission_def)
    have "row_id p \<notin> rp_permission_id ` set (permissions_of_role (current s) (row_id r))"
      using Cons.prems(5) [of c p] p(1) False by simp
    then have "violated (role_permission_constraints (current s) ?x) = None"
      using Cons.prems(2) pk by (auto simp: role_permission_constraints_def x permissions_of_role_def list_ex_iff image_iff)
    then have "add_missing_permission by_code r existing c s = (Inr (), ?s)"
      using p(1) False by (simp add: add_missing_permission_def add_role_permission_def add_row_def bind_tx_def tx_simps some_tx_def)
    moreover have "\<exists>s'. for_tx codes (add_missing_permission by_code r existing) ?s = (Inr (), s') \<and> room k s'"
    proof (rule Cons.IH)
      show "room k ?s" using Cons.prems(1) keys_single_append(3) [of "current s" ?x]
        by (simp add: room_def used_ids_append(3))
      show "known_codes by_code codes (current ?s)" using rest(1) by (simp add: known_codes_def get_permission_by_code_def)
      fix c' p' assume c': "c' \<in> set codes" "map_of by_code c' = Some p'"
      with rest(1) have "get_permission_by_code c' (current s) = [p']" unfolding known_codes_def by fastforce
      then have p': "p' \<in> set (permissions (current s)) \<and> p_code p' = c'" by (rule known_permission)
      have "c' \<noteq> c" using c'(1) Cons.prems(4) by auto
      with p' pk have "p' \<noteq> p" by auto
      moreover have "distinct (map row_id (permissions (current s)))" using Cons.prems(1) by (simp add: room_def keys_single_def)
      ultimately have "row_id p' \<noteq> row_id p" using p' pk distinct_map_same_key by metis
      with Cons.prems(5) [of c' p'] c' show "row_id p' \<in> set existing \<or>
          row_id p' \<notin> rp_permission_id ` set (permissions_of_role (current ?s) (row_id r))"
        by (auto simp: permissions_of_role_def x)
    qed (use Cons.prems(2) rest(2) in simp_all)
    ultimately show ?thesis by (simp add: bind_tx_def)
  qed
qed

lemma leavesI:
  assumes "ensures m" and "\<And>s k. room (n + k) s \<Longrightarrow> P (current s) \<Longrightarrow> \<exists>x s'. m s = (Inr x, s') \<and> room k s'"
  shows "leaves n P m (\<lambda>_ _. True)"
  using assms unfolding leaves_def covers_def by metis

lemma leaves_seed_role:
  assumes "distinct codes"
  shows "leaves 1 (known_codes by_code codes) (seed_role by_code (c, n, desc, codes)) (\<lambda>_ d. \<exists>r. system_role_rows c d = [r])"
  unfolding seed_role_def prod.case
proof (rule leaves_bind [OF leaves_role _ lasting_known])
  fix r
  let ?m = "bind_tx (query_tx (\<lambda>d. map rp_permission_id (permissions_of_role d (row_id r)))) (\<lambda>existing.
     for_tx codes (add_missing_permission by_code r existing))"
  let ?P = "\<lambda>d. known_codes by_code codes d \<and> system_role_rows c d = [r]"
  have "leaves 0 ?P ?m (\<lambda>_ _. True)"
  proof (rule leavesI [OF ensures_codes])
    fix s k assume "room (0 + k) s" and p: "?P (current s)"
    then have s: "room k s" by simp
    from p have "r \<in> set (roles (current s))" unfolding system_role_rows_def by (auto dest: filter_singletonD)
    then have "\<exists>s'. for_tx codes (add_missing_permission by_code r
        (map rp_permission_id (permissions_of_role (current s) (row_id r)))) s = (Inr (), s') \<and> room k s'"
      using s p assms by (intro add_codes_return) auto
    then show "\<exists>x s'. ?m s = (Inr x, s') \<and> room k s'" by (simp add: bind_tx_def tx_simps)
  qed
  moreover have "lasting (\<lambda>d. system_role_rows c d = [r])" by (rule lasting_key)
  ultimately show "leaves 0 ?P ?m (\<lambda>_ d. \<exists>r. system_role_rows c d = [r])"
    by (rule leaves_weaken [OF leaves_keep]) auto
qed simp

text \<open>The roles of the seed's own table.\<close>

lemma role_codes_distinct: "list_all (\<lambda>(c, n, desc, codes). distinct codes) system_roles"
  by code_simp

lemma permission_codes_distinct: "distinct (map fst permission_table)"
  by code_simp

lemma dictionary_knows:
  assumes "dictionary by_code d" and "map fst by_code = map fst permission_table" and "set codes \<subseteq> fst ` set permission_table"
  shows "known_codes by_code codes d"
  unfolding known_codes_def
proof
  fix c assume "c \<in> set codes"
  with assms(2,3) have "c \<in> fst ` set by_code" by (metis list.set_map subsetD)
  then obtain p where p: "map_of by_code c = Some p" by (metis map_of_eq_None_iff option.exhaust)
  then have "(c, p) \<in> set by_code" by (rule map_of_SomeD)
  with assms(1) p show "\<exists>p. map_of by_code c = Some p \<and> get_permission_by_code c d = [p]"
    by (auto simp: dictionary_def)
qed

lemma draws_each: "sum_list (map (\<lambda>_. 1) xs) = length xs"
  by (induction xs) simp_all

lemma leaves_seed_roles:
  "leaves (length system_roles) (\<lambda>d. map fst by_code = map fst permission_table \<and> dictionary by_code d) (seed_roles by_code)
     (\<lambda>_ d. \<forall>sr\<in>set system_roles. \<exists>r. system_role_rows (fst sr) d = [r])"
  unfolding seed_roles_def draws_each [symmetric]
proof (rule leaves_for)
  fix sr assume sr: "sr \<in> set system_roles"
  obtain c n desc codes where f: "sr = (c, n, desc, codes)" by (cases sr)
  from sr f role_codes_distinct have "distinct codes" by (auto simp: list_all_iff)
  moreover from sr f role_codes_seeded have "set codes \<subseteq> fst ` set permission_table"
    by (fastforce simp: list_all_iff seeded_codes_def)
  ultimately show "leaves 1 (\<lambda>d. map fst by_code = map fst permission_table \<and> dictionary by_code d) (seed_role by_code sr)
      (\<lambda>_ d. \<exists>r. system_role_rows (fst sr) d = [r])"
    unfolding f fst_conv by (intro leaves_weaken [OF leaves_seed_role]) (auto intro: dictionary_knows)
qed (intro lasting_conj lasting_const lasting_dictionary lasting_ex lasting_key)+

section \<open>Users, the demo tenant and its year\<close>

lemma assign_returns:
  assumes "room (Suc l) s" and "system_role_rows c (current s) = [r]" and "row_id u \<in> row_id ` set (users (current s))"
  shows "\<exists>s'. assign_system_role u c s = (Inr (), s') \<and> room l s'"
proof -
  note fresh = used_ids_fresh [OF fresh_draw [OF assms(1)]]
  have ks: "keys_single (current s)" using assms(1) by (simp add: room_def)
  have r: "filter (\<lambda>r. r_code r = c \<and> r_tenant_id r = None) (roles (current s)) = [r]"
    using assms(2) by (simp add: system_role_rows_def)
  then have "r \<in> set (roles (current s))" by (auto dest: filter_singletonD)
  then have role: "row_id r \<in> row_id ` set (roles (current s))" by simp
  have "\<exists>x s'. bind_tx uuid4_tx (\<lambda>j. add_row user_roles_update user_role_constraints
      (new_user_role j (row_id u) (row_id r) None)) s = (Inr x, s') \<and> room l s'"
  proof (rule insertion_returns [OF assms(1)])
    fix k
    let ?x = "stamp k (new_user_role (uuid4 (env s) (drawn s)) (row_id u) (row_id r) None)"
    show "violated (user_role_constraints (current s) ?x) = None"
      using fresh(4) role assms(3)
      by (simp add: user_role_constraints_def fresh_id_def refers_def stamp_def new_user_role_def)
    show "keys_single (user_roles_update (\<lambda>rs. rs @ [?x]) (current s))" by (rule keys_single_append(4) [OF ks])
    show "used_ids (user_roles_update (\<lambda>rs. rs @ [?x]) (current s)) = insert (uuid4 (env s) (drawn s)) (used_ids (current s))"
      unfolding used_ids_append(4) by (simp add: stamp_def new_user_role_def)
  qed
  then obtain x s' where "bind_tx uuid4_tx (\<lambda>j. add_row user_roles_update user_role_constraints
      (new_user_role j (row_id u) (row_id r) None)) s = (Inr x, s')" "room l s'" by blast
  then have "bind_tx (bind_tx uuid4_tx (\<lambda>j. add_row user_roles_update user_role_constraints
      (new_user_role j (row_id u) (row_id r) None))) (\<lambda>_. return_tx ()) s = (Inr (), s')"
    by (simp add: bind_tx_def tx_simps)
  then have "assign_system_role u c s = (Inr (), s')"
    using r unfolding bind_assoc
    by (simp add: assign_system_role_def get_role_by_code_def bind_tx_def scalar_tx_def some_tx_def tx_simps)
  with \<open>room l s'\<close> show ?thesis by blast
qed

lemma user_returns:
  assumes "room (Suc (Suc l)) s" and "email_key m (current s) = []" and "lower email = lower m"
    and "system_role_rows c (current s) = [r]" and "refers (tenants (current s)) t"
  shows "\<exists>s'. bind_tx uuid4_tx (\<lambda>i. bind_tx (add_row users_update user_constraints
      (seeded_user i t email h first_name last_name platform)) (\<lambda>u. assign_system_role u c)) s = (Inr (), s') \<and> room l s'"
proof -
  note fresh = used_ids_fresh [OF fresh_draw [OF assms(1)]]
  have ks: "keys_single (current s)" using assms(1) by (simp add: room_def)
  have absent: "email \<notin> u_email ` set (users (current s))"
    using assms(2,3) by (auto simp: email_key_def filter_empty_conv)
  have "\<exists>x s'. bind_tx uuid4_tx (\<lambda>i. add_row users_update user_constraints
      (seeded_user i t email h first_name last_name platform)) s = (Inr x, s') \<and> room (Suc l) s'"
  proof (rule insertion_returns [OF assms(1)])
    fix k
    let ?x = "stamp k (seeded_user (uuid4 (env s) (drawn s)) t email h first_name last_name platform)"
    show "violated (user_constraints (current s) ?x) = None"
      using fresh(3) absent assms(5) by (simp add: user_constraints_def fresh_id_def stamp_def seeded_user_def)
    show "keys_single (users_update (\<lambda>rs. rs @ [?x]) (current s))"
      by (rule keys_single_append(5) [OF ks]) (use assms(2,3) in \<open>simp add: email_key_def stamp_def seeded_user_def\<close>)
    show "used_ids (users_update (\<lambda>rs. rs @ [?x]) (current s)) = insert (uuid4 (env s) (drawn s)) (used_ids (current s))"
      unfolding used_ids_append(5) by (simp add: stamp_def seeded_user_def)
  qed
  then obtain u s1 where u: "bind_tx uuid4_tx (\<lambda>i. add_row users_update user_constraints
      (seeded_user i t email h first_name last_name platform)) s = (Inr u, s1)" "room (Suc l) s1" by blast
  from u(1) have s1: "current s1 = users_update (\<lambda>rs. rs @ [u]) (current s)" by (rule inserted_InrE)
  have "system_role_rows c (current s1) = [r]" using assms(4) by (simp add: s1 system_role_rows_def)
  moreover have "row_id u \<in> row_id ` set (users (current s1))" by (simp add: s1)
  ultimately obtain s2 where s2: "assign_system_role u c s1 = (Inr (), s2)" "room l s2" using assign_returns [OF u(2)] by blast
  from u(1) s2(1) have "bind_tx (bind_tx uuid4_tx (\<lambda>i. add_row users_update user_constraints
      (seeded_user i t email h first_name last_name platform))) (\<lambda>u. assign_system_role u c) s = (Inr (), s2)"
    by (simp add: bind_tx_def)
  with s2(2) show ?thesis unfolding bind_assoc by blast
qed

text \<open>Hashing a password draws a salt only.\<close>

lemma hash_returns: "bind_tx (hash_password pw) f s = f (argon2_hash (env s) (salts s) pw) (s\<lparr>salts := Suc (salts s)\<rparr>)"
  by (simp add: bind_tx_def hash_password_def)

lemma room_salts [simp]: "room l (s\<lparr>salts := k\<rparr>) = room l s"
  by (simp add: room_def)

lemma leaves_unless:
  assumes "\<And>d. keys_single d \<Longrightarrow> single (q d)" and "ensures (bind_tx (scalar_tx q) (\<lambda>found. case found of Some x \<Rightarrow> return_tx () | None \<Rightarrow> m))"
    and "\<And>s k. room (n + k) s \<Longrightarrow> P (current s) \<Longrightarrow> q (current s) = [] \<Longrightarrow> \<exists>s'. m s = (Inr (), s') \<and> room k s'"
  shows "leaves n P (bind_tx (scalar_tx q) (\<lambda>found. case found of Some x \<Rightarrow> return_tx () | None \<Rightarrow> m)) (\<lambda>_ _. True)"
proof (rule leavesI [OF assms(2)])
  fix s k assume s: "room (n + k) s" "P (current s)"
  then have "single (q (current s))" using assms(1) by (simp add: room_def)
  then consider "q (current s) = []" | y where "q (current s) = [y]" by (auto simp: single_def)
  then show "\<exists>x s'. bind_tx (scalar_tx q) (\<lambda>found. case found of Some x \<Rightarrow> return_tx () | None \<Rightarrow> m) s = (Inr x, s') \<and> room k s'"
  proof cases
    case 1
    with assms(3) [OF s 1] show ?thesis by (auto simp: bind_tx_def scalar_tx_def tx_simps)
  next
    case (2 y)
    with room_less [OF s(1), of k] show ?thesis by (simp add: bind_tx_def scalar_tx_def tx_simps)
  qed
qed

lemma leaves_super_admin:
  assumes "length email \<le> 320"
  shows "leaves 2 (\<lambda>d. \<exists>r. system_role_rows ''SUPER_ADMIN'' d = [r]) (seed_super_admin email password) (\<lambda>_ _. True)"
  unfolding seed_super_admin_def get_by_email_key
proof (rule leaves_unless [OF keys_singleD(3) covers_super_admin [unfolded seed_super_admin_def get_by_email_key]])
  fix s k assume s: "room (2 + k) s" "\<exists>r. system_role_rows ''SUPER_ADMIN'' (current s) = [r]" "email_key email (current s) = []"
  then obtain r where r: "system_role_rows ''SUPER_ADMIN'' (current s) = [r]" by blast
  have no_check: "bind_tx (require_tx (length email \<le> 320) too_long) (\<lambda>_. m) = m" for m :: "unit tx"
    using assms by (simp add: fun_eq_iff bind_tx_def require_tx_def tx_simps)
  show "\<exists>s'. bind_tx (hash_password password) (\<lambda>h. bind_tx uuid4_tx (\<lambda>i.
      bind_tx (require_tx (length email \<le> 320) too_long) (\<lambda>_.
      bind_tx (add_row users_update user_constraints (seeded_user i None (lower email) h ''Super'' ''Admin'' True))
        (\<lambda>u. assign_system_role u ''SUPER_ADMIN'')))) s = (Inr (), s') \<and> room k s'"
    unfolding hash_returns no_check
    by (rule user_returns [where m = email and r = r]) (use s r in \<open>simp_all add: refers_def lower_idem\<close>)
qed

lemma leaves_demo_tenant:
  "leaves 1 P (get_or_add demo_key (bind_tx uuid4_tx (\<lambda>i. add_row tenants_update tenant_constraints (demo_tenant i))))
     (\<lambda>t d. demo_key d = [t])"
proof (rule leaves_get_or_add [OF keys_singleD(4) _ demo_inserted])
  fix s l assume s: "room (Suc l) s" and e: "demo_key (current s) = []"
  note fresh = used_ids_fresh [OF fresh_draw [OF s]]
  have ks: "keys_single (current s)" using s by (simp add: room_def)
  show "\<exists>x s'. bind_tx uuid4_tx (\<lambda>i. add_row tenants_update tenant_constraints (demo_tenant i)) s = (Inr x, s') \<and> room l s'"
  proof (rule insertion_returns [OF s])
    fix k
    let ?t = "stamp k (demo_tenant (uuid4 (env s) (drawn s)))"
    show "violated (tenant_constraints (current s) ?t) = None"
      using fresh(5) e by (force simp: tenant_constraints_def fresh_id_def stamp_def demo_tenant_def demo_key_def filter_empty_conv)
    show "keys_single (tenants_update (\<lambda>rs. rs @ [?t]) (current s))" by (rule keys_single_append(6) [OF ks e])
    show "used_ids (tenants_update (\<lambda>rs. rs @ [?t]) (current s)) = insert (uuid4 (env s) (drawn s)) (used_ids (current s))"
      unfolding used_ids_append(6) by (simp add: stamp_def demo_tenant_def)
  qed
qed

lemma demo_tenant_known: "demo_key d = [t] \<Longrightarrow> row_id t \<in> row_id ` set (tenants d)"
  unfolding demo_key_def by (drule filter_singletonD) simp

lemma leaves_fiscal_year: "leaves 1 (\<lambda>d. demo_key d = [t]) (seed_fiscal_year today (row_id t)) (\<lambda>_ _. True)"
proof -
  let ?m = "bind_tx uuid4_tx (\<lambda>i. bind_tx (add_row fiscal_years_update fiscal_year_constraints
      (fiscal_year_row i (row_id t) (fiscal_start_year today))) (\<lambda>_. return_tx ()))"
  have f: "seed_fiscal_year today (row_id t) = bind_tx (scalar_tx (year_key (row_id t)))
      (\<lambda>found. case found of Some y \<Rightarrow> return_tx () | None \<Rightarrow> ?m)"
    by (simp add: seed_fiscal_year_def get_active_for_tenant_def year_key_def [abs_def])
  show ?thesis unfolding f
  proof (rule leaves_unless [OF keys_singleD(5) covers_fiscal_year [of today "row_id t" today, unfolded f]])
    fix s l assume "room (1 + l) s" and t: "demo_key (current s) = [t]" and e: "year_key (row_id t) (current s) = []"
    then have s: "room (Suc l) s" by simp
    note fresh = used_ids_fresh [OF fresh_draw [OF s]]
    have ks: "keys_single (current s)" using s by (simp add: room_def)
    have none: "tenant_id y \<noteq> row_id t" if "y \<in> set (fiscal_years (current s))" for y
      using that e ks by (auto simp: year_key_def filter_empty_conv keys_single_def)
    have "\<exists>x s'. bind_tx uuid4_tx (\<lambda>i. add_row fiscal_years_update fiscal_year_constraints
        (fiscal_year_row i (row_id t) (fiscal_start_year today))) s = (Inr x, s') \<and> room l s'"
    proof (rule insertion_returns [OF s])
      fix k
      let ?y = "stamp k (fiscal_year_row (uuid4 (env s) (drawn s)) (row_id t) (fiscal_start_year today))"
      have y: "tenant_id ?y = row_id t" "row_id ?y = uuid4 (env s) (drawn s)" "fy_is_active ?y"
        by (simp_all add: stamp_def fiscal_year_row_def)
      show "violated (fiscal_year_constraints (current s) ?y) = None"
        using fresh(6) none demo_tenant_known [OF t]
        by (auto simp: fiscal_year_constraints_def fresh_id_def list_ex_iff stamp_def fiscal_year_row_def)
      show "keys_single (fiscal_years_update (\<lambda>rs. rs @ [?y]) (current s))"
        by (rule keys_single_append(7) [OF ks]) (simp_all only: y e)
      show "used_ids (fiscal_years_update (\<lambda>rs. rs @ [?y]) (current s)) = insert (uuid4 (env s) (drawn s)) (used_ids (current s))"
        by (simp only: used_ids_append(7) y(2))
    qed
    then obtain x s' where "bind_tx uuid4_tx (\<lambda>i. add_row fiscal_years_update fiscal_year_constraints
        (fiscal_year_row i (row_id t) (fiscal_start_year today))) s = (Inr x, s')" "room l s'" by blast
    then have "bind_tx (bind_tx uuid4_tx (\<lambda>i. add_row fiscal_years_update fiscal_year_constraints
        (fiscal_year_row i (row_id t) (fiscal_start_year today)))) (\<lambda>_. return_tx ()) s = (Inr (), s')"
      by (simp add: bind_tx_def tx_simps)
    with \<open>room l s'\<close> show "\<exists>s'. ?m s = (Inr (), s') \<and> room l s'" unfolding bind_assoc by blast
  qed
qed

lemma leaves_demo_user:
  assumes "\<exists>sr\<in>set system_roles. fst sr = fst row"
  shows "leaves 2 (\<lambda>d. demo_key d = [t] \<and> (\<forall>sr\<in>set system_roles. \<exists>r. system_role_rows (fst sr) d = [r]))
    (seed_demo_user (row_id t) row) (\<lambda>_ _. True)"
proof -
  obtain c l f n where row: "row = (c, l, f, n)" by (cases row)
  let ?e = "l @ ''@demo.stonecrusher.example.com''"
  let ?m = "bind_tx (hash_password ''Demo!12345'') (\<lambda>h. bind_tx uuid4_tx (\<lambda>i.
      bind_tx (add_row users_update user_constraints (seeded_user i (Some (row_id t)) ?e h f n False))
        (\<lambda>u. assign_system_role u c)))"
  have m: "seed_demo_user (row_id t) row = bind_tx (scalar_tx (email_key ?e))
      (\<lambda>found. case found of Some u \<Rightarrow> return_tx () | None \<Rightarrow> ?m)"
    by (simp add: seed_demo_user_def row Let_def get_by_email_key)
  show ?thesis unfolding m
  proof (rule leaves_unless [OF keys_singleD(3) ensures_demo_user [of "row_id t" row, unfolded m]])
    fix s l assume s: "room (2 + l) s" and e: "email_key ?e (current s) = []"
      and p: "demo_key (current s) = [t] \<and> (\<forall>sr\<in>set system_roles. \<exists>r. system_role_rows (fst sr) (current s) = [r])"
    from p assms obtain r where r: "system_role_rows c (current s) = [r]" by (auto simp: row)
    from p have t: "row_id t \<in> row_id ` set (tenants (current s))" by (auto dest: demo_tenant_known)
    show "\<exists>s'. ?m s = (Inr (), s') \<and> room l s'"
      unfolding hash_returns
      by (rule user_returns [where m = ?e and r = r]) (use s e r t in \<open>simp_all add: refers_def\<close>)
  qed
qed

lemma demo_roles: "list_all (\<lambda>row. list_ex (\<lambda>sr. fst sr = fst row) system_roles) demo_users"
  by code_simp

lemma draws_two: "sum_list (map (\<lambda>_. 2) xs) = 2 * length xs"
  by (induction xs) simp_all

lemma leaves_demo:
  "leaves (2 + 2 * length demo_users) (\<lambda>d. \<forall>sr\<in>set system_roles. \<exists>r. system_role_rows (fst sr) d = [r])
     (seed_demo_tenant_and_users today) (\<lambda>_ _. True)"
  (is "leaves _ ?R _ _")
proof -
  have lr: "lasting ?R" by (intro lasting_ball lasting_ex lasting_key)
  have k: "(\<lambda>d. filter (\<lambda>x. tn_code x = ''DEMO'' \<or> tn_slug x = ''demo'') (tenants d)) = demo_key"
    by (simp add: demo_key_def [abs_def])
  show ?thesis unfolding seed_demo_tenant_and_users_def k
  proof (rule leaves_bind [OF leaves_demo_tenant _ lr])
    fix t
    let ?P = "\<lambda>d. ?R d \<and> demo_key d = [t]"
    have lp: "lasting ?P" by (intro lasting_conj lr lasting_key)
    have users: "leaves (2 * length demo_users) ?P (for_tx demo_users (seed_demo_user (row_id t))) (\<lambda>_ _. True)"
      unfolding draws_two [symmetric]
    proof (rule leaves_weaken [OF leaves_for [where Q = "\<lambda>_ _. True"]])
      fix row assume "row \<in> set demo_users"
      with demo_roles have "\<exists>sr\<in>set system_roles. fst sr = fst row" by (simp add: list_all_iff list_ex_iff)
      then show "leaves 2 ?P (seed_demo_user (row_id t) row) (\<lambda>_ _. True)"
        by (rule leaves_weaken [OF leaves_demo_user]) auto
    qed (use lp lasting_const in auto)
    show "leaves (1 + 2 * length demo_users) ?P (bind_tx (seed_fiscal_year today (row_id t)) (\<lambda>_. for_tx demo_users (seed_demo_user (row_id t)))) (\<lambda>_ _. True)"
      by (rule leaves_bind [OF leaves_weaken [OF leaves_fiscal_year] leaves_weaken [OF users] lp refl]) auto
  qed simp
qed

section \<open>Units\<close>

lemma leaves_category:
  "leaves 1 P (get_or_add (category_key c) (bind_tx uuid4_tx (\<lambda>i. add_row unit_categories_update category_constraints
      \<lparr>created_at = 0, updated_at = 0, row_id = i, uc_code = c, uc_name = n\<rparr>))) (\<lambda>x d. category_key c d = [x])"
proof (rule leaves_get_or_add [OF keys_singleD(6) _ category_inserted])
  fix s l assume s: "room (Suc l) s" and e: "category_key c (current s) = []"
  note fresh = used_ids_fresh [OF fresh_draw [OF s]]
  have ks: "keys_single (current s)" using s by (simp add: room_def)
  have absent: "c \<notin> uc_code ` set (unit_categories (current s))" using e by (auto simp: category_key_def filter_empty_conv)
  show "\<exists>x s'. bind_tx uuid4_tx (\<lambda>i. add_row unit_categories_update category_constraints
      \<lparr>created_at = 0, updated_at = 0, row_id = i, uc_code = c, uc_name = n\<rparr>) s = (Inr x, s') \<and> room l s'"
  proof (rule insertion_returns [OF s])
    fix k
    let ?k = "stamp k \<lparr>created_at = 0, updated_at = 0, row_id = uuid4 (env s) (drawn s), uc_code = c, uc_name = n\<rparr>"
    show "violated (category_constraints (current s) ?k) = None"
      using fresh(7) absent by (simp add: category_constraints_def fresh_id_def stamp_def)
    show "keys_single (unit_categories_update (\<lambda>rs. rs @ [?k]) (current s))"
      by (rule keys_single_append(8) [OF ks]) (simp add: stamp_def e)
    show "used_ids (unit_categories_update (\<lambda>rs. rs @ [?k]) (current s)) = insert (uuid4 (env s) (drawn s)) (used_ids (current s))"
      unfolding used_ids_append(8) by (simp add: stamp_def)
  qed
qed

lemma leaves_unit:
  assumes "\<And>d. P d \<Longrightarrow> category \<in> row_id ` set (unit_categories d)"
  shows "leaves 1 P (get_or_add (unit_key c) (bind_tx uuid4_tx (\<lambda>i. add_row measure_units_update unit_constraints
      \<lparr>created_at = 0, updated_at = 0, row_id = i, mu_category_id = category, mu_code = c, mu_name = n, mu_symbol = sy\<rparr>)))
    (\<lambda>x d. unit_key c d = [x])"
proof (rule leaves_get_or_add [OF keys_singleD(7) _ unit_inserted])
  fix s l assume s: "room (Suc l) s" and p: "P (current s)" and e: "unit_key c (current s) = []"
  note fresh = used_ids_fresh [OF fresh_draw [OF s]]
  have ks: "keys_single (current s)" using s by (simp add: room_def)
  have absent: "c \<notin> mu_code ` set (measure_units (current s))" using e by (auto simp: unit_key_def filter_empty_conv)
  show "\<exists>x s'. bind_tx uuid4_tx (\<lambda>i. add_row measure_units_update unit_constraints
      \<lparr>created_at = 0, updated_at = 0, row_id = i, mu_category_id = category, mu_code = c, mu_name = n, mu_symbol = sy\<rparr>) s
      = (Inr x, s') \<and> room l s'"
  proof (rule insertion_returns [OF s])
    fix k
    let ?u = "stamp k \<lparr>created_at = 0, updated_at = 0, row_id = uuid4 (env s) (drawn s), mu_category_id = category,
      mu_code = c, mu_name = n, mu_symbol = sy\<rparr>"
    show "violated (unit_constraints (current s) ?u) = None"
      using fresh(8) absent assms [OF p] by (simp add: unit_constraints_def fresh_id_def stamp_def)
    show "keys_single (measure_units_update (\<lambda>rs. rs @ [?u]) (current s))"
      by (rule keys_single_append(9) [OF ks]) (simp add: stamp_def e)
    show "used_ids (measure_units_update (\<lambda>rs. rs @ [?u]) (current s)) = insert (uuid4 (env s) (drawn s)) (used_ids (current s))"
      unfolding used_ids_append(9) by (simp add: stamp_def)
  qed
qed

lemma leaves_conversion_row:
  assumes "\<And>d. P d \<Longrightarrow> f \<in> row_id ` set (measure_units d) \<and> t \<in> row_id ` set (measure_units d)"
  shows "leaves 1 P (get_or_add (conversion_key f t) (bind_tx uuid4_tx (\<lambda>i. add_row unit_conversions_update conversion_constraints
      \<lparr>created_at = 0, updated_at = 0, row_id = i, cv_from_unit_id = f, cv_to_unit_id = t, cv_factor = factor\<rparr>)))
    (\<lambda>x d. conversion_key f t d = [x])"
proof (rule leaves_get_or_add [OF keys_singleD(8) _ conversion_row_inserted])
  fix s l assume s: "room (Suc l) s" and p: "P (current s)" and e: "conversion_key f t (current s) = []"
  note fresh = used_ids_fresh [OF fresh_draw [OF s]]
  have ks: "keys_single (current s)" using s by (simp add: room_def)
  have absent: "\<not> list_ex (\<lambda>x. cv_from_unit_id x = f \<and> cv_to_unit_id x = t) (unit_conversions (current s))"
    using e by (auto simp: conversion_key_def filter_empty_conv list_ex_iff)
  show "\<exists>x s'. bind_tx uuid4_tx (\<lambda>i. add_row unit_conversions_update conversion_constraints
      \<lparr>created_at = 0, updated_at = 0, row_id = i, cv_from_unit_id = f, cv_to_unit_id = t, cv_factor = factor\<rparr>) s
      = (Inr x, s') \<and> room l s'"
  proof (rule insertion_returns [OF s])
    fix k
    let ?v = "stamp k \<lparr>created_at = 0, updated_at = 0, row_id = uuid4 (env s) (drawn s), cv_from_unit_id = f,
      cv_to_unit_id = t, cv_factor = factor\<rparr>"
    show "violated (conversion_constraints (current s) ?v) = None"
      using fresh(9) absent assms [OF p] by (simp add: conversion_constraints_def fresh_id_def stamp_def)
    show "keys_single (unit_conversions_update (\<lambda>rs. rs @ [?v]) (current s))"
      by (rule keys_single_append(10) [OF ks]) (simp add: stamp_def e)
    show "used_ids (unit_conversions_update (\<lambda>rs. rs @ [?v]) (current s)) = insert (uuid4 (env s) (drawn s)) (used_ids (current s))"
      unfolding used_ids_append(10) by (simp add: stamp_def)
  qed
qed

text \<open>The dictionary of a category's units.\<close>

definition units_known :: "(string \<times> uuid) list \<Rightarrow> db \<Rightarrow> bool" where
  "units_known ids d \<longleftrightarrow> (\<forall>(c, i)\<in>set ids. \<exists>x. unit_key c d = [x] \<and> row_id x = i)"

lemma lasting_units: "lasting (units_known ids)"
  unfolding units_known_def [abs_def]
  by (rule lasting_ball) (auto intro!: lasting_ex lasting_conj lasting_const lasting_key)

lemma units_known_id:
  assumes "units_known ids d" and "map_of ids c = Some i"
  shows "i \<in> row_id ` set (measure_units d)"
proof -
  from assms obtain x where "unit_key c d = [x]" "row_id x = i" unfolding units_known_def by (fast dest: map_of_SomeD)
  then show ?thesis unfolding unit_key_def by (auto dest!: filter_singletonD)
qed

lemma category_known: "category_key c d = [k] \<Longrightarrow> row_id k \<in> row_id ` set (unit_categories d)"
  unfolding category_key_def by (drule filter_singletonD) simp

lemma leaves_category_units:
  "leaves (length us) (\<lambda>d. category_key c d = [k]) (seed_category_units (row_id k) us)
     (\<lambda>ids d. map fst ids = map fst us \<and> units_known ids d)"
proof (induction us)
  case (Cons u us)
  obtain uc n sy where u: "u = (uc, n, sy)" by (cases u)
  show ?case unfolding u seed_category_units.simps
  proof (rule leaves_bind [OF leaves_unit [unfolded unit_key_def [abs_def]]])
    fix x
    let ?P = "\<lambda>d. category_key c d = [k] \<and> filter (\<lambda>u. mu_code u = uc) (measure_units d) = [x]"
    have rest: "leaves (length us) ?P (seed_category_units (row_id k) us) (\<lambda>ids d. map fst ids = map fst us \<and> units_known ids d)"
      by (rule leaves_weaken [OF Cons.IH]) simp_all
    have lp: "lasting ?P" by (intro lasting_conj lasting_key lasting_key(5) [unfolded unit_key_def])
    show "leaves (length us) ?P (bind_tx (seed_category_units (row_id k) us) (\<lambda>ids. return_tx ((uc, row_id x) # ids)))
        (\<lambda>ids d. map fst ids = map fst ((uc, n, sy) # us) \<and> units_known ids d)"
      by (rule leaves_bind [OF rest _ lp add_0_right]) (auto intro!: leaves_return simp: units_known_def unit_key_def)
  qed (simp_all add: category_known lasting_key)
qed (simp add: leaves_return units_known_def)

lemma leaves_conversion:
  assumes "{fst cv, fst (snd cv)} \<subseteq> fst ` set ids"
  shows "leaves 1 (units_known ids) (seed_conversion ids cv) (\<lambda>_ _. True)"
proof -
  obtain f t factor where cv: "cv = (f, t, factor)" by (cases cv)
  from assms cv have "map_of ids f \<noteq> None" "map_of ids t \<noteq> None" by (auto simp: map_of_eq_None_iff)
  then obtain i j where ij: "map_of ids f = Some i" "map_of ids t = Some j" by blast
  have found: "bind_tx (some_tx (Some x) e) g = g x" for x :: uuid and e and g :: "uuid \<Rightarrow> unit tx"
    by (simp add: fun_eq_iff bind_tx_def some_tx_def tx_simps)
  show ?thesis unfolding cv seed_conversion_def prod.case ij found
    by (rule leaves_bind [OF leaves_conversion_row [unfolded conversion_key_def [abs_def]] _ lasting_units add_0_right])
      (use ij in \<open>auto intro: units_known_id leaves_return\<close>)
qed

lemma leaves_seed_category:
  assumes "\<And>cv. cv \<in> set conversions \<Longrightarrow> {fst cv, fst (snd cv)} \<subseteq> fst ` set us"
  shows "leaves (1 + (length us + length conversions)) (\<lambda>_. True) (seed_category (c, n, us, conversions)) (\<lambda>_ _. True)"
  unfolding seed_category_def prod.case
proof (rule leaves_bind [OF leaves_category [unfolded category_key_def [abs_def]] _ lasting_const refl])
  fix k
  let ?P = "\<lambda>d. True \<and> filter (\<lambda>x. uc_code x = c) (unit_categories d) = [k]"
  have lp: "lasting ?P" by (intro lasting_conj lasting_const lasting_key(4) [unfolded category_key_def])
  have units: "leaves (length us) ?P (seed_category_units (row_id k) us) (\<lambda>ids d. map fst ids = map fst us \<and> units_known ids d)"
    by (rule leaves_weaken [OF leaves_category_units [where c = c and k = k and us = us]]) (simp_all add: category_key_def)
  show "leaves (length us + length conversions) ?P (bind_tx (seed_category_units (row_id k) us) (\<lambda>ids. for_tx conversions (seed_conversion ids))) (\<lambda>_ _. True)"
  proof (rule leaves_bind [OF units _ lp refl])
    fix ids
    show "leaves (length conversions) (\<lambda>d. ?P d \<and> map fst ids = map fst us \<and> units_known ids d) (for_tx conversions (seed_conversion ids)) (\<lambda>_ _. True)"
    proof (cases "map fst ids = map fst us")
      case True
      then have "fst ` set ids = fst ` set us" by (metis list.set_map)
      with assms have "leaves 1 (units_known ids) (seed_conversion ids cv) (\<lambda>_ _. True)" if "cv \<in> set conversions" for cv
        using that by (intro leaves_conversion) simp
      then have "leaves (length conversions) (units_known ids) (for_tx conversions (seed_conversion ids))
          (\<lambda>_ d. \<forall>cv\<in>set conversions. True)"
        unfolding draws_each [symmetric] by (rule leaves_for [OF _ lasting_units lasting_const])
      then show ?thesis by (rule leaves_weaken) auto
    qed (simp add: leaves_def)
  qed
qed

definition unit_draws ::
  "string \<times> string \<times> (string \<times> string \<times> string) list \<times> (string \<times> string \<times> rat) list \<Rightarrow> nat" where
  "unit_draws row = (case row of (c, n, us, conversions) \<Rightarrow> 1 + (length us + length conversions))"

lemma conversion_units:
  "list_all (\<lambda>(c, n, us, conversions). list_all (\<lambda>(f, t, factor). f \<in> set (map fst us) \<and> t \<in> set (map fst us)) conversions) unit_table"
  by code_simp

lemma leaves_seed_units: "leaves (sum_list (map unit_draws unit_table)) (\<lambda>_. True) seed_units (\<lambda>_ _. True)"
  unfolding seed_units_def
proof (rule leaves_weaken [OF leaves_for [where Q = "\<lambda>_ _. True"]])
  fix row assume row: "row \<in> set unit_table"
  obtain c n us conversions where f: "row = (c, n, us, conversions)" by (cases row)
  show "leaves (unit_draws row) (\<lambda>_. True) (seed_category row) (\<lambda>_ _. True)" unfolding f unit_draws_def prod.case
  proof (rule leaves_seed_category)
    fix cv assume cv: "cv \<in> set conversions"
    have "\<forall>(f, t, factor)\<in>set conversions. f \<in> set (map fst us) \<and> t \<in> set (map fst us)"
      using bspec [OF conversion_units [unfolded list_all_iff] row] unfolding f prod.case .
    from bspec [OF this cv] have "case cv of (f, t, factor) \<Rightarrow> f \<in> set (map fst us) \<and> t \<in> set (map fst us)" .
    then show "{fst cv, fst (snd cv)} \<subseteq> fst ` set us" unfolding set_map by (cases cv) simp
  qed
qed (simp_all add: lasting_const)

section \<open>The whole script\<close>

text \<open>The number of identifiers that a run on an empty database draws.\<close>

lemma seed_draws:
  "length permission_table + (length system_roles + (2 + (2 + 2 * length demo_users + sum_list (map unit_draws unit_table)))) = 93"
  by code_simp

lemma leaves_seed_body:
  assumes "length email \<le> 320"
  shows "leaves 93 (\<lambda>_. True) (seed_body email password today) (\<lambda>_ _. True)"
  unfolding seed_body_def
proof (rule leaves_bind [OF leaves_seed_permissions _ lasting_const seed_draws])
  fix by_code
  let ?D = "\<lambda>d. True \<and> map fst by_code = map fst permission_table \<and> dictionary by_code d"
  let ?R = "\<lambda>d. \<forall>sr\<in>set system_roles. \<exists>r. system_role_rows (fst sr) d = [r]"
  have ld: "lasting ?D" by (intro lasting_conj lasting_const lasting_dictionary)
  have lr: "lasting ?R" by (intro lasting_ball lasting_ex lasting_key)
  have admin: "\<exists>r. system_role_rows ''SUPER_ADMIN'' d = [r]" if "?R d" for d
    using that by (simp add: system_roles_def)
  have super: "leaves 2 ?R (seed_super_admin email password) (\<lambda>_ _. True)"
    by (rule leaves_weaken [OF leaves_super_admin [OF assms] admin]) simp_all
  have demo: "leaves (2 + 2 * length demo_users + sum_list (map unit_draws unit_table)) ?R (bind_tx (seed_demo_tenant_and_users today) (\<lambda>_. seed_units)) (\<lambda>_ _. True)"
    by (rule leaves_bind [OF leaves_demo leaves_weaken [OF leaves_seed_units] lr refl]) simp_all
  have rest: "leaves (2 + (2 + 2 * length demo_users + sum_list (map unit_draws unit_table))) ?R (bind_tx (seed_super_admin email password) (\<lambda>_.
      bind_tx (seed_demo_tenant_and_users today) (\<lambda>_. seed_units))) (\<lambda>_ _. True)"
    by (rule leaves_bind [OF super leaves_weaken [OF demo] lr refl]) simp_all
  have given: "leaves (length system_roles) ?D (seed_roles by_code) (\<lambda>_. ?R)"
    by (rule leaves_weaken [OF leaves_seed_roles [of by_code]]) simp_all
  show "leaves (length system_roles + (2 + (2 + 2 * length demo_users + sum_list (map unit_draws unit_table)))) ?D (bind_tx (seed_roles by_code) (\<lambda>_. bind_tx (seed_super_admin email password) (\<lambda>_.
      bind_tx (seed_demo_tenant_and_users today) (\<lambda>_. seed_units)))) (\<lambda>_ _. True)"
    by (rule leaves_bind [OF given leaves_weaken [OF rest] ld refl]) simp_all
qed

lemma room_empty: "inj_on (uuid4 e) {..<k} \<Longrightarrow> room k (new_session e empty_db)"
  by (simp add: room_def used_ids_def keys_single_def key_defs empty_db_def)

theorem seed_returns:
  assumes "inj_on (uuid4 e) {..<93}" and "length email \<le> 320"
  shows "\<exists>d'. run_tx (seed_run email password today) e empty_db = (Inr (), d')"
proof -
  from room_empty [OF assms(1)] have "room (93 + 0) (new_session e empty_db)" by simp
  with leaves_seed_body [OF assms(2), of password today]
  obtain s where "seed_body email password today (new_session e empty_db) = (Inr (), s)"
    unfolding leaves_def by (metis old.unit.exhaust)
  then have "run_tx (seed_run email password today) e empty_db = (Inr (), current s)"
    by (simp add: run_tx_def seed_run_body bind_tx_def tx_simps)
  then show ?thesis by blast
qed

end
