(* ===== verification/Numbering_Race.thy ===== *)
theory Numbering_Race
  imports Numbering
begin

text \<open>
  Requests for numbers that overlap. At PostgreSQL's READ COMMITTED a call of \<open>next_number\<close> is two
  indivisible parts. The \<^verbatim>\<open>SELECT\<close> sees what others have committed. The rest (\<^verbatim>\<open>INSERT\<close> of a
  missing row, \<^verbatim>\<open>UPDATE ... RETURNING\<close> and \<^verbatim>\<open>commit\<close>) takes effect at its commit: the lock of the
  row, and the unique index for a row that is inserted, hold a second writer of the same scope
  back until then, and the \<^verbatim>\<open>UPDATE\<close> reads the row as it is at that time, not as the \<^verbatim>\<open>SELECT\<close> saw
  it. Between the two parts of one call any parts of others may come.
\<close>

section \<open>The two parts of a call\<close>

record number_call =
  nc_tenant :: uuid
  nc_type :: string
  nc_fiscal_year :: string
  nc_prefix :: string
  nc_unit :: "uuid option"
  nc_padding :: nat

definition call_scope :: "number_call \<Rightarrow> scope" where
  "call_scope c = (nc_tenant c, nc_unit c, nc_type c, nc_fiscal_year c)"

definition in_scope :: "scope \<Rightarrow> document_sequence \<Rightarrow> bool" where
  "in_scope sc = (case sc of (t, o', ty, fy) \<Rightarrow> sequence_scope t o' ty fy)"

text \<open>The \<^verbatim>\<open>SELECT\<close> and its \<^verbatim>\<open>scalar_one_or_none\<close>.\<close>

definition look_up :: "number_call \<Rightarrow> document_sequence option tx" where
  "look_up c = scalar_tx (\<lambda>d. filter (in_scope (call_scope c)) (document_sequences d))"

text \<open>\<^verbatim>\<open>UPDATE ... WHERE id = ... RETURNING\<close> and \<^verbatim>\<open>commit\<close>: the row as it is now.\<close>

definition advance_sequence :: "uuid \<Rightarrow> document_sequence tx" where
  "advance_sequence i =
     bind_tx (scalar_tx (\<lambda>d. filter (\<lambda>r. row_id r = i) (document_sequences d))) (\<lambda>found.
     bind_tx (some_tx found NoResultFound) increment_sequence)"

definition found_or_new :: "number_call \<Rightarrow> document_sequence option \<Rightarrow> document_sequence tx" where
  "found_or_new c existing = (case existing of
       Some r \<Rightarrow> return_tx r
     | None \<Rightarrow> bind_tx uuid4_tx (\<lambda>i. add_row document_sequences_update sequence_constraints
         (new_sequence i (nc_tenant c) (nc_unit c) (nc_type c) (nc_fiscal_year c) (nc_prefix c) (nc_padding c))))"

definition finish_number :: "number_call \<Rightarrow> document_sequence option \<Rightarrow> string tx" where
  "finish_number c existing =
     bind_tx (found_or_new c existing) (\<lambda>row.
     bind_tx (advance_sequence (row_id row)) (\<lambda>row'.
     return_tx (format_number (ds_prefix row') (ds_last_sequence row') (ds_padding row'))))"

text \<open>One after the other, the two parts are the whole call.\<close>

lemma lookup_by_id:
  assumes "unique_sequence_ids d" and "r \<in> set (document_sequences d)"
  shows "filter (\<lambda>x. row_id x = row_id r) (document_sequences d) = [r]"
  using assms unfolding unique_sequence_ids_def by (intro filter_key_eq) auto

lemma advance_sequence_of:
  assumes "unique_sequence_ids (current s)" and "r \<in> set (document_sequences (current s))"
  shows "advance_sequence (row_id r) s = increment_sequence r s"
  by (simp add: advance_sequence_def bind_tx_def scalar_tx_def tx_simps lookup_by_id [OF assms] some_tx_def)

lemma sequence_row_parts:
  "sequence_row (nc_tenant c) (nc_type c) (nc_fiscal_year c) (nc_prefix c) (nc_unit c) (nc_padding c) =
   bind_tx (look_up c) (found_or_new c)"
  by (simp add: sequence_row_def look_up_def found_or_new_def [abs_def] in_scope_def call_scope_def)

lemma next_number_parts:
  assumes "unique_sequence_ids (current s)"
  shows "next_number (nc_tenant c) (nc_type c) (nc_fiscal_year c) (nc_prefix c) (nc_unit c) (nc_padding c) s
    = bind_tx (look_up c) (finish_number c) s"
proof -
  let ?m = "bind_tx (look_up c) (found_or_new c)"
  let ?f = "\<lambda>row'. return_tx (format_number (ds_prefix row') (ds_last_sequence row') (ds_padding row'))"
  have "bind_tx ?m (\<lambda>row. bind_tx (increment_sequence row) ?f) s =
      bind_tx ?m (\<lambda>row. bind_tx (advance_sequence (row_id row)) ?f) s"
  proof (cases "?m s")
    case (Pair x s1)
    show ?thesis
    proof (cases x)
      case (Inr r)
      note row = sequence_row_effect [OF Pair [unfolded Inr, folded sequence_row_parts] assms]
      have "bind_tx ?m g s = g r s1" for g :: "document_sequence \<Rightarrow> string tx"
        by (simp only: bind_tx_def [of ?m] Pair Inr prod.case sum.case)
      with advance_sequence_of [OF row(2,4)] show ?thesis
        by (simp add: bind_tx_def [of "increment_sequence r"] bind_tx_def [of "advance_sequence (row_id r)"])
    qed (simp add: bind_tx_def [of ?m] Pair)
  qed
  also have "\<dots> = bind_tx (look_up c) (finish_number c) s"
    by (simp add: finish_number_def [abs_def] bind_assoc)
  finally show ?thesis by (simp add: next_number_def sequence_row_parts)
qed

section \<open>Overlapping calls\<close>

text \<open>
  A history: \<open>ps\<close> are the calls that have looked up their row and not finished, \<open>h\<close> the numbers
  given out, with their scope. Every part runs in an environment of its own.
\<close>

inductive race :: "db \<Rightarrow> (number_call \<times> document_sequence option) list \<Rightarrow> (scope \<times> string) list \<Rightarrow> db \<Rightarrow> bool"
  for d0 :: db where
  start: "race d0 [] [] d0"
| look: "race d0 ps h d \<Longrightarrow> run_tx (look_up c) e d = (Inr existing, d') \<Longrightarrow> race d0 ((c, existing) # ps) h d'"
| finish: "race d0 ps h d \<Longrightarrow> (c, existing) \<in> set ps \<Longrightarrow> run_tx (finish_number c existing) e d = (Inr n, d')
    \<Longrightarrow> race d0 (remove1 (c, existing) ps) ((call_scope c, n) # h) d'"
| fail: "race d0 ps h d \<Longrightarrow> (c, existing) \<in> set ps \<Longrightarrow> run_tx (finish_number c existing) e d = (Inl err, d')
    \<Longrightarrow> race d0 (remove1 (c, existing) ps) h d'"
| other: "race d0 ps h d \<Longrightarrow> document_sequences d' = document_sequences d \<Longrightarrow> race d0 ps h d'"

text \<open>A scope with an organization unit, whose rows the unique constraint compares.\<close>

definition has_unit :: "scope \<Rightarrow> bool" where
  "has_unit sc \<longleftrightarrow> fst (snd sc) \<noteq> None"

definition rows_of :: "db \<Rightarrow> scope \<Rightarrow> document_sequence list" where
  "rows_of d sc = filter (in_scope sc) (document_sequences d)"

definition sequences_ok :: "db \<Rightarrow> bool" where
  "sequences_ok d \<longleftrightarrow> unique_sequence_ids d \<and> (\<forall>sc. has_unit sc \<longrightarrow> length (rows_of d sc) \<le> 1)"

lemma issued_iff: "issued d sc n \<longleftrightarrow> (\<exists>r k. rows_of d sc = [r] \<and> k \<le> ds_last_sequence r \<and>
    n = format_number (ds_prefix r) k (ds_padding r))"
  by (cases sc) (simp add: issued_def rows_of_def sequence_rows_def in_scope_def)

lemma in_scope_iff: "in_scope (t, o', ty, fy) r \<longleftrightarrow>
    tenant_id r = t \<and> ds_organization_unit_id r = o' \<and> ds_document_type r = ty \<and> ds_fiscal_year_code r = fy"
  by (simp add: in_scope_def sequence_scope_def)

text \<open>Rows stay, with their scope.\<close>

definition rows_stay :: "db \<Rightarrow> db \<Rightarrow> bool" where
  "rows_stay d d' \<longleftrightarrow> (\<forall>r\<in>set (document_sequences d). \<exists>r'\<in>set (document_sequences d').
     row_id r' = row_id r \<and> (\<forall>sc. in_scope sc r' = in_scope sc r))"

lemma rows_stay_trans: "rows_stay a b \<Longrightarrow> rows_stay b c \<Longrightarrow> rows_stay a c"
  unfolding rows_stay_def by metis

lemma inserted:
  assumes "add_row document_sequences_update sequence_constraints
      (new_sequence i (nc_tenant c) (nc_unit c) (nc_type c) (nc_fiscal_year c) (nc_prefix c) (nc_padding c)) s = (Inr x, s')"
    and "sequences_ok (current s)"
  shows "sequences_ok (current s')" "x \<in> set (document_sequences (current s'))" "in_scope (call_scope c) x"
    "rows_stay (current s) (current s')"
    "has_unit sc \<Longrightarrow> issued (current s) sc n \<Longrightarrow> issued (current s') sc n"
proof -
  from assms(1) have x: "x = stamp (server_clock (env s) (txn s)) (new_sequence i (nc_tenant c) (nc_unit c)
        (nc_type c) (nc_fiscal_year c) (nc_prefix c) (nc_padding c))"
    and v: "violated (sequence_constraints (current s) x) = None"
    and s': "document_sequences (current s') = document_sequences (current s) @ [x]"
    by (auto elim: add_row_InrE)
  show sc: "in_scope (call_scope c) x" using x by (simp add: call_scope_def in_scope_iff new_sequence_def stamp_def)
  have clash: "rows_of (current s) k = []" if "has_unit k" "in_scope k x" for k
    using that v by (cases k) (auto simp: has_unit_def in_scope_iff sequence_constraints_def rows_of_def list_ex_iff
        same_scope_def sequence_scope_def filter_empty_conv)
  have after: "rows_of (current s') k = rows_of (current s) k @ (if in_scope k x then [x] else [])" for k
    by (simp add: rows_of_def s')
  have "unique_sequence_ids (current s')"
    using assms(2) v by (auto simp: sequences_ok_def unique_sequence_ids_def s' sequence_constraints_def fresh_id_def)
  with assms(2) clash show "sequences_ok (current s')" by (auto simp: sequences_ok_def after)
  show "x \<in> set (document_sequences (current s'))" by (simp add: s')
  show "rows_stay (current s) (current s')" by (auto simp: rows_stay_def s')
  show "issued (current s') sc n" if "has_unit sc" "issued (current s) sc n"
    using that clash [of sc] by (auto simp: issued_iff after)
qed

lemma advanced:
  assumes "increment_sequence r s = (Inr r', s')" and "sequences_ok (current s)"
    and "r \<in> set (document_sequences (current s))"
  shows "sequences_ok (current s')" "committed s' = current s'" "rows_stay (current s) (current s')"
    "has_unit sc \<Longrightarrow> issued (current s) sc n \<Longrightarrow> issued (current s') sc n \<and>
       (in_scope sc r \<longrightarrow> n \<noteq> format_number (ds_prefix r') (ds_last_sequence r') (ds_padding r'))"
    "has_unit sc \<Longrightarrow> in_scope sc r \<Longrightarrow>
       issued (current s') sc (format_number (ds_prefix r') (ds_last_sequence r') (ds_padding r'))"
proof -
  obtain d where 1: "same_scope r = same_scope r'" "row_id r' = row_id r" "ds_last_sequence r' = ds_last_sequence r + 1"
    "ds_prefix r' = ds_prefix r" "ds_padding r' = ds_padding r"
    "d = (current s)\<lparr>document_sequences := put_row r' (document_sequences (current s))\<rparr>"
    "s' = s\<lparr>current := d, committed := d, txn := Suc (txn s)\<rparr>"
    using assms(1) by (rule increment_sequence_InrE) blast
  have ids: "distinct (map row_id (document_sequences (current s)))"
    using assms(2) by (simp add: sequences_ok_def unique_sequence_ids_def)
  have ds: "document_sequences (current s') = put_row r' (document_sequences (current s))" by (simp add: 1(6,7))
  have scope: "in_scope k r' = in_scope k r" for k
    using 1(1) by (cases k) (auto simp: same_scope_def fun_eq_iff sequence_scope_def in_scope_iff)
  have other: "rows_of (current s') k = rows_of (current s) k" if "\<not> in_scope k r" for k
    unfolding rows_of_def ds using that scope by (intro filter_put_row [OF ids assms(3) 1(2)]) auto
  have one: "rows_of (current s) k = [r]" if "has_unit k" "in_scope k r" for k
  proof -
    have "r \<in> set (rows_of (current s) k)" using that(2) assms(3) by (simp add: rows_of_def)
    moreover have "length (rows_of (current s) k) \<le> 1" using that(1) assms(2) unfolding sequences_ok_def by blast
    ultimately show ?thesis by (cases "rows_of (current s) k") auto
  qed
  have this_one: "rows_of (current s') k = [r']" if "has_unit k" "in_scope k r" for k
    unfolding rows_of_def ds
  proof (rule filter_put_row_same)
    show "filter (in_scope k) (document_sequences (current s)) = [r]" using one [OF that] by (simp add: rows_of_def)
    show "in_scope k x" if "x \<in> set (document_sequences (current s))" "row_id x = row_id r" for x
      using distinct_map_same_key [OF ids that(1) assms(3) that(2)] \<open>in_scope k r\<close> by simp
  qed (use that scope 1(2) in auto)
  have "length (rows_of (current s') k) \<le> 1" if "has_unit k" for k
  proof (cases "in_scope k r")
    case False
    with that assms(2) other show ?thesis unfolding sequences_ok_def by metis
  qed (simp add: this_one that)
  moreover have "unique_sequence_ids (current s')" using ids by (simp add: unique_sequence_ids_def ds)
  ultimately show "sequences_ok (current s')" by (simp add: sequences_ok_def)
  show "committed s' = current s'" by (simp add: 1(7))
  show "rows_stay (current s) (current s')"
    unfolding rows_stay_def ds by (metis put_row_other put_row_self 1(2) assms(3) scope distinct_map_same_key [OF ids])
  show "issued (current s') sc n \<and>
       (in_scope sc r \<longrightarrow> n \<noteq> format_number (ds_prefix r') (ds_last_sequence r') (ds_padding r'))"
    if "has_unit sc" "issued (current s) sc n"
  proof (cases "in_scope sc r")
    case True
    from that(2) one [OF that(1) True] obtain k where "k \<le> ds_last_sequence r"
      "n = format_number (ds_prefix r) k (ds_padding r)" by (auto simp: issued_iff)
    with this_one [OF that(1) True] 1(3-5) show ?thesis
      by (auto simp: issued_iff dest: format_number_inject intro!: exI [of _ k])
  next
    case False
    with that(2) show ?thesis by (simp add: issued_iff other)
  qed
  show "issued (current s') sc (format_number (ds_prefix r') (ds_last_sequence r') (ds_padding r'))"
    if "has_unit sc" "in_scope sc r"
    using this_one [OF that] by (auto simp: issued_iff)
qed

lemma rows_stay_in:
  assumes "rows_stay d d'" and "\<exists>r'\<in>set (document_sequences d). row_id r' = i \<and> in_scope sc r'"
  shows "\<exists>r'\<in>set (document_sequences d'). row_id r' = i \<and> in_scope sc r'"
  using assms unfolding rows_stay_def by metis

text \<open>The second part of a call, when it returns.\<close>

lemma finished:
  assumes run: "run_tx (finish_number c existing) e d = (Inr n, d')" and ok: "sequences_ok d"
    and known: "\<forall>r. existing = Some r \<longrightarrow>
      (\<exists>r'\<in>set (document_sequences d). row_id r' = row_id r \<and> in_scope (call_scope c) r')"
  shows "sequences_ok d'" "rows_stay d d'"
    "has_unit sc \<Longrightarrow> issued d sc m \<Longrightarrow> issued d' sc m \<and> (sc = call_scope c \<longrightarrow> m \<noteq> n)"
    "has_unit (call_scope c) \<Longrightarrow> issued d' (call_scope c) n"
proof -
  from run obtain s' where "finish_number c existing (new_session e d) = (Inr n, s')" and d': "d' = committed s'"
    by (auto simp: run_tx_def Let_def split: prod.splits)
  then obtain row s1 row' where a: "found_or_new c existing (new_session e d) = (Inr row, s1)"
    and b: "advance_sequence (row_id row) s1 = (Inr row', s')"
    and n: "n = format_number (ds_prefix row') (ds_last_sequence row') (ds_padding row')"
    unfolding finish_number_def by (auto simp: tx_simps elim!: bind_InrE)
  have first: "sequences_ok (current s1) \<and> rows_stay d (current s1) \<and> (\<forall>sc m. has_unit sc \<longrightarrow> issued d sc m \<longrightarrow> issued (current s1) sc m) \<and>
    (\<exists>r\<in>set (document_sequences (current s1)). row_id r = row_id row \<and> in_scope (call_scope c) r)"
  proof (cases existing)
    case None
    with a have "add_row document_sequences_update sequence_constraints (new_sequence (uuid4 e 0) (nc_tenant c) (nc_unit c)
        (nc_type c) (nc_fiscal_year c) (nc_prefix c) (nc_padding c)) ((new_session e d)\<lparr>drawn := 1\<rparr>) = (Inr row, s1)"
      by (simp add: found_or_new_def bind_tx_def tx_simps new_session_def)
    from inserted [OF this] ok show ?thesis by auto
  next
    case (Some r)
    with a known ok show ?thesis by (auto simp: found_or_new_def tx_simps rows_stay_def)
  qed
  then obtain r where r: "r \<in> set (document_sequences (current s1))" "row_id r = row_id row" "in_scope (call_scope c) r"
    by blast
  have ids: "unique_sequence_ids (current s1)" using first by (simp add: sequences_ok_def)
  from b have inc: "increment_sequence r s1 = (Inr row', s')"
    using advance_sequence_of [OF ids r(1)] by (simp add: r(2))
  note adv = advanced [OF inc conjunct1 [OF first] r(1), folded n]
  from adv(1,2) d' show "sequences_ok d'" by simp
  from adv(2,3) d' first show "rows_stay d d'" using rows_stay_trans by simp blast
  show "issued d' sc m \<and> (sc = call_scope c \<longrightarrow> m \<noteq> n)" if "has_unit sc" "issued d sc m"
    using adv(4) [OF that(1), of m] that first r(3) adv(2) d' by auto
  show "issued d' (call_scope c) n" if "has_unit (call_scope c)"
    using adv(5) [OF that r(3)] adv(2) d' by simp
qed

lemma looked_up:
  assumes "run_tx (look_up c) e d = (Inr existing, d')"
  shows "d' = d" "existing = Some r \<Longrightarrow> r \<in> set (document_sequences d) \<and> in_scope (call_scope c) r"
proof -
  from assms obtain s' where s': "look_up c (new_session e d) = (Inr existing, s')" "d' = committed s'"
    by (auto simp: run_tx_def Let_def split: prod.splits)
  from s'(1) have "s' = new_session e d \<and> (existing = Some r \<longrightarrow>
      filter (in_scope (call_scope c)) (document_sequences d) = [r])"
    unfolding look_up_def by (cases rule: scalar_InrE) auto
  with s'(2) show "d' = d" "existing = Some r \<Longrightarrow> r \<in> set (document_sequences d) \<and> in_scope (call_scope c) r"
    by (auto dest: filter_singletonD)
qed

lemma atomic_finish: "atomic (finish_number c existing)"
proof -
  have k: "keeps (found_or_new c existing)"
    unfolding found_or_new_def by (cases existing) (simp_all, intro atomic_rules, intro atomic_rules)
  have inc: "atomic (bind_tx (increment_sequence r) (\<lambda>row'. return_tx (f row')))" for r and f :: "document_sequence \<Rightarrow> string"
    unfolding increment_sequence_def atomic_def
    by (auto simp: bind_tx_def tx_simps save_row_apply Let_def split: if_splits)
  have "atomic (bind_tx (advance_sequence i) (\<lambda>row'. return_tx (f row')))" for i and f :: "document_sequence \<Rightarrow> string"
    unfolding advance_sequence_def bind_assoc by (intro atomic_rules inc)
  with k show ?thesis unfolding finish_number_def by (rule atomic_bind)
qed

lemma race_invariant:
  assumes "race d0 ps h d" and "sequences_ok d0"
  shows "sequences_ok d \<and> distinct (filter (\<lambda>(sc, n). has_unit sc) h) \<and>
    (\<forall>(sc, n)\<in>set h. has_unit sc \<longrightarrow> issued d sc n) \<and>
    (\<forall>(c, existing)\<in>set ps. \<forall>r. existing = Some r \<longrightarrow>
       (\<exists>r'\<in>set (document_sequences d). row_id r' = row_id r \<and> in_scope (call_scope c) r'))"
  using assms(1)
proof induction
  case start
  show ?case using assms(2) by simp
next
  case (look ps h d c e existing d')
  from looked_up [OF look.hyps(2)] look.IH show ?case by auto
next
  case (finish ps h d c existing e n d')
  have "\<forall>r. existing = Some r \<longrightarrow>
      (\<exists>r'\<in>set (document_sequences d). row_id r' = row_id r \<and> in_scope (call_scope c) r')"
    using finish.IH finish.hyps(2) by fastforce
  note F = finished [OF finish.hyps(3) conjunct1 [OF finish.IH] this]
  have "\<forall>(sc, m)\<in>set ((call_scope c, n) # h). has_unit sc \<longrightarrow> issued d' sc m"
    using finish.IH F(3,4) by auto
  moreover have "distinct (filter (\<lambda>(sc, n). has_unit sc) ((call_scope c, n) # h))"
  proof -
    have "(call_scope c, n) \<notin> set h" if "has_unit (call_scope c)"
      using F(3) [OF that, of n] finish.IH that by auto
    with finish.IH show ?thesis by simp
  qed
  moreover have "\<exists>r'\<in>set (document_sequences d'). row_id r' = row_id r \<and> in_scope (call_scope c') r'"
    if "(c', Some r) \<in> set (remove1 (c, existing) ps)" for c' r
  proof -
    from that have "(c', Some r) \<in> set ps" using notin_set_remove1 by metis
    with finish.IH have "\<exists>r'\<in>set (document_sequences d). row_id r' = row_id r \<and> in_scope (call_scope c') r'" by fastforce
    from rows_stay_in [OF F(2) this] show ?thesis .
  qed
  ultimately show ?case using F(1) by blast
next
  case (fail ps h d c existing e err d')
  have "d' = d" using run_atomic [OF atomic_finish, of c existing e d err] fail.hyps(3) by simp
  with fail.IH set_remove1_subset [of "(c, existing)" ps] show ?case by blast
next
  case (other ps h d d')
  then show ?case by (auto simp: sequences_ok_def unique_sequence_ids_def issued_iff rows_of_def)
qed

section \<open>Scopes without an organization unit\<close>

text \<open>The constraint does not compare them, so a second insertion is not refused.\<close>

lemma put_last_row:
  assumes "row_id r' = row_id r" and "row_id r \<notin> row_id ` set rs"
  shows "put_row r' (rs @ [r]) = rs @ [r']"
proof -
  have "map (\<lambda>x. if row_id x = row_id r' then r' else x) rs = rs" using assms by (intro map_idI) (force simp: image_iff)
  then show ?thesis using assms(1) by (simp add: put_row_def)
qed

lemma increment_new_row:
  assumes "document_sequences (current s) = rs @ [r]" and "row_id r \<notin> row_id ` set rs" and "ds_last_sequence r = 0"
  obtains r' where "increment_sequence r s = (Inr r', s\<lparr>current := (current s)\<lparr>document_sequences := rs @ [r']\<rparr>,
      committed := (current s)\<lparr>document_sequences := rs @ [r']\<rparr>, txn := Suc (txn s)\<rparr>)"
    "row_id r' = row_id r" "ds_last_sequence r' = 1" "ds_prefix r' = ds_prefix r" "ds_padding r' = ds_padding r"
    "\<And>sc. in_scope sc r' = in_scope sc r"
proof -
  obtain r' s' where i: "increment_sequence r s = (Inr r', s')"
    using assms(3) by (auto simp: increment_sequence_def bind_tx_def tx_simps save_row_apply Let_def max_int32_def)
  then obtain d where "row_id r' = row_id r" "ds_last_sequence r' = 1" "ds_prefix r' = ds_prefix r" "ds_padding r' = ds_padding r"
    and same: "same_scope r = same_scope r'"
    and d: "d = (current s)\<lparr>document_sequences := put_row r' (document_sequences (current s))\<rparr>"
      "s' = s\<lparr>current := d, committed := d, txn := Suc (txn s)\<rparr>"
    using assms(3) by (auto elim: increment_sequence_InrE)
  moreover from same have "in_scope sc r' = in_scope sc r" for sc
    by (cases sc) (auto simp: same_scope_def fun_eq_iff sequence_scope_def in_scope_iff)
  moreover have "put_row r' (document_sequences (current s)) = rs @ [r']"
    using put_last_row [of r' r rs] assms(1,2) calculation(1) by simp
  ultimately show thesis using i by (intro that [of r']) simp_all
qed

lemma finish_tenant_wide:
  fixes e :: env and d :: db
  assumes "nc_unit c = None" and "nc_tenant c \<in> row_id ` set (tenants d)"
    and "uuid4 e 0 \<notin> row_id ` set (document_sequences d)"
  obtains x where "run_tx (finish_number c None) e d = (Inr (format_number (nc_prefix c) 1 (nc_padding c)),
      d\<lparr>document_sequences := document_sequences d @ [x]\<rparr>)"
    "row_id x = uuid4 e 0" "in_scope (call_scope c) x"
proof -
  obtain x where x_def: "x = stamp (server_clock e 0) (new_sequence (uuid4 e 0) (nc_tenant c) (nc_unit c) (nc_type c)
      (nc_fiscal_year c) (nc_prefix c) (nc_padding c))" by blast
  have x: "row_id x = uuid4 e 0" "ds_last_sequence x = 0" "ds_prefix x = nc_prefix c" "ds_padding x = nc_padding c"
    "in_scope (call_scope c) x" by (simp_all add: x_def stamp_def new_sequence_def call_scope_def in_scope_iff)
  have v: "violated (sequence_constraints d x) = None"
    using assms by (auto simp: x_def violated_None_iff sequence_constraints_def fresh_id_def stamp_def new_sequence_def refers_def)
  obtain s where s: "s = (new_session e d)\<lparr>drawn := 1, current := d\<lparr>document_sequences := document_sequences d @ [x]\<rparr>\<rparr>" by blast
  from v have a: "found_or_new c None (new_session e d) = (Inr x, s)"
    by (simp add: found_or_new_def add_row_def bind_tx_def tx_simps new_session_def x_def s)
  have ds: "document_sequences (current s) = document_sequences d @ [x]" by (simp add: s)
  obtain y where y: "increment_sequence x s = (Inr y, s\<lparr>current := (current s)\<lparr>document_sequences := document_sequences d @ [y]\<rparr>,
      committed := (current s)\<lparr>document_sequences := document_sequences d @ [y]\<rparr>, txn := Suc (txn s)\<rparr>)"
    "row_id y = row_id x" "ds_last_sequence y = 1" "ds_prefix y = ds_prefix x" "ds_padding y = ds_padding x"
    "in_scope (call_scope c) y"
    using increment_new_row [OF ds] assms(3) x(1,2,5) by metis
  have "filter (\<lambda>r. row_id r = uuid4 e 0) (document_sequences (current s)) = [x]"
    unfolding ds using assms(3) x(1) by (force simp: filter_empty_conv)
  then have "advance_sequence (row_id x) s = increment_sequence x s"
    by (simp add: advance_sequence_def bind_tx_def scalar_tx_def tx_simps some_tx_def x(1))
  with a y(1) have "run_tx (finish_number c None) e d =
      (Inr (format_number (ds_prefix y) (ds_last_sequence y) (ds_padding y)), (current s)\<lparr>document_sequences := document_sequences d @ [y]\<rparr>)"
    by (simp add: run_tx_def finish_number_def bind_tx_def tx_simps)
  with x y(2-6) show thesis by (intro that [of y]) (simp_all add: s)
qed

lemma look_up_none: "rows_of d (call_scope c) = [] \<Longrightarrow> run_tx (look_up c) e d = (Inr None, d)"
  by (simp add: look_up_def run_tx_def scalar_tx_def bind_tx_def tx_simps rows_of_def new_session_def)

lemma look_up_many: "rows_of d (call_scope c) = x # y # zs \<Longrightarrow> run_tx (look_up c) e d = (Inl MultipleResultsFound, d)"
  by (simp add: look_up_def run_tx_def scalar_tx_def bind_tx_def tx_simps rows_of_def new_session_def)

text \<open>Two first calls that overlap: both insert a row, and both return the first number.\<close>

lemma race_tenant_wide:
  fixes e e' :: env and d :: db
  assumes "rows_of d (call_scope c) = []" and "nc_unit c = None" and "nc_tenant c \<in> row_id ` set (tenants d)"
    and "{uuid4 e 0, uuid4 e' 0} \<inter> row_id ` set (document_sequences d) = {}" and "uuid4 e 0 \<noteq> uuid4 e' 0"
  obtains x y where "race d [] [(call_scope c, format_number (nc_prefix c) 1 (nc_padding c)),
        (call_scope c, format_number (nc_prefix c) 1 (nc_padding c))]
      (d\<lparr>document_sequences := document_sequences d @ [x, y]\<rparr>)"
    "rows_of (d\<lparr>document_sequences := document_sequences d @ [x, y]\<rparr>) (call_scope c) = [x, y]"
proof -
  obtain x where x: "run_tx (finish_number c None) e d = (Inr (format_number (nc_prefix c) 1 (nc_padding c)),
      d\<lparr>document_sequences := document_sequences d @ [x]\<rparr>)" "row_id x = uuid4 e 0" "in_scope (call_scope c) x"
    using finish_tenant_wide [of c d e] assms(2-4) by auto
  let ?d = "d\<lparr>document_sequences := document_sequences d @ [x]\<rparr>"
  have "nc_tenant c \<in> row_id ` set (tenants ?d)" "uuid4 e' 0 \<notin> row_id ` set (document_sequences ?d)"
    using assms(3-5) x(2) by auto
  from finish_tenant_wide [OF assms(2) this] obtain y where
    y: "run_tx (finish_number c None) e' ?d = (Inr (format_number (nc_prefix c) 1 (nc_padding c)),
      ?d\<lparr>document_sequences := document_sequences ?d @ [y]\<rparr>)" "in_scope (call_scope c) y" .
  have "race d [(c, None), (c, None)] [] d"
    by (rule race.look [OF race.look [OF race.start]]; rule look_up_none [OF assms(1)])
  from race.finish [OF race.finish [OF this _ x(1)] _ y(1)]
  have "race d [] [(call_scope c, format_number (nc_prefix c) 1 (nc_padding c)),
      (call_scope c, format_number (nc_prefix c) 1 (nc_padding c))] (d\<lparr>document_sequences := document_sequences d @ [x, y]\<rparr>)"
    by simp
  moreover have "rows_of (d\<lparr>document_sequences := document_sequences d @ [x, y]\<rparr>) (call_scope c) = [x, y]"
    using assms(1) x(3) y(2) by (simp add: rows_of_def)
  ultimately show thesis by (rule that)
qed

lemma next_number_many:
  assumes "rows_of d (call_scope c) = x # y # zs"
  shows "run_tx (next_number (nc_tenant c) (nc_type c) (nc_fiscal_year c) (nc_prefix c) (nc_unit c) (nc_padding c)) e d
    = (Inl MultipleResultsFound, d)"
  using assms
  by (simp add: next_number_def sequence_row_parts look_up_def run_tx_def scalar_tx_def bind_tx_def tx_simps rows_of_def
      new_session_def)

text \<open>A call whose row is still there returns, whatever others did to its counter.\<close>

lemma finish_returns:
  assumes "unique_sequence_ids d" and "r' \<in> set (document_sequences d)" and "row_id r' = row_id r"
    and "ds_last_sequence r' < max_int32"
  obtains n d' where "run_tx (finish_number c (Some r)) e d = (Inr n, d')"
proof -
  have "advance_sequence (row_id r) (new_session e d) = increment_sequence r' (new_session e d)"
    using advance_sequence_of [of "new_session e d" r'] assms(1-3) by simp
  moreover obtain x s where "increment_sequence r' (new_session e d) = (Inr x, s)"
    using assms(4) by (auto simp: increment_sequence_def bind_tx_def tx_simps save_row_apply Let_def)
  ultimately show thesis
    by (intro that) (simp add: run_tx_def finish_number_def found_or_new_def bind_tx_def tx_simps)
qed

end
