(* ===== verification/Sample_Api.thy ===== *)
theory Sample_Api
  imports Sample_Runs Http Events Seed_Returns Numbering_Race
begin

text \<open>
  Concrete requests to routes: an access token of the administrator, and the databases that
  requests with it leave.
\<close>

definition sample_token :: "uuid \<Rightarrow> string" where
  "sample_token i = uuid_str 5 @ uuid_str i @ ''access''"

definition sample_web :: web_request where
  "sample_web = \<lparr>rq_client_host = Some ''10.0.0.1'', rq_user_agent = None, rq_request_id = Some ''r1''\<rparr>"

lemma decode_sample_token:
  "decode_token sample_env now (sample_token i) (Some TokenType_ACCESS) =
     Inr \<lparr>dt_subject = uuid_str i, dt_tenant_id = None, dt_token_type = TokenType_ACCESS,
       dt_jti = uuid_str 5, dt_issued_at = 0, dt_expires_at = 1000000000\<rparr>"
  by (simp add: decode_token_def sample_env_def sample_decode_def sample_token_def length_uuid_str
      TokenType_of_def empty_string_def)

lemma sample_token_not_Nil [simp]: "sample_token i \<noteq> []"
  by (simp add: sample_token_def)

text \<open>The administrator passes every guard that one of his four permissions opens.\<close>

lemma admin_passes:
  assumes "users d = users sample_db" and "build_security_context (sample_user 10 (Some 1) ''admin@acme.io'') d = Inr admin_context"
    and "p \<in> {''weighbridge.create'', ''weighbridge.update'', ''production.create'', ''production.update''}"
    and "current s = d" and "env s = sample_env"
  shows "guard (Permission p) (Some (sample_token 10)) s = (Inr admin_context, s\<lparr>ticks := Suc (ticks s)\<rparr>)"
proof -
  have p: "has_permission admin_context p"
    using assms(3) by (auto simp: has_permission_def permission_codes_def admin_grants)
  have u: "filter (\<lambda>x. row_id x = 10) (users d) = [sample_user 10 (Some 1) ''admin@acme.io'']"
    by (simp add: assms(1) sample_db_def sample_user_def)
  have a: "u_status (sample_user 10 (Some 1) ''admin@acme.io'') = UserStatus_ACTIVE" by (simp add: sample_user_def)
  show ?thesis
    using assms(2,4,5) p u a
    by (simp add: guard_def require_permission_def require_authenticated_user_def get_current_user_def
        decode_tx_def bind_assoc bind_first_step empty_string_def env_apply decode_sample_token
        uuid_of_str_uuid_str get_user_by_id_def bind_scalar_step return_apply tx_simps)
qed

text \<open>A request of the administrator: its guard, then its handler.\<close>

lemma admin_request:
  assumes "users d = users sample_db" and "build_security_context (sample_user 10 (Some 1) ''admin@acme.io'') d = Inr admin_context"
    and "route_access r = Permission p"
    and "p \<in> {''weighbridge.create'', ''weighbridge.update'', ''production.create'', ''production.update''}"
  shows "run_tx (serve (Private r) (Some (sample_token 10)) rq) sample_env d =
    (let (x, s) = handle r admin_context rq ((new_session sample_env d)\<lparr>ticks := 1\<rparr>) in (x, committed s))"
  using admin_passes [OF assms(1,2,4), of "new_session sample_env d"] assms(3)
  by (simp add: run_tx_def bind_tx_def new_session_def)

text \<open>Besides the open ticket: a completed one, and a cancelled production entry.\<close>

definition done_ticket :: weighbridge_ticket where
  "done_ticket = completed_ticket 10 1 8 (open_ticket\<lparr>row_id := 1002, wt_ticket_number := ''WBT-000002''\<rparr>)"

definition gone_entry :: production_entry where
  "gone_entry = \<lparr>created_at = 0, updated_at = 0, row_id = 1003, tenant_id = 1, created_by = Some 10,
     updated_by = Some 10, pe_organization_unit_id = Some 21, pe_raw_material_unit_id = 30,
     pe_entry_number = ''PRD-000001'', pe_production_date = (2026, 5, 1), pe_shift = ProductionShift_DAY,
     pe_status = ProductionEntryStatus_CANCELLED, pe_raw_material_description = ''Stone'',
     pe_raw_material_quantity = 10, pe_remarks = None,
     pe_outputs = [\<lparr>created_at = 0, updated_at = 0, row_id = 1004,
       po_product_description = ''Grit'', po_quantity = 9, po_unit_id = 30\<rparr>]\<rparr>"

definition busy_db :: db where
  "busy_db = open_ticket_db\<lparr>weighbridge_tickets := [open_ticket, done_ticket], production_entries := [gone_entry]\<rparr>"

lemma busy_admin:
  "users busy_db = users sample_db"
  "build_security_context (sample_user 10 (Some 1) ''admin@acme.io'') busy_db = Inr admin_context"
  by (simp_all add: busy_db_def open_ticket_db_def sample_contexts sample_company Let_def)

abbreviation complete_request :: private_request where
  "complete_request \<equiv> On_tickets (Complete_ticket 1001 8)"

lemma sample_complete_request:
  "\<not> isl (fst (run_tx (serve (Private complete_request) (Some (sample_token 10)) sample_web) sample_env busy_db))"
  by (subst admin_request [OF busy_admin, where p = "''weighbridge.update''"])
    (simp_all add: api_complete_ticket_def new_session_def split_beta checked_def valid_ticket_complete_def ticket_run busy_db_def done_ticket_def complete_ticket_def completed_ticket_def sample_web_def
      cong: bind_step_cong)

section \<open>Histories\<close>

lemma busy_no_events [simp]: "audit_events busy_db = []"
  by (simp add: busy_db_def open_ticket_db_def sample_db_def empty_db_def)

text \<open>The request appends its audit event.\<close>

lemma sample_complete_events:
  "audit_events (snd (run_tx (serve (Private complete_request) (Some (sample_token 10)) sample_web) sample_env busy_db)) \<noteq> []"
  by (subst admin_request [OF busy_admin, where p = "''weighbridge.update''"])
    (simp_all add: api_complete_ticket_def new_session_def split_beta checked_def valid_ticket_complete_def
      ticket_run busy_db_def done_ticket_def complete_ticket_def completed_ticket_def sample_web_def cong: bind_step_cong)

lemma sample_history_step:
  "\<exists>d'. (api_step base)\<^sup>*\<^sup>* (fs, busy_db) (fs, d') \<and> audit_events d' \<noteq> []"
proof -
  obtain x d' where r: "run_tx (serve (Private complete_request) (Some (sample_token 10)) sample_web) sample_env busy_db = (x, d')"
    by fastforce
  from sample_complete_events r have "audit_events d' \<noteq> []" by simp
  with api_step.request [OF r] show ?thesis by (meson r_into_rtranclp)
qed

lemma round_numeral: "round_half_away (numeral n) = numeral n"
proof -
  have "\<lfloor>numeral n + 1 / 2 :: rat\<rfloor> = numeral n"
    by (rule floor_unique) (simp_all add: numeral_plus_one [symmetric] del: numeral_plus_one)
  then show ?thesis by (simp add: round_half_away_def)
qed

lemma sample_slugs: "lower ''ACME'' \<noteq> lower ''OTHER''"
  by code_simp

lemma busy_tables:
  "users_ok busy_db" "tenants_ok busy_db" "md_tables_ok busy_db"
  "ticket_table_ok busy_db" "entry_table_ok busy_db" "keys_ok busy_db"
  by (simp_all add: users_ok_def tenants_ok_def md_tables_ok_def md_table_ok_def ticket_table_ok_def entry_table_ok_def
      keys_ok_def busy_db_def sample_db_def empty_db_def sample_user_def sample_tenant_def sample_addresses
      sample_slugs ticket_ok_def done_ticket_def completed_ticket_def gone_entry_def entry_ok_def open_ticket_db_def
      open_ticket_def new_ticket_def sample_ticket_def stamp_def three_decimals_def numeric_3_def
      round_numeral)

section \<open>Callers\<close>

lemma admin_caller:
  assumes "caller (Some (sample_token 10)) sample_env busy_db cx"
  shows "cx_tenant_id cx = Some 1"
proof -
  from assms obtain u where u: "row_id u = 10" "u \<in> set (users busy_db)" "build_security_context u busy_db = Inr cx"
    unfolding caller_def by (auto simp: decode_sample_token uuid_of_str_uuid_str)
  then have "u = sample_user 10 (Some 1) ''admin@acme.io''" by (auto simp: busy_admin sample_db_def sample_user_def)
  with u(3) busy_admin(2) show ?thesis by simp
qed

lemma sample_unauthenticated:
  "\<exists>err d'. run_tx (serve (Private r) None rq) e d = (Inl err, d')"
  by (cases "route_access r") (auto simp: run_tx_step guard_def require_permission_def require_authenticated_user_def
      get_current_user_def bind_assoc bind_first_step empty_string_def tx_simps)

section \<open>Sessions and resets\<close>

definition refresh_token :: string where
  "refresh_token = uuid_str 5 @ uuid_str 11 @ ''refresh''"

definition session_db :: db where
  "session_db = sample_db\<lparr>refresh_sessions := [\<lparr>created_at = 0, updated_at = 0, row_id = 100, rs_user_id = 11,
     rs_jti = 5, rs_revoked = False, rs_expires_at = 1000, rs_ip_address = None, rs_user_agent = None\<rparr>]\<rparr>"

lemmas refresh_run = session_run refresh_def parse_uuid_def get_by_jti_def get_user_by_id_def refresh_token_def
  session_db_def uuid_of_str_uuid_str length_uuid_str

lemma sample_refresh: "\<not> isl (fst (run_tx (refresh refresh_token None) sample_env session_db))"
  by (simp add: refresh_run bind_case_sum_step cong: bind_step_cong)

lemma refreshed_ids:
  assumes "run_tx (refresh refresh_token None) sample_env session_db = (x, d')"
  shows "distinct (map row_id (refresh_sessions d'))"
proof -
  have "distinct (map row_id (refresh_sessions (snd (run_tx (refresh refresh_token None) sample_env session_db))))"
    by (simp add: refresh_run bind_case_sum_step cong: bind_step_cong)
  with assms show ?thesis by simp
qed

lemma sample_decodes_alike: "decodes_alike sample_env sample_env" "decodes_alike sample_env later_env"
  by (auto simp: decodes_alike_def later_env_def sample_env_def sample_decode_def split: if_splits)

definition reset_db :: db where
  "reset_db = sample_db\<lparr>password_reset_tokens := [\<lparr>created_at = 0, updated_at = 0, row_id = 110, pr_user_id = 11,
     pr_token_hash = ''0$reset'', pr_expires_at = 1000, pr_used_at = None\<rparr>]\<rparr>"

lemma reset_ids: "distinct (map row_id (password_reset_tokens reset_db))"
  by (simp add: reset_db_def)

lemma bind_hash_step: "bind_tx (hash_password pw) f s = f (argon2_hash (env s) (salts s) pw) (s\<lparr>salts := Suc (salts s)\<rparr>)"
  by (simp add: bind_tx_def hash_password_def)

lemma sample_reset: "\<not> isl (fst (run_tx (reset_password ''reset'' ''newpassword'') sample_env reset_db))"
  by (simp add: sample_run reset_password_def reset_db_def verify_password_def sample_verify_def get_user_by_id_def
      bind_hash_step cong: bind_step_cong)

section \<open>The application\<close>

definition sample_http :: "private_request \<Rightarrow> http_request" where
  "sample_http r = \<lparr>hq_path = ''/api/v1/weighbridge/tickets'', hq_host = Some ''10.0.0.1'', hq_time = 30,
     hq_user_agent = None, hq_request_id = Some ''r1'', hq_fresh_id = 7, hq_token = Some (sample_token 10),
     hq_api = Private r\<rparr>"

definition sample_shown :: "error \<Rightarrow> string" where
  "sample_shown _ = ''an exception''"

text \<open>A client that has just used up its limit.\<close>

definition busy_hits :: hits where
  "busy_hits = (\<lambda>k. if k = ''10.0.0.1'' then replicate 120 20 else [])"

lemma drop_old_recently: "drop_old 30 (replicate n 20) = replicate n 20"
  by (cases n) (simp_all add: window_seconds_def)

lemma sample_unlimited: "\<not> is_limited (sample_http r) sample_env (\<lambda>_. [])"
  by (simp add: is_limited_def dispatch_def sample_http_def Let_def limiter_limit_def sample_env_def sample_config_def)

lemma sample_outcome: "\<exists>x d'. outcome (sample_http complete_request) sample_env busy_db = (Inr x, d')"
proof -
  have "web_request_of (sample_http complete_request) = sample_web"
    by (simp add: web_request_of_def sample_http_def correlation_id_def request_id_of_def sample_web_def)
  moreover have "hq_api (sample_http complete_request) = Private complete_request"
    "hq_token (sample_http complete_request) = Some (sample_token 10)" by (simp_all add: sample_http_def)
  ultimately have "outcome (sample_http complete_request) sample_env busy_db =
      run_tx (serve (Private complete_request) (Some (sample_token 10)) sample_web) sample_env busy_db"
    unfolding outcome_def by simp
  with run_returned [OF sample_complete_request] show ?thesis by metis
qed

section \<open>Administration\<close>

definition seeded_db :: db where
  "seeded_db = sample_db\<lparr>roles := roles sample_db @ [sample_role 62 None ''TENANT_ADMIN'' True],
     permissions := permissions sample_db @ [sample_permission 54 ''tenants.create''],
     role_permissions := role_permissions sample_db @
       [\<lparr>created_at = 0, updated_at = 0, rp_role_id = 60, rp_permission_id = 54\<rparr>]\<rparr>"

definition sample_new_tenant :: tenant_create where
  "sample_new_tenant = \<lparr>tc_name = ''New'', tc_code = ''NEW'', tc_slug = ''new'', tc_timezone = ''UTC'',
     tc_currency = ''INR'', tc_admin_email = ''a@new.io'', tc_admin_password = ''longpassword'',
     tc_admin_first_name = ''A'', tc_admin_last_name = ''B''\<rparr>"

lemma new_address: "lower ''a@new.io'' = ''a@new.io''"
  by code_simp

lemma new_slug: "lower ''ACME'' = ''acme''" "lower ''OTHER'' = ''other''"
  by code_simp+

lemma sample_create_tenant: "\<not> isl (fst (run_tx (create_tenant admin_context sample_new_tenant None) sample_env seeded_db))"
  by (simp add: sample_run create_tenant_def get_by_code_or_slug_def get_by_email_def sample_new_tenant_def seeded_db_def
      add_tenant_def add_admin_def get_role_by_code_def new_tenant_def new_admin_def new_user_role_def tenant_audit_def
      admin_audit_def tenant_constraints_def user_constraints_def user_role_constraints_def fresh_id_def refers_def
      bind_hash_step sample_addresses new_address new_slug cong: bind_step_cong)

lemma seeded_admin: "filter (\<lambda>u. row_id u = 10 \<and> u_tenant_id u = Some 1) (users seeded_db) = [sample_user 10 (Some 1) ''admin@acme.io'']"
  by (simp add: seeded_db_def sample_db_def sample_user_def)

lemma seeded_super_admin:
  "filter (\<lambda>r. row_id r = 60 \<and> visible_to (Some 1) r) (roles seeded_db) = [sample_role 60 None ''SUPER_ADMIN'' True]"
  by (simp add: seeded_db_def sample_db_def sample_role_def visible_to_def)

lemma seeded_fresh:
  "uuid4 sample_env 0 \<notin> row_id ` set (user_roles seeded_db)" "uuid4 sample_env 1 \<notin> ae_id ` set (audit_events seeded_db)"
  by (simp_all add: seeded_db_def sample_db_def sample_env_def sample_user_role_def empty_db_def)

lemma seeded_context:
  "build_security_context (sample_user 10 (Some 1) ''admin@acme.io'') seeded_db = Inr admin_context"
  by (simp_all add: seeded_db_def sample_contexts sample_company Let_def)

lemma sample_replaced:
  "\<not> isl (fst (replace_permissions admin_context 61 [''weighbridge.create''] (Some sample_web) (new_session sample_env sample_db)))"
  by (simp add: sample_run replace_permissions_def get_role_def get_visible_to_tenant_def visible_to_def
      get_permissions_by_codes_def add_role_permission_def role_permission_constraints_def new_role_permission_def
      admin_audit_def sample_web_def refers_def cong: bind_step_cong)

lemma sample_replace:
  "\<not> isl (fst (run_tx (api_update_role_permissions admin_context 61 [''weighbridge.create''] sample_web) sample_env sample_db))"
  using sample_replaced update_role_permissions_returns
    [of admin_context 61 "[''weighbridge.create'']" "Some sample_web" "new_session sample_env sample_db"]
  by (cases "replace_permissions admin_context 61 [''weighbridge.create''] (Some sample_web) (new_session sample_env sample_db)";
      cases "fst (replace_permissions admin_context 61 [''weighbridge.create''] (Some sample_web) (new_session sample_env sample_db))")
    (simp_all add: api_update_role_permissions_def run_tx_def bind_tx_def tx_simps)

section \<open>Attachments\<close>

definition sample_upload :: upload_args where
  "sample_upload = \<lparr>up_entity_type = ''weighbridge_ticket'', up_entity_id = ''1'', up_file_name = ''../x.txt'',
     up_content_type = ''text/plain'', up_content = ''content''\<rparr>"

text \<open>The clerk may upload documents.\<close>

definition documents_db :: db where
  "documents_db = sample_db\<lparr>permissions := permissions sample_db @ [sample_permission 55 ''documents.upload''],
     role_permissions := role_permissions sample_db @
       [\<lparr>created_at = 0, updated_at = 0, rp_role_id = 61, rp_permission_id = 55\<rparr>]\<rparr>"

lemma sample_key:
  "length (build_storage_key u 1 ''weighbridge_ticket'' ''1'' ''../x.txt'') \<le> 500"
  "resolve_key [''data''] (build_storage_key u 1 ''weighbridge_ticket'' ''1'' ''../x.txt'')
     = Inr ([''data''] @ path_parts (safe_key (build_storage_key u 1 ''weighbridge_ticket'' ''1'' ''../x.txt'')))"
proof -
  have "replace_all [CHR 0x5C] ''_'' (replace_all ''/'' ''_'' ''../x.txt'') = ''.._x.txt''" by code_simp
  then show "length (build_storage_key u 1 ''weighbridge_ticket'' ''1'' ''../x.txt'') \<le> 500"
    by (simp add: build_storage_key_def Let_def length_uuid_str)
qed (rule resolve_key_safe, simp)

lemma sample_upload_key:
  assumes "cx_tenant_id cx = Some 1" and "env s = sample_env"
  shows "upload_key cx sample_upload s = (Inr (1, build_storage_key (uuid4 sample_env (drawn s)) 1
    ''weighbridge_ticket'' ''1'' ''../x.txt''), s\<lparr>drawn := Suc (drawn s)\<rparr>)"
  using assms by (simp add: upload_key_def bind_first_step tx_simps sample_upload_def sample_env_def sample_config_def)

lemma sample_record_upload:
  assumes "cx_tenant_id cx = Some 1" and "attachments (current s) = []" and "1 \<in> row_id ` set (tenants (current s))"
    and "audit_events (current s) = []" and "rq = None \<or> rq = Some sample_web" and "length key \<le> 500"
  shows "\<exists>x s'. record_upload cx sample_upload 1 key rq s = (Inr x, s')"
  using assms
  by (auto simp: record_upload_def run_steps new_attachment_def attachment_columns_fit_def sample_upload_def
      attachment_constraints_def fresh_id_def attachment_audit_def sample_web_def cong: bind_step_cong)

lemma sample_upload_runs:
  assumes "cx_tenant_id cx = Some 1" and "env s = sample_env" and "attachments (current s) = []"
    and "1 \<in> row_id ` set (tenants (current s))" and "audit_events (current s) = []" and "rq = None \<or> rq = Some sample_web"
  shows "\<exists>x fs' s'. upload [''data''] cx sample_upload rq fs s = (Inr x, fs', s')"
proof -
  let ?key = "build_storage_key (uuid4 sample_env (drawn s)) 1 ''weighbridge_ticket'' ''1'' ''../x.txt''"
  from sample_record_upload [OF assms(1), of "s\<lparr>drawn := Suc (drawn s)\<rparr>" rq ?key] assms(3-6) sample_key(1)
  obtain x s' where "record_upload cx sample_upload 1 ?key rq (s\<lparr>drawn := Suc (drawn s)\<rparr>) = (Inr x, s')" by auto
  then show ?thesis
    by (simp add: upload_def then_files_def on_session_def storage_step_def storage_upload_def sample_key(2)
        sample_upload_key [OF assms(1,2)])
qed

lemma sample_upload_returns:
  "\<exists>x fs' d'. run_files (upload [''data''] admin_context sample_upload None) sample_env fs sample_db = (Inr x, fs', d')"
proof -
  have "1 \<in> row_id ` set (tenants sample_db)" "attachments sample_db = []" "audit_events sample_db = []"
    by (simp_all add: sample_db_def sample_tenant_def empty_db_def)
  with sample_upload_runs [of admin_context "new_session sample_env sample_db" None fs] obtain x fs' s'
    where "upload [''data''] admin_context sample_upload None fs (new_session sample_env sample_db) = (Inr x, fs', s')" by auto
  then show ?thesis by (simp add: run_files_def)
qed

text \<open>The administrator uploads through the route.\<close>

lemma documents_caller:
  assumes "caller (Some (sample_token 10)) sample_env documents_db cx"
  shows "cx_tenant_id cx = Some 1"
proof -
  from assms obtain u where u: "row_id u = 10" "u \<in> set (users documents_db)" "build_security_context u documents_db = Inr cx"
    unfolding caller_def by (auto simp: decode_sample_token uuid_of_str_uuid_str)
  then have "u = sample_user 10 (Some 1) ''admin@acme.io''" by (auto simp: documents_db_def sample_db_def sample_user_def)
  with u(3) show ?thesis by (auto simp: build_security_context_def sample_user_def Let_def split: sum.splits)
qed

lemma documents_guard:
  "\<exists>cx s. guard (Permission ''documents.upload'') (Some (sample_token 10)) (new_session sample_env documents_db) = (Inr cx, s) \<and>
    cx_tenant_id cx = Some 1 \<and> env s = sample_env \<and> current s = documents_db"
proof -
  let ?u = "sample_user 10 (Some 1) ''admin@acme.io''"
  have u: "filter (\<lambda>x. row_id x = 10) (users documents_db) = [?u]" "u_status ?u = UserStatus_ACTIVE"
    by (simp_all add: documents_db_def sample_db_def sample_user_def)
  obtain cx where cx: "build_security_context ?u documents_db = Inr cx" "has_permission cx ''documents.upload''" "cx_tenant_id cx = Some 1"
    by (simp add: documents_db_def sample_contexts sample_company Let_def has_permission_def permission_codes_def)
  have "guard (Permission ''documents.upload'') (Some (sample_token 10)) (new_session sample_env documents_db)
      = (Inr cx, (new_session sample_env documents_db)\<lparr>ticks := 1\<rparr>)"
    using u cx(1,2)
    by (simp add: guard_def require_permission_def require_authenticated_user_def get_current_user_def
        decode_tx_def bind_assoc bind_first_step empty_string_def env_apply decode_sample_token
        uuid_of_str_uuid_str get_user_by_id_def bind_scalar_step return_apply tx_simps)
  with cx(3) show ?thesis by auto
qed

lemma sample_uploaded:
  "\<exists>x fs' d'. run_files (upload_attachment [''data''] (Some (sample_token 10)) sample_upload sample_web) sample_env fs documents_db
    = (Inr x, fs', d')"
proof -
  obtain cx s where g: "guard (Permission ''documents.upload'') (Some (sample_token 10)) (new_session sample_env documents_db) = (Inr cx, s)"
    and s: "cx_tenant_id cx = Some 1" "env s = sample_env" "current s = documents_db" using documents_guard by blast
  have "1 \<in> row_id ` set (tenants documents_db)" "attachments documents_db = []" "audit_events documents_db = []"
    by (simp_all add: documents_db_def sample_db_def sample_tenant_def empty_db_def)
  with sample_upload_runs [OF s(1,2), of "Some sample_web" fs] s(3) obtain x fs' s'
    where "upload [''data''] cx sample_upload (Some sample_web) fs s = (Inr x, fs', s')" by auto
  with g show ?thesis by (simp add: run_files_def upload_attachment_def then_files_def on_session_def tx_simps)
qed

section \<open>Overlapping calls for numbers\<close>

definition plant_call :: number_call where
  "plant_call = \<lparr>nc_tenant = 1, nc_type = ''INVOICE'', nc_fiscal_year = ''2026-27'', nc_prefix = ''INV'',
     nc_unit = Some 21, nc_padding = 4\<rparr>"

definition counter_row :: document_sequence where
  "counter_row = new_sequence 70 1 (Some 21) ''INVOICE'' ''2026-27'' ''INV'' 4"

definition counter_db :: db where
  "counter_db = sample_db\<lparr>document_sequences := [counter_row]\<rparr>"

lemma counter_row_sel [simp]:
  "row_id counter_row = 70" "ds_last_sequence counter_row = 0" "in_scope (call_scope plant_call) counter_row"
  by (simp_all add: counter_row_def new_sequence_def plant_call_def call_scope_def in_scope_iff)

lemma counter_db_ok: "sequences_ok counter_db"
  by (auto simp: sequences_ok_def unique_sequence_ids_def rows_of_def counter_db_def)

text \<open>Both calls look the row up before either finishes.\<close>

lemma sample_race: "\<exists>n n' d. race counter_db [] [(call_scope plant_call, n'), (call_scope plant_call, n)] d"
proof -
  let ?p = "(plant_call, Some counter_row)"
  have look: "run_tx (look_up plant_call) sample_env counter_db = (Inr (Some counter_row), counter_db)"
    by (simp add: look_up_def run_tx_def scalar_tx_def bind_tx_def tx_simps new_session_def counter_db_def)
  have both: "race counter_db [?p, ?p] [] counter_db"
    by (rule race.look [OF race.look [OF race.start look] look])
  have row: "counter_row \<in> set (document_sequences counter_db)" by (simp add: counter_db_def)
  obtain n d where one: "run_tx (finish_number plant_call (Some counter_row)) sample_env counter_db = (Inr n, d)"
    by (rule finish_returns [OF conjunct1 [OF counter_db_ok [unfolded sequences_ok_def]] row refl]) (auto simp: max_int32_def)
  have "document_sequences d = [row] \<Longrightarrow> row_id row = 70 \<Longrightarrow> ds_last_sequence row = 1 \<Longrightarrow> ?thesis" for row
  proof -
    assume d: "document_sequences d = [row]" "row_id row = 70" "ds_last_sequence row = 1"
    have "unique_sequence_ids d" by (simp add: unique_sequence_ids_def d)
    from finish_returns [OF this, of row counter_row plant_call sample_env] d obtain n' d2 where
      "run_tx (finish_number plant_call (Some counter_row)) sample_env d = (Inr n', d2)" by (auto simp: max_int32_def)
    from race.finish [OF race.finish [OF both _ one] _ this] show ?thesis by auto
  qed
  moreover obtain row where "document_sequences d = [row]" "row_id row = 70" "ds_last_sequence row = 1"
    using one by (auto simp: run_tx_def finish_number_def found_or_new_def advance_sequence_def increment_sequence_def
      bind_tx_def scalar_tx_def tx_simps some_tx_def save_row_apply Let_def new_session_def counter_db_def max_int32_def touch_def
      counter_row_def new_sequence_def put_row_def split: if_splits)
  ultimately show ?thesis by blast
qed

definition tenant_call :: number_call where
  "tenant_call = plant_call\<lparr>nc_unit := None\<rparr>"

end
