(* ===== verification/Spec2Isabelle.thy ===== *)
theory Spec2Isabelle
  imports Sample_Api
begin

text \<open>
  Verification of the Crusherly backend (\<^verbatim>\<open>src/backend/app\<close>, Python; paths below are relative to
  it): a multi-tenant server for stone-crusher plants, with users, roles and permissions, tenants,
  hierarchical settings, master data, document numbering, weighbridge tickets, production entries,
  attachments, notifications and an audit trail, behind a FastAPI application.

  \<^bold>\<open>How the program is put together.\<close> A request passes the middleware, then the router. The route's
  dependencies authenticate the bearer token, build the caller's security context from the role
  assignments and ask it for the route's permission; then the body is validated, and the handler
  calls one service function with an \<^verbatim>\<open>AsyncSession\<close>. The service checks its own guards, reads and
  writes rows through the repositories, records an audit event and commits. An exception rolls the
  session back and an exception handler answers it.

  \<^bold>\<open>How it is modelled.\<close> \<open>Store\<close> has the database, a record with one list of rows per table, and the
  session: the last committed database, the current one, and how many UUIDs, clock readings and
  salts the request has drawn. A service function is a \<open>tx\<close>: from a session to an exception or a
  value, and the session after it. \<open>run_tx\<close> runs a function in a fresh session and returns what was
  committed. An \<^verbatim>\<open>await\<close> is sequencing. Rows are the records of \<open>Models\<close>; a mixin of
  \<^verbatim>\<open>models/base.py\<close> is a record that the records of its classes extend.

  \<^bold>\<open>The theories\<close>, each over those before it:
  \<^item> \<open>Prelude\<close>, \<open>Py_Strings\<close>: lists, pages, and the methods of \<^verbatim>\<open>str\<close> and \<^verbatim>\<open>uuid.UUID\<close> that the code calls.
  \<^item> \<open>Models\<close> (\<^verbatim>\<open>models/\<close>), \<open>Store\<close> (\<^verbatim>\<open>core/database.py\<close>, \<^verbatim>\<open>core/config.py\<close>, \<^verbatim>\<open>core/exceptions.py\<close>),
    \<open>Repository\<close>: inserting a row after its constraints, writing an object back, listings by page.
    Its locales are the interfaces of the library: \<open>store_relation\<close>, a reflexive and transitive
    relation between databases with a rule per primitive, so that "this function keeps it" is a
    proof by the rules of \<open>tx_rules\<close>; \<open>table\<close>, what reading a table after writing it gives;
    \<open>document_lifecycle\<close>, a table whose rows change by the steps of a relation only.
  \<^item> \<open>Audit_Trail\<close> (\<^verbatim>\<open>services/audit_service.py\<close>), \<open>Numbering\<close> (\<^verbatim>\<open>services/numbering_service.py\<close>),
    \<open>Numbering_Race\<close> (the same calls interleaved), \<open>Organization\<close> (\<^verbatim>\<open>repositories/organization_repository.py\<close>),
    \<open>Authorization\<close> (\<^verbatim>\<open>security/security_context.py\<close>, \<^verbatim>\<open>services/security_context_service.py\<close>,
    \<^verbatim>\<open>services/authorization_service.py\<close>), \<open>Tenant_Isolation\<close> (the store relation of isolation).
  \<^item> \<open>Weighbridge\<close>, \<open>Production\<close>, \<open>Master_Catalog\<close> (the ten kinds of master data: columns and schemas)
    and \<open>Master_Data\<close> (their service), \<open>Settings_Service\<close>, \<open>Users\<close>, \<open>Roles\<close>, \<open>Tenants\<close>, \<open>Notifications\<close>: the service of that name with its repository, request schemas and constraints.
    The life of a ticket and of a production entry is an inductive step relation.
  \<^item> \<open>Auth_Service\<close> (\<^verbatim>\<open>services/auth_service.py\<close>, \<^verbatim>\<open>security/\<close>), \<open>Auth_Effects\<close> and \<open>Auth_Tokens\<close>: what
    its operations achieve, and a token followed from login to the next request.
  \<^item> \<open>Storage\<close> and \<open>Attachments\<close>: the interface of a provider (the locale \<open>storage_provider\<close>), the local
    provider on a store of paths as its instance, and the attachment service on the pair of files and session (files are not rolled back).
  \<^item> \<open>Errors\<close> (\<^verbatim>\<open>core/error_handlers.py\<close>), \<open>Middleware\<close> (\<^verbatim>\<open>middleware/\<close>), \<open>Events\<close> (\<^verbatim>\<open>events/\<close>, \<^verbatim>\<open>jobs/\<close>).
  \<^item> \<open>Schemas\<close> (the response models of \<^verbatim>\<open>schemas/\<close>), \<open>Routes\<close> (\<^verbatim>\<open>api/v1/\<close>: a constructor per route, its
    dependency, its handler, and \<open>serve\<close>, which runs them in FastAPI's order), \<open>Http\<close> (\<^verbatim>\<open>main.py\<close>:
    \<open>application\<close>, the middleware around \<open>serve\<close>).
  \<^item> \<open>Footprint\<close>, \<open>Api\<close>, \<open>Api_Laws\<close>, \<open>Api_Guards\<close>: requests as steps of the whole system. \<open>api_step\<close> is
    one request to any route, with any environment; the locales \<open>tenant_law\<close> and \<open>api_law\<close> have as
    their assumptions that each service function respects a relation between databases, and as
    their lemmas that every request and every history does. \<open>Api_Laws\<close> interprets them for the growth
    of the audit trail, the table invariants, the life cycles, the system roles and the isolation
    of tenants.
  \<^item> \<open>Seed\<close> (\<^verbatim>\<open>core/seed.py\<close>: its tables, its functions), \<open>Seed_Again\<close> (a second run finds what the
    first one left) and \<open>Seed_Returns\<close> (the first run returns).
  \<^item> \<open>Sample_Data\<close>, \<open>Sample_Runs\<close>, \<open>Sample_Api\<close>: a small company and concrete requests, at which the
    theorems below are instantiated.

  \<^bold>\<open>What is shown\<close>, in the order of this file: what holds of every request (guards, isolation of
  tenants, failing requests leave nothing but counters, which tables a request writes) and of every
  history (the audit trail only grows, tables stay well formed, documents live by their state
  machines, system roles stay); what tickets, numbers, authorization, authentication and its tokens,
  the seed, tenants and roles, master data, settings and files do, in full on success; the limiter,
  headers and error answers of the application; listings by page. Several theorems state a
  behaviour the documents of the repository deny: a number of another plant of the tenant is refused by the
  database, an administrator of a tenant can make himself a super administrator, two racing first
  calls without an organization unit give out one number twice.

  \<^bold>\<open>Bounds.\<close> Loops of the code are structural recursions. The walk up the organization hierarchy has
  the code's own bound of ten, which is also what ends it on a cycle; no other function has fuel.
  A counter column ends at \<open>2^31 - 1\<close>, a \<^verbatim>\<open>Numeric(12, 3)\<close> column rounds to three decimals and holds
  nine digits before the point, a \<^verbatim>\<open>String(n)\<close> column holds \<open>n\<close> characters where no schema bounds the
  value; beyond these the database raises \<open>DataError\<close>.

  \<^bold>\<open>Conventions.\<close> Every change of an object is followed by a flush in the code, so writes take
  effect at once; \<^verbatim>\<open>expire_on_commit\<close> is off, so a returned object keeps the values of the payload.
  Primary keys, unique constraints (\<open>NULL\<close>s are distinct) and foreign keys are checked when a row is
  inserted, and a violation is \<open>IntegrityError\<close> with the constraint's name. \<open>now_tx\<close> is
  \<^verbatim>\<open>datetime.now\<close>, \<open>server_now_tx\<close> the database's clock. Requests run one at a time, except in
  \<open>Numbering_Race\<close>. A guard runs before the body is validated. Path parameters are UUIDs. Strings are ASCII.

  \<^bold>\<open>Outside code\<close> is a parameter: the fields of \<open>env\<close> (Argon2, PyJWT, \<^verbatim>\<open>EmailStr\<close>, \<^verbatim>\<open>LIKE\<close> and collation
  of the database, UUIDs, clocks), the function \<open>cors\<close> on response headers, and the text \<open>shown\<close> of a
  library's exception. Theorems name what they assume of it, e.g. that a token that was encoded is
  decoded to the same claims, or that fresh UUIDs are fresh.

  \<^bold>\<open>Not modelled:\<close> the Alembic migrations (the models declare the same constraints); the engine and its
  connection pool; logging; the Azure storage provider, which hands its arguments to the Azure SDK;
  the tables of \<^verbatim>\<open>models/workflow.py\<close>, \<^verbatim>\<open>models/cost_centre.py\<close> and \<^verbatim>\<open>models/location.py\<close>, which no code
  uses; the Angular frontend; tests. Overflow of the counter of
  failed logins and the foreign key of \<^verbatim>\<open>updated_by\<close> (the caller's own row) are not modelled; symbolic
  links and errors of the file system are not either.
\<close>

section \<open>Requests\<close>

text \<open>C1. Every request is guarded. When a request to a route other than the five public ones is
  answered with a result, or changes the database at all, its bearer token is an unexpired access
  token that names an active user, and the security context built for that user from the roles in
  the database holds the permission that the route declares.\<close>

theorem requests_guarded:
  assumes "run_tx (serve (Private r) cred rq) e d = (x, d')" and "\<not> isl x \<or> d' \<noteq> d"
  shows "\<exists>tok dt u cx. cred = Some tok \<and>
    decode_token e (clock e 0) tok (Some TokenType_ACCESS) = Inr dt \<and>
    uuid_of_str (dt_subject dt) = Some (row_id u) \<and> u \<in> set (users d) \<and> u_status u = UserStatus_ACTIVE \<and>
    build_security_context u d = Inr cx \<and>
    (\<forall>p. route_access r = Permission p \<longrightarrow> (\<exists>g\<in>set (cx_grants cx). permission_code g = p))"
proof -
  from serve_caller [OF assms] obtain cx where c: "caller cred e d cx" and a: "allowed (route_access r) cx" by blast
  from a have "\<forall>p. route_access r = Permission p \<longrightarrow> (\<exists>g\<in>set (cx_grants cx). permission_code g = p)"
    by (auto simp: has_permission_def permission_codes_def)
  with c show ?thesis unfolding caller_def by blast
qed

theorem requests_guarded_witness:
  "\<exists>u cx. u \<in> set (users busy_db) \<and> u_status u = UserStatus_ACTIVE \<and> build_security_context u busy_db = Inr cx \<and>
    (\<exists>g\<in>set (cx_grants cx). permission_code g = ''weighbridge.update'')"
proof -
  have "route_access complete_request = Permission ''weighbridge.update''" by simp
  with requests_guarded [OF prod.collapse [symmetric], of complete_request "Some (sample_token 10)" sample_web sample_env busy_db]
    sample_complete_request show ?thesis by blast
qed



text \<open>C3. Failing requests leave nothing. A request that is answered with an error leaves the database as
  it was, with two exceptions that the code means: a refused login counts, and the creation of a
  ticket or an entry may have consumed a number, which changes the sequences and nothing else.\<close>

theorem failing_requests:
  assumes "run_tx (serve r cred rq) e d = (Inl err, d')"
  shows "(leaves_nothing r \<longrightarrow> d' = d) \<and>
    (\<forall>p. r = Private (On_tickets (Create_ticket p)) \<longrightarrow> d' = d\<lparr>document_sequences := document_sequences d'\<rparr>) \<and>
    (\<forall>p. r = Private (On_entries (Create_entry p)) \<longrightarrow> d' = d\<lparr>document_sequences := document_sequences d'\<rparr>)"
proof (intro conjI allI impI)
  assume "leaves_nothing r"
  with run_atomic [OF serve_atomic, of r cred rq e d err] assms show "d' = d" by simp
qed (use assms serve_create_only_numbers in \<open>blast+\<close>)

theorem failing_requests_witness:
  "\<exists>err. run_tx (serve (Private complete_request) None sample_web) sample_env busy_db = (Inl err, busy_db)"
proof -
  obtain err d' where r: "run_tx (serve (Private complete_request) None sample_web) sample_env busy_db = (Inl err, d')"
    using sample_unauthenticated by blast
  with failing_requests [OF r] show ?thesis by simp
qed

text \<open>C4. What a request may write. Whatever a request does, answered or not, the tables that it changes
  are among those listed for its route (and the audit trail); a request of a reading route changes
  nothing, not even the audit trail.\<close>

theorem request_footprint:
  assumes "run_tx (serve r cred rq) e d = (x, d')"
  shows "same_except (writes r) d d' \<and> (writes r = {} \<longrightarrow> d' = d)"
proof -
  have "reads (serve r cred rq)" if "writes r = {}"
    using that by (cases r) (simp_all add: public_writes_nonempty reads_bind reads_guard handle_reads)
  then have "writes r = {} \<Longrightarrow> d' = d" using assms by (auto simp: reads_def run_tx_def split: prod.splits)
  with run_leads [OF serve_footprint assms] show ?thesis by blast
qed

theorem request_footprint_witness:
  "\<exists>x d'. run_tx (serve (Private complete_request) (Some (sample_token 10)) sample_web) sample_env busy_db = (Inr x, d') \<and>
    audit_events d' \<noteq> [] \<and> same_except {T_weighbridge_tickets} busy_db d'"
proof -
  obtain x d' where r: "run_tx (serve (Private complete_request) (Some (sample_token 10)) sample_web) sample_env busy_db = (Inr x, d')"
    using run_returned [OF sample_complete_request] by blast
  with request_footprint [OF r] sample_complete_events show ?thesis by simp
qed

section \<open>Histories of requests\<close>

text \<open>C5. The audit trail only grows. In any history of requests to any routes, by any callers, with
  uploads, deletions and notifications of the other modules in between, the audit events at an
  earlier moment are an initial part of those at a later one: none is removed, changed or put
  before another.\<close>

theorem audit_append_only:
  assumes "(api_step base)\<^sup>*\<^sup>* (fs, d) (fs', d')"
  shows "\<exists>evs. audit_events d' = audit_events d @ evs"
  using audit_law.history_law [OF assms] by (auto simp: audit_grows_def prefix_def)

theorem audit_append_only_witness:
  "\<exists>w d' ev evs. (api_step [''data''])\<^sup>*\<^sup>* (w, busy_db) (w, d') \<and> audit_events d' = ev # evs"
proof -
  from sample_history_step obtain d' where h: "(api_step [''data''])\<^sup>*\<^sup>* (\<lambda>_. None, busy_db) (\<lambda>_. None, d')"
    and one: "audit_events d' \<noteq> []" by blast
  from audit_append_only [OF h] one h show ?thesis by (metis append_Nil neq_Nil_conv busy_no_events)
qed

text \<open>C6. The tables stay well formed. Over any history of requests the user table keeps identifiers and
  (lower-case) addresses unique, the tenant table codes and slugs, every master-data table the code
  within a tenant, the ticket table the number within a tenant and each ticket its shape (weights with
  three decimals, second and net weight exactly when completed, the net weight within 0.001 of the
  difference), the entry table likewise, and every attachment row a storage key built for its tenant.\<close>

theorem tables_well_formed:
  assumes "(api_step base)\<^sup>*\<^sup>* (fs, d) (fs', d')"
    and "users_ok d" and "tenants_ok d" and "md_tables_ok d" and "ticket_table_ok d" and "entry_table_ok d" and "keys_ok d"
  shows "users_ok d' \<and> tenants_ok d' \<and> md_tables_ok d' \<and> ticket_table_ok d' \<and> entry_table_ok d' \<and> keys_ok d'"
  using assms(2-) users_law.history_law [OF assms(1)] tenants_law.history_law [OF assms(1)]
    items_law.history_law [OF assms(1)] tickets_law.history_law [OF assms(1)]
    entries_law.history_law [OF assms(1)] keys_law.history_law [OF assms(1)]
  by (simp add: preserves_def)

theorem tables_well_formed_witness:
  "\<exists>d'. (api_step [''data''])\<^sup>*\<^sup>* (\<lambda>_. None, busy_db) (\<lambda>_. None, d') \<and> audit_events d' \<noteq> [] \<and> ticket_table_ok d'"
  using sample_history_step tables_well_formed busy_tables by metis

text \<open>C7. The life of a ticket. Over any history of requests every ticket is still there with its
  number, tenant and first weight, and its status has moved along the documented diagram (open to
  completed or cancelled, cancelled again to cancelled); a completed ticket is still the same row,
  down to its last column.\<close>

theorem ticket_history_correct:
  assumes "(api_step base)\<^sup>*\<^sup>* (fs, d) (fs', d')" and "distinct (map row_id (weighbridge_tickets d))"
    and "w \<in> set (weighbridge_tickets d)"
  shows "(\<exists>w'\<in>set (weighbridge_tickets d'). row_id w' = row_id w \<and> tenant_id w' = tenant_id w \<and>
      wt_ticket_number w' = wt_ticket_number w \<and> wt_first_weight w' = wt_first_weight w \<and>
      ticket_status_step\<^sup>*\<^sup>* (wt_status w) (wt_status w')) \<and>
    (wt_status w = WeighbridgeTicketStatus_COMPLETED \<longrightarrow> w \<in> set (weighbridge_tickets d'))"
proof -
  have e: "evolves weighbridge_tickets ticket_step d d'" using ticket_history.history_law [OF assms(1)] by simp
  with assms(2,3) obtain w' where w': "w' \<in> set (weighbridge_tickets d')" "ticket_step\<^sup>*\<^sup>* w w'"
    by (auto simp: evolves_def)
  from w'(2) have "row_id w' = row_id w \<and> tenant_id w' = tenant_id w \<and> wt_ticket_number w' = wt_ticket_number w \<and>
      wt_first_weight w' = wt_first_weight w \<and> ticket_status_step\<^sup>*\<^sup>* (wt_status w) (wt_status w')"
    by induction (auto dest: ticket_step_keeps ticket_step_refines intro: rtranclp.rtrancl_into_rtrancl)
  with w'(1) ticket_lifecycle.frozen [OF e assms(2,3)] completed_final show ?thesis by blast
qed

theorem ticket_history_correct_witness:
  "\<exists>d'. (api_step [''data''])\<^sup>*\<^sup>* (\<lambda>_. None, busy_db) (\<lambda>_. None, d') \<and> audit_events d' \<noteq> [] \<and>
    done_ticket \<in> set (weighbridge_tickets busy_db) \<and> wt_status done_ticket = WeighbridgeTicketStatus_COMPLETED \<and>
    done_ticket \<in> set (weighbridge_tickets d')"
proof -
  have "distinct (map row_id (weighbridge_tickets busy_db))" "done_ticket \<in> set (weighbridge_tickets busy_db)"
    "wt_status done_ticket = WeighbridgeTicketStatus_COMPLETED"
    using busy_tables(4) by (simp_all add: ticket_table_ok_def) (simp_all add: busy_db_def done_ticket_def)
  with sample_history_step ticket_history_correct show ?thesis by metis
qed

text \<open>C8. The life of a production entry. Over any history of requests every entry is still there with
  its number, tenant, raw material and outputs, and its status has moved along the diagram (draft to
  submitted, either to cancelled); a cancelled entry is still the same row.\<close>

theorem entry_history_correct:
  assumes "(api_step base)\<^sup>*\<^sup>* (fs, d) (fs', d')" and "distinct (map row_id (production_entries d))"
    and "x \<in> set (production_entries d)"
  shows "(\<exists>x'\<in>set (production_entries d'). row_id x' = row_id x \<and> tenant_id x' = tenant_id x \<and>
      pe_entry_number x' = pe_entry_number x \<and> pe_outputs x' = pe_outputs x \<and>
      pe_raw_material_quantity x' = pe_raw_material_quantity x \<and>
      entry_status_step\<^sup>*\<^sup>* (pe_status x) (pe_status x')) \<and>
    (pe_status x = ProductionEntryStatus_CANCELLED \<longrightarrow> x \<in> set (production_entries d'))"
proof -
  have e: "evolves production_entries entry_step d d'" using entry_history.history_law [OF assms(1)] by simp
  with assms(2,3) obtain x' where x': "x' \<in> set (production_entries d')" "entry_step\<^sup>*\<^sup>* x x'"
    by (auto simp: evolves_def)
  from x'(2) have "row_id x' = row_id x \<and> tenant_id x' = tenant_id x \<and> pe_entry_number x' = pe_entry_number x \<and>
      pe_outputs x' = pe_outputs x \<and> pe_raw_material_quantity x' = pe_raw_material_quantity x \<and>
      entry_status_step\<^sup>*\<^sup>* (pe_status x) (pe_status x')"
    by induction (auto dest: entry_step_keeps entry_step_refines intro: rtranclp.rtrancl_into_rtrancl)
  with x'(1) entry_lifecycle.frozen [OF e assms(2,3)] cancelled_final show ?thesis by blast
qed

theorem entry_history_correct_witness:
  "\<exists>d'. (api_step [''data''])\<^sup>*\<^sup>* (\<lambda>_. None, busy_db) (\<lambda>_. None, d') \<and> audit_events d' \<noteq> [] \<and>
    production_entries busy_db = [gone_entry] \<and> pe_status gone_entry = ProductionEntryStatus_CANCELLED \<and>
    gone_entry \<in> set (production_entries d')"
proof -
  have "distinct (map row_id (production_entries busy_db))" "production_entries busy_db = [gone_entry]"
    "gone_entry \<in> set (production_entries busy_db)" "pe_status gone_entry = ProductionEntryStatus_CANCELLED"
    by (simp_all add: busy_db_def gone_entry_def)
  with sample_history_step entry_history_correct show ?thesis by metis
qed

text \<open>C9. The system roles. Over any history of requests, by whatever administrators, the system roles
  and the permissions that they carry stay exactly as they are.\<close>

theorem system_roles_constant:
  assumes "(api_step base)\<^sup>*\<^sup>* (fs, d) (fs', d')" and "roles_ok d"
  shows "filter r_is_system (roles d') = filter r_is_system (roles d) \<and>
    (\<forall>r\<in>set (roles d). r_is_system r \<longrightarrow> permissions_of_role d' (row_id r) = permissions_of_role d (row_id r))"
  using roles_history.history_law [OF assms(1)] assms(2) by (simp add: roles_frame_def system_roles_same_def)

theorem system_roles_constant_witness:
  "\<exists>d'. (api_step [''data''])\<^sup>*\<^sup>* (\<lambda>_. None, busy_db) (\<lambda>_. None, d') \<and> audit_events d' \<noteq> [] \<and>
    filter r_is_system (roles d') = [sample_role 60 None ''SUPER_ADMIN'' True]"
proof -
  have "roles_ok busy_db" "filter r_is_system (roles busy_db) = [sample_role 60 None ''SUPER_ADMIN'' True]"
    by (simp_all add: roles_ok_def busy_db_def open_ticket_db_def sample_db_def sample_role_def)
  with sample_history_step system_roles_constant show ?thesis by metis
qed

section \<open>Weighbridge tickets\<close>



text \<open>C11. Creating a ticket. When \<^verbatim>\<open>create_ticket\<close> returns, the caller belongs to a tenant with
  one active fiscal year and may create tickets at the organization unit of the payload; the
  new row is open, belongs to that tenant, carries the number that \<^verbatim>\<open>next_number\<close> gave for the
  scope of unit, document type and fiscal year, the first weight rounded to three decimals and
  the vehicle number in capitals; the rows that were there are kept; and no other row of the
  tenant has that number.\<close>

theorem create_ticket_correct:
  assumes "run_tx (create_ticket cx p rq) e d = (Inr w', d')" and "unique_sequence_ids d"
  shows "\<exists>t fy n pre pad stored. cx_tenant_id cx = Some t \<and>
    is_authorized cx ''weighbridge.create'' (tc_organization_unit_id p) d \<and>
    filter (\<lambda>y. tenant_id y = t \<and> fy_is_active y) (fiscal_years d) = [fy] \<and>
    scope_format d t (tc_organization_unit_id p) weighbridge_document_type (fy_code fy) ticket_prefix 6 = (pre, pad) \<and>
    n = format_number pre (counter d t (tc_organization_unit_id p) weighbridge_document_type (fy_code fy) + 1) pad \<and>
    weighbridge_tickets d' = weighbridge_tickets d @ [stored] \<and>
    tenant_id stored = t \<and> wt_ticket_number stored = n \<and> wt_status stored = WeighbridgeTicketStatus_OPEN \<and>
    wt_first_weight stored = numeric_3 (tc_first_weight p) \<and>
    wt_vehicle_number stored = upper (tc_vehicle_number p) \<and> wt_net_weight stored = None \<and>
    created_by stored = Some (row_id (cx_user cx)) \<and>
    (\<forall>w\<in>set (weighbridge_tickets d). tenant_id w = t \<longrightarrow> wt_ticket_number w \<noteq> n) \<and>
    w' = stored\<lparr>wt_first_weight := tc_first_weight p\<rparr>"
proof -
  from assms(1) obtain s' where s': "create_ticket cx p rq (new_session e d) = (Inr w', s')" "d' = committed s'"
    by (rule run_tx_eqD)
  from s'(1) show ?thesis
  proof (rule create_ticket_Inr)
    fix t fy n s1 stored
    assume t: "cx_tenant_id cx = Some t"
      and a: "is_authorized cx ''weighbridge.create'' (tc_organization_unit_id p) (current (new_session e d))"
      and f: "filter (\<lambda>y. tenant_id y = t \<and> fy_is_active y) (fiscal_years (current (new_session e d))) = [fy]"
      and n: "next_number t weighbridge_document_type (fy_code fy) ticket_prefix
        (tc_organization_unit_id p) 6 (new_session e d) = (Inr n, s1)"
      and st: "stored = stamp (server_clock (env s1) (txn s1))
        (new_ticket (uuid4 (env s1) (drawn s1)) t n (row_id (cx_user cx)) (clock (env s1) (ticks s1)) p)"
      and v: "violated (ticket_constraints (current s1) stored) = None"
      and w: "weighbridge_tickets (committed s') = weighbridge_tickets (current s1) @ [stored]"
      and w': "w' = stored\<lparr>wt_first_weight := tc_first_weight p\<rparr>"
    obtain pre pad where pp: "scope_format (current (new_session e d)) t (tc_organization_unit_id p)
        weighbridge_document_type (fy_code fy) ticket_prefix 6 = (pre, pad)" by fastforce
    have ids: "unique_sequence_ids (current (new_session e d))" using assms(2) by simp
    note eff = next_number_effect [OF n ids pp]
    from eff(5) have same: "weighbridge_tickets (current s1) = weighbridge_tickets d"
      by (metis db.select_convs(21) db.surjective db.update_convs(12) new_session_sel(3))
    from st have fields: "tenant_id stored = t" "wt_ticket_number stored = n"
      "wt_status stored = WeighbridgeTicketStatus_OPEN" "wt_first_weight stored = numeric_3 (tc_first_weight p)"
      "wt_vehicle_number stored = upper (tc_vehicle_number p)" "wt_net_weight stored = None"
      "created_by stored = Some (row_id (cx_user cx))"
      by (simp_all add: new_ticket_def stamp_def)
    from v fields same have "\<forall>w\<in>set (weighbridge_tickets d). tenant_id w = t \<longrightarrow> wt_ticket_number w \<noteq> n"
      by (auto simp: ticket_constraints_def list_ex_iff)
    with t a f pp eff(1) w w' fields same s'(2) show ?thesis
      by (intro exI [of _ t] exI [of _ fy] exI [of _ n] exI [of _ pre] exI [of _ pad] exI [of _ stored]) simp
  qed
qed

theorem create_ticket_correct_witness:
  "\<exists>stored. weighbridge_tickets
      (snd (run_tx (create_ticket admin_context (sample_ticket (Some 21)) None) sample_env sample_db))
        = weighbridge_tickets sample_db @ [stored] \<and>
    wt_first_weight stored = numeric_3 (tc_first_weight (sample_ticket (Some 21)))"
  using create_ticket_correct [OF run_returned [OF sample_create] sample_sequences] by blast

text \<open>C12. A number that the tenant already uses. Tickets are numbered per organization unit and
  fiscal year but their numbers are unique per tenant: when the number that \<^verbatim>\<open>next_number\<close>
  returns is on another ticket of the tenant (the first ticket of a second plant, or of a new
  fiscal year), \<^verbatim>\<open>create_ticket\<close> ends in a violated constraint, although every guard passed, and
  the number stays consumed.\<close>

theorem create_ticket_number_taken:
  assumes "cx_tenant_id cx = Some t"
    and "is_authorized cx ''weighbridge.create'' (tc_organization_unit_id p) d"
    and "filter (\<lambda>y. tenant_id y = t \<and> fy_is_active y) (fiscal_years d) = [fy]"
    and "next_number t weighbridge_document_type (fy_code fy) ticket_prefix
       (tc_organization_unit_id p) 6 (new_session e d) = (Inr n, s1)"
    and "numeric_12_3 (tc_first_weight p)"
    and "uuid4 e (drawn s1) \<notin> row_id ` set (weighbridge_tickets d)"
    and "x \<in> set (weighbridge_tickets d)" and "tenant_id x = t" and "wt_ticket_number x = n"
  shows "run_tx (create_ticket cx p rq) e d = (Inl (IntegrityError ''uq_weighbridge_ticket_number''), current s1)"
proof -
  have "env s1 = e" using next_number_env [OF assms(4)] by simp
  with create_ticket_taken [of cx t p "new_session e d" fy n s1 x rq] assms
  show ?thesis by (cases "create_ticket cx p rq (new_session e d)") (simp add: run_tx_def)
qed

theorem create_ticket_number_taken_witness:
  "fst (run_tx (create_ticket admin_context (sample_ticket (Some 22)) None) later_env open_ticket_db)
     = Inl (IntegrityError ''uq_weighbridge_ticket_number'')"
proof -
  have "run_tx (create_ticket admin_context (sample_ticket (Some 22)) None) later_env open_ticket_db =
      (Inl (IntegrityError ''uq_weighbridge_ticket_number''), current (snd (next_number 1
        weighbridge_document_type ''2026-27'' ticket_prefix (Some 22) 6 (new_session later_env open_ticket_db))))"
    by (rule create_ticket_number_taken [where t = 1 and n = "''WBT-000001''" and x = open_ticket
          and fy = "sample_fiscal_year 40 ''2026-27'' True"])
      (simp_all add: sample_second_plant sample_number sample_ticket_def prod_eq_iff numeric_12_3_def)
  then show ?thesis by simp
qed

section \<open>Numbering\<close>

text \<open>C13. No number twice. In a history of requests in which \<^verbatim>\<open>next_number\<close> of
  \<^verbatim>\<open>app/services/numbering_service.py\<close> is called for any scopes (tenant, organization unit,
  document type, fiscal year), any prefixes and paddings, interleaved with requests that leave
  the counters alone, the pairs of scope and number given out are distinct.\<close>

theorem numbers_distinct:
  assumes "numbered d0 h d" and "unique_sequence_ids d0"
  shows "distinct h \<and> unique_sequence_ids d"
  using numbered_invariant [OF assms] by blast

theorem numbers_distinct_witness:
  "\<exists>n n' d. numbered sample_db [((1, Some 21, ''INVOICE'', ''2026-27''), n'), ((1, Some 21, ''INVOICE'', ''2026-27''), n)] d \<and>
    n \<noteq> n'"
proof -
  from sample_history obtain n n' d d' where r: "run_tx first_call sample_env sample_db = (Inr n, d)"
    "run_tx first_call later_env d = (Inr n', d')" by blast
  have "numbered sample_db [((1, Some 21, ''INVOICE'', ''2026-27''), n'), ((1, Some 21, ''INVOICE'', ''2026-27''), n)] d'"
    by (rule numbered.call [OF numbered.call [OF numbered.start r(1) [unfolded first_call_def]] r(2) [unfolded first_call_def]])
  with numbers_distinct [OF this sample_sequences] show ?thesis by auto
qed



text \<open>C15. Overlapping calls. Requests that look up the counter of their scope and finish later, in any
  order, with any calls of others between the two parts of one call, are never given the same number of
  a scope with an organization unit; nor does such a scope ever get a second counter. Both rest on the
  \<^verbatim>\<open>UPDATE\<close> reading the counter again and on the unique constraint.\<close>

theorem concurrent_numbers_distinct:
  assumes "race d0 ps h d" and "sequences_ok d0"
  shows "distinct (filter (\<lambda>(sc, n). has_unit sc) h) \<and> (\<forall>sc. has_unit sc \<longrightarrow> length (rows_of d sc) \<le> 1)"
  using race_invariant [OF assms] unfolding sequences_ok_def by blast

theorem concurrent_numbers_distinct_witness:
  "\<exists>n n' d. race counter_db [] [(call_scope plant_call, n'), (call_scope plant_call, n)] d \<and> n' \<noteq> n"
proof -
  obtain n n' d where r: "race counter_db [] [(call_scope plant_call, n'), (call_scope plant_call, n)] d"
    using sample_race by blast
  have "has_unit (call_scope plant_call)" by (simp add: has_unit_def call_scope_def plant_call_def)
  with concurrent_numbers_distinct [OF r counter_db_ok] have "n' \<noteq> n" by simp
  with r show ?thesis by blast
qed

text \<open>C16. Without an organization unit the numbers repeat. The unique constraint does not compare rows whose
  unit is \<^verbatim>\<open>NULL\<close>, so two first calls of a tenant-wide scope that overlap both insert a counter, and both
  return the first number; from then on \<^verbatim>\<open>scalar_one_or_none\<close> finds two rows and every further call of
  that scope raises.\<close>

theorem tenant_wide_numbers_repeat:
  fixes d :: db and e e' :: env
  assumes "rows_of d (call_scope c) = []" and "nc_unit c = None" and "nc_tenant c \<in> row_id ` set (tenants d)"
    and "{uuid4 e 0, uuid4 e' 0} \<inter> row_id ` set (document_sequences d) = {}" and "uuid4 e 0 \<noteq> uuid4 e' 0"
  shows "\<exists>d'. race d [] [(call_scope c, format_number (nc_prefix c) 1 (nc_padding c)),
        (call_scope c, format_number (nc_prefix c) 1 (nc_padding c))] d' \<and>
    (\<forall>e'. run_tx (next_number (nc_tenant c) (nc_type c) (nc_fiscal_year c) (nc_prefix c) None (nc_padding c)) e' d'
      = (Inl MultipleResultsFound, d'))"
proof (rule race_tenant_wide [OF assms])
  fix x y assume "race d [] [(call_scope c, format_number (nc_prefix c) 1 (nc_padding c)),
        (call_scope c, format_number (nc_prefix c) 1 (nc_padding c))] (d\<lparr>document_sequences := document_sequences d @ [x, y]\<rparr>)"
    and "rows_of (d\<lparr>document_sequences := document_sequences d @ [x, y]\<rparr>) (call_scope c) = [x, y]"
  then show ?thesis using next_number_many [unfolded assms(2)] assms(2) by metis
qed

theorem tenant_wide_numbers_repeat_witness:
  "\<exists>d'. race sample_db [] [(call_scope tenant_call, format_number ''INV'' 1 4), (call_scope tenant_call, format_number ''INV'' 1 4)] d'"
proof -
  have c: "nc_unit tenant_call = None" "nc_prefix tenant_call = ''INV''" "nc_padding tenant_call = 4" "nc_tenant tenant_call = 1"
    by (simp_all add: tenant_call_def plant_call_def)
  have "rows_of sample_db (call_scope tenant_call) = []" "nc_tenant tenant_call \<in> row_id ` set (tenants sample_db)"
    "{uuid4 sample_env 0, uuid4 later_env 0} \<inter> row_id ` set (document_sequences sample_db) = {}"
    "uuid4 sample_env 0 \<noteq> uuid4 later_env 0"
    by (simp_all add: rows_of_def c(4) sample_db_def sample_tenant_def sample_env_def later_env_def empty_db_def)
  from tenant_wide_numbers_repeat [OF this(1) c(1) this(2-4)] show ?thesis unfolding c(2,3) by blast
qed

section \<open>Authorization\<close>

lemma grant_fields_ex:
  "(\<exists>g. (\<exists>ur. A ur (permission_code g) \<and> (scope_level g, grant_unit g) \<in> S ur) \<and> permission_code g = p \<and> C g)
    \<longleftrightarrow> (\<exists>ur l o'. A ur p \<and> (l, o') \<in> S ur \<and> C \<lparr>permission_code = p, scope_level = l, grant_unit = o'\<rparr>)"
proof
  assume "\<exists>g. (\<exists>ur. A ur (permission_code g) \<and> (scope_level g, grant_unit g) \<in> S ur) \<and> permission_code g = p \<and> C g"
  then obtain g ur where "A ur (permission_code g)" "(scope_level g, grant_unit g) \<in> S ur" "permission_code g = p" "C g"
    by blast
  then show "\<exists>ur l o'. A ur p \<and> (l, o') \<in> S ur \<and> C \<lparr>permission_code = p, scope_level = l, grant_unit = o'\<rparr>"
    by (intro exI [of _ ur] exI [of _ "scope_level g"] exI [of _ "grant_unit g"]) (cases g; auto)
qed force

text \<open>C17. The scope check. The context that \<^verbatim>\<open>build_security_context\<close> gives a user passes
  \<^verbatim>\<open>is_authorized\<close> for a permission and a resource's organization unit if and only if the user
  has a role with that permission whose resolved scope is the platform, the tenant, or a unit
  on the first ten elements of the chain of parents that starts at the resource's unit. No
  other grant, caching order or cycle of the hierarchy matters.\<close>

theorem authorization_correct:
  assumes "build_security_context u d = Inr cx"
  shows "is_authorized cx p res d \<longleftrightarrow>
    (\<exists>ur l o'. holds_via d u ur p \<and> (l, o') \<in> set (resolved_scopes d (cx_is_platform_user cx) ur) \<and>
       (l = ScopeLevel_PLATFORM \<or> l = ScopeLevel_TENANT \<or>
        (\<exists>i k. res = Some i \<and> k < 10 \<and> o' \<noteq> None \<and> chain d res k = o')))"
proof -
  have "is_authorized cx p res d \<longleftrightarrow>
    (\<exists>g. g \<in> set (cx_grants cx) \<and> permission_code g = p \<and> grant_covers d g res)"
    unfolding is_authorized_iff by blast
  also have "\<dots> \<longleftrightarrow> (\<exists>ur l o'. holds_via d u ur p \<and>
      (l, o') \<in> set (resolved_scopes d (cx_is_platform_user cx) ur) \<and>
      grant_covers d \<lparr>permission_code = p, scope_level = l, grant_unit = o'\<rparr> res)"
    unfolding context_grants [OF assms] by (rule grant_fields_ex)
  finally show ?thesis by (simp add: grant_covers_def max_depth_def)
qed

theorem authorization_correct_witness:
  "\<exists>ur l o'. holds_via sample_db (sample_user 11 (Some 1) ''op@acme.io'') ur ''weighbridge.update'' \<and>
    (l, o') \<in> set (resolved_scopes sample_db False ur) \<and>
    (l = ScopeLevel_PLATFORM \<or> l = ScopeLevel_TENANT \<or>
     (\<exists>i k. Some (21 :: uuid) = Some i \<and> k < 10 \<and> o' \<noteq> None \<and> chain sample_db (Some 21) k = o'))"
  using authorization_correct [OF operator_built, of "''weighbridge.update''" "Some 21"] operator_at_plant
  by simp

text \<open>C18. The bounded walk up the hierarchy. \<^verbatim>\<open>get_self_and_ancestor_ids\<close> of
  \<^verbatim>\<open>app/repositories/organization_repository.py\<close> returns for every hierarchy, cyclic ones and
  dangling parents included, and its result is the set of the first ten elements of the chain
  of parents: never more than ten identifiers.\<close>

theorem ancestors_correct:
  "get_self_and_ancestor_ids d i = (\<Union>k\<in>{..<10}. set_option (chain d i k)) \<and>
   card (get_self_and_ancestor_ids d i) \<le> 10"
  using ancestors_finite(2) [of d i] unfolding ancestors_chain max_depth_def
  by (auto simp: elem_set)

section \<open>Accounts\<close>

text \<open>C19. Lockout. After login requests for an address have been refused as wrong credentials until
  the account counts ten of them, in whatever spelling of the address, from whatever clients
  and with whatever other passwords in between, the account is locked and no login for the
  address returns, the right password included.\<close>

theorem lockout:
  assumes "failures m n d d'" and "distinct (map row_id (users d))" and "account d m = [u]"
    and "0 < n" and "10 \<le> u_failed_login_attempts u + n" and "lower m' = lower m"
  shows "\<exists>u'. account d' m = [u'] \<and> row_id u' = row_id u \<and> u_status u' = UserStatus_LOCKED \<and>
    fst (run_tx (login m' pw rq) e d') \<noteq> Inr r"
proof -
  from failures_count [OF assms(1-3)] assms(4,5) obtain u' where u': "account d' m = [u']" "row_id u' = row_id u"
    "u_status u' = UserStatus_LOCKED" by (auto simp: max_failed_attempts_def)
  have "fst (run_tx (login m' pw rq) e d') \<noteq> Inr r"
  proof
    assume "fst (run_tx (login m' pw rq) e d') = Inr r"
    then obtain u2 pair s' where s': "login m' pw rq (new_session e d') = (Inr (u2, pair), s')"
      by (cases "login m' pw rq (new_session e d')"; cases r) (auto simp: run_tx_def)
    from s' show False
    proof (rule login_Inr)
      fix x assume "account (current (new_session e d')) m' = [x]" "u_status x = UserStatus_ACTIVE"
      with u' assms(6) show False by (simp add: account_def)
    qed
  qed
  with u' show ?thesis by blast
qed

theorem lockout_witness:
  "\<exists>u' d'. run_tx (login ''Admin@acme.io'' ''wrong'' None) sample_env nine_failures_db = (Inl wrong_credentials, d') \<and>
    account d' ''Admin@acme.io'' = [u'] \<and> u_status u' = UserStatus_LOCKED \<and>
    isl (fst (run_tx (login ''admin@acme.io'' ''secret'' None) later_env d'))"
proof -
  obtain d' where r: "run_tx (login ''Admin@acme.io'' ''wrong'' None) sample_env nine_failures_db = (Inl wrong_credentials, d')"
    using sample_failure by (cases "run_tx (login ''Admin@acme.io'' ''wrong'' None) sample_env nine_failures_db") auto
  have f: "failures ''Admin@acme.io'' (Suc 0) nine_failures_db d'"
    by (rule failures.one_more [OF failures.no_failure r])
  obtain u where u: "account nine_failures_db ''Admin@acme.io'' = [u]" "u_failed_login_attempts u = 9"
    "distinct (map row_id (users nine_failures_db))" "lower ''admin@acme.io'' = lower ''Admin@acme.io''"
    using nine_failures_account by blast
  obtain z where z: "fst (run_tx (login ''admin@acme.io'' ''secret'' None) later_env d') = z" by blast
  from lockout [OF f u(3,1) _ _ u(4), of "''secret''" None later_env "projr z"] u(2) r z show ?thesis
    by (cases z) auto
qed

text \<open>C20. A successful login. When \<^verbatim>\<open>login\<close> returns, the address had one account (in whatever
  capitals), that was active and whose hash the password verifies against; the account's
  failures are reset, and one new refresh session that is not revoked belongs to it.\<close>

theorem login_correct:
  assumes "run_tx (login m pw rq) e d = (Inr (u', pair), d')"
  shows "\<exists>u x. filter (\<lambda>u. lower (u_email u) = lower m) (users d) = [u] \<and>
    argon2_verify e (u_password_hash u) pw = Inr True \<and> u_status u = UserStatus_ACTIVE \<and>
    row_id u' = row_id u \<and> u_failed_login_attempts u' = 0 \<and> users d' = put_row u' (users d) \<and>
    refresh_sessions d' = refresh_sessions d @ [x] \<and> \<not> rs_revoked x \<and> rs_user_id x = row_id u \<and>
    rs_jti x \<notin> rs_jti ` set (refresh_sessions d)"
proof -
  from assms obtain s' where s': "login m pw rq (new_session e d) = (Inr (u', pair), s')" "d' = committed s'"
    by (rule run_tx_eqD)
  from s'(1) show ?thesis
  proof (rule login_Inr)
    fix u x assume u: "account (current (new_session e d)) m = [u]"
      and v: "verify_password (env (new_session e d)) pw (u_password_hash u)"
      and rest: "u_status u = UserStatus_ACTIVE" "row_id u' = row_id u" "u_failed_login_attempts u' = 0"
        "users (committed s') = put_row u' (users (current (new_session e d)))"
        "refresh_sessions (committed s') = refresh_sessions (current (new_session e d)) @ [x]"
        "\<not> rs_revoked x" "rs_user_id x = row_id u" "rs_jti x \<notin> rs_jti ` set (refresh_sessions (current (new_session e d)))"
    from v have "argon2_verify e (u_password_hash u) pw = Inr True"
      by (simp add: verify_password_def split: sum.splits)
    with u rest s'(2) show ?thesis
      by (intro exI [of _ u] exI [of _ x]) (simp add: account_def)
  qed
qed

theorem login_correct_witness:
  "\<exists>(u :: user) x. argon2_verify sample_env (u_password_hash u) ''secret'' = Inr True \<and> u_status u = UserStatus_ACTIVE \<and>
    refresh_sessions (snd (run_tx (login ''op@acme.io'' ''secret'' None) sample_env sample_db)) =
      refresh_sessions sample_db @ [x] \<and> rs_user_id x = row_id u"
proof -
  obtain u pair d' where r: "run_tx (login ''op@acme.io'' ''secret'' None) sample_env sample_db = (Inr (u, pair), d')"
    using sample_session by blast
  from login_correct [OF r] show ?thesis unfolding r snd_conv by blast
qed



text \<open>C22. A refresh token is used once. After \<^verbatim>\<open>refresh\<close> has returned for a token, no \<^verbatim>\<open>refresh\<close> of that
  token returns again, at whatever later moment of whatever history of requests, from whatever
  client; PyJWT is asked only to give the same payload whenever it accepts the token.\<close>

theorem refresh_single_use:
  assumes "run_tx (refresh tok rq) e d = (Inr pair, d1)" and "(api_step base)\<^sup>*\<^sup>* (fs, d1) (fs', d2)"
    and "distinct (map row_id (refresh_sessions d1))" and "decodes_alike e e" and "decodes_alike e e'"
  shows "fst (run_tx (refresh tok rq') e' d2) \<noteq> Inr pair'"
proof -
  from assms(1) obtain s where s: "refresh tok rq (new_session e d) = (Inr pair, s)" "d1 = committed s"
    by (rule run_tx_eqD)
  have "evolves refresh_sessions session_step d1 d2" using session_history.history_law [OF assms(2)] by simp
  with refresh_twice [OF s(1), of "new_session e' d2" rq' pair'] assms(3-5) s(2) show ?thesis
    by (simp add: run_tx_def split_beta)
qed

theorem refresh_single_use_witness:
  "\<exists>pair d1. run_tx (refresh refresh_token None) sample_env session_db = (Inr pair, d1) \<and>
    isl (fst (run_tx (refresh refresh_token None) later_env d1))"
proof -
  obtain pair d1 where r: "run_tx (refresh refresh_token None) sample_env session_db = (Inr pair, d1)"
    using run_returned [OF sample_refresh] by blast
  have "(api_step [''data''])\<^sup>*\<^sup>* (\<lambda>_. None, d1) (\<lambda>_. None, d1)" by simp
  note refresh_single_use [OF r this refreshed_ids [OF r] sample_decodes_alike, of None]
  then have "\<not> (\<exists>p. fst (run_tx (refresh refresh_token None) later_env d1) = Inr p)" by blast
  with r show ?thesis by (metis isl_def sum.exhaust)
qed

text \<open>C23. A password reset. When \<^verbatim>\<open>reset_password\<close> returns, the presented token verifies against the hash
  of an unused and unexpired reset request; the account of that request has the new password's hash
  and is otherwise as it was; and the request is marked used, and stays that row over any later history
  of requests, so that the token is never accepted again.\<close>

theorem reset_token_single_use:
  assumes "run_tx (reset_password tok pw) e d = (Inr x, d1)" and "(api_step base)\<^sup>*\<^sup>* (fs, d1) (fs', d2)"
    and "distinct (map row_id (password_reset_tokens d))"
  shows "\<exists>c u n k. c \<in> set (password_reset_tokens d) \<and> pr_used_at c = None \<and>
    argon2_verify e (pr_token_hash c) tok = Inr True \<and> clock e 0 \<le> pr_expires_at c \<and>
    u \<in> set (users d) \<and> row_id u = pr_user_id c \<and>
    users d1 = put_row (touch n u (u\<lparr>u_password_hash := argon2_hash e 0 pw\<rparr>)) (users d) \<and>
    touch n c (c\<lparr>pr_used_at := Some k\<rparr>) \<in> set (password_reset_tokens d2)"
proof -
  from assms(1) obtain s where s: "reset_password tok pw (new_session e d) = (Inr x, s)" "d1 = committed s"
    by (rule run_tx_eqD)
  from s(1) show ?thesis
  proof (rule reset_password_Inr)
    fix c :: password_reset_token and u :: user and n k
    let ?c = "touch n c (c\<lparr>pr_used_at := Some k\<rparr>)"
    assume c: "c \<in> set (password_reset_tokens (current (new_session e d)))" "pr_used_at c = None"
      "verify_password (env (new_session e d)) tok (pr_token_hash c)"
      "clock (env (new_session e d)) (ticks (new_session e d)) \<le> pr_expires_at c"
      and u: "u \<in> set (users (current (new_session e d)))" "row_id u = pr_user_id c"
        "users (committed s) = put_row (touch n u (u\<lparr>u_password_hash := argon2_hash (env (new_session e d)) (salts (new_session e d)) pw\<rparr>)) (users (current (new_session e d)))"
      and p: "password_reset_tokens (committed s) = put_row ?c (password_reset_tokens (current (new_session e d)))"
    have "evolves password_reset_tokens reset_step d1 d2" using reset_history.history_law [OF assms(2)] by simp
    moreover have "distinct (map row_id (password_reset_tokens d1))" using p assms(3) s(2) by simp
    moreover have "?c \<in> set (password_reset_tokens d1)" using p s(2) c(1) by (auto intro: put_row_self)
    ultimately have "?c \<in> set (password_reset_tokens d2)"
      by (rule reset_lifecycle.frozen) (rule used_token_final, simp)
    moreover have "argon2_verify e (pr_token_hash c) tok = Inr True"
      using c(3) by (simp add: verify_password_def split: sum.splits)
    ultimately show ?thesis using c u s(2)
      by - (rule exI [of _ c], rule exI [of _ u], rule exI [of _ n], rule exI [of _ k], simp add: new_session_def)
  qed
qed

theorem reset_token_single_use_witness:
  "\<exists>(c :: password_reset_token) d1. run_tx (reset_password ''reset'' ''newpassword'') sample_env reset_db = (Inr (), d1) \<and>
    c \<in> set (password_reset_tokens d1) \<and> pr_used_at c \<noteq> None"
proof -
  obtain d1 where r: "run_tx (reset_password ''reset'' ''newpassword'') sample_env reset_db = (Inr (), d1)"
    using run_returned [OF sample_reset] by (metis (full_types) old.unit.exhaust)
  have "(api_step [''data''])\<^sup>*\<^sup>* (\<lambda>_. None, d1) (\<lambda>_. None, d1)" by simp
  with reset_token_single_use [OF r this] reset_ids obtain c :: password_reset_token and n k
    where "touch n c (c\<lparr>pr_used_at := Some k\<rparr>) \<in> set (password_reset_tokens d1)" by blast
  then have "pr_used_at (touch n c (c\<lparr>pr_used_at := Some k\<rparr>)) \<noteq> None" by simp
  with r \<open>touch n c (c\<lparr>pr_used_at := Some k\<rparr>) \<in> set (password_reset_tokens d1)\<close> show ?thesis by blast
qed

section \<open>The seed script\<close>



text \<open>C25. The seed script works, and is safe to run again. On an empty database it returns, for every
  environment whose first 93 identifiers differ: no constraint is violated on the way, no lookup
  finds two rows, and every code that it looks up is there. And wherever a run has returned, a later
  one, with another password, on another date and with other identifiers, returns too and leaves the
  database exactly as it found it.\<close>

theorem seed_idempotent:
  assumes "inj_on (uuid4 e) {..<93}" and "length email \<le> 320"
  shows "(\<exists>d. run_tx (seed_run email password today) e empty_db = (Inr (), d)) \<and>
    (\<forall>d d'. run_tx (seed_run email password today) e d = (Inr (), d') \<longrightarrow>
      run_tx (seed_run email password' today') e' d' = (Inr (), d'))"
  using seed_returns [OF assms] seed_twice by blast

lemma sample_ids_distinct: "inj_on (uuid4 sample_env) {..<93}"
  by (auto simp: inj_on_def sample_env_def word_of_nat_eq_iff take_bit_nat_eq_self simp flip: of_nat_add)

theorem seed_idempotent_witness:
  "\<exists>d. run_tx (seed_run ''superadmin@stonecrusher.example.com'' ''ChangeMe!12345'' (2026, 3, 31)) sample_env empty_db = (Inr (), d) \<and>
     run_tx (seed_run ''superadmin@stonecrusher.example.com'' ''another'' (2026, 4, 1)) sample_env d = (Inr (), d)"
proof -
  have "length ''superadmin@stonecrusher.example.com'' \<le> 320" by simp
  from seed_idempotent [OF sample_ids_distinct this, of "''ChangeMe!12345''" "(2026, 3, 31)" "''another''" "(2026, 4, 1)" sample_env]
  show ?thesis by blast
qed

section \<open>Administration\<close>



text \<open>C27. Assigning a role escalates. Roles that are visible to a tenant include the system roles, and
  \<^verbatim>\<open>assign_role\<close> has no further guard: for every user of the caller's tenant, the caller himself
  included, and every system role, SUPER_ADMIN included, it returns; a user whose security context
  could be built before still has one, and it has every permission of the role.\<close>

theorem tenant_admin_escalates:
  assumes "cx_tenant_id cx = Some t"
    and "filter (\<lambda>u. row_id u = i \<and> u_tenant_id u = Some t) (users d) = [u]"
    and "filter (\<lambda>r. row_id r = k \<and> visible_to (Some t) r) (roles d) = [r]"
    and "uuid4 e 0 \<notin> row_id ` set (user_roles d)" and "uuid4 e 1 \<notin> ae_id ` set (audit_events d)"
    and "build_security_context u d = Inr before"
  shows "\<exists>ur d'. run_tx (assign_role cx i k None None) e d = (Inr (ur, r), d') \<and> users d' = users d \<and>
    (\<exists>cx'. build_security_context u d' = Inr cx' \<and> (\<forall>p\<in>set (role_permission_codes d k). has_permission cx' p))"
proof -
  obtain ur s where s: "assign_role cx i k None None (new_session e d) = (Inr (ur, r), s)"
    using assign_role_returns [of cx t i "new_session e d" u k r] assms by (auto simp: new_session_def)
  have u: "row_id u = i" using filter_singletonD [OF assms(2)] by simp
  from s show ?thesis
  proof (rule assign_role_Inr)
    assume r: "r \<in> set (roles (current (new_session e d)))" "row_id r = k" and ur: "ur = stamp (server_clock (env (new_session e d)) (txn (new_session e d)))
        (new_user_role (uuid4 (env (new_session e d)) (drawn (new_session e d))) i k None)"
      and c: "user_roles (committed s) = user_roles (current (new_session e d)) @ [ur]"
        "users (committed s) = users (current (new_session e d))"
        "roles (committed s) = roles (current (new_session e d))"
        "role_permissions (committed s) = role_permissions (current (new_session e d))"
        "permissions (committed s) = permissions (current (new_session e d))"
    have "has_permission cx' p" if b: "build_security_context u (committed s) = Inr cx'"
      and p: "p \<in> set (role_permission_codes d k)" for cx' p
    proof (rule context_has_permission [OF b])
      show "ur \<in> set (user_roles_of (committed s) u)"
        using ur u c(1) by (simp add: user_roles_of_def stamp_def new_user_role_def)
      show "p \<in> set (role_permission_codes (committed s) (ur_role_id ur))"
        using ur p c(4,5) by (simp add: role_permission_codes_def permission_of_def stamp_def new_user_role_def)
    qed
    moreover have "\<forall>x\<in>set (user_roles_of d u). role_of d x \<noteq> None" using assms(6) context_returns by blast
    then have "\<forall>x\<in>set (user_roles_of (committed s) u). role_of (committed s) x \<noteq> None"
      using r ur c(1,3) by (auto simp: user_roles_of_def role_of_def find_None_iff stamp_def new_user_role_def)
    then obtain cx' where "build_security_context u (committed s) = Inr cx'" using context_returns by blast
    moreover have "run_tx (assign_role cx i k None None) e d = (Inr (ur, r), committed s)"
      using s by (simp add: run_tx_def)
    ultimately show ?thesis using c(2) by (intro exI [of _ ur] exI [of _ "committed s"]) auto
  qed
qed

theorem tenant_admin_escalates_witness:
  "\<exists>ur d'. run_tx (assign_role admin_context 10 60 None None) sample_env seeded_db
      = (Inr (ur, sample_role 60 None ''SUPER_ADMIN'' True), d') \<and>
    (\<exists>cx'. build_security_context (sample_user 10 (Some 1) ''admin@acme.io'') d' = Inr cx' \<and>
      has_permission cx' ''tenants.create'')"
proof -
  have "''tenants.create'' \<in> set (role_permission_codes seeded_db 60)"
    by (simp add: seeded_db_def sample_db_def role_permission_codes_def permission_of_def sample_permission_def)
  with tenant_admin_escalates [OF _ seeded_admin seeded_super_admin seeded_fresh seeded_context, of admin_context] show ?thesis by auto
qed

text \<open>C28. Replacing the permissions of a role. When \<^verbatim>\<open>PUT /roles/{id}/permissions\<close> answers, the role is
  not a system role and belongs to what the caller's tenant sees; its permissions are now exactly
  those with the given codes that exist; every other role keeps its own; and the answer shows the
  permission codes from before the change.\<close>

theorem role_permissions_replaced:
  assumes "run_tx (api_update_role_permissions cx i cs rq) e d = (Inr (st, body), d')"
  shows "\<exists>r. r \<in> set (roles d) \<and> row_id r = i \<and> visible_to (cx_tenant_id cx) r \<and> \<not> r_is_system r \<and>
    map rp_permission_id (permissions_of_role d' i) = map row_id (get_permissions_by_codes cs d) \<and>
    (\<forall>j. j \<noteq> i \<longrightarrow> permissions_of_role d' j = permissions_of_role d j) \<and>
    st = 200 \<and> body = Item (role_response (role_permission_codes d i) r)"
proof -
  from assms obtain r s where u: "update_role_permissions cx i cs (Some rq) (new_session e d) = (Inr r, s)"
    and out: "d' = committed s" "st = 200" "body = Item (role_response (role_permission_codes d i) r)"
    by (auto simp: run_tx_def api_update_role_permissions_def bind_tx_def query_tx_def tx_simps
        split: prod.splits sum.splits)
  from u obtain s1 where a: "replace_permissions cx i cs (Some rq) (new_session e d) = (Inr r, s1)" "committed s = current s1"
    by (rule update_role_permissions_Inr)
  from a(1) obtain xs ev where g: "get_role cx i (new_session e d) = (Inr r, new_session e d)" and sys: "\<not> r_is_system r"
    and c: "current s1 = audit_events_update (\<lambda>es. es @ [ev]) (role_permissions_update (\<lambda>x. x @ xs)
       (role_permissions_update (filter (\<lambda>x. rp_role_id x \<noteq> i)) (current (new_session e d))))"
    and xs: "map rp_permission_id xs = map row_id (get_permissions_by_codes cs (current (new_session e d)))"
      "\<forall>x\<in>set xs. rp_role_id x = i"
    by (rule replace_permissions_Inr)
  have "permissions_of_role d' i = xs"
    using xs(2) by (simp add: permissions_of_role_def out a(2) c filter_empty_conv)
  moreover have "permissions_of_role d' j = permissions_of_role d j" if "j \<noteq> i" for j
    using permissions_of_role_other [OF xs(2) that] that
    by (auto simp: permissions_of_role_def out a(2) c intro!: filter_cong)
  moreover from g have "r \<in> set (roles d)" "row_id r = i" "visible_to (cx_tenant_id cx) r" by (auto elim: get_role_InrE)
  ultimately show ?thesis using sys xs(1) out by auto
qed

theorem role_permissions_replaced_witness:
  "\<exists>r d'. run_tx (api_update_role_permissions admin_context 61 [''weighbridge.create''] sample_web) sample_env sample_db
      = (Inr (200, Item (role_response (role_permission_codes sample_db 61) r)), d') \<and>
    map rp_permission_id (permissions_of_role d' 61) = [50]"
proof -
  obtain st body d' where r: "run_tx (api_update_role_permissions admin_context 61 [''weighbridge.create''] sample_web) sample_env sample_db
      = (Inr (st, body), d')" using run_returned [OF sample_replace] by (metis prod.exhaust)
  have "map row_id (get_permissions_by_codes [''weighbridge.create''] sample_db) = [50]"
    by (simp add: get_permissions_by_codes_def sample_db_def sample_permission_def)
  with role_permissions_replaced [OF r] r show ?thesis by auto
qed

section \<open>Master data\<close>



text \<open>C30. Creating and reading master data. What \<^verbatim>\<open>MasterDataService.create\<close> returned is found by
  its identifier in every later session on that database, with the values its columns store.\<close>

theorem md_create_roundtrip:
  assumes "run_tx (md_create_item ty cx p rq) e d = (Inr r, d')" and "md_table_ok ty d"
  shows "run_tx (md_get ty cx (row_id r)) e' d' = (Inr (r\<lparr>extra := column_values (mc_extra p)\<rparr>), d')"
proof -
  from assms(1) obtain s' where s': "md_create_item ty cx p rq (new_session e d) = (Inr r, s')" "d' = committed s'"
    by (rule run_tx_eqD)
  have ok: "md_table_ok ty (current (new_session e d))" using assms(2) by simp
  from md_create_get [OF s'(1) ok, of e'] s'(2) show ?thesis by (simp add: run_tx_step)
qed

theorem md_create_roundtrip_witness:
  "\<exists>r d'. run_tx (md_create_item Material admin_context sample_material None) sample_env sample_db = (Inr r, d') \<and>
    \<not> isl (fst (run_tx (md_get Material admin_context (row_id r)) later_env d'))"
proof -
  obtain r d' where r: "run_tx (md_create_item Material admin_context sample_material None) sample_env sample_db = (Inr r, d')"
    using run_returned [OF sample_md_create] by blast
  have "md_table_ok Material sample_db" by (simp add: md_table_ok_def sample_db_def empty_db_def)
  from md_create_roundtrip [OF r this, of later_env] r show ?thesis by simp
qed

section \<open>Settings\<close>

text \<open>C31. The precedence of settings. For a tenant, a plant and a module, and a key without
  module or plant rows at platform level, \<^verbatim>\<open>resolve\<close> of \<^verbatim>\<open>app/services/settings_service.py\<close>
  gives the value of the first of the five documented scopes that has a row (module and plant,
  module and tenant, plant, tenant, platform) and the default when none has one.\<close>

theorem settings_precedence:
  assumes "plain_platform_rows d k"
  shows "resolve (Some t) k (Some o') (Some m) dflt d =
    (case first_found d k [(Some t, Some o', Some m), (Some t, None, Some m), (Some t, Some o', None),
        (Some t, None, None), (None, None, None)] of
       None \<Rightarrow> dflt | Some r \<Rightarrow> st_value r)"
  using resolve_precedence [OF assms, of t o' m dflt] by (simp only: precedence_def)

theorem settings_precedence_witness:
  "resolve (Some 1) ''unit'' (Some 21) (Some ''production'') VNone sample_settings_db = VStr ''lb''"
proof -
  have "plain_platform_rows sample_settings_db ''unit''"
    by (simp add: plain_platform_rows_def sample_settings_db_def new_setting_def)
  from settings_precedence [OF this, of 1 21 "''production''" VNone] show ?thesis
    by (simp add: sample_settings_db_def setting_scope_def new_setting_def)
qed

text \<open>C32. Reading what was written. After \<^verbatim>\<open>upsert\<close> of a value for a scope has returned,
  \<^verbatim>\<open>resolve\<close> for that scope gives the value, whatever other rows exist; and the scope has one
  row, whether there was one before or not.\<close>

theorem upsert_then_resolve:
  assumes "run_tx (upsert t k v o' m u) e d = (Inr x, d')" and "distinct (map row_id (settings d))"
  shows "resolve t k o' m dflt d' = v \<and> filter (setting_scope t o' m k) (settings d') = [x]"
proof -
  from assms(1) obtain s' where s': "upsert t k v o' m u (new_session e d) = (Inr x, s')" "d' = committed s'"
    by (rule run_tx_eqD)
  have ids: "distinct (map row_id (settings (current (new_session e d))))" using assms(2) by simp
  from upsert_resolve [OF s'(1) ids] upsert_row(1) [OF s'(1) ids] s'(2) show ?thesis by simp
qed

theorem upsert_then_resolve_witness:
  "resolve (Some 1) ''unit'' (Some 21) (Some ''production'') VNone
     (snd (run_tx (upsert (Some 1) ''unit'' (VStr ''g'') (Some 21) (Some ''production'') 10) sample_env sample_settings_db))
   = VStr ''g''"
  using upsert_then_resolve [OF run_returned [OF sample_upsert]]
  by (simp add: sample_settings_db_def new_setting_def)

section \<open>Attachments\<close>

text \<open>C33. Files of tenants are isolated. Whatever file name, entity or identifier a request of a user of
  tenant \<open>t\<close> sends, an upload or a deletion writes no file outside the directory of \<open>t\<close> in the storage
  directory, and changes no row of another tenant: the parts \<^verbatim>\<open>".."\<close> and slashes in a name cannot leave
  the directory, since keys begin with the tenant's identifier and \<^verbatim>\<open>_resolve\<close> removes \<^verbatim>\<open>".."\<close>.\<close>

theorem files_isolated:
  assumes "run_files (upload_attachment base cred a rq) e fs d = (x, fs', d') \<or>
      run_files (delete_attachment_route base cred i rq) e fs d = (x, fs', d')"
    and "''..'' \<notin> set base" and "keys_ok d" and "\<And>cx. caller cred e d cx \<Longrightarrow> cx_tenant_id cx = Some t"
  shows "files_frame base t fs fs' \<and> tenant_frame t d d'"
  using assms(1)
proof
  assume "run_files (upload_attachment base cred a rq) e fs d = (x, fs', d')"
  then show ?thesis
  proof (rule upload_attachment_session)
    fix cx s1 y s'
    assume g: "guard (Permission ''documents.upload'') cred (new_session e d) = (Inr cx, s1)"
      and u: "upload base cx a (Some rq) fs s1 = (y, fs', s')" and s: "d' = committed s'" "committed s1 = d" "current s1 = d"
    have t: "cx_tenant_id cx = Some t" using assms(4) guard_Inr [OF g] by blast
    have "tenant_frame t (committed s1) (committed s')"
      using leadsD [OF leads_within [OF tenant_frame_refl upload_isolation [OF t]] session_of_upload [OF u]] s by simp
    with upload_files_frame [OF u assms(2) t] s show ?thesis by simp
  qed (simp add: files_frame_def)
next
  assume "run_files (delete_attachment_route base cred i rq) e fs d = (x, fs', d')"
  then show ?thesis
  proof (rule delete_attachment_session)
    fix cx s1 y s'
    assume g: "guard (Permission ''documents.delete'') cred (new_session e d) = (Inr cx, s1)"
      and u: "delete_attachment base cx i (Some rq) fs s1 = (y, fs', s')"
      and s: "d' = committed s'" "committed s1 = d" "current s1 = d"
    have t: "cx_tenant_id cx = Some t" using assms(4) guard_Inr [OF g] by blast
    have "tenant_frame t (committed s1) (committed s')"
      using leadsD [OF leads_within [OF tenant_frame_refl delete_isolation [OF t]] session_of_delete [OF u]] s by simp
    moreover have "keys_ok (current s1)" using assms(3) s(3) by simp
    ultimately show ?thesis using delete_files_frame [OF u assms(2) t] s by simp
  qed (simp add: files_frame_def)
qed

theorem files_isolated_witness:
  "\<exists>x fs' d'. run_files (upload_attachment [''data''] (Some (sample_token 10)) sample_upload sample_web) sample_env (\<lambda>_. None) documents_db
      = (Inr x, fs', d') \<and> files_frame [''data''] 1 (\<lambda>_. None) fs' \<and> tenant_frame 1 documents_db d'"
proof -
  obtain x fs' d' where r: "run_files (upload_attachment [''data''] (Some (sample_token 10)) sample_upload sample_web) sample_env (\<lambda>_. None) documents_db
      = (Inr x, fs', d')" using sample_uploaded by blast
  have "keys_ok documents_db" by (simp add: keys_ok_def documents_db_def sample_db_def empty_db_def)
  moreover have "cx_tenant_id cx = Some 1" if "caller (Some (sample_token 10)) sample_env documents_db cx" for cx
    using that by (rule documents_caller)
  ultimately show ?thesis using files_isolated [OF disjI1 [OF r], of 1] r by simp
qed

text \<open>C34. Upload and download. When \<^verbatim>\<open>upload\<close> returns, the content is within the configured size; the new
  row belongs to the caller's tenant and names the caller, the file name, type and size that were sent;
  the file store gives the content back under the row's key; every other file is as it was, and every
  key of another tenant is downloaded, or not found, as before; and the row is found again by its
  identifier in every later session on that database.\<close>

theorem upload_roundtrip:
  assumes "run_files (upload base cx a rq) e fs d = (Inr x, fs', d')" and "''..'' \<notin> set base" and "keys_ok d"
  shows "\<exists>t p. cx_tenant_id cx = Some t \<and> length (up_content a) \<le> max_upload_size_mb (config e) * 1024 * 1024 \<and>
    attachments d' = attachments d @ [x] \<and> tenant_id x = t \<and> at_uploaded_by x = row_id (cx_user cx) \<and>
    at_file_name x = up_file_name a \<and> at_content_type x = up_content_type a \<and> at_size x = length (up_content a) \<and>
    in_tenant base t p \<and> fs' = fs(p := Some (up_content a)) \<and>
    storage_download base (at_storage_key x) fs' = Inr (up_content a) \<and>
    (\<forall>u t' ety eid nm. t' \<noteq> t \<longrightarrow> storage_download base (build_storage_key u t' ety eid nm) fs' =
      storage_download base (build_storage_key u t' ety eid nm) fs) \<and>
    run_tx (get_download_url cx (row_id x)) e' d' = (Inr (x, generate_access_url (at_storage_key x)), d')"
proof -
  from assms(1) obtain s where u: "upload base cx a rq fs (new_session e d) = (Inr x, fs', s)" and d': "d' = committed s"
    by (auto simp: run_files_def split: prod.splits)
  from u obtain t key s1 where k: "upload_key cx a (new_session e d) = (Inr (t, key), s1)"
    and up: "storage_upload base key (up_content a) fs = Inr fs'" and rec: "record_upload cx a t key rq s1 = (Inr x, s)"
    by (rule upload_InrE)
  from k have t: "cx_tenant_id cx = Some t" "length (up_content a) \<le> max_upload_size_mb (config e) * 1024 * 1024"
      "key = build_storage_key (uuid4 e 0) t (up_entity_type a) (up_entity_id a) (up_file_name a)"
      "current s1 = d" by (auto elim!: upload_key_InrE simp: new_session_def)
  from up obtain p where p: "resolve_key base key = Inr p" "fs' = fs(p := Some (up_content a))"
    by (auto simp: storage_upload_def split: sum.splits)
  from rec obtain i n where x: "x = stamp n (new_attachment i t (row_id (cx_user cx)) key a)"
    "violated (attachment_constraints (current s1) x) = None" "attachments (committed s) = attachments (current s1) @ [x]"
    by (rule record_upload_Inr) auto
  have fields: "tenant_id x = t" "at_uploaded_by x = row_id (cx_user cx)" "at_file_name x = up_file_name a"
    "at_content_type x = up_content_type a" "at_size x = length (up_content a)" "at_storage_key x = key"
    using x(1) by (simp_all add: stamp_def new_attachment_def)
  have a: "attachments d' = attachments d @ [x]" using x(3) t(4) d' by simp
  have "row_id x \<notin> row_id ` set (attachments d)" using x(2) t(4) by (simp add: attachment_constraints_def fresh_id_def split: if_splits)
  then have "filter (\<lambda>b. row_id b = row_id x \<and> tenant_id b = t) (attachments d') = [x]"
    by (auto simp: a fields filter_empty_conv image_iff)
  then have "run_tx (get_download_url cx (row_id x)) e' d' = (Inr (x, generate_access_url (at_storage_key x)), d')"
    by (simp add: get_download_url_def get_owned_def get_attachment_in_tenant_def t(1) run_tx_step tx_run tx_simps bind_assoc)
  moreover have "storage_download base (build_storage_key u t' ety eid nm) fs' =
      storage_download base (build_storage_key u t' ety eid nm) fs" if "t' \<noteq> t" for u t' ety eid nm
    by (rule local_storage.upload_elsewhere [OF up]) (simp add: t(3) tenant_keys_apart [OF assms(2)] that [symmetric])
  ultimately show ?thesis
    using t p a fields local_storage.upload_download [OF up] tenant_key_in [OF assms(2), of "uuid4 e 0" t]
    by (intro exI [of _ t] exI [of _ p]) auto
qed

theorem upload_roundtrip_witness:
  "\<exists>x fs' d'. run_files (upload [''data''] admin_context sample_upload None) sample_env (\<lambda>_. None) sample_db = (Inr x, fs', d') \<and>
    storage_download [''data''] (at_storage_key x) fs' = Inr ''content''"
proof -
  obtain x fs' d' where r: "run_files (upload [''data''] admin_context sample_upload None) sample_env (\<lambda>_. None) sample_db = (Inr x, fs', d')"
    using sample_upload_returns by blast
  have "keys_ok sample_db" by (simp add: keys_ok_def sample_db_def empty_db_def)
  with upload_roundtrip [OF r, of sample_env] r show ?thesis by (simp add: sample_upload_def) blast
qed

section \<open>The application\<close>

text \<open>C35. A client over its limit. A request that the limiter refuses is answered with status 429, the
  code \<^verbatim>\<open>RATE_LIMITED\<close> and its correlation identifier; it reaches no route, so that the database stays;
  and it carries \<^verbatim>\<open>X-Request-ID\<close> as its only header: the security headers are inside the limiter.\<close>

theorem rate_limited_request:
  assumes "is_limited q e t" and "application cors shown q e t d = (r, t', d')"
  shows "d' = d \<and> hr_status r = 429 \<and> hr_body r = Failure (limited_response (Some (correlation_id q))) \<and>
    hr_headers r = [(''X-Request-ID'', correlation_id q)] \<and>
    rate_limit_per_minute (config e) \<le> length (t (client_key (hq_host q)))"
proof -
  have "rate_limit_per_minute (config e) \<le> length (drop_old (hq_time q) (t (client_key (hq_host q))))"
    using assms(1) by (auto simp: is_limited_def dispatch_def limiter_limit_def Let_def split: if_splits)
  also have "\<dots> \<le> length (t (client_key (hq_host q)))"
    using drop_old_split [of "t (client_key (hq_host q))" "hq_time q"] by (metis length_append le_add2)
  finally show ?thesis
    using application_limited [OF assms(1), of cors shown d] assms(2) by (auto simp: failure_def limited_response_def)
qed

theorem rate_limited_request_witness:
  "\<exists>r t'. application id sample_shown (sample_http complete_request) sample_env busy_hits busy_db = (r, t', busy_db) \<and> hr_status r = 429"
proof -
  have l: "is_limited (sample_http complete_request) sample_env busy_hits"
    by (simp add: is_limited_def dispatch_def sample_http_def busy_hits_def client_key_def Let_def drop_old_recently)
      (simp add: sample_env_def sample_config_def limiter_limit_def)
  obtain r t' d' where "application id sample_shown (sample_http complete_request) sample_env busy_hits busy_db = (r, t', d')"
    using prod_cases3 by blast
  with rate_limited_request [OF l this] show ?thesis by auto
qed

text \<open>C36. The headers of responses. Unless a route ends in an unexpected exception, the response echoes the
  correlation identifier (the client's own \<^verbatim>\<open>X-Request-ID\<close>, or a fresh UUID), and unless the limiter
  refused the request it has every security header that CORS has not set already; the answer to an
  unexpected exception has status 500 and none of these headers.\<close>

theorem response_headers:
  assumes "application cors shown q e t d = (r, t', d')" and "\<not> is_limited q e t"
    and "outcome q e d = (x, d2)"
  shows "d' = d2 \<and>
    (if \<exists>err. x = Inl err \<and> unexpected err then hr_status r = 500 \<and> hr_headers r = []
     else map_of (hr_headers r) ''X-Request-ID'' = Some (correlation_id q) \<and>
       (\<forall>k v. (k, v) \<in> set (baseline_headers (config e)) \<and> map_of (cors []) k = None \<longrightarrow> map_of (hr_headers r) k = Some v))"
proof (cases "\<exists>err. x = Inl err \<and> unexpected err")
  case True
  with application_unexpected [OF assms(2), of d _ d2 cors shown] assms(1,3) show ?thesis
    by (auto simp: failure_def handle_unexpected_error_def)
next
  case False
  then have h: "hr_headers r = echo_request_id (correlation_id q) (add_security_headers (config e) (cors []))" "d' = d2"
    using application_answered [OF assms(2,3), of cors shown] assms(1) by auto
  have "map_of (hr_headers r) k = Some v" if "(k, v) \<in> set (baseline_headers (config e))" "map_of (cors []) k = None" for k v
  proof -
    have "map_of (baseline_headers (config e)) k = Some v" "k \<noteq> ''X-Request-ID''"
      using that(1) by (auto simp: baseline_headers_def split: if_splits)
    with that(2) show ?thesis by (simp add: h map_of_echo add_security_headers_def fold_set_default)
  qed
  with False h show ?thesis by (simp add: map_of_echo del: not_ex)
qed

theorem response_headers_witness:
  "\<exists>r t' d'. application id sample_shown (sample_http complete_request) sample_env (\<lambda>_. []) busy_db = (r, t', d') \<and>
    map_of (hr_headers r) ''X-Request-ID'' = Some ''r1'' \<and> map_of (hr_headers r) ''X-Frame-Options'' = Some ''DENY''"
proof -
  obtain r t' d' where a: "application id sample_shown (sample_http complete_request) sample_env (\<lambda>_. []) busy_db = (r, t', d')"
    using prod_cases3 by blast
  obtain x d2 where o: "outcome (sample_http complete_request) sample_env busy_db = (Inr x, d2)"
    using sample_outcome by blast
  have c: "correlation_id (sample_http complete_request) = ''r1''"
    by (simp add: correlation_id_def sample_http_def request_id_of_def)
  from response_headers [OF a sample_unlimited o] a c show ?thesis by (simp add: baseline_headers_def)
qed



section \<open>Rate limiting\<close>

text \<open>C38. The bound of the limiter. However requests arrive from however many clients, as long as the clock
  does not go back, no client has more than the limit accepted in any window of sixty seconds, wherever
  the window begins.\<close>

theorem rate_limit_window:
  assumes "clock_monotonic T rs" and "serve_all mx rs (\<lambda>_. []) = (vs, t')"
  shows "length (in_window a (accepted_by k rs vs)) \<le> mx"
  using serve_all_ok [OF limiter_ok_start assms] by (simp add: limiter_ok_def)

theorem rate_limit_window_witness:
  "\<exists>vs t'. serve_all 1 [(''/a'', None, 0), (''/a'', None, 30), (''/a'', None, 61)] (\<lambda>_. []) = (vs, t') \<and>
     vs = [Accepted, Limited, Accepted] \<and>
     length (in_window 0 (accepted_by ''unknown'' [(''/a'', None, 0), (''/a'', None, 30), (''/a'', None, 61)] vs)) \<le> 1"
proof -
  let ?rs = "[(''/a'', None, 0), (''/a'', None, 30), (''/a'', None, 61)]"
  obtain vs t' where s: "serve_all 1 ?rs (\<lambda>_. []) = (vs, t')" by fastforce
  then have "vs = [Accepted, Limited, Accepted]"
    by (auto simp: dispatch_def client_key_def window_seconds_def Let_def)
  moreover have "clock_monotonic 0 ?rs" by simp
  note rate_limit_window [OF this s, of 0 "''unknown''"]
  ultimately show ?thesis using s by blast
qed

text \<open>C39. A client gets through again. A request is refused only when the client has already had the whole
  limit accepted in the sixty seconds before it; so, with a positive limit, a client none of whose
  requests was accepted in the last sixty seconds is let through.\<close>

theorem rate_limit_liveness:
  assumes "clock_monotonic T rs" and "serve_all mx rs (\<lambda>_. []) = (vs, t)" and "last_time T rs \<le> now"
    and "length (in_window (now - window_seconds) (accepted_by (client_key h) rs vs)) < mx"
  shows "fst (dispatch mx p h now t) \<noteq> Limited"
proof
  assume "fst (dispatch mx p h now t) = Limited"
  then obtain t' where "dispatch mx p h now t = (Limited, t')" by (cases "dispatch mx p h now t") auto
  from limited_window [OF serve_all_ok [OF limiter_ok_start assms(1,2)] assms(3) this] assms(4) show False by simp
qed

theorem rate_limit_liveness_witness:
  "fst (dispatch 1 ''/a'' None 61 (snd (serve_all 1 [(''/a'', None, 0), (''/a'', None, 30)] (\<lambda>_. [])))) \<noteq> Limited"
proof -
  let ?rs = "[(''/a'', None, 0), (''/a'', None, 30)]"
  obtain vs t where s: "serve_all 1 ?rs (\<lambda>_. []) = (vs, t)" by fastforce
  then have "vs = [Accepted, Limited]" by (auto simp: dispatch_def client_key_def window_seconds_def Let_def)
  then have "length (in_window (61 - window_seconds) (accepted_by (client_key None) ?rs vs)) < 1"
    by (simp add: in_window_def accepted_by_def client_key_def window_seconds_def)
  from rate_limit_liveness [OF _ s _ this, of 0 "''/a''"] show ?thesis
    unfolding s snd_conv by simp
qed

section \<open>Listings\<close>



end
